(* ===== verification/Prelude.thy ===== *)
theory Prelude
  imports Main "HOL-Library.Char_ord" "HOL-Library.List_Lexorder" "HOL-Library.Word"
begin

text \<open>
  Shared ground of the development: the collections of rewrite rules the components add to,
  and the generic facts on lists, options and maps that several components use.

  Conventions.  A Go \<open>string\<close> or \<open>[]byte\<close> is a list of bytes (\<open>char list\<close>).
  A nilable pointer or a nullable SQL column is an \<open>option\<close>.  A Go map is a partial
  function.  A Go \<open>int\<close> is an \<open>int\<close> unless its width matters, and then a word.
\<close>

named_theorems go_str \<open>rewrite rules for the string functions of the Go library\<close>
named_theorems sql \<open>rewrite rules for the effect of one SQL statement on the tables\<close>
named_theorems db_frame \<open>facts of the form: this operation preserves that predicate\<close>

type_synonym bytes = "char list"
type_synonym time_ms = int

section \<open>Lists\<close>

text \<open>Keeping the first occurrence of every element, as the \<open>seen\<close>-map loops of the code do.\<close>

fun dedup_by :: "'a set \<Rightarrow> 'a list \<Rightarrow> 'a list" where
  "dedup_by seen [] = []"
| "dedup_by seen (x # xs) =
     (if x \<in> seen then dedup_by seen xs else x # dedup_by (insert x seen) xs)"

lemma set_dedup_by [simp]: "set (dedup_by seen xs) = set xs - seen"
  by (induction xs arbitrary: seen) auto

lemma distinct_dedup_by [simp]: "distinct (dedup_by seen xs)"
  by (induction xs arbitrary: seen) auto

lemma dedup_by_fixed: "distinct xs \<Longrightarrow> set xs \<inter> seen = {} \<Longrightarrow> dedup_by seen xs = xs"
  by (induction xs arbitrary: seen) auto

lemma length_dedup_by: "length (dedup_by seen xs) \<le> length xs"
  by (induction xs arbitrary: seen) (auto intro: le_SucI)

lemma sorted_set_unique:
  fixes xs ys :: "'a::linorder list"
  assumes "sorted xs" "distinct xs" "sorted ys" "distinct ys" "set xs = set ys"
  shows "xs = ys"
  using assms by (rule sorted_distinct_set_unique)

text \<open>The first element with a property, as a \<open>for\<close> loop with an early return finds it.\<close>

lemma find_Some_mem: "find P xs = Some x \<Longrightarrow> x \<in> set xs \<and> P x"
  by (induction xs) (auto split: if_splits)

lemma find_None_all: "find P xs = None \<longleftrightarrow> (\<forall>x\<in>set xs. \<not> P x)"
  by (induction xs) auto

section \<open>Maximum over an optional aggregate\<close>

text \<open>SQL's \<open>MAX\<close> over a set of rows is \<open>NULL\<close> when there is no row.\<close>

fun max_opt :: "int list \<Rightarrow> int option" where
  "max_opt [] = None"
| "max_opt (x # xs) = (case max_opt xs of None \<Rightarrow> Some x | Some y \<Rightarrow> Some (max x y))"

lemma max_opt_None [simp]: "max_opt xs = None \<longleftrightarrow> xs = []"
  by (cases xs) (auto split: option.splits)

lemma max_opt_Some: "max_opt xs = Some m \<Longrightarrow> m \<in> set xs \<and> (\<forall>x\<in>set xs. x \<le> m)"
proof (induction xs arbitrary: m)
  case Nil
  then show ?case by simp
next
  case (Cons x xs)
  then show ?case
    by (cases "max_opt xs") (auto simp: max_def split: if_splits)
qed

end
