(* ===== verification/GoStrings.thy ===== *)
theory GoStrings
  imports Unicode
begin

text \<open>
  The functions of Go's \<open>strings\<close> package that the repository calls, on byte strings.  They
  are library code, so they have no source line here; the components above use them under their
  Go names.  \<open>Index\<close> returns an \<open>option\<close> where Go returns -1.
\<close>

section \<open>Prefixes and suffixes\<close>

definition HasPrefix :: "bytes \<Rightarrow> bytes \<Rightarrow> bool" where
  "HasPrefix s p = (take (length p) s = p)"

definition HasSuffix :: "bytes \<Rightarrow> bytes \<Rightarrow> bool" where
  "HasSuffix s p = HasPrefix (rev s) (rev p)"

definition TrimPrefix :: "bytes \<Rightarrow> bytes \<Rightarrow> bytes" where
  "TrimPrefix s p = (if HasPrefix s p then drop (length p) s else s)"

definition TrimSuffix :: "bytes \<Rightarrow> bytes \<Rightarrow> bytes" where
  "TrimSuffix s p = (if HasSuffix s p then take (length s - length p) s else s)"

lemma HasPrefix_append [simp]: "HasPrefix (p @ s) p"
  by (simp add: HasPrefix_def)

lemma HasPrefix_Nil [simp]: "HasPrefix s []"
  by (simp add: HasPrefix_def)

lemma HasPrefix_Nil2 [simp]: "HasPrefix [] p \<longleftrightarrow> p = []"
  by (auto simp: HasPrefix_def)

lemma HasPrefix_Cons [simp]: "HasPrefix (c # s) (d # p) \<longleftrightarrow> c = d \<and> HasPrefix s p"
  by (simp add: HasPrefix_def)

lemma HasPrefix_iff: "HasPrefix s p \<longleftrightarrow> (\<exists>t. s = p @ t)"
  by (metis HasPrefix_def HasPrefix_append append_take_drop_id)

lemma HasPrefix_self [simp]: "HasPrefix s s"
  by (simp add: HasPrefix_def)

lemma TrimPrefix_append [simp]: "TrimPrefix (p @ s) p = s"
  by (simp add: TrimPrefix_def)

lemma TrimPrefix_no [simp]: "\<not> HasPrefix s p \<Longrightarrow> TrimPrefix s p = s"
  by (simp add: TrimPrefix_def)

lemma TrimPrefix_decomp: "HasPrefix s p \<Longrightarrow> s = p @ TrimPrefix s p"
  by (auto simp: HasPrefix_iff)

lemma ascii_TrimPrefix [simp]: "ascii s \<Longrightarrow> ascii (TrimPrefix s p)"
  by (simp add: TrimPrefix_def)

lemma HasSuffix_append [simp]: "HasSuffix (s @ p) p"
  by (simp add: HasSuffix_def)

section \<open>Searching\<close>

fun Index :: "bytes \<Rightarrow> bytes \<Rightarrow> nat option" where
  "Index [] sub = (if sub = [] then Some 0 else None)"
| "Index (c # s) sub = (if HasPrefix (c # s) sub then Some 0 else map_option Suc (Index s sub))"

definition Contains :: "bytes \<Rightarrow> bytes \<Rightarrow> bool" where
  "Contains s sub = (Index s sub \<noteq> None)"

definition IndexByte :: "bytes \<Rightarrow> char \<Rightarrow> nat option" where
  "IndexByte s c = Index s [c]"

lemma Index_Some_prefix: "Index s sub = Some i \<Longrightarrow> i \<le> length s \<and> HasPrefix (drop i s) sub"
proof (induction s arbitrary: i)
  case Nil
  then show ?case by (auto split: if_splits)
next
  case (Cons c s)
  then show ?case by (auto split: if_splits)
qed

lemma Index_first: "Index s sub = Some i \<Longrightarrow> j < i \<Longrightarrow> \<not> HasPrefix (drop j s) sub"
proof (induction s arbitrary: i j)
  case Nil
  then show ?case by (auto split: if_splits)
next
  case (Cons c s)
  then show ?case
    by (cases j) (auto split: if_splits)
qed

lemma Index_byte_None: "Index s [c] = None \<longleftrightarrow> c \<notin> set s"
  by (induction s) auto

lemma Contains_byte [simp]: "Contains s [c] \<longleftrightarrow> c \<in> set s"
  using Index_byte_None [of s c] by (auto simp: Contains_def)

lemma Index_byte_Some: "Index s [c] = Some i \<Longrightarrow> c \<notin> set (take i s) \<and> i < length s \<and> s ! i = c"
proof (induction s arbitrary: i)
  case Nil
  then show ?case by simp
next
  case (Cons d s)
  then show ?case by (auto split: if_splits)
qed

lemma Index_byte_append: "c \<notin> set s \<Longrightarrow> Index (s @ c # t) [c] = Some (length s)"
  by (induction s) auto

section \<open>Splitting and joining\<close>

text \<open>\<open>strings.Split\<close> with a one-byte separator, the only use in the repository's modelled code.\<close>

fun Split :: "bytes \<Rightarrow> char \<Rightarrow> bytes list" where
  "Split [] c = [[]]"
| "Split (x # s) c =
     (if x = c then [] # Split s c
      else (case Split s c of [] \<Rightarrow> [[x]] | y # ys \<Rightarrow> (x # y) # ys))"

fun Join :: "bytes list \<Rightarrow> bytes \<Rightarrow> bytes" where
  "Join [] sep = []"
| "Join [x] sep = x"
| "Join (x # y # ys) sep = x @ sep @ Join (y # ys) sep"

lemma Split_nonempty [simp]: "Split s c \<noteq> []"
  by (induction s) (auto split: list.splits)

lemma Split_no_sep: "c \<notin> set s \<Longrightarrow> Split s c = [s]"
  by (induction s) auto

lemma Split_sep: "c \<notin> set s \<Longrightarrow> Split (s @ c # t) c = s # Split t c"
  by (induction s) auto

lemma Split_parts_no_sep: "x \<in> set (Split s c) \<Longrightarrow> c \<notin> set x"
proof (induction s arbitrary: x)
  case Nil
  then show ?case by simp
next
  case (Cons a s)
  show ?case
  proof (cases "Split s c")
    case Nil
    then show ?thesis by simp
  next
    case (Cons y ys)
    with Cons.prems Cons.IH show ?thesis
      by (auto split: if_splits)
  qed
qed

lemma Join_Split: "Join (Split s c) [c] = s"
proof (induction s)
  case Nil
  then show ?case by simp
next
  case (Cons a s)
  show ?case
  proof (cases "Split s c")
    case Nil
    then show ?thesis by simp
  next
    case (Cons y ys)
    with Cons.IH show ?thesis by (cases ys) auto
  qed
qed

lemma Split_Join:
  "xs \<noteq> [] \<Longrightarrow> \<forall>x\<in>set xs. c \<notin> set x \<Longrightarrow> Split (Join xs [c]) c = xs"
proof (induction xs "[c]" rule: Join.induct)
  case (3 x y ys)
  then show ?case by (simp add: Split_sep)
qed (auto simp: Split_no_sep)

section \<open>Case folding, trimming, replacing\<close>

definition ToLower :: "bytes \<Rightarrow> bytes" where
  "ToLower s = concat (map (\<lambda>(r, _). encodeRune (toLowerRune r)) (runes s))"

definition ToUpper :: "bytes \<Rightarrow> bytes" where
  "ToUpper s = concat (map (\<lambda>(r, _). encodeRune (toUpperRune r)) (runes s))"

definition TrimSpace :: "bytes \<Rightarrow> bytes" where
  "TrimSpace s =
     concat (map snd (rev (dropWhile (isSpace \<circ> fst)
                             (rev (dropWhile (isSpace \<circ> fst) (runes s))))))"

text \<open>\<open>strings.ReplaceAll s "-" ""\<close> and the like: deleting every occurrence of one byte.\<close>

definition DeleteByte :: "char \<Rightarrow> bytes \<Rightarrow> bytes" where
  "DeleteByte c s = filter (\<lambda>x. x \<noteq> c) s"

definition lowerChar :: "char \<Rightarrow> char" where
  "lowerChar c = char_of (toLowerRune (of_char c))"

definition upperChar :: "char \<Rightarrow> char" where
  "upperChar c = char_of (toUpperRune (of_char c))"

lemma toLowerRune_lt: "r < 128 \<Longrightarrow> toLowerRune r < 128"
  by (simp add: toLowerRune_def)

lemma toUpperRune_lt: "r < 128 \<Longrightarrow> toUpperRune r < 128"
  by (auto simp: toUpperRune_def)

lemma of_lowerChar: "of_char c < (128::nat) \<Longrightarrow> of_char (lowerChar c) = toLowerRune (of_char c)"
  using toLowerRune_lt [of "of_char c"] by (simp add: lowerChar_def)

lemma of_upperChar: "of_char c < (128::nat) \<Longrightarrow> of_char (upperChar c) = toUpperRune (of_char c)"
  using toUpperRune_lt [of "of_char c"] by (simp add: upperChar_def)

lemma ToLower_ascii: "ascii s \<Longrightarrow> ToLower s = map lowerChar s"
  by (induction s)
    (simp_all add: ToLower_def runes_ascii_Cons lowerChar_def encodeRune_ascii toLowerRune_lt)

lemma ToUpper_ascii: "ascii s \<Longrightarrow> ToUpper s = map upperChar s"
  by (induction s)
    (simp_all add: ToUpper_def runes_ascii_Cons upperChar_def encodeRune_ascii toUpperRune_lt)

lemma lowerChar_idem: "of_char c < (128::nat) \<Longrightarrow> lowerChar (lowerChar c) = lowerChar c"
  by (simp add: lowerChar_def [of "lowerChar c"] of_lowerChar)
    (simp add: lowerChar_def toLowerRune_def)

lemma ascii_ToLower [simp]: "ascii s \<Longrightarrow> ascii (ToLower s)"
  by (simp add: ToLower_ascii) (auto simp: ascii_def list_all_iff of_lowerChar toLowerRune_lt)

lemma ToLower_idem: "ascii s \<Longrightarrow> ToLower (ToLower s) = ToLower s"
  by (simp add: ToLower_ascii [of "ToLower s"])
    (simp add: ToLower_ascii ascii_def list_all_iff lowerChar_idem)

lemma ToLower_Nil [simp]: "ToLower [] = []"
  by (simp add: ToLower_def)

definition spaceChar :: "char \<Rightarrow> bool" where
  "spaceChar c = isSpace (of_char c)"

lemma TrimSpace_ascii:
  "ascii s \<Longrightarrow> TrimSpace s = rev (dropWhile spaceChar (rev (dropWhile spaceChar s)))"
  by (simp add: TrimSpace_def runes_ascii dropWhile_map rev_map comp_def spaceChar_def [abs_def])

lemma set_dropWhile: "set (dropWhile P xs) \<subseteq> set xs"
  by (auto dest: set_dropWhileD)

lemma ascii_TrimSpace [simp]:
  assumes "ascii s" shows "ascii (TrimSpace s)"
proof -
  have "set (TrimSpace s) \<subseteq> set s"
    using assms set_dropWhile [of spaceChar "rev (dropWhile spaceChar s)"] set_dropWhile [of spaceChar s]
    by (auto simp: TrimSpace_ascii)
  with assms show ?thesis by (auto simp: ascii_def list_all_iff)
qed

lemma TrimSpace_Nil [simp]: "TrimSpace [] = []"
  by (simp add: TrimSpace_def)

text \<open>A trimmed ASCII string is empty or has no space at either end, and trimming is idempotent.\<close>

definition trimmed :: "bytes \<Rightarrow> bool" where
  "trimmed s = (s = [] \<or> (\<not> spaceChar (hd s) \<and> \<not> spaceChar (last s)))"

lemma dropWhile_fixed: "xs = [] \<or> \<not> P (hd xs) \<Longrightarrow> dropWhile P xs = xs"
  by (cases xs) auto

lemma last_dropWhile: "dropWhile P xs \<noteq> [] \<Longrightarrow> last (dropWhile P xs) = last xs"
  by (metis last_appendR takeWhile_dropWhile_id)

lemma TrimSpace_trimmed:
  assumes "ascii s" "trimmed s" shows "TrimSpace s = s"
proof -
  from assms(2) have "dropWhile spaceChar s = s" "dropWhile spaceChar (rev s) = rev s"
    by (auto simp: trimmed_def hd_rev intro: dropWhile_fixed)
  with assms(1) show ?thesis by (simp add: TrimSpace_ascii)
qed

lemma trimmed_TrimSpace:
  assumes "ascii s" shows "trimmed (TrimSpace s)"
proof -
  define u where "u = dropWhile spaceChar s"
  define v where "v = dropWhile spaceChar (rev u)"
  have t: "TrimSpace s = rev v" using assms by (simp add: TrimSpace_ascii u_def v_def)
  show ?thesis
  proof (cases "v = []")
    case True
    then show ?thesis by (simp add: t trimmed_def)
  next
    case False
    from False have "\<not> spaceChar (hd v)" unfolding v_def by (rule hd_dropWhile)
    moreover have "\<not> spaceChar (last v)"
    proof -
      from False have "last v = last (rev u)" unfolding v_def by (rule last_dropWhile)
      moreover from False have "u \<noteq> []" by (auto simp: v_def)
      then have "\<not> spaceChar (hd u)" unfolding u_def by (rule hd_dropWhile)
      ultimately show ?thesis using \<open>u \<noteq> []\<close> by (simp add: last_rev)
    qed
    ultimately show ?thesis using False by (simp add: t trimmed_def hd_rev last_rev)
  qed
qed

lemma TrimSpace_idem: "ascii s \<Longrightarrow> TrimSpace (TrimSpace s) = TrimSpace s"
  by (simp add: TrimSpace_trimmed trimmed_TrimSpace)

end
