(* ===== verification/Identifiers.thy ===== *)
theory Identifiers
  imports GoStrings
begin

text \<open>
  Identifiers and portal keys: phone numbers, e-mail handles, chat GUIDs and group UUIDs, and how
  the bridge normalises them so that one conversation has one key.  Models
  \<open>pkg/connector/util.go\<close>, \<open>ids.go\<close>, \<open>group_identity.go\<close>, the normalisers of \<open>client.go\<close>,
  the GUID helpers of \<open>chatdb.go\<close>, \<open>recycle_bin_hints.go\<close> and \<open>imessage/struct.go\<close>.
\<close>

section \<open>util.go\<close>

text \<open>\<open>first\<close> is the loop's test \<open>i == 0\<close> on the byte index of the rune.\<close>

fun phoneLoop :: "bool \<Rightarrow> (nat \<times> bytes) list \<Rightarrow> bytes" where
  "phoneLoop first [] = []"
| "phoneLoop first ((r, _) # rs) =
     (if r = 43 \<and> first then encodeRune r
      else if isDigit r then encodeRune r else []) @ phoneLoop False rs"

definition normalizePhone :: "bytes \<Rightarrow> bytes" where
  "normalizePhone phone = phoneLoop True (runes phone)"

definition lastN :: "nat \<Rightarrow> bytes \<Rightarrow> bytes" where
  "lastN n s = drop (length s - n) s"

definition phoneSuffixes :: "bytes \<Rightarrow> bytes list" where
  "phoneSuffixes phone =
     (let n = normalizePhone phone in
      if n = [] then []
      else let without = TrimPrefix n ''+'' in
           [n] @ (if without \<noteq> n then [without] else [])
               @ (if 10 < length without then [lastN 10 without] else [])
               @ (if 7 < length without then [lastN 7 without] else []))"

definition base64Rune :: "nat \<Rightarrow> bool" where
  "base64Rune r = ((65 \<le> r \<and> r \<le> 90) \<or> (97 \<le> r \<and> r \<le> 122) \<or> (48 \<le> r \<and> r \<le> 57)
                   \<or> r = 43 \<or> r = 47 \<or> r = 61)"

definition stripNonBase64 :: "bytes \<Rightarrow> bytes" where
  "stripNonBase64 s =
     concat (map (\<lambda>(r, _). encodeRune r) (filter (\<lambda>(r, _). base64Rune r) (runes s)))"

definition stripSmsSuffix :: "bytes \<Rightarrow> bytes" where
  "stripSmsSuffix i =
     (case Index i ''(sms'' of
        None \<Rightarrow> i
      | Some idx \<Rightarrow>
          if 0 < idx then
            (case Index (drop idx i) '')'' of
               None \<Rightarrow> i
             | Some closeIdx \<Rightarrow> if idx + closeIdx + 1 = length i then take idx i else i)
          else i)"

definition stripIdentifierPrefix :: "bytes \<Rightarrow> bytes" where
  "stripIdentifierPrefix i = TrimPrefix (TrimPrefix i ''tel:'') ''mailto:''"

definition isNumeric :: "bytes \<Rightarrow> bool" where
  "isNumeric s = (if s = [] then False else list_all (\<lambda>(c, _). \<not> (c < 48 \<or> 57 < c)) (runes s))"

definition addIdentifierPrefix :: "bytes \<Rightarrow> bytes" where
  "addIdentifierPrefix localID =
     (if HasPrefix localID ''tel:'' \<or> HasPrefix localID ''mailto:'' then localID
      else if Contains localID ''@'' then ''mailto:'' @ localID
      else if HasPrefix localID ''+'' \<or> isNumeric localID then ''tel:'' @ localID
      else localID)"

record DisplaynameParams =
  dp_FirstName :: bytes
  dp_LastName :: bytes
  dp_Nickname :: bytes
  dp_Phone :: bytes
  dp_Email :: bytes
  dp_ID :: bytes

definition identifierToDisplaynameParams :: "bytes \<Rightarrow> DisplaynameParams" where
  "identifierToDisplaynameParams identifier =
     (let localID = stripIdentifierPrefix identifier;
          zero = \<lparr>dp_FirstName = [], dp_LastName = [], dp_Nickname = [], dp_Phone = [],
                  dp_Email = [], dp_ID = localID\<rparr> in
      if HasPrefix localID ''+'' then zero\<lparr>dp_Phone := localID\<rparr>
      else if Contains localID ''@'' then zero\<lparr>dp_Email := localID\<rparr>
      else zero)"

section \<open>client.go: normalisation of handles\<close>

definition normalizePhoneIdentifierForPortalID :: "bytes \<Rightarrow> bytes" where
  "normalizePhoneIdentifierForPortalID local =
     (let cleaned = normalizePhone local in
      if cleaned = [] then []
      else if HasPrefix cleaned ''+'' then cleaned
      else if length cleaned = 10 then ''+1'' @ cleaned
      else if length cleaned = 11 \<and> cleaned ! 0 = CHR ''1'' then ''+'' @ cleaned
      else if 11 \<le> length cleaned then ''+'' @ cleaned
      else cleaned)"

definition normalizeIdentifierForPortalID :: "bytes \<Rightarrow> bytes" where
  "normalizeIdentifierForPortalID identifier =
     (let i0 = TrimSpace identifier in
      if i0 = [] then []
      else let i = stripSmsSuffix i0 in
        if HasPrefix i ''mailto:'' then ''mailto:'' @ ToLower (TrimPrefix i ''mailto:'')
        else if Contains i ''@'' \<and> \<not> HasPrefix i ''tel:'' then
          ''mailto:'' @ ToLower (TrimPrefix i ''mailto:'')
        else if HasPrefix i ''tel:'' \<or> HasPrefix i ''+'' \<or> isNumeric i then
          let local = stripIdentifierPrefix i;
              normalized = normalizePhoneIdentifierForPortalID local in
          if normalized \<noteq> [] then ''tel:'' @ normalized else addIdentifierPrefix local
        else i)"

text \<open>\<open>allHandles\<close> and \<open>handle\<close> are the fields of \<open>IMClient\<close> these methods read.\<close>

definition isMyHandle :: "bytes list \<Rightarrow> bytes \<Rightarrow> bool" where
  "isMyHandle allHandles handle =
     list_ex (\<lambda>h. normalizeIdentifierForPortalID handle = normalizeIdentifierForPortalID h) allHandles"

text \<open>The in-place compaction of the sorted slice keeps an element that differs from its predecessor.\<close>

fun dedupSorted :: "bytes list \<Rightarrow> bytes list" where
  "dedupSorted [] = []"
| "dedupSorted [x] = [x]"
| "dedupSorted (x # y # ys) = (if x = y then dedupSorted (y # ys) else x # dedupSorted (y # ys))"

definition buildCanonicalParticipantList :: "bytes list \<Rightarrow> bytes \<Rightarrow> bytes list \<Rightarrow> bytes list" where
  "buildCanonicalParticipantList allHandles handle participants =
     dedupSorted (sort
       (filter (\<lambda>n. n \<noteq> [] \<and> \<not> isMyHandle allHandles n)
          (map normalizeIdentifierForPortalID participants)
        @ [normalizeIdentifierForPortalID handle]))"

section \<open>recycle\_bin\_hints.go\<close>

definition recoverableGUIDFromEntry :: "bytes \<Rightarrow> bytes" where
  "recoverableGUIDFromEntry entry =
     (case IndexByte entry (CHR ''|'') of Some idx \<Rightarrow> take idx entry | None \<Rightarrow> entry)"

definition normalizeRecoverableParticipants :: "bytes list \<Rightarrow> bytes list" where
  "normalizeRecoverableParticipants participants =
     (if participants = [] then []
      else sort (dedup_by {} (filter (\<lambda>v. v \<noteq> []) (map normalizeIdentifierForPortalID participants))))"

section \<open>group\_identity.go\<close>

definition isGroupPortalID :: "bytes \<Rightarrow> bool" where
  "isGroupPortalID portalID = (HasPrefix portalID ''gid:'' \<or> Contains portalID '','')"

definition isCarrierService :: "bytes \<Rightarrow> bool" where
  "isCarrierService service = (ToUpper (TrimSpace service) \<in> set [''SMS'', ''RCS'', ''MMS''])"

definition normalizeUUID :: "bytes \<Rightarrow> bytes" where
  "normalizeUUID s = ToLower (DeleteByte (CHR ''-'') s)"

definition groupPortalDedupKey :: "bytes \<Rightarrow> bytes \<Rightarrow> bytes list \<Rightarrow> bytes" where
  "groupPortalDedupKey portalID groupID0 participants =
     (let groupID = TrimSpace groupID0 in
      if groupID \<noteq> [] then ''group:'' @ normalizeUUID groupID
      else if HasPrefix portalID ''gid:'' then
        ''group:'' @ normalizeUUID (TrimPrefix portalID ''gid:'')
      else let n0 = normalizeRecoverableParticipants participants;
               normalized =
                 (if n0 = [] \<and> Contains portalID '',''
                  then normalizeRecoverableParticipants (Split portalID (CHR '',''))
                  else n0) in
        if normalized \<noteq> [] then ''parts:'' @ Join normalized '','' else ''portal:'' @ portalID)"

section \<open>imessage/struct.go: chat identifiers\<close>

record Identifier =
  LocalID :: bytes
  Service :: bytes
  IsGroup :: bool

definition ParseIdentifier :: "bytes \<Rightarrow> Identifier" where
  "ParseIdentifier guid =
     (if guid = [] then \<lparr>LocalID = [], Service = [], IsGroup = False\<rparr>
      else let parts = Split guid (CHR '';'') in
        if length parts < 3 then \<lparr>LocalID = guid, Service = [], IsGroup = False\<rparr>
        else let localID = parts ! 2;
                 isGroup = (parts ! 1 = ''+'' \<or> HasPrefix localID ''chat'') in
          \<lparr>LocalID = localID, Service = parts ! 0, IsGroup = isGroup\<rparr>)"

definition Identifier_String :: "Identifier \<Rightarrow> bytes" where
  "Identifier_String i =
     (if LocalID i = [] then []
      else Service i @ '';'' @ (if IsGroup i then ''+'' else ''-'') @ '';'' @ LocalID i)"

section \<open>chatdb.go: portal IDs and chat.db GUIDs\<close>

definition portalIDToChatGUIDs :: "bytes \<Rightarrow> bytes list" where
  "portalIDToChatGUIDs portalID =
     (let l0 = stripIdentifierPrefix portalID in
      if l0 = [] then []
      else let localID = stripSmsSuffix l0 in
        [''any;-;'' @ localID, ''iMessage;-;'' @ localID, ''SMS;-;'' @ localID])"

definition identifierToPortalID :: "Identifier \<Rightarrow> bytes" where
  "identifierToPortalID i =
     (if IsGroup i then Identifier_String i
      else let localID = stripSmsSuffix (LocalID i) in
        if HasPrefix localID ''+'' then ''tel:'' @ localID
        else if Contains localID ''@'' then ''mailto:'' @ localID
        else if isNumeric localID then ''tel:'' @ localID
        else localID)"

section \<open>Evaluation\<close>

text \<open>The equations that evaluate the functions above on a concrete ASCII string.\<close>

lemmas id_eval = Let_def TrimSpace_ascii spaceChar_def isSpace_def ToLower_ascii lowerChar_def
  toLowerRune_def ToUpper_ascii upperChar_def toUpperRune_def isNumeric_def runes_ascii_Cons
  normalizePhone_def Contains_def TrimPrefix_def isDigit_def encodeRune_of_char encodeRune_ascii
  char_of_eq_iff normalizeIdentifierForPortalID_def stripSmsSuffix_def stripIdentifierPrefix_def
  normalizePhoneIdentifierForPortalID_def addIdentifierPrefix_def


section \<open>Characterisation on ASCII input\<close>

definition digitChar :: "char \<Rightarrow> bool" where
  "digitChar c = (48 \<le> (of_char c :: nat) \<and> of_char c \<le> (57 :: nat))"

lemma isDigit_ascii: "of_char c < (128::nat) \<Longrightarrow> isDigit (of_char c) = digitChar c"
  by (simp add: isDigit_def digitChar_def)

lemma digitChar_ascii: "digitChar c \<Longrightarrow> of_char c < (128::nat)"
  by (simp add: digitChar_def)

lemma digits_ascii: "list_all digitChar s \<Longrightarrow> ascii s"
  by (auto simp: ascii_def list_all_iff digitChar_ascii)

lemma of_char_plus: "(of_char c :: nat) = 43 \<longleftrightarrow> c = CHR ''+''"
proof -
  have "(43 :: nat) = of_char (CHR ''+'')" by simp
  then show ?thesis by (simp only: of_char_eq_iff)
qed

lemma encodeRune_plus: "encodeRune 43 = ''+''"
  by (simp add: encodeRune_ascii char_of_eq_iff)

lemma phoneLoop_False: "ascii s \<Longrightarrow> phoneLoop False (runes s) = filter digitChar s"
  by (induction s) (simp_all add: runes_ascii_Cons isDigit_ascii encodeRune_of_char)

lemma normalizePhone_ascii:
  "ascii s \<Longrightarrow> normalizePhone s =
     (case s of [] \<Rightarrow> [] | c # cs \<Rightarrow> if c = CHR ''+'' then c # filter digitChar cs else filter digitChar s)"
  by (cases s)
    (simp_all add: normalizePhone_def runes_ascii_Cons phoneLoop_False isDigit_ascii encodeRune_of_char of_char_plus encodeRune_plus)


text \<open>Phone-shaped strings: an optional plus sign followed by digits.\<close>

definition phone_form :: "bytes \<Rightarrow> bool" where
  "phone_form s = (case s of [] \<Rightarrow> True | c # cs \<Rightarrow> (c = CHR ''+'' \<or> digitChar c) \<and> list_all digitChar cs)"

lemma phone_form_ascii: "phone_form s \<Longrightarrow> ascii s"
  by (auto simp: phone_form_def digits_ascii digitChar_ascii split: list.splits)

lemma digits_phone_form: "list_all digitChar s \<Longrightarrow> phone_form s"
  by (cases s) (auto simp: phone_form_def)

lemma plus_not_digit [simp]: "\<not> digitChar (CHR ''+'')"
  by (simp add: digitChar_def)

lemma filter_digits: "list_all digitChar s \<Longrightarrow> filter digitChar s = s"
  by (simp add: list_all_iff)

lemma normalizePhone_form: "ascii s \<Longrightarrow> phone_form (normalizePhone s)"
  by (cases s) (auto simp: normalizePhone_ascii phone_form_def list_all_iff split: list.splits
                 dest!: filter_eq_ConsD)

lemma normalizePhone_id: "phone_form s \<Longrightarrow> normalizePhone s = s"
  using phone_form_ascii [of s]
  by (cases s) (auto simp: normalizePhone_ascii phone_form_def filter_digits)

lemma normalizePhone_idem: "ascii s \<Longrightarrow> normalizePhone (normalizePhone s) = normalizePhone s"
  by (simp add: normalizePhone_id normalizePhone_form)

lemma normalizePhone_has_digit:
  "ascii s \<Longrightarrow> (\<exists>c\<in>set s. digitChar c) \<Longrightarrow> normalizePhone s \<noteq> []"
  by (cases s) (auto simp: normalizePhone_ascii filter_empty_conv)

text \<open>The canonical local part: what \<open>normalizePhoneIdentifierForPortalID\<close> can return.\<close>

definition canonical_phone :: "bytes \<Rightarrow> bool" where
  "canonical_phone s = (s \<noteq> [] \<and> phone_form s \<and> (HasPrefix s ''+'' \<or> length s < 10))"

lemma plus_digits_form: "list_all digitChar s \<Longrightarrow> phone_form (CHR ''+'' # s)"
  by (simp add: phone_form_def)

lemma phone_form_no_plus: "phone_form s \<Longrightarrow> \<not> HasPrefix s ''+'' \<Longrightarrow> list_all digitChar s"
  by (cases s) (auto simp: phone_form_def)

lemma canonical_phone_result:
  assumes "ascii s" "normalizePhone s \<noteq> []"
  shows "canonical_phone (normalizePhoneIdentifierForPortalID s)"
proof -
  let ?n = "normalizePhone s"
  have n: "phone_form ?n" using assms(1) by (rule normalizePhone_form)
  have one: "digitChar (CHR ''1'')" by (simp add: digitChar_def)
  show ?thesis
  proof (cases "HasPrefix ?n ''+''")
    case True
    with n assms(2) show ?thesis
      by (simp add: normalizePhoneIdentifierForPortalID_def canonical_phone_def)
  next
    case False
    with n have d: "list_all digitChar ?n" by (rule phone_form_no_plus)
    with False assms(2) one show ?thesis
      by (auto simp: normalizePhoneIdentifierForPortalID_def canonical_phone_def Let_def
            plus_digits_form digits_phone_form)
  qed
qed

lemma canonical_phone_fixed:
  "canonical_phone s \<Longrightarrow> normalizePhoneIdentifierForPortalID s = s"
  by (auto simp: canonical_phone_def normalizePhoneIdentifierForPortalID_def normalizePhone_id Let_def)

lemma normalizePhoneIdentifier_Nil:
  "normalizePhoneIdentifierForPortalID s = [] \<longleftrightarrow> normalizePhone s = []"
  by (auto simp: normalizePhoneIdentifierForPortalID_def Let_def)


lemma Index_set: "Index s sub = Some i \<Longrightarrow> set sub \<subseteq> set s"
proof -
  assume "Index s sub = Some i"
  then have "HasPrefix (drop i s) sub" using Index_Some_prefix by blast
  then obtain t where "drop i s = sub @ t" by (auto simp: HasPrefix_iff)
  then have "set sub \<subseteq> set (drop i s)" by simp
  then show ?thesis using set_drop_subset [of i s] by blast
qed

lemma stripSmsSuffix_no_paren: "CHR ''('' \<notin> set s \<Longrightarrow> stripSmsSuffix s = s"
  by (cases "Index s ''(sms''") (auto simp: stripSmsSuffix_def dest: Index_set)

lemma Index_skip: "c \<notin> set x \<Longrightarrow> HasPrefix s p \<Longrightarrow> Index (x @ c # s) (c # p) = Some (length x)"
  by (induction x) auto

text \<open>A carrier suffix such as \<open>(smsft)\<close> at the end is removed.\<close>

lemma stripSmsSuffix_suffix:
  assumes "x \<noteq> []" "CHR ''('' \<notin> set x" "CHR '')'' \<notin> set t"
  shows "stripSmsSuffix (x @ ''(sms'' @ t @ '')'') = x"
proof -
  have i: "Index (x @ ''(sms'' @ t @ '')'') ''(sms'' = Some (length x)"
    using assms(2) by (simp add: Index_skip)
  have c: "Index (drop (length x) (x @ ''(sms'' @ t @ '')'')) '')'' = Some (4 + length t)"
    using Index_byte_append [of "CHR '')''" "''(sms'' @ t" "[]"] assms(3) by simp
  show ?thesis using assms(1) unfolding stripSmsSuffix_def i option.case c by simp
qed

lemma isNumeric_ascii: "ascii s \<Longrightarrow> isNumeric s \<longleftrightarrow> s \<noteq> [] \<and> list_all digitChar s"
  by (auto simp: isNumeric_def runes_ascii list_all_iff digitChar_def not_less)

definition canonical_id :: "bytes \<Rightarrow> bool" where
  "canonical_id x \<longleftrightarrow>
     x = []
     \<or> (\<exists>p. x = ''tel:'' @ p \<and> canonical_phone p)
     \<or> (\<exists>m. x = ''mailto:'' @ m \<and> ascii m \<and> ToLower m = m \<and> CHR ''('' \<notin> set m
             \<and> (m = [] \<or> \<not> spaceChar (last m)))
     \<or> (ascii x \<and> trimmed x \<and> CHR ''('' \<notin> set x \<and> CHR ''@'' \<notin> set x
        \<and> \<not> HasPrefix x ''tel:'' \<and> \<not> HasPrefix x ''mailto:'' \<and> \<not> HasPrefix x ''+'' \<and> \<not> isNumeric x)"

lemma phone_form_chars: "phone_form p \<Longrightarrow> c \<in> set p \<Longrightarrow> c = CHR ''+'' \<or> digitChar c"
  by (cases p) (auto simp: phone_form_def list_all_iff)

lemma digit_not_space: "digitChar c \<Longrightarrow> \<not> spaceChar c"
  by (auto simp: digitChar_def spaceChar_def isSpace_def)

lemma phone_form_last: "phone_form p \<Longrightarrow> p \<noteq> [] \<Longrightarrow> \<not> spaceChar (last p)"
  using phone_form_chars [of p "last p"]
  by (auto simp: digit_not_space) (simp add: spaceChar_def isSpace_def)

lemma phone_no_at: "phone_form p \<Longrightarrow> CHR ''@'' \<notin> set p" "phone_form p \<Longrightarrow> CHR ''('' \<notin> set p"
  using phone_form_chars [of p "CHR ''@''"] phone_form_chars [of p "CHR ''(''"]
  by (auto simp: digitChar_def)

lemma phone_no_mailto: "phone_form p \<Longrightarrow> \<not> HasPrefix p ''mailto:''"
  by (cases p) (auto simp: phone_form_def digitChar_def)

lemma canonical_tel:
  assumes "canonical_phone p"
  shows "normalizeIdentifierForPortalID (''tel:'' @ p) = ''tel:'' @ p"
proof -
  have f: "phone_form p" and ne: "p \<noteq> []" using assms by (auto simp: canonical_phone_def)
  have a: "ascii (''tel:'' @ p)" using phone_form_ascii [OF f] by simp
  have "trimmed (''tel:'' @ p)"
    using phone_form_last [OF f ne] ne by (simp add: trimmed_def) (simp add: spaceChar_def isSpace_def)
  then have t: "TrimSpace (''tel:'' @ p) = ''tel:'' @ p" using a by (simp add: TrimSpace_trimmed del: append_Cons)
  have s: "stripSmsSuffix (''tel:'' @ p) = ''tel:'' @ p"
    by (rule stripSmsSuffix_no_paren) (use phone_no_at [OF f] in simp)
  show ?thesis
    using t s canonical_phone_fixed [OF assms] ne
    by (simp add: normalizeIdentifierForPortalID_def Let_def stripIdentifierPrefix_def TrimPrefix_def
        phone_no_mailto [OF f])
qed

lemma canonical_mailto:
  assumes "ascii m" "ToLower m = m" "CHR ''('' \<notin> set m" "m = [] \<or> \<not> spaceChar (last m)"
  shows "normalizeIdentifierForPortalID (''mailto:'' @ m) = ''mailto:'' @ m"
proof -
  have a: "ascii (''mailto:'' @ m)" using assms(1) by simp
  have "trimmed (''mailto:'' @ m)"
    using assms(4) by (auto simp: trimmed_def) (simp_all add: spaceChar_def isSpace_def)
  then have t: "TrimSpace (''mailto:'' @ m) = ''mailto:'' @ m" using a by (simp add: TrimSpace_trimmed del: append_Cons)
  have s: "stripSmsSuffix (''mailto:'' @ m) = ''mailto:'' @ m"
    by (rule stripSmsSuffix_no_paren) (use assms(3) in simp)
  show ?thesis using t s assms(2)
    by (simp add: normalizeIdentifierForPortalID_def Let_def TrimPrefix_def)
qed

lemma canonical_plain:
  assumes "ascii x" "trimmed x" "CHR ''('' \<notin> set x" "CHR ''@'' \<notin> set x"
    "\<not> HasPrefix x ''tel:''" "\<not> HasPrefix x ''mailto:''" "\<not> HasPrefix x ''+''" "\<not> isNumeric x"
  shows "normalizeIdentifierForPortalID x = x"
  using assms
  by (simp add: normalizeIdentifierForPortalID_def Let_def TrimSpace_trimmed stripSmsSuffix_no_paren)

lemma canonical_id_fixed: "canonical_id x \<Longrightarrow> normalizeIdentifierForPortalID x = x"
  unfolding canonical_id_def
proof (elim disjE exE conjE)
  assume "x = []" then show ?thesis by (simp add: normalizeIdentifierForPortalID_def)
qed (metis canonical_tel canonical_mailto canonical_plain)+

text \<open>
  Every ASCII handle without a parenthesis, unless it is a \<open>tel:\<close> URI without any digit,
  normalises to a canonical identifier.
\<close>

definition ordinary_handle :: "bytes \<Rightarrow> bool" where
  "ordinary_handle s = (ascii s \<and> CHR ''('' \<notin> set s
     \<and> (HasPrefix (TrimSpace s) ''tel:'' \<longrightarrow> list_ex digitChar (TrimSpace s)))"

lemma set_TrimSpace: "ascii s \<Longrightarrow> set (TrimSpace s) \<subseteq> set s"
  using set_dropWhile [of spaceChar "rev (dropWhile spaceChar s)"] set_dropWhile [of spaceChar s]
  by (auto simp: TrimSpace_ascii)

lemma set_TrimPrefix: "set (TrimPrefix s p) \<subseteq> set s"
  by (auto simp: TrimPrefix_def dest: in_set_dropD)

lemma lowerChar_keeps:
  assumes "of_char c < (128::nat)"
  shows "spaceChar (lowerChar c) = spaceChar c" "lowerChar c = CHR ''('' \<longleftrightarrow> c = CHR ''(''"
proof -
  show "spaceChar (lowerChar c) = spaceChar c"
    using assms by (auto simp: spaceChar_def of_lowerChar toLowerRune_def isSpace_def)
  have "(of_char (lowerChar c) :: nat) = 40 \<longleftrightarrow> (of_char c :: nat) = 40"
    using assms by (auto simp: of_lowerChar toLowerRune_def)
  moreover have "(40 :: nat) = of_char (CHR ''('')" by simp
  ultimately show "lowerChar c = CHR ''('' \<longleftrightarrow> c = CHR ''(''"
    by (simp only: of_char_eq_iff)
qed

lemma ToLower_keeps:
  assumes "ascii m"
  shows "CHR ''('' \<notin> set m \<Longrightarrow> CHR ''('' \<notin> set (ToLower m)"
    and "m = [] \<or> \<not> spaceChar (last m) \<Longrightarrow> ToLower m = [] \<or> \<not> spaceChar (last (ToLower m))"
proof -
  have a: "of_char c < (128::nat)" if "c \<in> set m" for c
    using assms that by (auto simp: ascii_def list_all_iff)
  show "CHR ''('' \<notin> set m \<Longrightarrow> CHR ''('' \<notin> set (ToLower m)"
    using lowerChar_keeps(2) [OF a] assms by (metis ToLower_ascii image_iff set_map)
  show "m = [] \<or> \<not> spaceChar (last m) \<Longrightarrow> ToLower m = [] \<or> \<not> spaceChar (last (ToLower m))"
    using lowerChar_keeps(1) [OF a] assms by (auto simp: ToLower_ascii last_map)
qed

lemma last_TrimPrefix: "TrimPrefix s p \<noteq> [] \<Longrightarrow> last (TrimPrefix s p) = last s"
  by (auto simp: TrimPrefix_def)

lemma canonical_mail_result:
  assumes "ascii i" "CHR ''('' \<notin> set i" "trimmed i"
  shows "canonical_id (''mailto:'' @ ToLower (TrimPrefix i p))"
proof -
  let ?m = "TrimPrefix i p"
  have "ascii ?m" using assms(1) by simp
  moreover have "CHR ''('' \<notin> set ?m" using assms(2) set_TrimPrefix by blast
  moreover have "?m = [] \<or> \<not> spaceChar (last ?m)"
    using assms(3) by (cases "i = []") (auto simp: trimmed_def last_TrimPrefix TrimPrefix_def split: if_splits)
  ultimately show ?thesis
    unfolding canonical_id_def
    using ToLower_keeps [of ?m] ToLower_idem [of ?m] ascii_ToLower [of ?m] by blast
qed

lemma local_has_number:
  assumes "ordinary_handle s" "i = TrimSpace s" "HasPrefix i ''tel:'' \<or> HasPrefix i ''+'' \<or> isNumeric i"
  shows "normalizePhone (stripIdentifierPrefix i) \<noteq> []"
proof -
  have a: "ascii i" using assms(1,2) by (simp add: ordinary_handle_def)
  have al: "ascii (stripIdentifierPrefix i)" using a by (simp add: stripIdentifierPrefix_def)
  show ?thesis
  proof (cases "HasPrefix i ''tel:''")
    case True
    with assms(1,2) obtain c where c: "c \<in> set i" and d: "digitChar c"
      by (auto simp: ordinary_handle_def list_ex_iff)
    from True obtain r where i: "i = ''tel:'' @ r" by (auto simp: HasPrefix_iff)
    from c d i have r: "c \<in> set r" by (auto simp: digitChar_def)
    have "c \<in> set (stripIdentifierPrefix i)"
    proof (cases "HasPrefix r ''mailto:''")
      case True
      then obtain q where "r = ''mailto:'' @ q" by (auto simp: HasPrefix_iff)
      with r d i show ?thesis by (auto simp: stripIdentifierPrefix_def TrimPrefix_def digitChar_def)
    next
      case False
      with r i show ?thesis by (simp add: stripIdentifierPrefix_def TrimPrefix_def)
    qed
    with d show ?thesis by (intro normalizePhone_has_digit [OF al]) blast
  next
    case False
    with assms(3) have p: "HasPrefix i ''+'' \<or> isNumeric i" by blast
    then obtain c cs where i: "i = c # cs" and c: "c = CHR ''+'' \<or> digitChar c"
      using isNumeric_ascii [OF a] by (cases i) auto
    from c i False have "stripIdentifierPrefix i = i"
      by (auto simp: stripIdentifierPrefix_def TrimPrefix_def digitChar_def)
    with a i c show ?thesis by (auto simp: normalizePhone_ascii)
  qed
qed

lemma normalize_canonical:
  assumes "ordinary_handle s"
  shows "canonical_id (normalizeIdentifierForPortalID s)"
proof -
  define i where "i = TrimSpace s"
  have a: "ascii s" and np: "CHR ''('' \<notin> set s" using assms by (auto simp: ordinary_handle_def)
  have ai: "ascii i" and ti: "trimmed i" and ni: "CHR ''('' \<notin> set i"
    using a np set_TrimSpace [OF a] by (auto simp: i_def trimmed_TrimSpace)
  have st: "stripSmsSuffix i = i" using ni by (rule stripSmsSuffix_no_paren)
  let ?n = "normalizePhoneIdentifierForPortalID (stripIdentifierPrefix i)"
  consider "i = []" | "i \<noteq> []" "HasPrefix i ''mailto:'' \<or> Contains i ''@'' \<and> \<not> HasPrefix i ''tel:''"
    | "i \<noteq> []" "\<not> (HasPrefix i ''mailto:'' \<or> Contains i ''@'' \<and> \<not> HasPrefix i ''tel:'')"
      "HasPrefix i ''tel:'' \<or> HasPrefix i ''+'' \<or> isNumeric i"
    | "i \<noteq> []" "\<not> (HasPrefix i ''mailto:'' \<or> Contains i ''@'' \<and> \<not> HasPrefix i ''tel:'')"
      "\<not> (HasPrefix i ''tel:'' \<or> HasPrefix i ''+'' \<or> isNumeric i)" by blast
  then show ?thesis
  proof cases
    case 1
    then show ?thesis by (simp add: normalizeIdentifierForPortalID_def canonical_id_def flip: i_def)
  next
    case 2
    then have "normalizeIdentifierForPortalID s = ''mailto:'' @ ToLower (TrimPrefix i ''mailto:'')"
      by (auto simp: normalizeIdentifierForPortalID_def Let_def st simp flip: i_def)
    then show ?thesis using canonical_mail_result [OF ai ni ti] by simp
  next
    case 3
    have ne: "normalizePhone (stripIdentifierPrefix i) \<noteq> []"
      using assms i_def 3(3) by (rule local_has_number)
    then have "normalizeIdentifierForPortalID s = ''tel:'' @ ?n"
      using 3 by (simp add: normalizeIdentifierForPortalID_def Let_def st normalizePhoneIdentifier_Nil flip: i_def)
    moreover have "canonical_phone ?n"
      using ne ai by (intro canonical_phone_result) (simp_all add: stripIdentifierPrefix_def)
    ultimately show ?thesis unfolding canonical_id_def by blast
  next
    case 4
    then have "normalizeIdentifierForPortalID s = i"
      by (simp add: normalizeIdentifierForPortalID_def Let_def st flip: i_def)
    with 4 ai ti ni show ?thesis unfolding canonical_id_def by simp
  qed
qed


lemma carrier_text:
  assumes "phone_form w" "w \<noteq> []" "v = w \<or> v = ''tel:'' @ w" "ascii t" "CHR '')'' \<notin> set t"
    and suf: "suf = [] \<or> suf = ''(sms'' @ t @ '')''"
  shows "TrimSpace (v @ suf) = v @ suf" "stripSmsSuffix (v @ suf) = v"
proof -
  have p: "CHR ''('' \<notin> set w" using assms(1) by (rule phone_no_at)
  have v: "v \<noteq> []" "CHR ''('' \<notin> set v" using assms(2,3) p by auto
  have a: "ascii v" using assms(1,3) phone_form_ascii by auto
  have sp: "\<not> spaceChar (CHR ''+'')" "\<not> spaceChar (CHR ''t'')" "\<not> spaceChar (CHR '')'')"
    by (simp_all add: spaceChar_def isSpace_def)
  have "\<not> spaceChar (hd w)"
    using phone_form_chars [OF assms(1) hd_in_set [OF assms(2)]] sp(1) digit_not_space by metis
  then have h: "\<not> spaceChar (hd v)" using assms(3) sp(2) by auto
  have "last v = last w" using assms(2,3) by auto
  then have l: "\<not> spaceChar (last (v @ suf))"
    using suf phone_form_last [OF assms(1,2)] sp(3) by auto
  have "ascii (v @ suf)" using a suf assms(4) by auto
  moreover have "trimmed (v @ suf)" using h l v(1) by (simp add: trimmed_def hd_append)
  ultimately show "TrimSpace (v @ suf) = v @ suf" by (rule TrimSpace_trimmed)
  show "stripSmsSuffix (v @ suf) = v"
    using suf stripSmsSuffix_suffix [OF v assms(5)] stripSmsSuffix_no_paren [OF v(2)] by auto
qed

lemma normalize_phone_text:
  assumes "phone_form w" "w \<noteq> []" "v = w \<or> v = ''tel:'' @ w" "ascii t" "CHR '')'' \<notin> set t"
    and suf: "suf = [] \<or> suf = ''(sms'' @ t @ '')''"
  shows "normalizeIdentifierForPortalID (v @ suf) = ''tel:'' @ normalizePhoneIdentifierForPortalID w"
proof -
  note c = carrier_text [OF assms]
  have v: "v \<noteq> []" using assms(2,3) by auto
  have at: "CHR ''@'' \<notin> set v" using assms(3) phone_no_at(1) [OF assms(1)] by auto
  have w: "\<not> HasPrefix w ''tel:''" "\<not> HasPrefix w ''mailto:''"
    using assms(1) phone_no_mailto by (cases w; auto simp: phone_form_def digitChar_def)+
  have m: "\<not> HasPrefix v ''mailto:''" using assms(3) w by auto
  have l: "stripIdentifierPrefix v = w"
    using assms(3) w by (auto simp: stripIdentifierPrefix_def TrimPrefix_def)
  have k: "HasPrefix v ''tel:'' \<or> HasPrefix v ''+'' \<or> isNumeric v"
  proof (cases "v = w")
    case True
    then show ?thesis
      using assms(1,2) phone_form_no_plus [OF assms(1)] isNumeric_ascii [OF phone_form_ascii [OF assms(1)]] by blast
  qed (use assms(3) in simp)
  have "normalizePhoneIdentifierForPortalID w \<noteq> []"
    using assms(1,2) by (simp add: normalizePhoneIdentifier_Nil normalizePhone_id)
  then show ?thesis
    using c m at l k v by (simp add: normalizeIdentifierForPortalID_def Let_def)
qed

lemma national_forms:
  assumes "list_all digitChar d" "length d = 10"
  shows "normalizePhoneIdentifierForPortalID d = ''+1'' @ d"
    "normalizePhoneIdentifierForPortalID (''1'' @ d) = ''+1'' @ d"
    "normalizePhoneIdentifierForPortalID (''+1'' @ d) = ''+1'' @ d"
proof -
  have one: "digitChar (CHR ''1'')" by (simp add: digitChar_def)
  have np: "\<not> HasPrefix d ''+''" using assms by (cases d) auto
  have f: "phone_form d" "phone_form (''1'' @ d)" "phone_form (''+1'' @ d)"
    using digits_phone_form [OF assms(1)] assms(1) one by (simp_all add: phone_form_def)
  show "normalizePhoneIdentifierForPortalID d = ''+1'' @ d"
    "normalizePhoneIdentifierForPortalID (''1'' @ d) = ''+1'' @ d"
    "normalizePhoneIdentifierForPortalID (''+1'' @ d) = ''+1'' @ d"
    using f [THEN normalizePhone_id] np assms(2)
    by (auto simp: normalizePhoneIdentifierForPortalID_def Let_def)
qed

text \<open>The compaction loop on a sorted list removes exactly the duplicates.\<close>

lemma set_dedupSorted [simp]: "set (dedupSorted xs) = set xs"
  by (induction xs rule: dedupSorted.induct) auto

lemma dedupSorted_sorted: "sorted xs \<Longrightarrow> sorted (dedupSorted xs) \<and> distinct (dedupSorted xs)"
proof (induction xs rule: dedupSorted.induct)
  case (3 x y ys)
  then show ?case by (auto simp: order.antisym)
qed auto

lemma buildCanonical_set:
  "set (buildCanonicalParticipantList allHandles handle ps) =
     {n \<in> normalizeIdentifierForPortalID ` set ps. n \<noteq> [] \<and> \<not> isMyHandle allHandles n}
     \<union> {normalizeIdentifierForPortalID handle}"
  by (auto simp: buildCanonicalParticipantList_def)

lemma buildCanonical_sorted:
  "sorted (buildCanonicalParticipantList allHandles handle ps)"
  "distinct (buildCanonicalParticipantList allHandles handle ps)"
  using dedupSorted_sorted by (simp_all add: buildCanonicalParticipantList_def)

lemma normalizeRecoverable_props:
  "sorted (normalizeRecoverableParticipants ps)" "distinct (normalizeRecoverableParticipants ps)"
  "set (normalizeRecoverableParticipants ps) = normalizeIdentifierForPortalID ` set ps - {[]}"
  by (auto simp: normalizeRecoverableParticipants_def)


lemma dedup_key_gid:
  "groupPortalDedupKey (''gid:'' @ u) [] ps = ''group:'' @ normalizeUUID u"
  by (simp add: groupPortalDedupKey_def TrimPrefix_def)

section \<open>Properties\<close>

text \<open>Normalising a handle a second time changes nothing, so keys built from raw and from already
  normalised handles agree.  It holds for every ASCII handle without a parenthesis, except a
  \<open>tel:\<close> URI that holds no digit; \<open>normalize_not_idempotent\<close> below shows that the restriction is needed.\<close>

theorem normalize_idempotent:
  "ordinary_handle s \<Longrightarrow>
   normalizeIdentifierForPortalID (normalizeIdentifierForPortalID s) = normalizeIdentifierForPortalID s"
  by (intro canonical_id_fixed normalize_canonical)

lemma normalize_idempotent_witness:
  "ordinary_handle ''tel:+1 215-516-7207'' \<and>
   normalizeIdentifierForPortalID (normalizeIdentifierForPortalID ''tel:+1 215-516-7207'')
     = normalizeIdentifierForPortalID ''tel:+1 215-516-7207''"
proof -
  have h: "ordinary_handle ''tel:+1 215-516-7207''"
    by (simp add: ordinary_handle_def TrimSpace_ascii spaceChar_def isSpace_def digitChar_def)
  show ?thesis using h normalize_idempotent [OF h] by blast
qed

text \<open>A ten-digit national number has one key, whichever way it is written: bare, with the
  country code, with a plus sign, as a \<open>tel:\<close> URI, and each of these with or without an Apple
  carrier suffix \<open>(sms...)\<close>.\<close>

theorem phone_variants:
  assumes "list_all digitChar d" "length d = 10" "ascii t" "CHR '')'' \<notin> set t"
  shows "\<forall>v \<in> set [d, ''1'' @ d, ''+1'' @ d, ''tel:'' @ d, ''tel:1'' @ d, ''tel:+1'' @ d].
           \<forall>suf \<in> set [[], ''(sms'' @ t @ '')''].
             normalizeIdentifierForPortalID (v @ suf) = ''tel:+1'' @ d"
proof -
  have one: "digitChar (CHR ''1'')" by (simp add: digitChar_def)
  have f: "phone_form w" "w \<noteq> []" if "w \<in> set [d, ''1'' @ d, ''+1'' @ d]" for w
    using that assms(1,2) one digits_phone_form [OF assms(1)] by (auto simp: phone_form_def [of "_ # _"])
  show ?thesis
  proof (intro ballI)
    fix v suf :: bytes
    assume "v \<in> set [d, ''1'' @ d, ''+1'' @ d, ''tel:'' @ d, ''tel:1'' @ d, ''tel:+1'' @ d]"
      and s: "suf \<in> set [[], ''(sms'' @ t @ '')'']"
    then obtain w where w: "w \<in> set [d, ''1'' @ d, ''+1'' @ d]" "v = w \<or> v = ''tel:'' @ w" by auto
    have "normalizeIdentifierForPortalID (v @ suf) = ''tel:'' @ normalizePhoneIdentifierForPortalID w"
      using f [OF w(1)] w(2) assms(3,4) by (rule normalize_phone_text) (use s in simp)
    also have "normalizePhoneIdentifierForPortalID w = ''+1'' @ d"
      using w(1) national_forms [OF assms(1,2)] by auto
    finally show "normalizeIdentifierForPortalID (v @ suf) = ''tel:+1'' @ d" by simp
  qed
qed

lemma phone_variants_witness:
  "normalizeIdentifierForPortalID ''12155167207(smsft)'' = ''tel:+12155167207''"
  using phone_variants [of "''2155167207''" "''ft''"] by (simp add: digitChar_def)

text \<open>The participant list that keys a group is sorted, has no duplicates, holds exactly the
  normalised non-self members and the user's own handle, and depends only on the set of normalised
  participants: not on their order, repetition or formatting.\<close>

theorem canonical_participants:
  assumes "normalizeIdentifierForPortalID ` set ps = normalizeIdentifierForPortalID ` set qs"
  shows "buildCanonicalParticipantList allHandles handle ps = buildCanonicalParticipantList allHandles handle qs
    \<and> sorted (buildCanonicalParticipantList allHandles handle ps)
    \<and> distinct (buildCanonicalParticipantList allHandles handle ps)
    \<and> set (buildCanonicalParticipantList allHandles handle ps) =
        {n \<in> normalizeIdentifierForPortalID ` set ps. n \<noteq> [] \<and> \<not> isMyHandle allHandles n}
        \<union> {normalizeIdentifierForPortalID handle}"
  by (intro conjI buildCanonical_set buildCanonical_sorted, rule sorted_set_unique)
    (simp_all add: buildCanonical_sorted buildCanonical_set assms)

text \<open>Parsing the printed form of a chat identifier gives it back, when its parts hold no
  semicolon and a local part that starts with \<open>chat\<close> belongs to a group.\<close>

theorem ParseIdentifier_String:
  assumes "LocalID i \<noteq> []" "CHR '';'' \<notin> set (Service i)" "CHR '';'' \<notin> set (LocalID i)"
    "HasPrefix (LocalID i) ''chat'' \<longrightarrow> IsGroup i"
  shows "ParseIdentifier (Identifier_String i) = i"
proof -
  have s: "Split (Identifier_String i) (CHR '';'') = [Service i, if IsGroup i then ''+'' else ''-'', LocalID i]"
    using assms(1-3) by (simp add: Identifier_String_def Split_sep Split_no_sep)
  have ne: "Identifier_String i \<noteq> []" using assms(1) by (simp add: Identifier_String_def)
  show ?thesis using s ne assms(4) by (auto simp: ParseIdentifier_def Let_def)
qed

lemma canonical_participants_witness:
  "buildCanonicalParticipantList [] ''tel:+12'' [''+13'', ''tel:+14'']
     = buildCanonicalParticipantList [] ''tel:+12'' [''tel:+14'', ''tel:+13'', ''+13'']"
proof -
  have "normalizeIdentifierForPortalID ` set [''+13'', ''tel:+14''] =
      normalizeIdentifierForPortalID ` set [''tel:+14'', ''tel:+13'', ''+13'']"
    by (simp add: id_eval) blast
  from canonical_participants [OF this] show ?thesis by blast
qed

lemma ParseIdentifier_String_witness:
  "ParseIdentifier (Identifier_String \<lparr>LocalID = ''+1215'', Service = ''SMS'', IsGroup = False\<rparr>)
     = \<lparr>LocalID = ''+1215'', Service = ''SMS'', IsGroup = False\<rparr>"
  by (rule ParseIdentifier_String) simp_all

text \<open>Two group portals named by a UUID get the same deduplication key exactly when the UUIDs
  agree up to dashes and letter case, whatever participants are on record.\<close>

theorem dedup_key_uuid:
  "groupPortalDedupKey (''gid:'' @ u) [] ps = groupPortalDedupKey (''gid:'' @ v) [] qs
     \<longleftrightarrow> normalizeUUID u = normalizeUUID v"
  unfolding dedup_key_gid by simp

text \<open>
  Outside the domain of \<open>normalize_idempotent\<close> the second pass can change the result: lower-casing
  can create a carrier suffix that only the next pass strips.
\<close>

lemma normalize_not_idempotent:
  "normalizeIdentifierForPortalID ''mailto:a(SMSft)'' = ''mailto:a(smsft)''
   \<and> normalizeIdentifierForPortalID ''mailto:a(smsft)'' = ''mailto:a''"
  by (simp add: id_eval)

text \<open>The test on the local part takes a direct conversation with such an address for a group.\<close>

lemma chat_address_is_group:
  "IsGroup (ParseIdentifier ''iMessage;-;chatham@x.org'')"
  by (simp add: ParseIdentifier_def Let_def)

end
