(* ===== verification/Contacts.thy ===== *)
theory Contacts
  imports Identifiers
begin

text \<open>
  Contacts and the merging of a contact's direct conversations: \<open>imessage/struct.go\<close> (Contact),
  the CardDAV cache's lookup index of \<open>pkg/connector/cloud_contacts.go\<close>, \<open>contact_merge.go\<close>, and
  the resolution of direct-message portals in \<open>client.go\<close>.

  What the methods read of \<open>IMClient\<close> is the record \<open>imenv\<close>.  Three of its fields stand for code
  that is not in the repository: \<open>ie_chatDB\<close> (the chat.db contact API), \<open>ie_portalExists\<close> (bridgev2's
  \<open>GetExistingPortalByKey\<close> returning a portal with a room) and \<open>ie_client\<close> (the Rust client's
  \<open>ValidateTargets\<close>; \<open>None\<close> as its answer is a panic in the FFI path).
\<close>

section \<open>imessage/struct.go: Contact\<close>

record Contact =
  FirstName :: bytes
  LastName :: bytes
  Nickname :: bytes
  Avatar :: "bytes option"
  AvatarURL :: bytes
  Phones :: "bytes list"
  Emails :: "bytes list"
  UserGUID :: bytes
  PrimaryIdentifier :: bytes

definition Contact_HasName :: "Contact option \<Rightarrow> bool" where
  "Contact_HasName contact =
     (case contact of None \<Rightarrow> False
      | Some c \<Rightarrow> FirstName c \<noteq> [] \<or> LastName c \<noteq> [] \<or> Nickname c \<noteq> [])"

definition Contact_Name :: "Contact option \<Rightarrow> bytes" where
  "Contact_Name contact =
     (case contact of None \<Rightarrow> []
      | Some c \<Rightarrow>
          if FirstName c \<noteq> [] then
            (if LastName c \<noteq> [] then FirstName c @ '' '' @ LastName c else FirstName c)
          else if LastName c \<noteq> [] then LastName c
          else if Nickname c \<noteq> [] then Nickname c
          else (case Emails c of e # _ \<Rightarrow> e
                | [] \<Rightarrow> (case Phones c of p # _ \<Rightarrow> p | [] \<Rightarrow> [])))"

section \<open>cloud\_contacts.go: the lookup index\<close>

record cloudContacts =
  byPhone :: "bytes \<Rightarrow> Contact option"
  byEmail :: "bytes \<Rightarrow> Contact option"
  contacts :: "Contact list"

text \<open>Step 5 of \<open>SyncContacts\<close>: the caches are rebuilt from the fetched contacts; a later contact
  takes over a key of an earlier one.\<close>

definition indexContact :: "Contact \<Rightarrow> cloudContacts \<Rightarrow> cloudContacts" where
  "indexContact contact c =
     c\<lparr>byPhone := fold (\<lambda>suffix m. m(suffix \<mapsto> contact))
                     (concat (map phoneSuffixes (Phones contact))) (byPhone c),
       byEmail := fold (\<lambda>email m. m(ToLower email \<mapsto> contact)) (Emails contact) (byEmail c)\<rparr>"

definition buildContactIndex :: "Contact list \<Rightarrow> cloudContacts" where
  "buildContactIndex allContacts =
     fold indexContact allContacts \<lparr>byPhone = Map.empty, byEmail = Map.empty, contacts = allContacts\<rparr>"

fun firstHit :: "(bytes \<Rightarrow> Contact option) \<Rightarrow> bytes list \<Rightarrow> Contact option" where
  "firstHit m [] = None"
| "firstHit m (k # ks) = (case m k of Some c \<Rightarrow> Some c | None \<Rightarrow> firstHit m ks)"

definition carryOverAvatar :: "cloudContacts \<Rightarrow> Contact \<Rightarrow> Contact \<times> nat" where
  "carryOverAvatar c ct =
     (if AvatarURL ct = [] \<or> Avatar ct \<noteq> None then (ct, 0)
      else let old = (case firstHit (byPhone c) (concat (map phoneSuffixes (Phones ct))) of
                        Some o1 \<Rightarrow> Some o1
                      | None \<Rightarrow> firstHit (byEmail c) (map ToLower (Emails ct))) in
        (case old of
           Some o1 \<Rightarrow> if Avatar o1 \<noteq> None \<and> AvatarURL o1 = AvatarURL ct
                      then (ct\<lparr>Avatar := Avatar o1\<rparr>, 1) else (ct, 0)
         | None \<Rightarrow> (ct, 0)))"

definition carryOverAvatars :: "cloudContacts \<Rightarrow> Contact list \<Rightarrow> Contact list \<times> nat" where
  "carryOverAvatars c fresh =
     (if byPhone c = Map.empty \<and> byEmail c = Map.empty then (fresh, 0)
      else (map (fst \<circ> carryOverAvatar c) fresh, sum_list (map (snd \<circ> carryOverAvatar c) fresh)))"

definition GetContactInfo :: "cloudContacts \<Rightarrow> bytes \<Rightarrow> Contact option" where
  "GetContactInfo c identifier =
     (if \<not> HasPrefix identifier ''+'' \<and> Contains identifier ''@''
      then byEmail c (ToLower identifier)
      else firstHit (byPhone c) (phoneSuffixes identifier))"

section \<open>contact\_merge.go\<close>

record imenv =
  ie_contacts :: "cloudContacts option"
  ie_chatDB :: "(bytes \<Rightarrow> Contact option) option"
  ie_portalExists :: "bytes \<Rightarrow> bool"
  ie_client :: "(bytes list \<Rightarrow> bytes list option) option"
  ie_handle :: bytes
  ie_allHandles :: "bytes list"
  ie_loginID :: bytes

definition normalizePhoneForPortalID :: "bytes \<Rightarrow> bytes" where
  "normalizePhoneForPortalID phone =
     (let n = normalizePhone phone in
      if n = [] then []
      else if HasPrefix n ''+'' then n
      else if length n = 10 then ''+1'' @ n
      else if length n = 11 \<and> n ! 0 = CHR ''1'' then ''+'' @ n
      else ''+'' @ n)"

definition contactPortalIDs :: "Contact option \<Rightarrow> bytes list" where
  "contactPortalIDs contact =
     (case contact of None \<Rightarrow> []
      | Some c \<Rightarrow>
          dedup_by {}
            (map (\<lambda>n. ''tel:'' @ n) (filter (\<lambda>n. n \<noteq> []) (map normalizePhoneForPortalID (Phones c)))
             @ map (\<lambda>e. ''mailto:'' @ e)
                 (filter (\<lambda>e. e \<noteq> []) (map (\<lambda>e. ToLower (TrimSpace e)) (Emails c)))))"

definition lookupContact :: "imenv \<Rightarrow> bytes \<Rightarrow> Contact option" where
  "lookupContact c identifier =
     (let localID = stripIdentifierPrefix identifier in
      if localID = [] then None
      else case (case ie_contacts c of Some cc \<Rightarrow> GetContactInfo cc localID | None \<Rightarrow> None) of
          Some contact \<Rightarrow> Some contact
        | None \<Rightarrow> (case ie_chatDB c of Some api \<Rightarrow> api localID | None \<Rightarrow> None))"

definition resolveContactPortalID :: "imenv \<Rightarrow> bytes \<Rightarrow> bytes" where
  "resolveContactPortalID c identifier =
     (if Contains identifier '','' then identifier
      else let contact = lookupContact c identifier in
        if contact = None \<or> \<not> Contact_HasName contact then identifier
        else let altIDs = contactPortalIDs contact in
          if length altIDs \<le> 1 then identifier
          else case find (\<lambda>altID. altID \<noteq> identifier \<and> ie_portalExists c altID) altIDs of
              Some altID \<Rightarrow> altID
            | None \<Rightarrow> identifier)"

text \<open>A panic in the foreign call degrades to nothing validated.\<close>

definition validateTargetsSafe :: "imenv \<Rightarrow> bytes list \<Rightarrow> bytes list" where
  "validateTargetsSafe c targets =
     (case ie_client c of
        None \<Rightarrow> []
      | Some validate \<Rightarrow>
          if targets = [] then []
          else (case validate targets of Some valid \<Rightarrow> valid | None \<Rightarrow> []))"

definition pickSendTarget :: "bytes \<Rightarrow> bytes list \<Rightarrow> bytes set \<Rightarrow> bytes \<times> bool" where
  "pickSendTarget portalID altIDs validSet =
     (if portalID \<in> validSet then (portalID, True)
      else case find (\<lambda>altID. altID \<noteq> portalID \<and> altID \<in> validSet) altIDs of
          Some altID \<Rightarrow> (altID, True)
        | None \<Rightarrow> (portalID, False))"

definition resolveSendTarget :: "imenv \<Rightarrow> bytes \<Rightarrow> bytes" where
  "resolveSendTarget c portalID =
     (if ie_client c = None \<or> Contains portalID '','' then portalID
      else let contact = lookupContact c portalID; altIDs = contactPortalIDs contact in
        if contact = None \<or> length altIDs \<le> 1 then portalID
        else if validateTargetsSafe c [portalID] \<noteq> [] then portalID
        else let alternates = filter (\<lambda>altID. altID \<noteq> portalID) altIDs;
                 valid = validateTargetsSafe c alternates;
                 r = pickSendTarget portalID alternates (set valid) in
          if snd r then fst r else portalID)"

definition countStep :: "imenv \<Rightarrow> bytes \<Rightarrow> bytes set \<times> nat \<Rightarrow> bytes set \<times> nat" where
  "countStep c raw st =
     (case st of (seen, count) \<Rightarrow>
        let n = normalizeIdentifierForPortalID raw in
        if n = [] \<or> isMyHandle (ie_allHandles c) n \<or> n \<in> seen then (seen, count)
        else (insert n seen \<union> set (contactPortalIDs (lookupContact c n)), count + 1))"

definition countNonSelfMembers :: "imenv \<Rightarrow> bytes list \<Rightarrow> bytes option \<Rightarrow> nat" where
  "countNonSelfMembers c participants sender =
     snd (fold (countStep c) (participants @ (case sender of Some s \<Rightarrow> [s] | None \<Rightarrow> [])) ({}, 0))"

definition getContactChatGUIDs :: "imenv \<Rightarrow> bytes \<Rightarrow> bytes list" where
  "getContactChatGUIDs c portalID =
     (case lookupContact c portalID of
        None \<Rightarrow> portalIDToChatGUIDs portalID
      | Some contact \<Rightarrow>
          portalIDToChatGUIDs portalID
          @ concat (map portalIDToChatGUIDs
              (filter (\<lambda>altID. altID \<noteq> portalID) (contactPortalIDs (Some contact)))))"

definition contactKeyFromContact :: "Contact option \<Rightarrow> bytes" where
  "contactKeyFromContact contact =
     (if contact = None \<or> \<not> Contact_HasName contact then []
      else let phones = filter (\<lambda>n. n \<noteq> []) (map normalizePhoneForPortalID (Phones (the contact))) in
        if length phones \<le> 1 then [] else Join (sort phones) ''|'')"

definition canonicalContactHandle :: "imenv \<Rightarrow> bytes \<Rightarrow> bytes" where
  "canonicalContactHandle c identifier =
     (let contact = lookupContact c identifier in
      if contact = None \<or> \<not> Contact_HasName contact then identifier
      else let altIDs = contactPortalIDs contact in
        if length altIDs \<le> 1 then identifier
        else let s = sort altIDs in
          (case find (\<lambda>i. HasPrefix i ''tel:'') s of Some i \<Rightarrow> i | None \<Rightarrow> s ! 0))"

section \<open>Event senders\<close>

record EventSender =
  es_IsFromMe :: bool
  es_SenderLogin :: bytes
  es_Sender :: bytes

definition makeUserID :: "bytes \<Rightarrow> bytes" where
  "makeUserID identifier = identifier"

definition makeMessageID :: "bytes \<Rightarrow> bytes" where
  "makeMessageID guid = guid"

definition canonicalizeDMSender :: "bytes \<Rightarrow> EventSender \<Rightarrow> EventSender" where
  "canonicalizeDMSender portalID sender =
     (if es_IsFromMe sender then sender
      else if Contains portalID '','' \<or> HasPrefix portalID ''gid:'' then sender
      else if es_Sender sender \<noteq> makeUserID portalID
        then \<lparr>es_IsFromMe = False, es_SenderLogin = [], es_Sender = makeUserID portalID\<rparr>
      else sender)"

text \<open>\<open>makeEventSender\<close>; its retry of the double puppet is a side effect on bridgev2.\<close>

definition makeEventSender :: "imenv \<Rightarrow> bytes option \<Rightarrow> EventSender" where
  "makeEventSender c sender =
     (case sender of
        Some s \<Rightarrow>
          if s = [] \<or> isMyHandle (ie_allHandles c) s
          then \<lparr>es_IsFromMe = True, es_SenderLogin = ie_loginID c, es_Sender = makeUserID (ie_handle c)\<rparr>
          else \<lparr>es_IsFromMe = False, es_SenderLogin = [],
                es_Sender = makeUserID (normalizeIdentifierForPortalID s)\<rparr>
      | None \<Rightarrow>
          \<lparr>es_IsFromMe = True, es_SenderLogin = ie_loginID c, es_Sender = makeUserID (ie_handle c)\<rparr>)"

section \<open>client.go: resolveExistingDMPortalID\<close>

text \<open>The candidate spellings of a \<open>tel:\<close> portal, in the order they are tried.\<close>

definition dmCandidates :: "bytes \<Rightarrow> bytes list" where
  "dmCandidates identifier =
     (let local = TrimPrefix identifier ''tel:'' in
      dedup_by {identifier}
       (if HasPrefix local ''+'' then
          [''tel:'' @ TrimPrefix local ''+'']
          @ (if HasPrefix local ''+1'' \<and> length local = 12
             then [''tel:'' @ TrimPrefix local ''+1''] else [])
        else if isNumeric local then
          (if length local = 10 then [''tel:1'' @ local] else [])
          @ (if length local = 11 \<and> HasPrefix local ''1'' then [''tel:'' @ drop 1 local] else [])
        else []))"

definition resolveExistingDMPortalID :: "imenv \<Rightarrow> bytes \<Rightarrow> bytes" where
  "resolveExistingDMPortalID c identifier =
     (if identifier = [] \<or> Contains identifier '','' then identifier
      else if HasPrefix identifier ''mailto:'' then
        (case lookupContact c identifier of
           None \<Rightarrow> identifier
         | Some contact \<Rightarrow>
             (case find (\<lambda>altID. altID \<noteq> identifier \<and> ie_portalExists c altID)
                     (contactPortalIDs (Some contact)) of
                Some altID \<Rightarrow> altID | None \<Rightarrow> identifier))
      else if \<not> HasPrefix identifier ''tel:'' then identifier
      else (case find (ie_portalExists c) (dmCandidates identifier) of
              Some candidate \<Rightarrow> candidate | None \<Rightarrow> identifier))"

section \<open>The lookup index\<close>

text \<open>The keys under which the index files a contact.\<close>

definition phoneKeys :: "Contact \<Rightarrow> bytes set" where
  "phoneKeys ct = set (concat (map phoneSuffixes (Phones ct)))"

definition emailKeys :: "Contact \<Rightarrow> bytes set" where
  "emailKeys ct = ToLower ` set (Emails ct)"

lemma fold_upd: "fold (\<lambda>s m. m(s \<mapsto> v)) ks m k = (if k \<in> set ks then Some v else m k)"
  by (induction ks arbitrary: m) auto

lemma fold_upd_f: "fold (\<lambda>s m. m(f s \<mapsto> v)) ks m k = (if k \<in> f ` set ks then Some v else m k)"
  by (induction ks arbitrary: m) auto

lemma find_append: "find P (xs @ ys) = (case find P xs of Some x \<Rightarrow> Some x | None \<Rightarrow> find P ys)"
  by (induction xs) auto

lemma index_fold:
  "byPhone (fold indexContact cs st) k =
     (case find (\<lambda>ct. k \<in> phoneKeys ct) (rev cs) of Some ct \<Rightarrow> Some ct | None \<Rightarrow> byPhone st k)"
  "byEmail (fold indexContact cs st) k =
     (case find (\<lambda>ct. k \<in> emailKeys ct) (rev cs) of Some ct \<Rightarrow> Some ct | None \<Rightarrow> byEmail st k)"
  by (induction cs arbitrary: st)
     (auto simp: indexContact_def fold_upd fold_upd_f phoneKeys_def emailKeys_def find_append
           split: option.splits)

lemma byPhone_index: "byPhone (buildContactIndex cs) k = find (\<lambda>ct. k \<in> phoneKeys ct) (rev cs)"
  by (simp add: buildContactIndex_def index_fold split: option.split)

lemma byEmail_index: "byEmail (buildContactIndex cs) k = find (\<lambda>ct. k \<in> emailKeys ct) (rev cs)"
  by (simp add: buildContactIndex_def index_fold split: option.split)

lemma firstHit_Some: "firstHit m ks = Some c \<Longrightarrow> \<exists>k\<in>set ks. m k = Some c"
  by (induction ks) (auto split: option.splits)

lemma firstHit_None: "firstHit m ks = None \<longleftrightarrow> (\<forall>k\<in>set ks. m k = None)"
  by (induction ks) (auto split: option.splits)

lemma firstHit_first: "firstHit m (k # ks) = Some c \<Longrightarrow> m k \<noteq> None \<Longrightarrow> m k = Some c"
  by (auto split: option.splits)

lemma set_contactPortalIDs:
  "set (contactPortalIDs (Some ct)) =
     (\<lambda>n. ''tel:'' @ n) ` {n \<in> normalizePhoneForPortalID ` set (Phones ct). n \<noteq> []}
     \<union> (\<lambda>e. ''mailto:'' @ e) ` {e \<in> (\<lambda>e. ToLower (TrimSpace e)) ` set (Emails ct). e \<noteq> []}"
  by (auto simp: contactPortalIDs_def)

lemma normalizePhoneForPortalID_plus:
  "normalizePhoneForPortalID p \<noteq> [] \<Longrightarrow> HasPrefix (normalizePhoneForPortalID p) ''+''"
  by (auto simp: normalizePhoneForPortalID_def Let_def HasPrefix_def split: if_splits)

lemma carryOver_guard: "carryOverAvatars c fresh =
    (map (fst \<circ> carryOverAvatar c) fresh, sum_list (map (snd \<circ> carryOverAvatar c) fresh))"
proof -
  have none: "firstHit Map.empty ks = None" for ks by (simp add: firstHit_None)
  have "carryOverAvatar c = (\<lambda>ct. (ct, 0))" if "byPhone c = Map.empty" "byEmail c = Map.empty"
    by (rule ext) (simp only: carryOverAvatar_def that none Let_def option.case if_cancel)
  then show ?thesis
    by (cases "byPhone c = Map.empty"; cases "byEmail c = Map.empty")
       (simp_all add: carryOverAvatars_def comp_def)
qed

section \<open>Where a contact may come from\<close>

text \<open>What the portal code relies on: a lookup returns one of the contacts of the address book.  The
  contract is met by the synced CardDAV index, with no chat.db beside it.\<close>

locale contact_source =
  fixes lookup :: "bytes \<Rightarrow> Contact option" and known :: "Contact list"
  assumes lookup_known: "lookup i = Some ct \<Longrightarrow> ct \<in> set known"
begin

definition reachable_ids :: "bytes set" where
  "reachable_ids = \<Union> ((\<lambda>ct. set (contactPortalIDs (Some ct))) ` set known)"

lemma found_ids: "lookup i = Some ct \<Longrightarrow> set (contactPortalIDs (Some ct)) \<subseteq> reachable_ids"
  using lookup_known by (auto simp: reachable_ids_def)

lemma alias_known: "x \<in> set (contactPortalIDs (lookup i)) \<Longrightarrow> x \<in> reachable_ids"
  using found_ids by (cases "lookup i") (auto simp: contactPortalIDs_def [of None])

end

definition syncedEnv :: "Contact list \<Rightarrow> imenv \<Rightarrow> imenv" where
  "syncedEnv cs c = c\<lparr>ie_contacts := Some (buildContactIndex cs), ie_chatDB := None\<rparr>"

lemma GetContactInfo_mem: "GetContactInfo (buildContactIndex cs) i = Some ct \<Longrightarrow> ct \<in> set cs"
  by (auto simp: GetContactInfo_def byPhone_index byEmail_index split: if_splits
           dest!: firstHit_Some find_Some_mem)

lemma syncedEnv_lookup:
  "lookupContact (syncedEnv cs c) i =
     (if stripIdentifierPrefix i = [] then None
      else GetContactInfo (buildContactIndex cs) (stripIdentifierPrefix i))"
  by (simp add: lookupContact_def syncedEnv_def Let_def split: option.split)

interpretation book: contact_source "lookupContact (syncedEnv cs c)" cs for cs c
  by unfold_locales (auto simp: syncedEnv_lookup GetContactInfo_mem split: if_splits)

section \<open>Counting the members of a group\<close>

lemma countStep_mono:
  "fst st \<subseteq> fst (countStep c r st)"
  by (auto simp: countStep_def Let_def split: prod.splits)

lemma count_bound:
  assumes "finite S" "\<forall>r\<in>set rs. normalizeIdentifierForPortalID r = [] \<or>
     isMyHandle (ie_allHandles c) (normalizeIdentifierForPortalID r) \<or> normalizeIdentifierForPortalID r \<in> S"
  shows "snd (fold (countStep c) rs (seen, k)) \<le> k + card (S - seen)"
  using assms(2)
proof (induction rs arbitrary: seen k)
  case Nil
  then show ?case by simp
next
  case (Cons r rs)
  define n where "n = normalizeIdentifierForPortalID r"
  show ?case
  proof (cases "n = [] \<or> isMyHandle (ie_allHandles c) n \<or> n \<in> seen")
    case True
    then have "countStep c r (seen, k) = (seen, k)" by (simp add: countStep_def n_def)
    then show ?thesis using Cons by simp
  next
    case False
    define seen' where "seen' = insert n seen \<union> set (contactPortalIDs (lookupContact c n))"
    have st: "countStep c r (seen, k) = (seen', k + 1)"
      using False by (simp add: countStep_def Let_def n_def seen'_def)
    have nS: "n \<in> S - seen" using Cons.prems False by (auto simp: n_def)
    have "card (S - seen') \<le> card (S - seen - {n})"
      using assms(1) by (intro card_mono) (auto simp: seen'_def)
    then have "card (S - seen') + 1 \<le> card (S - seen)"
      using card_Suc_Diff1 [OF _ nS] assms(1) by simp
    moreover have "snd (fold (countStep c) rs (seen', k + 1)) \<le> k + 1 + card (S - seen')"
      using Cons.IH [of seen' "k + 1"] Cons.prems by simp
    ultimately show ?thesis using st by simp
  qed
qed

lemma count_pos:
  "k \<le> snd (fold (countStep c) rs (seen, k))"
proof (induction rs arbitrary: seen k)
  case (Cons r rs)
  obtain s' k' where st: "countStep c r (seen, k) = (s', k')" "k \<le> k'"
    by (cases "countStep c r (seen, k)") (auto simp: countStep_def Let_def split: if_splits)
  then show ?case using Cons [where seen = s' and k = k'] by simp
qed simp

lemma count_zero:
  "snd (fold (countStep c) rs ({}, 0)) = 0 \<longleftrightarrow>
   (\<forall>r\<in>set rs. normalizeIdentifierForPortalID r = [] \<or>
      isMyHandle (ie_allHandles c) (normalizeIdentifierForPortalID r))"
proof (induction rs)
  case (Cons r rs)
  define n where "n = normalizeIdentifierForPortalID r"
  show ?case
  proof (cases "n = [] \<or> isMyHandle (ie_allHandles c) n")
    case True
    then show ?thesis using Cons by (auto simp: countStep_def n_def)
  next
    case False
    then obtain s where "countStep c r ({}, 0) = (s, 1)" by (simp add: countStep_def Let_def n_def)
    then show ?thesis using count_pos [of 1 c rs s] False by (simp add: n_def)
  qed
qed simp


abbreviation skipped :: "imenv \<Rightarrow> bytes \<Rightarrow> bool" where
  "skipped c n \<equiv> n = [] \<or> isMyHandle (ie_allHandles c) n"

lemma count_seen:
  "\<forall>r\<in>set rs. skipped c (normalizeIdentifierForPortalID r) \<or> normalizeIdentifierForPortalID r \<in> seen
   \<Longrightarrow> fold (countStep c) rs (seen, k) = (seen, k)"
  by (induction rs) (auto simp: countStep_def Let_def)

lemma count_one_person:
  assumes "\<forall>r\<in>set rs. skipped c (normalizeIdentifierForPortalID r) \<or>
     normalizeIdentifierForPortalID r \<in> set (contactPortalIDs (Some ct))
     \<and> lookupContact c (normalizeIdentifierForPortalID r) = Some ct"
  shows "snd (fold (countStep c) rs ({}, 0)) \<le> 1"
  using assms
proof (induction rs)
  case (Cons r rs)
  define n where "n = normalizeIdentifierForPortalID r"
  show ?case
  proof (cases "skipped c n")
    case True
    then show ?thesis using Cons by (simp add: countStep_def Let_def n_def)
  next
    case False
    then have "countStep c r ({}, 0) = (insert n (set (contactPortalIDs (Some ct))), 1)"
      using Cons.prems by (simp add: countStep_def Let_def n_def)
    moreover have "fold (countStep c) rs (insert n (set (contactPortalIDs (Some ct))), 1)
        = (insert n (set (contactPortalIDs (Some ct))), 1)"
      using Cons.prems by (intro count_seen) auto
    ultimately show ?thesis by simp
  qed
qed simp



lemma dm_forms:
  assumes "list_all digitChar d" "length d = 10"
  shows "set (dmCandidates (''tel:+1'' @ d)) = {''tel:1'' @ d, ''tel:'' @ d}"
    and "set (dmCandidates (''tel:1'' @ d)) = {''tel:'' @ d}"
    and "set (dmCandidates (''tel:'' @ d)) = {''tel:1'' @ d}"
proof -
  have a: "ascii d" "ascii (CHR ''1'' # d)" using digits_ascii [OF assms(1)] by (auto simp: ascii_def)
  have np: "\<not> HasPrefix d ''+''" using assms by (cases d) (auto simp: HasPrefix_def)
  show "set (dmCandidates (''tel:+1'' @ d)) = {''tel:1'' @ d, ''tel:'' @ d}"
    using assms(2) by (auto simp: dmCandidates_def Let_def TrimPrefix_def HasPrefix_def)
  show "set (dmCandidates (''tel:1'' @ d)) = {''tel:'' @ d}"
    using assms a by (auto simp: dmCandidates_def Let_def TrimPrefix_def HasPrefix_def isNumeric_ascii digitChar_def)
  show "set (dmCandidates (''tel:'' @ d)) = {''tel:1'' @ d}"
    using assms a np by (auto simp: dmCandidates_def Let_def TrimPrefix_def HasPrefix_def isNumeric_ascii digitChar_def)
qed

section \<open>Properties\<close>

text \<open>The CardDAV lookup is sound and complete for the synced contacts: a hit is a synced contact that
  shares the e-mail address or one of the phone suffixes with the identifier, and a miss means no
  synced contact does.\<close>

theorem GetContactInfo_index:
  "(case GetContactInfo (buildContactIndex cs) i of
      Some ct \<Rightarrow> ct \<in> set cs \<and>
        (if \<not> HasPrefix i ''+'' \<and> Contains i ''@'' then ToLower i \<in> emailKeys ct
         else phoneKeys ct \<inter> set (phoneSuffixes i) \<noteq> {})
    | None \<Rightarrow> list_all (\<lambda>ct. if \<not> HasPrefix i ''+'' \<and> Contains i ''@'' then ToLower i \<notin> emailKeys ct
         else phoneKeys ct \<inter> set (phoneSuffixes i) = {}) cs)"
proof (cases "\<not> HasPrefix i ''+'' \<and> Contains i ''@''")
  case True
  then show ?thesis
    by (auto simp: GetContactInfo_def byEmail_index list_all_iff find_None_all
             split: option.split dest!: find_Some_mem)
next
  case False
  then have g: "GetContactInfo (buildContactIndex cs) i =
      firstHit (byPhone (buildContactIndex cs)) (phoneSuffixes i)"
    by (simp only: GetContactInfo_def if_False)
  show ?thesis
  proof (cases "GetContactInfo (buildContactIndex cs) i")
    case None
    then show ?thesis unfolding None if_not_P [OF False]
      using None g by (auto simp: firstHit_None byPhone_index find_None_all list_all_iff)
  next
    case (Some ct)
    then obtain k where "k \<in> set (phoneSuffixes i)" "byPhone (buildContactIndex cs) k = Some ct"
      unfolding g using firstHit_Some by fastforce
    then show ?thesis unfolding Some if_not_P [OF False]
      by (auto simp: byPhone_index dest!: find_Some_mem)
  qed
qed

text \<open>Resolving a contact's portal never leaves the address book: the answer is the identifier
  itself, or another handle of one named synced contact that already has a portal; group
  identifiers are never redirected.\<close>

theorem resolve_within_book:
  "resolveContactPortalID (syncedEnv cs c) i = i
   \<or> ie_portalExists c (resolveContactPortalID (syncedEnv cs c) i)
     \<and> \<not> Contains i '',''
     \<and> (\<exists>ct\<in>set cs. Contact_HasName (Some ct)
          \<and> resolveContactPortalID (syncedEnv cs c) i \<in> set (contactPortalIDs (Some ct)))"
proof -
  have e: "ie_portalExists (syncedEnv cs c) = ie_portalExists c" by (simp add: syncedEnv_def)
  show ?thesis
  proof (cases "lookupContact (syncedEnv cs c) i")
    case None
    then show ?thesis by (simp add: resolveContactPortalID_def)
  next
    case (Some ct)
    note m = book.lookup_known [OF Some]
    show ?thesis using m
      by (auto simp: resolveContactPortalID_def Some e Let_def split: option.split dest!: find_Some_mem)
  qed
qed

text \<open>The send target is the portal's own handle unless iMessage does not know that handle, and then
  the first other handle of the same contact that iMessage validates; a group, a missing client, an
  unknown contact or a contact with a single handle leave the target alone.  The hypothesis is what
  the validation call promises: it answers with a subset of what it was asked.\<close>

theorem resolveSendTarget_spec:
  assumes "alts = filter (\<lambda>a. a \<noteq> portalID) (contactPortalIDs (lookupContact c portalID))"
    and "set (validateTargetsSafe c alts) \<subseteq> set alts"
  shows "resolveSendTarget c portalID =
    (if ie_client c = None \<or> Contains portalID '','' \<or> lookupContact c portalID = None
        \<or> length (contactPortalIDs (lookupContact c portalID)) \<le> 1
        \<or> validateTargetsSafe c [portalID] \<noteq> []
     then portalID
     else (case find (\<lambda>a. a \<in> set (validateTargetsSafe c alts)) alts of
             Some a \<Rightarrow> a | None \<Rightarrow> portalID))"
proof -
  have np: "portalID \<notin> set (validateTargetsSafe c alts)" using assms by auto
  have eq: "find (\<lambda>a. a \<noteq> portalID \<and> a \<in> V) alts = find (\<lambda>a. a \<in> V) alts" for V
    by (rule find_cong) (auto simp: assms(1))
  show ?thesis
    unfolding resolveSendTarget_def Let_def pickSendTarget_def assms(1) [symmetric] eq
    using np by (simp add: if_not_P split: option.split)
qed

text \<open>All handles of one contact fold to one canonical handle, which is one of the contact's own
  portal identifiers, and a phone number whenever the contact has one.\<close>

theorem canonical_handle:
  assumes "lookupContact c i = Some ct" "lookupContact c j = Some ct"
    and "Contact_HasName (Some ct)" "1 < length (contactPortalIDs (Some ct))"
  shows "canonicalContactHandle c i = canonicalContactHandle c j
    \<and> canonicalContactHandle c i \<in> set (contactPortalIDs (Some ct))
    \<and> (if list_ex (\<lambda>a. HasPrefix a ''tel:'') (contactPortalIDs (Some ct))
       then HasPrefix (canonicalContactHandle c i) ''tel:'' else True)"
proof -
  let ?s = "sort (contactPortalIDs (Some ct))"
  have h: "canonicalContactHandle c k =
      (case find (\<lambda>i. HasPrefix i ''tel:'') ?s of Some i \<Rightarrow> i | None \<Rightarrow> ?s ! 0)"
    if "lookupContact c k = Some ct" for k
    using that assms(3,4) by (simp add: canonicalContactHandle_def Let_def)
  have n: "?s ! 0 \<in> set (contactPortalIDs (Some ct))"
    using nth_mem [of 0 ?s] assms(4) by (metis One_nat_def length_sort less_imp_not_less neq0_conv set_sort not_one_less_zero)
  show ?thesis unfolding h [OF assms(1)] h [OF assms(2)]
    using n by (auto simp: find_None_all list_ex_iff split: option.split dest!: find_Some_mem)
qed

text \<open>The member count used to tell a group from a direct conversation counts no one twice: it never
  exceeds the number of distinct normalised non-self members, is zero exactly when there are none, and is
  at most one when every other member is a handle of the same contact.\<close>

theorem countNonSelf_spec:
  "let others = {n \<in> normalizeIdentifierForPortalID `
        set (participants @ (case sender of Some s \<Rightarrow> [s] | None \<Rightarrow> [])). \<not> skipped c n} in
     countNonSelfMembers c participants sender \<le> card others
     \<and> (countNonSelfMembers c participants sender = 0) = (others = {})
     \<and> (if others \<subseteq> {n \<in> set (contactPortalIDs (Some ct)). lookupContact c n = Some ct}
        then countNonSelfMembers c participants sender \<le> 1 else True)"
proof -
  let ?ms = "participants @ (case sender of Some s \<Rightarrow> [s] | None \<Rightarrow> [])"
  define others where "others = {n \<in> normalizeIdentifierForPortalID ` set ?ms. \<not> skipped c n}"
  have "finite others"
    unfolding others_def by (rule finite_subset [OF Collect_subset]) (rule finite_imageI [OF finite_set])
  then have "countNonSelfMembers c participants sender \<le> card others"
    using count_bound [of others ?ms c "{}" 0] unfolding countNonSelfMembers_def by (auto simp: others_def)
  moreover have "(countNonSelfMembers c participants sender = 0) = (others = {})"
    unfolding countNonSelfMembers_def count_zero others_def by blast
  moreover have "countNonSelfMembers c participants sender \<le> 1"
    if "others \<subseteq> {n \<in> set (contactPortalIDs (Some ct)). lookupContact c n = Some ct}"
    unfolding countNonSelfMembers_def using that by (intro count_one_person) (auto simp: others_def)
  ultimately show ?thesis by (simp only: Let_def others_def [symmetric] simp_thms if_True) simp
qed

text \<open>Looking for an existing direct portal under the other spellings of a ten-digit national number
  only ever switches to a portal that exists and stands for the same number.\<close>

theorem existing_dm_same_number:
  assumes "list_all digitChar d" "length d = 10" "i \<in> set [''tel:+1'' @ d, ''tel:1'' @ d, ''tel:'' @ d]"
  shows "normalizeIdentifierForPortalID (resolveExistingDMPortalID c i) = ''tel:+1'' @ d
    \<and> (resolveExistingDMPortalID c i = i \<or> ie_portalExists c (resolveExistingDMPortalID c i))"
proof -
  let ?r = "resolveExistingDMPortalID c i"
  have comma: "CHR '','' \<notin> set d" using assms(1) by (auto simp: list_all_iff digitChar_def)
  have i: "i \<noteq> []" "\<not> Contains i '',''" "\<not> HasPrefix i ''mailto:''" "HasPrefix i ''tel:''"
    using assms(3) comma by auto
  have r: "?r = (case find (ie_portalExists c) (dmCandidates i) of Some x \<Rightarrow> x | None \<Rightarrow> i)"
    using i by (simp only: resolveExistingDMPortalID_def simp_thms if_False if_True)
  have "?r \<in> insert i (set (dmCandidates i)) \<and> (?r = i \<or> ie_portalExists c ?r)"
    unfolding r by (auto split: option.split dest!: find_Some_mem)
  moreover have "insert i (set (dmCandidates i)) \<subseteq> set [''tel:+1'' @ d, ''tel:1'' @ d, ''tel:'' @ d]"
    using assms(3) dm_forms [OF assms(1,2)] by auto
  ultimately obtain w where w: "w \<in> set [''+1'' @ d, ''1'' @ d, d]" "?r = ''tel:'' @ w"
    and e: "?r = i \<or> ie_portalExists c ?r" by auto
  have "phone_form w" "w \<noteq> []"
    using w(1) assms(1,2) digits_phone_form [of w] by (auto simp: phone_form_def [of "_ # _"] digitChar_def)
  then have "normalizeIdentifierForPortalID ?r = ''tel:'' @ normalizePhoneIdentifierForPortalID w"
    using normalize_phone_text [of w ?r "[]" "[]"] w(2) by simp
  also have "normalizePhoneIdentifierForPortalID w = ''+1'' @ d"
    using w(1) national_forms [OF assms(1,2)] by auto
  finally show ?thesis using e by simp
qed

lemmas contact_eval = id_eval lookupContact_def GetContactInfo_def phoneSuffixes_def normalizePhone_ascii
  contactPortalIDs_def Contact_HasName_def normalizePhoneForPortalID_def lastN_def

definition sampleContact :: Contact where
  "sampleContact = \<lparr>FirstName = ''Ada'', LastName = [], Nickname = [], Avatar = None, AvatarURL = [],
     Phones = [''+12155167207''], Emails = [''ada@x.org''], UserGUID = [], PrimaryIdentifier = []\<rparr>"

definition sampleEnv :: imenv where
  "sampleEnv = \<lparr>ie_contacts = Some (buildContactIndex [sampleContact]), ie_chatDB = None,
     ie_portalExists = (\<lambda>i. i = ''tel:12155167207'' \<or> i = ''tel:4512345678''),
     ie_client = Some (\<lambda>ts. Some (filter (\<lambda>t. t = ''mailto:ada@x.org'') ts)), ie_handle = ''tel:+15550001111'',
     ie_allHandles = [''tel:+15550001111''], ie_loginID = ''login''\<rparr>"

lemma existing_dm_same_number_witness:
  "normalizeIdentifierForPortalID (resolveExistingDMPortalID sampleEnv ''tel:+12155167207'') = ''tel:+12155167207''"
  using existing_dm_same_number [of "''2155167207''" "''tel:+12155167207''" sampleEnv]
  by (simp add: digitChar_def)

lemma sample_lookup:
  "lookupContact sampleEnv ''tel:+12155167207'' = Some sampleContact"
  "lookupContact sampleEnv ''mailto:ADA@x.org'' = Some sampleContact"
  "contactPortalIDs (Some sampleContact) = [''tel:+12155167207'', ''mailto:ada@x.org'']"
  by (simp_all add: contact_eval sampleEnv_def sampleContact_def byPhone_index byEmail_index
        phoneKeys_def emailKeys_def)

lemma sample_validate:
  "ie_client sampleEnv \<noteq> None"
  "validateTargetsSafe sampleEnv ts = filter (\<lambda>t. t = ''mailto:ada@x.org'') ts"
  by (simp_all add: sampleEnv_def validateTargetsSafe_def)

lemma resolveSendTarget_spec_witness:
  "resolveSendTarget sampleEnv ''tel:+12155167207'' = ''mailto:ada@x.org''"
  using resolveSendTarget_spec [of "[''mailto:ada@x.org'']" "''tel:+12155167207''" sampleEnv]
  by (simp add: sample_lookup sample_validate)

lemma canonical_handle_witness:
  "canonicalContactHandle sampleEnv ''tel:+12155167207'' = canonicalContactHandle sampleEnv ''mailto:ADA@x.org''"
  using canonical_handle [OF sample_lookup(1,2)] by (simp add: sample_lookup(3)) (simp add: sampleContact_def Contact_HasName_def)

text \<open>A ten-digit foreign number: dropping the plus sign of a Danish number gives what the code's own
  normalisation reads as a North American one, so the search for an existing portal can join two people.\<close>

lemma existing_dm_other_number:
  "resolveExistingDMPortalID sampleEnv ''tel:+4512345678'' = ''tel:4512345678''"
  "normalizeIdentifierForPortalID ''tel:4512345678'' = ''tel:+14512345678''"
  by (simp_all add: contact_eval resolveExistingDMPortalID_def dmCandidates_def sampleEnv_def
        normalizeIdentifierForPortalID_def normalizePhoneIdentifierForPortalID_def)

end
