(* ===== verification/GoNumbers.thy ===== *)
theory GoNumbers
  imports GoStrings
begin

text \<open>
  \<open>strconv.Itoa\<close> and \<open>strconv.Atoi\<close> of Go on a 64-bit platform: an \<open>int\<close> is 64 bits wide, and
  \<open>Atoi\<close> returns a value beside its error (0 for bad syntax, the nearest bound when out of range).
\<close>

definition digitByte :: "nat \<Rightarrow> char" where
  "digitByte d = char_of (48 + d)"

fun natDigits :: "nat \<Rightarrow> bytes" where
  "natDigits n = (if n < 10 then [digitByte n] else natDigits (n div 10) @ [digitByte (n mod 10)])"

declare natDigits.simps [simp del]

definition Itoa :: "int \<Rightarrow> bytes" where
  "Itoa i = (if i < 0 then CHR ''-'' # natDigits (nat (- i)) else natDigits (nat i))"

datatype num_error = ErrSyntax | ErrRange

definition digitVal :: "char \<Rightarrow> nat option" where
  "digitVal c = (if 48 \<le> (of_char c :: nat) \<and> of_char c \<le> (57 :: nat) then Some (of_char c - 48) else None)"

fun digitsVal :: "nat \<Rightarrow> bytes \<Rightarrow> nat option" where
  "digitsVal acc [] = Some acc"
| "digitsVal acc (c # cs) =
     (case digitVal c of None \<Rightarrow> None | Some d \<Rightarrow> digitsVal (acc * 10 + d) cs)"

definition maxInt64 :: int where "maxInt64 = 9223372036854775807"
definition minInt64 :: int where "minInt64 = - 9223372036854775808"

definition Atoi :: "bytes \<Rightarrow> int \<times> num_error option" where
  "Atoi s =
     (let neg = (s \<noteq> [] \<and> hd s = CHR ''-'');
          body = (if s \<noteq> [] \<and> (hd s = CHR ''-'' \<or> hd s = CHR ''+'') then tl s else s) in
      if body = [] then (0, Some ErrSyntax)
      else case digitsVal 0 body of
          None \<Rightarrow> (0, Some ErrSyntax)
        | Some n \<Rightarrow>
            let v = (if neg then - int n else int n) in
            if maxInt64 < v then (maxInt64, Some ErrRange)
            else if v < minInt64 then (minInt64, Some ErrRange)
            else (v, None))"

lemma of_digitByte: "d < 10 \<Longrightarrow> of_char (digitByte d) = 48 + d"
  by (simp add: digitByte_def)

lemma digitVal_digitByte [simp]: "d < 10 \<Longrightarrow> digitVal (digitByte d) = Some d"
  by (simp add: digitVal_def of_digitByte)

lemma digitsVal_append:
  "digitsVal acc (xs @ ys) = (case digitsVal acc xs of None \<Rightarrow> None | Some v \<Rightarrow> digitsVal v ys)"
  by (induction acc xs rule: digitsVal.induct) (auto split: option.splits)

lemma digitsVal_natDigits: "digitsVal 0 (natDigits n) = Some n"
proof (induction n rule: natDigits.induct)
  case (1 n)
  then show ?case
    by (cases "n < 10") (simp_all add: natDigits.simps [of n] digitsVal_append)
qed

lemma natDigits_digits: "\<forall>c\<in>set (natDigits n). digitVal c \<noteq> None"
proof (induction n rule: natDigits.induct)
  case (1 n)
  then show ?case
    by (cases "n < 10") (auto simp: natDigits.simps [of n])
qed

lemma natDigits_nonempty [simp]: "natDigits n \<noteq> []"
  by (subst natDigits.simps) simp

lemma natDigits_inj: "natDigits m = natDigits n \<longleftrightarrow> m = n"
  by (metis digitsVal_natDigits option.inject)

lemma digit_not_sign: "digitVal c \<noteq> None \<Longrightarrow> c \<noteq> CHR ''-'' \<and> c \<noteq> CHR ''+'' \<and> c \<noteq> CHR ''/'' \<and> c \<noteq> CHR ''_''"
  by (auto simp: digitVal_def)

lemma natDigits_hd: "hd (natDigits n) \<noteq> CHR ''-'' \<and> hd (natDigits n) \<noteq> CHR ''+''"
  using natDigits_digits [of n] digit_not_sign [of "hd (natDigits n)"] hd_in_set [of "natDigits n"] by auto

lemma natDigits_free: "CHR ''/'' \<notin> set (natDigits n)" "CHR ''_'' \<notin> set (natDigits n)" "CHR ''-'' \<notin> set (natDigits n)"
  using natDigits_digits [of n] digit_not_sign by blast+

lemma Itoa_free: "CHR ''/'' \<notin> set (Itoa i)" "CHR ''_'' \<notin> set (Itoa i)"
  by (simp_all add: Itoa_def natDigits_free)

lemma Itoa_inj: "Itoa i = Itoa j \<longleftrightarrow> i = j"
proof
  assume eq: "Itoa i = Itoa j"
  have "hd (natDigits (nat k)) \<noteq> CHR ''-''" for k using natDigits_hd by blast
  with eq show "i = j"
    by (auto simp: Itoa_def natDigits_inj split: if_splits) (metis list.sel(1))+
qed simp

lemma Atoi_Itoa: "minInt64 \<le> i \<Longrightarrow> i \<le> maxInt64 \<Longrightarrow> Atoi (Itoa i) = (i, None)"
  using natDigits_hd [of "nat i"]
  by (auto simp: Atoi_def Itoa_def Let_def digitsVal_natDigits)

end
