(* ===== verification/Tapback.thy ===== *)
theory Tapback
  imports GoNumbers
begin

text \<open>
  \<open>imessage/tapback.go\<close>: parsing a tapback (reaction) and converting its type from and to emoji and
  names.  \<open>Parse\<close> writes to its receiver before it can fail, so the model returns the receiver as
  it is left together with the error.
\<close>

type_synonym TapbackType = int

definition TapbackLove :: TapbackType where "TapbackLove = 2000"
definition TapbackLike :: TapbackType where "TapbackLike = 2001"
definition TapbackDislike :: TapbackType where "TapbackDislike = 2002"
definition TapbackLaugh :: TapbackType where "TapbackLaugh = 2003"
definition TapbackEmphasis :: TapbackType where "TapbackEmphasis = 2004"
definition TapbackQuestion :: TapbackType where "TapbackQuestion = 2005"
definition TapbackRemoveOffset :: int where "TapbackRemoveOffset = 1000"

lemmas tapback_consts = TapbackLove_def TapbackLike_def TapbackDislike_def TapbackLaugh_def
  TapbackEmphasis_def TapbackQuestion_def TapbackRemoveOffset_def

record Tapback =
  TargetGUID :: bytes
  TargetPart :: int
  Remove :: bool
  TType :: TapbackType

datatype tapback_error =
    ErrUnknownNormalTapbackTarget bytes
  | ErrInvalidTapbackTargetPart bytes num_error
  | ErrUnknownTapbackTargetType bytes

definition Tapback_Parse :: "Tapback \<Rightarrow> tapback_error option \<times> Tapback" where
  "Tapback_Parse t0 =
     (let t = (if 3000 \<le> TType t0 \<and> TType t0 < 4000
               then t0\<lparr>TType := TType t0 - TapbackRemoveOffset, Remove := True\<rparr> else t0) in
      if HasPrefix (TargetGUID t) ''bp:'' then
        (None, t\<lparr>TargetGUID := drop 3 (TargetGUID t)\<rparr>)
      else if HasPrefix (TargetGUID t) ''p:'' then
        let targetParts = Split (drop 2 (TargetGUID t)) (CHR ''/'') in
        if length targetParts = 2 then
          (case Atoi (targetParts ! 0) of
             (n, Some e) \<Rightarrow> (Some (ErrInvalidTapbackTargetPart (TargetGUID t) e), t\<lparr>TargetPart := n\<rparr>)
           | (n, None) \<Rightarrow> (None, t\<lparr>TargetPart := n, TargetGUID := targetParts ! 1\<rparr>))
        else (Some (ErrUnknownNormalTapbackTarget (TargetGUID t)), t)
      else (Some (ErrUnknownTapbackTargetType (TargetGUID t)), t))"

text \<open>\<open>[]rune(emoji)[0]\<close> panics on an empty string: \<open>None\<close>.\<close>

definition TapbackFromEmoji :: "bytes \<Rightarrow> TapbackType option" where
  "TapbackFromEmoji emoji =
     (case runes emoji of [] \<Rightarrow> None
      | (r, _) # _ \<Rightarrow> Some
         (if r \<in> set [0x2665, 0x2764, 0x1F499, 0x1F49A, 0x1F90E, 0x1F5A4, 0x1F90D, 0x1F9E1,
                      0x1F49B, 0x1F49C, 0x1F496, 0x2763, 0x1F495, 0x1F49F] then TapbackLove
          else if r = 0x1F44D then TapbackLike
          else if r = 0x1F44E then TapbackDislike
          else if r \<in> set [0x1F602, 0x1F639, 0x1F606, 0x1F923] then TapbackLaugh
          else if r \<in> set [0x2755, 0x2757, 0x203C] then TapbackEmphasis
          else if r \<in> set [0x2753, 0x2754] then TapbackQuestion
          else 0))"

definition TapbackFromName :: "bytes \<Rightarrow> TapbackType" where
  "TapbackFromName name =
     (if name = ''love'' then TapbackLove
      else if name = ''like'' then TapbackLike
      else if name = ''dislike'' then TapbackDislike
      else if name = ''laugh'' then TapbackLaugh
      else if name = ''emphasize'' then TapbackEmphasis
      else if name = ''question'' then TapbackQuestion
      else 0)"

definition TapbackType_Emoji :: "TapbackType \<Rightarrow> bytes" where
  "TapbackType_Emoji amt =
     concat (map encodeRune
       (if amt = 0 then []
        else if amt = TapbackLove then [0x2764, 0xFE0F]
        else if amt = TapbackLike then [0x1F44D, 0xFE0F]
        else if amt = TapbackDislike then [0x1F44E, 0xFE0F]
        else if amt = TapbackLaugh then [0x1F602]
        else if amt = TapbackEmphasis then [0x203C, 0xFE0F]
        else if amt = TapbackQuestion then [0x2753, 0xFE0F]
        else [0xFFFD]))"

definition TapbackType_String :: "TapbackType \<Rightarrow> bytes" where
  "TapbackType_String amt = TapbackType_Emoji amt"

definition TapbackType_Name :: "TapbackType \<Rightarrow> bytes" where
  "TapbackType_Name amt =
     (if amt = 0 then []
      else if amt = TapbackLove then ''love''
      else if amt = TapbackLike then ''like''
      else if amt = TapbackDislike then ''dislike''
      else if amt = TapbackLaugh then ''laugh''
      else if amt = TapbackEmphasis then ''emphasize''
      else if amt = TapbackQuestion then ''question''
      else [])"

text \<open>The types the protocol knows.\<close>

definition known_tapbacks :: "TapbackType list" where
  "known_tapbacks =
     [TapbackLove, TapbackLike, TapbackDislike, TapbackLaugh, TapbackEmphasis, TapbackQuestion]"

lemma emoji_bytes:
  "encodeRune 0x2764 = map char_of [0xE2, 0x9D, 0xA4 :: nat]"
  "encodeRune 0x1F44D = map char_of [0xF0, 0x9F, 0x91, 0x8D :: nat]"
  "encodeRune 0x1F44E = map char_of [0xF0, 0x9F, 0x91, 0x8E :: nat]"
  "encodeRune 0x1F602 = map char_of [0xF0, 0x9F, 0x98, 0x82 :: nat]"
  "encodeRune 0x203C = map char_of [0xE2, 0x80, 0xBC :: nat]"
  "encodeRune 0x2753 = map char_of [0xE2, 0x9D, 0x93 :: nat]"
  by (simp_all add: encodeRune_def Let_def)

lemma decode_emoji: 
  "r \<in> {0x2764, 0x1F44D, 0x1F44E, 0x1F602, 0x203C, 0x2753} \<Longrightarrow> fst (decodeRune (encodeRune r @ t)) = r"
  by (elim insertE emptyE; hypsubst; simp only: emoji_bytes list.map append.simps;
     simp add: decodeRune_def byteAt_Cons inR_simps Let_def)

lemma runes_hd: "s \<noteq> [] \<Longrightarrow> \<exists>b bs. runes s = (fst (decodeRune s), b) # bs"
  by (simp add: runes.simps [of s] Let_def)

text \<open>Every tapback type the protocol knows is recovered from its emoji and from its name.\<close>

theorem tapback_roundtrip:
  "\<forall>t \<in> set known_tapbacks.
     TapbackFromEmoji (TapbackType_Emoji t) = Some t \<and> TapbackFromName (TapbackType_Name t) = t"
proof
  fix t assume "t \<in> set known_tapbacks"
  then have t: "t \<in> {2000, 2001, 2002, 2003, 2004, 2005}"
    by (auto simp: known_tapbacks_def tapback_consts)
  have n: "TapbackFromName (TapbackType_Name t) = t"
    using t by (auto simp: TapbackFromName_def TapbackType_Name_def tapback_consts)
  obtain r s where e: "TapbackType_Emoji t = encodeRune r @ s"
    and r: "(t, r) \<in> {(2000, 0x2764), (2001, 0x1F44D), (2002, 0x1F44E), (2003, 0x1F602), (2004, 0x203C), (2005, 0x2753)}"
    using t by (auto simp: TapbackType_Emoji_def tapback_consts)
  have r': "r \<in> {0x2764, 0x1F44D, 0x1F44E, 0x1F602, 0x203C, 0x2753}" using r by auto
  then have "encodeRune r \<noteq> []" by (auto simp: emoji_bytes)
  then obtain b bs where "runes (TapbackType_Emoji t) = (r, b) # bs"
    using runes_hd [of "TapbackType_Emoji t"] decode_emoji [OF r', of s] e by auto
  with r have "TapbackFromEmoji (TapbackType_Emoji t) = Some t"
    by (auto simp: TapbackFromEmoji_def tapback_consts)
  with n show "TapbackFromEmoji (TapbackType_Emoji t) = Some t \<and> TapbackFromName (TapbackType_Name t) = t"
    by blast
qed

lemma tapback_roundtrip_witness: "TapbackFromEmoji (TapbackType_Emoji TapbackLaugh) = Some TapbackLaugh"
  using tapback_roundtrip by (simp only: known_tapbacks_def list.set ball_simps simp_thms)

text \<open>A part-addressed tapback \<open>p:n/guid\<close> is parsed to its part index and target, an offset type
  (3000 to 3999) is turned into the removal of the base type, and every other type is kept.\<close>

theorem Tapback_Parse_part:
  assumes "CHR ''/'' \<notin> set g" "0 \<le> n" "n \<le> maxInt64"
  shows "Tapback_Parse \<lparr>TargetGUID = ''p:'' @ Itoa n @ ''/'' @ g, TargetPart = p, Remove = r, TType = ty\<rparr>
    = (None, \<lparr>TargetGUID = g, TargetPart = n,
              Remove = (r \<or> (3000 \<le> ty \<and> ty < 4000)),
              TType = (if 3000 \<le> ty \<and> ty < 4000 then ty - 1000 else ty)\<rparr>)"
proof -
  have s: "Split (Itoa n @ CHR ''/'' # g) (CHR ''/'') = [Itoa n, g]"
    using assms(1) by (simp add: Split_sep Itoa_free Split_no_sep)
  have a: "Atoi (Itoa n) = (n, None)"
    using assms(2,3) by (intro Atoi_Itoa) (auto simp: minInt64_def)
  show ?thesis by (auto simp: Tapback_Parse_def Let_def s a tapback_consts)
qed

lemma Tapback_Parse_part_witness:
  "Tapback_Parse \<lparr>TargetGUID = ''p:'' @ Itoa 1 @ ''/'' @ ''AB-1'', TargetPart = 0, Remove = False, TType = 3002\<rparr>
     = (None, \<lparr>TargetGUID = ''AB-1'', TargetPart = 1, Remove = True, TType = 2002\<rparr>)"
  using Tapback_Parse_part [of "''AB-1''" 1 0 False 3002] by (simp add: maxInt64_def)

text \<open>A tapback target is accepted only in the two documented shapes: on success it started with
  \<open>bp:\<close>, or with \<open>p:\<close> followed by exactly one slash, and any other target is reported as an error.\<close>

theorem Tapback_Parse_accepts:
  "fst (Tapback_Parse t) = None \<longleftrightarrow>
     HasPrefix (TargetGUID t) ''bp:'' \<or>
     (\<exists>part g. TargetGUID t = ''p:'' @ part @ ''/'' @ g \<and> CHR ''/'' \<notin> set part \<and> CHR ''/'' \<notin> set g
               \<and> snd (Atoi part) = None)"
proof -
  have two: "length (Split s c) = 2 \<Longrightarrow> \<exists>a b. s = a @ c # b \<and> c \<notin> set a \<and> c \<notin> set b \<and> Split s c = [a, b]"
    for s :: bytes and c
    using Join_Split [of s c] Split_parts_no_sep [of _ s c]
    by (cases "Split s c"; cases "tl (Split s c)") auto
  have no: "HasPrefix (''p:'' @ s) ''bp:'' \<longleftrightarrow> False" for s by simp
  show ?thesis
  proof (cases "HasPrefix (TargetGUID t) ''bp:''")
    case True
    then show ?thesis by (simp add: Tapback_Parse_def Let_def)
  next
    case nbp: False
    show ?thesis
    proof (cases "HasPrefix (TargetGUID t) ''p:''")
      case False
      with nbp show ?thesis by (auto simp: Tapback_Parse_def Let_def)
    next
      case True
      then obtain u where u: "TargetGUID t = ''p:'' @ u" by (auto simp: HasPrefix_iff)
      show ?thesis
      proof (cases "length (Split u (CHR ''/'')) = 2")
        case True
        from two [OF this] obtain a b where ab: "u = a @ CHR ''/'' # b" "CHR ''/'' \<notin> set a" "CHR ''/'' \<notin> set b"
            "Split u (CHR ''/'') = [a, b]" by blast
        have "fst (Tapback_Parse t) = None \<longleftrightarrow> snd (Atoi a) = None"
          using u ab(4) by (cases "Atoi a"; cases "snd (Atoi a)") (auto simp: Tapback_Parse_def Let_def)
        moreover have "(\<exists>part g. TargetGUID t = ''p:'' @ part @ ''/'' @ g \<and> CHR ''/'' \<notin> set part
            \<and> CHR ''/'' \<notin> set g \<and> snd (Atoi part) = None) \<longleftrightarrow> snd (Atoi a) = None" (is "?L = ?R")
        proof
          assume ?L
          then obtain part g where "u = part @ CHR ''/'' # g" "CHR ''/'' \<notin> set part" "snd (Atoi part) = None"
            using u by auto
          then show ?R using ab(4) by (simp add: Split_sep)
        next
          assume ?R
          then show ?L using u ab(1-3) by (intro exI [of _ a] exI [of _ b]) simp
        qed
        ultimately show ?thesis using nbp by (simp only: simp_thms)
      next
        case False
        have "length (Split u (CHR ''/'')) = 2" if "u = a @ CHR ''/'' # b" "CHR ''/'' \<notin> set a" "CHR ''/'' \<notin> set b" for a b
          using that by (simp add: Split_sep Split_no_sep)
        with False nbp u show ?thesis by (auto simp: Tapback_Parse_def Let_def)
      qed
    qed
  qed
qed

end
