(* ===== verification/CloudSchema.thy ===== *)
theory CloudSchema
  imports GoStrings "HOL-Library.Product_Lexorder"
begin

text \<open>
  The database under \<open>pkg/connector/cloud_backfill_store.go\<close>: the tables its schema declares, as lists
  of rows, and the way the code talks to them.

  A column the schema lets be \<open>NULL\<close> is an \<open>option\<close>.  The primary key of every table starts with the
  login, and every statement of the store names its login.  The tables \<open>message\<close> and \<open>backfill_task\<close>
  belong to bridgev2, the store only reads them.

  A statement can fail.  A run of the code is a function of the tables and of a script that says for each
  statement, in the order they are issued, whether the driver reports an error (and its text); past the end
  of the script everything succeeds.  The dialect is SQLite's: \<open>UPPER\<close>, \<open>LOWER\<close> and \<open>LIKE\<close> fold the
  case of ASCII letters only, text compares by bytes, and an ordinary comparison with \<open>NULL\<close> is not true.
\<close>

section \<open>Rows\<close>

record message_row =
  mLogin :: bytes
  mGuid :: bytes
  mChat :: "bytes option"
  mPortal :: "bytes option"
  mTs :: time_ms
  mSender :: "bytes option"
  mFromMe :: bool
  mText :: "bytes option"
  mSubject :: "bytes option"
  mService :: "bytes option"
  mDeleted :: bool
  mTapback :: "nat option"
  mTapbackTarget :: "bytes option"
  mTapbackEmoji :: "bytes option"
  mAttachments :: "bytes option"
  mCreated :: time_ms
  mUpdated :: time_ms
  mDateRead :: time_ms
  mRecord :: bytes
  mHasBody :: bool
  mScrubbed :: bool
  mReplyGuid :: "bytes option"
  mReplyPart :: "bytes option"

record chat_row =
  cLogin :: bytes
  cChat :: bytes
  cRecord :: bytes
  cGroup :: bytes
  cPortal :: bytes
  cService :: "bytes option"
  cDisplay :: "bytes option"
  cPhoto :: "bytes option"
  cParticipants :: "bytes option"
  cUpdated :: "time_ms option"
  cCreated :: time_ms
  cDeleted :: bool
  cFiltered :: int
  cFwdDone :: bool

record sync_row =
  yLogin :: bytes
  yZone :: bytes
  yToken :: "bytes option"
  yLastSuccess :: "time_ms option"
  yLastError :: "bytes option"
  yUpdated :: time_ms

record photo_row =
  pLogin :: bytes
  pPortal :: bytes
  pTs :: time_ms
  pData :: bytes

record override_row =
  oLogin :: bytes
  oPortal :: bytes
  oUpdated :: time_ms

record cache_row =
  aLogin :: bytes
  aRecord :: bytes
  aContent :: bytes
  aCreated :: time_ms

record dead_row =
  dLogin :: bytes
  dRecord :: bytes
  dReason :: bytes
  dFailed :: time_ms

record bridge_message =
  bmBridge :: bytes
  bmReceiver :: bytes
  bmId :: bytes

record backfill_task =
  btLogin :: bytes
  btPortal :: bytes
  btDone :: bool
  btCompleted :: int

record store =
  messages :: "message_row list"
  chats :: "chat_row list"
  syncs :: "sync_row list"
  photos :: "photo_row list"
  overrides :: "override_row list"
  attCache :: "cache_row list"
  deadAtts :: "dead_row list"
  bridgeMsgs :: "bridge_message list"
  backfillTasks :: "backfill_task list"

section \<open>SQL\<close>

definition asciiUpper :: "char \<Rightarrow> char" where
  "asciiUpper c = (if 97 \<le> (of_char c :: nat) \<and> of_char c \<le> (122 :: nat) then char_of (of_char c - 32 :: nat) else c)"

definition asciiLower :: "char \<Rightarrow> char" where
  "asciiLower c = (if 65 \<le> (of_char c :: nat) \<and> of_char c \<le> (90 :: nat) then char_of (of_char c + 32 :: nat) else c)"

definition sqlUpper :: "bytes \<Rightarrow> bytes" where
  "sqlUpper s = map asciiUpper s"

definition sqlLower :: "bytes \<Rightarrow> bytes" where
  "sqlLower s = map asciiLower s"

definition sqlTrim :: "bytes \<Rightarrow> bytes" where
  "sqlTrim s = rev (dropWhile (\<lambda>c. c = CHR '' '') (rev (dropWhile (\<lambda>c. c = CHR '' '') s)))"

text \<open>\<open>x LIKE 'p%'\<close> for a pattern without wildcards of its own.\<close>

definition likePrefix :: "bytes \<Rightarrow> bytes \<Rightarrow> bool" where
  "likePrefix s p = HasPrefix (sqlLower s) (sqlLower p)"

definition coalesce :: "'a option \<Rightarrow> 'a \<Rightarrow> 'a" where
  "coalesce x d = (case x of Some v \<Rightarrow> v | None \<Rightarrow> d)"

text \<open>\<open>SUBSTR(s, n)\<close>, counting from one.\<close>

definition sqlSubstr :: "bytes \<Rightarrow> nat \<Rightarrow> bytes" where
  "sqlSubstr s n = drop (n - 1) s"

definition updateWhere :: "('r \<Rightarrow> bool) \<Rightarrow> ('r \<Rightarrow> 'r) \<Rightarrow> 'r list \<Rightarrow> 'r list" where
  "updateWhere P f rs = map (\<lambda>r. if P r then f r else r) rs"

definition deleteWhere :: "('r \<Rightarrow> bool) \<Rightarrow> 'r list \<Rightarrow> 'r list" where
  "deleteWhere P rs = filter (\<lambda>r. \<not> P r) rs"

definition countWhere :: "('r \<Rightarrow> bool) \<Rightarrow> 'r list \<Rightarrow> nat" where
  "countWhere P rs = length (filter P rs)"

text \<open>\<open>INSERT ... ON CONFLICT (key) DO UPDATE\<close>: \<open>merge old excluded\<close> is the row the update leaves.\<close>

definition upsertRow :: "('r \<Rightarrow> 'k) \<Rightarrow> ('r \<Rightarrow> 'r \<Rightarrow> 'r) \<Rightarrow> 'r \<Rightarrow> 'r list \<Rightarrow> 'r list" where
  "upsertRow key merge new rs =
     (if list_ex (\<lambda>r. key r = key new) rs
      then map (\<lambda>r. if key r = key new then merge r new else r) rs
      else rs @ [new])"

definition insertIgnore :: "('r \<Rightarrow> 'k) \<Rightarrow> 'r \<Rightarrow> 'r list \<Rightarrow> 'r list" where
  "insertIgnore key new rs = upsertRow key (\<lambda>old _. old) new rs"

definition messageKey :: "message_row \<Rightarrow> bytes \<times> bytes" where
  "messageKey r = (mLogin r, mGuid r)"

definition chatKey :: "chat_row \<Rightarrow> bytes \<times> bytes" where
  "chatKey r = (cLogin r, cChat r)"

definition syncKey :: "sync_row \<Rightarrow> bytes \<times> bytes" where
  "syncKey r = (yLogin r, yZone r)"

definition photoKey :: "photo_row \<Rightarrow> bytes \<times> bytes" where
  "photoKey r = (pLogin r, pPortal r)"

definition overrideKey :: "override_row \<Rightarrow> bytes \<times> bytes" where
  "overrideKey r = (oLogin r, oPortal r)"

definition cacheKey :: "cache_row \<Rightarrow> bytes \<times> bytes" where
  "cacheKey r = (aLogin r, aRecord r)"

definition deadKey :: "dead_row \<Rightarrow> bytes \<times> bytes" where
  "deadKey r = (dLogin r, dRecord r)"

lemmas keys = messageKey_def chatKey_def syncKey_def photoKey_def overrideKey_def cacheKey_def deadKey_def

section \<open>Running statements\<close>

type_synonym err = bytes
type_synonym script = "err option list"
type_synonym 'a db = "store \<times> script \<Rightarrow> (err + 'a) \<times> store \<times> script"

definition dbReturn :: "'a \<Rightarrow> 'a db" where
  "dbReturn x = (\<lambda>st. (Inr x, st))"

definition dbFail :: "err \<Rightarrow> 'a db" where
  "dbFail e = (\<lambda>st. (Inl e, st))"

definition dbBind :: "'a db \<Rightarrow> ('a \<Rightarrow> 'b db) \<Rightarrow> 'b db" where
  "dbBind m k = (\<lambda>st. case m st of (Inl e, st') \<Rightarrow> (Inl e, st') | (Inr x, st') \<Rightarrow> k x st')"

definition dbCatch :: "'a db \<Rightarrow> (err \<Rightarrow> 'a db) \<Rightarrow> 'a db" where
  "dbCatch m h = (\<lambda>st. case m st of (Inl e, st') \<Rightarrow> h e st' | (Inr x, st') \<Rightarrow> (Inr x, st'))"

definition dbTry :: "'a db \<Rightarrow> (err + 'a) db" where
  "dbTry m = (\<lambda>st. case m st of (r, st') \<Rightarrow> (Inr r, st'))"

definition dbThen :: "unit db \<Rightarrow> 'b db \<Rightarrow> 'b db" where
  "dbThen m k = dbBind m (\<lambda>_. k)"

text \<open>\<open>fmt.Errorf("...: %w", err)\<close>\<close>

definition wrapErr :: "bytes \<Rightarrow> 'a db \<Rightarrow> 'a db" where
  "wrapErr msg m = dbCatch m (\<lambda>e. dbFail (msg @ '': '' @ e))"

fun sqlStmt :: "(store \<Rightarrow> 'a \<times> store) \<Rightarrow> 'a db" where
  "sqlStmt f (s, []) = (Inr (fst (f s)), snd (f s), [])"
| "sqlStmt f (s, None # fs) = (Inr (fst (f s)), snd (f s), fs)"
| "sqlStmt f (s, Some e # fs) = (Inl e, s, fs)"

definition sqlQuery :: "(store \<Rightarrow> 'a) \<Rightarrow> 'a db" where
  "sqlQuery q = sqlStmt (\<lambda>s. (q s, s))"

definition sqlExec :: "(store \<Rightarrow> store) \<Rightarrow> unit db" where
  "sqlExec f = sqlStmt (\<lambda>s. ((), f s))"

definition sqlExecN :: "(store \<Rightarrow> nat) \<Rightarrow> (store \<Rightarrow> store) \<Rightarrow> nat db" where
  "sqlExecN n f = sqlStmt (\<lambda>s. (n s, f s))"

text \<open>A statement the engine itself may reject.\<close>

definition sqlTry :: "(store \<Rightarrow> err + 'a \<times> store) \<Rightarrow> 'a db" where
  "sqlTry f = dbBind (sqlQuery f) (\<lambda>r. case r of
     Inl e \<Rightarrow> dbFail e | Inr (x, s') \<Rightarrow> (\<lambda>(s, fs). (Inr x, s', fs)))"

fun dbEach :: "('x \<Rightarrow> unit db) \<Rightarrow> 'x list \<Rightarrow> unit db" where
  "dbEach f [] = dbReturn ()"
| "dbEach f (x # xs) = dbThen (f x) (dbEach f xs)"

fun dbFold :: "('x \<Rightarrow> 'a \<Rightarrow> 'a db) \<Rightarrow> 'x list \<Rightarrow> 'a \<Rightarrow> 'a db" where
  "dbFold f [] acc = dbReturn acc"
| "dbFold f (x # xs) acc = dbBind (f x acc) (dbFold f xs)"

text \<open>A transaction: the body's changes are undone unless the body and the commit both succeed.\<close>

definition sqlTx :: "'a db \<Rightarrow> 'a db" where
  "sqlTx m = (\<lambda>(s, fs).
     (case sqlStmt (\<lambda>s. ((), s)) (s, fs) of
        (Inl e, st) \<Rightarrow> (Inl (''failed to begin transaction: '' @ e), st)
      | (Inr _, st) \<Rightarrow>
          (case m st of
             (Inl e, _, fs') \<Rightarrow> (Inl e, s, fs')
           | (Inr x, s', fs') \<Rightarrow>
               (case sqlStmt (\<lambda>s. ((), s)) (s', fs') of
                  (Inl e, _, fs'') \<Rightarrow> (Inl e, s, fs'')
                | (Inr _, _, fs'') \<Rightarrow> (Inr x, s', fs'')))))"

definition finalStore :: "(err + 'a) \<times> store \<times> script \<Rightarrow> store" where
  "finalStore r = fst (snd r)"

definition outcome :: "(err + 'a) \<times> store \<times> script \<Rightarrow> err + 'a" where
  "outcome r = fst r"

text \<open>The list in pieces of at most \<open>n\<close>, for the statements with many placeholders.\<close>

function chunksOf :: "nat \<Rightarrow> 'a list \<Rightarrow> 'a list list" where
  "chunksOf n xs = (if xs = [] \<or> n = 0 then [] else take n xs # chunksOf n (drop n xs))"
  by auto
termination by (relation "measure (length \<circ> snd)") (auto simp: neq_Nil_conv)

declare chunksOf.simps [simp del]

lemma concat_chunksOf: "0 < n \<Longrightarrow> concat (chunksOf n xs) = xs"
proof (induction n xs rule: chunksOf.induct)
  case (1 n xs)
  then show ?case
    by (cases "xs = []") (simp_all add: chunksOf.simps [of n xs] chunksOf.simps [of n "[]"])
qed

end
