(* ===== verification/CloudRun.thy ===== *)
theory CloudRun
  imports CloudSchema
begin

text \<open>
  Reasoning about runs of the store's code.  A relation between the tables before and after that is
  reflexive and transitive (the locale \<open>run_relation\<close>) passes from single statements to whole operations,
  whatever statements fail: each guarantee of the store is one interpretation.  The second locale,
  \<open>keyed_table\<close>, gives the laws of a table with a primary key.
\<close>

section \<open>Relations kept by a run\<close>

definition keepsRel :: "(store \<Rightarrow> store \<Rightarrow> bool) \<Rightarrow> 'a db \<Rightarrow> bool" where
  "keepsRel R m \<longleftrightarrow> (\<forall>s fs. R s (finalStore (m (s, fs))))"

lemma keepsRelD: "keepsRel R m \<Longrightarrow> R s (finalStore (m (s, fs)))"
  by (simp add: keepsRel_def)

lemma finalStore_simp [simp]: "finalStore (r, s, fs) = s"
  by (simp add: finalStore_def)

lemma outcome_simp [simp]: "outcome (r, s, fs) = r"
  by (simp add: outcome_def)

lemma sqlStmt_cases:
  "sqlStmt f (s, fs) = (Inr (fst (f s)), snd (f s), tl fs) \<or> (\<exists>e. sqlStmt f (s, fs) = (Inl e, s, tl fs))"
  by (cases fs; simp; case_tac a; simp)

lemma sqlStmt_Nil [simp]: "sqlStmt f (s, []) = (Inr (fst (f s)), snd (f s), [])"
  by simp

lemma sqlQuery_Nil [simp]: "sqlQuery q (s, []) = (Inr (q s), s, [])"
  by (simp add: sqlQuery_def)

lemma sqlExec_Nil [simp]: "sqlExec f (s, []) = (Inr (), f s, [])"
  by (simp add: sqlExec_def)

lemma sqlExecN_Nil [simp]: "sqlExecN n f (s, []) = (Inr (n s), f s, [])"
  by (simp add: sqlExecN_def)

lemma sqlStmt_store: "finalStore (sqlStmt f (s, fs)) = snd (f s) \<or> finalStore (sqlStmt f (s, fs)) = s"
  using sqlStmt_cases [of f s fs] by auto

locale run_relation =
  fixes R :: "store \<Rightarrow> store \<Rightarrow> bool"
  assumes R_refl: "R s s"
    and R_trans: "R s t \<Longrightarrow> R t u \<Longrightarrow> R s u"
begin

lemma keeps_return: "keepsRel R (dbReturn x)"
  by (simp add: keepsRel_def dbReturn_def R_refl)

lemma keeps_fail: "keepsRel R (dbFail e)"
  by (simp add: keepsRel_def dbFail_def R_refl)

lemma keeps_stmt: "(\<And>s. R s (snd (f s))) \<Longrightarrow> keepsRel R (sqlStmt f)"
  unfolding keepsRel_def using sqlStmt_store [of f] R_refl by metis

lemma keeps_query: "keepsRel R (sqlQuery q)"
  unfolding sqlQuery_def by (rule keeps_stmt) (simp add: R_refl)

lemma keeps_exec: "(\<And>s. R s (f s)) \<Longrightarrow> keepsRel R (sqlExec f)"
  unfolding sqlExec_def by (rule keeps_stmt) simp

lemma keeps_execN: "(\<And>s. R s (f s)) \<Longrightarrow> keepsRel R (sqlExecN n f)"
  unfolding sqlExecN_def by (rule keeps_stmt) simp

lemma keeps_bind:
  assumes "keepsRel R m" "\<And>x. keepsRel R (k x)"
  shows "keepsRel R (dbBind m k)"
  unfolding keepsRel_def
proof (intro allI)
  fix s fs
  obtain r s' fs' where m: "m (s, fs) = (r, s', fs')" by (cases "m (s, fs)")
  have "R s s'" using keepsRelD [OF assms(1), of s fs] by (simp add: m)
  moreover have "R s' (finalStore (k x (s', fs')))" for x by (rule keepsRelD [OF assms(2)])
  ultimately show "R s (finalStore (dbBind m k (s, fs)))"
    by (cases r) (auto simp: dbBind_def m intro: R_trans)
qed

lemma keeps_catch:
  assumes "keepsRel R m" "\<And>e. keepsRel R (h e)"
  shows "keepsRel R (dbCatch m h)"
  unfolding keepsRel_def
proof (intro allI)
  fix s fs
  obtain r s' fs' where m: "m (s, fs) = (r, s', fs')" by (cases "m (s, fs)")
  have "R s s'" using keepsRelD [OF assms(1), of s fs] by (simp add: m)
  moreover have "R s' (finalStore (h e (s', fs')))" for e by (rule keepsRelD [OF assms(2)])
  ultimately show "R s (finalStore (dbCatch m h (s, fs)))"
    by (cases r) (auto simp: dbCatch_def m intro: R_trans)
qed

lemma keeps_try_result: "keepsRel R m \<Longrightarrow> keepsRel R (dbTry m)"
  by (auto simp: keepsRel_def dbTry_def finalStore_def split: prod.split) (metis fst_conv snd_conv)

lemma keeps_then: "keepsRel R m \<Longrightarrow> keepsRel R k \<Longrightarrow> keepsRel R (dbThen m k)"
  unfolding dbThen_def by (rule keeps_bind)

lemma keeps_wrap: "keepsRel R m \<Longrightarrow> keepsRel R (wrapErr msg m)"
  unfolding wrapErr_def by (rule keeps_catch [OF _ keeps_fail])

lemma keeps_each: "(\<And>x. keepsRel R (f x)) \<Longrightarrow> keepsRel R (dbEach f xs)"
  by (induction xs) (auto intro: keeps_return keeps_then)

lemma keeps_try:
  assumes "\<And>s x s'. f s = Inr (x, s') \<Longrightarrow> R s s'"
  shows "keepsRel R (sqlTry f)"
  unfolding keepsRel_def
proof (intro allI)
  fix s fs
  show "R s (finalStore (sqlTry f (s, fs)))"
    using sqlStmt_cases [of "\<lambda>s. (f s, s)" s fs] assms [of s] R_refl [of s]
    by (cases "f s") (auto simp: sqlTry_def dbBind_def sqlQuery_def dbFail_def)
qed

lemma keeps_fold: "(\<And>x a. keepsRel R (f x a)) \<Longrightarrow> keepsRel R (dbFold f xs acc)"
  by (induction xs arbitrary: acc) (auto intro: keeps_return keeps_bind)

lemma keeps_tx:
  assumes "keepsRel R m"
  shows "keepsRel R (sqlTx m)"
  unfolding keepsRel_def
proof (intro allI)
  fix s fs
  let ?g = "\<lambda>s :: store. ((), s)"
  show "R s (finalStore (sqlTx m (s, fs)))"
  proof (cases "\<exists>e. sqlStmt ?g (s, fs) = (Inl e, s, tl fs)")
    case True
    then show ?thesis by (auto simp: sqlTx_def R_refl)
  next
    case False
    then have b: "sqlStmt ?g (s, fs) = (Inr (), s, tl fs)" using sqlStmt_cases [of ?g s fs] by auto
    obtain r s' fs' where m: "m (s, tl fs) = (r, s', fs')" by (cases "m (s, tl fs)")
    have "R s s'" using keepsRelD [OF assms, of s "tl fs"] by (simp add: m)
    then show ?thesis
      using sqlStmt_cases [of ?g s' fs'] by (cases r) (auto simp: sqlTx_def b m R_refl)
  qed
qed

lemmas keeps_intros = keeps_return keeps_fail keeps_query keeps_bind keeps_catch keeps_then keeps_wrap
  keeps_each keeps_fold keeps_try_result keeps_tx keeps_exec keeps_execN

end

text \<open>An operation that fails inside a transaction leaves the tables as they were.\<close>

lemma sqlTx_atomic: "outcome (sqlTx m (s, fs)) = Inl e \<Longrightarrow> finalStore (sqlTx m (s, fs)) = s"
  unfolding sqlTx_def
  using sqlStmt_cases [of "\<lambda>s. ((), s)" s fs]
  by (auto split: sum.splits prod.splits)

lemma sqlTx_Nil:
  "sqlTx m (s, []) = (case m (s, []) of (Inl e, _, fs) \<Rightarrow> (Inl e, s, fs)
     | (Inr x, s', fs) \<Rightarrow> (case sqlStmt (\<lambda>s. ((), s)) (s', fs) of
          (Inl e, _, fs) \<Rightarrow> (Inl e, s, fs) | (Inr _, _, fs) \<Rightarrow> (Inr x, s', fs)))"
  by (simp add: sqlTx_def)

section \<open>Tables with a primary key\<close>

text \<open>The merge of an upsert and the change of an update leave the key alone.\<close>

locale keyed_table =
  fixes key :: "'r \<Rightarrow> 'k" and merge :: "'r \<Rightarrow> 'r \<Rightarrow> 'r"
  assumes merge_key: "key old = key new \<Longrightarrow> key (merge old new) = key new"
begin

lemma upsert_keys: "map key (upsertRow key merge new rs) =
    (if key new \<in> key ` set rs then map key rs else map key rs @ [key new])"
proof -
  have "map key (map (\<lambda>r. if key r = key new then merge r new else r) rs) = map key rs"
    by (induction rs) (auto simp: merge_key)
  moreover have "list_ex (\<lambda>r. key r = key new) rs \<longleftrightarrow> key new \<in> key ` set rs"
    unfolding list_ex_iff image_iff by (simp only: eq_commute [of "key new"])
  ultimately show ?thesis by (simp add: upsertRow_def)
qed

lemma upsert_distinct: "distinct (map key rs) \<Longrightarrow> distinct (map key (upsertRow key merge new rs))"
  by (auto simp: upsert_keys)

lemma upsert_present: "key new \<in> key ` set (upsertRow key merge new rs)"
proof -
  have "key new \<in> set (map key (upsertRow key merge new rs))" by (simp add: upsert_keys)
  then show ?thesis by simp
qed

lemma upsert_other: "key r \<noteq> key new \<Longrightarrow> r \<in> set (upsertRow key merge new rs) \<longleftrightarrow> r \<in> set rs"
  by (auto simp: upsertRow_def merge_key)

lemma upsert_row:
  assumes "r \<in> set (upsertRow key merge new rs)"
  shows "r \<in> set rs \<or> r = new \<or> (\<exists>old\<in>set rs. key old = key new \<and> r = merge old new)"
  using assms by (auto simp: upsertRow_def split: if_splits)

lemma upsert_kept: "old \<in> set rs \<Longrightarrow>
    (if key old = key new then merge old new else old) \<in> set (upsertRow key merge new rs)"
  by (auto simp: upsertRow_def list_ex_iff)

end

lemma filter_upsertRow:
  assumes "\<And>r. key r = key new \<Longrightarrow> \<not> P r" "\<And>r. key r = key new \<Longrightarrow> \<not> P (merge r new)"
  shows "filter P (upsertRow key merge new rs) = filter P rs"
proof -
  have "filter P (map (\<lambda>r. if key r = key new then merge r new else r) rs) = filter P rs"
    using assms by (induction rs) auto
  then show ?thesis using assms(1) by (simp add: upsertRow_def)
qed

lemma filter_updateWhere:
  assumes "\<And>r. Q r \<Longrightarrow> \<not> P r" "\<And>r. Q r \<Longrightarrow> \<not> P (f r)"
  shows "filter P (updateWhere Q f rs) = filter P rs"
  using assms by (induction rs) (auto simp: updateWhere_def)

lemma filter_deleteWhere: "(\<And>r. Q r \<Longrightarrow> \<not> P r) \<Longrightarrow> filter P (deleteWhere Q rs) = filter P rs"
  by (induction rs) (auto simp: deleteWhere_def)

lemma map_key_updateWhere: "(\<And>r. key (f r) = key r) \<Longrightarrow> map key (updateWhere P f rs) = map key rs"
  by (auto simp: updateWhere_def)

lemma distinct_deleteWhere: "distinct (map key rs) \<Longrightarrow> distinct (map key (deleteWhere P rs))"
  by (induction rs) (auto simp: deleteWhere_def)

lemma set_updateWhere: "set (updateWhere P f rs) = (\<lambda>r. if P r then f r else r) ` set rs"
  by (simp add: updateWhere_def)

lemma set_deleteWhere: "set (deleteWhere P rs) = {r \<in> set rs. \<not> P r}"
  by (auto simp: deleteWhere_def)

lemma countWhere_0: "countWhere P rs = 0 \<longleftrightarrow> (\<forall>r\<in>set rs. \<not> P r)"
  by (induction rs) (auto simp: countWhere_def)

end
