(* ===== verification/CloudMessages.thy ===== *)
theory CloudMessages
  imports CloudRun
begin

text \<open>
  The message half of \<open>cloud_backfill_store.go\<close>: the rows of \<open>cloud_message\<close>, their import from CloudKit,
  the soft deletions, the stubs of live messages, and the queries that page through a portal.
  \<open>l\<close> is the store's login, \<open>now\<close> the value of \<open>time.Now().UnixMilli()\<close>.
\<close>

section \<open>Rows\<close>

record cloudMessageRow =
  GUID :: bytes
  RecordName :: bytes
  CloudChatID :: bytes
  PortalID :: bytes
  TimestampMS :: time_ms
  Sender :: bytes
  IsFromMe :: bool
  Text :: bytes
  Subject :: bytes
  Service :: bytes
  Deleted :: bool
  TapbackKind :: "nat option"
  TapbackTargetGUID :: bytes
  TapbackEmoji :: bytes
  AttachmentsJSON :: bytes
  DateReadMS :: time_ms
  HasBody :: bool
  ReplyToGUID :: bytes
  ReplyToPart :: bytes
  BodyScrubbed :: bool

text \<open>A row with the defaults of the columns an \<open>INSERT\<close> does not mention.\<close>

definition emptyMessage :: "bytes \<Rightarrow> bytes \<Rightarrow> time_ms \<Rightarrow> time_ms \<Rightarrow> message_row" where
  "emptyMessage l guid ts now =
     \<lparr>mLogin = l, mGuid = guid, mChat = None, mPortal = None, mTs = ts, mSender = None, mFromMe = False,
      mText = None, mSubject = None, mService = None, mDeleted = False, mTapback = None,
      mTapbackTarget = None, mTapbackEmoji = None, mAttachments = None, mCreated = now, mUpdated = now,
      mDateRead = 0, mRecord = [], mHasBody = True, mScrubbed = False, mReplyGuid = None, mReplyPart = None\<rparr>"

definition importedRow :: "bytes \<Rightarrow> time_ms \<Rightarrow> cloudMessageRow \<Rightarrow> message_row" where
  "importedRow l now row =
     \<lparr>mLogin = l, mGuid = GUID row, mChat = Some (CloudChatID row), mPortal = Some (PortalID row),
      mTs = TimestampMS row, mSender = Some (Sender row), mFromMe = IsFromMe row, mText = Some (Text row),
      mSubject = Some (Subject row), mService = Some (Service row), mDeleted = Deleted row,
      mTapback = TapbackKind row, mTapbackTarget = Some (TapbackTargetGUID row),
      mTapbackEmoji = Some (TapbackEmoji row), mAttachments = Some (AttachmentsJSON row), mCreated = now,
      mUpdated = now, mDateRead = DateReadMS row, mRecord = RecordName row, mHasBody = HasBody row,
      mScrubbed = False, mReplyGuid = Some (ReplyToGUID row), mReplyPart = Some (ReplyToPart row)\<rparr>"

text \<open>The \<open>ON CONFLICT (login_id, guid) DO UPDATE\<close> of the import.\<close>

definition mergeMessage :: "message_row \<Rightarrow> message_row \<Rightarrow> message_row" where
  "mergeMessage old new =
     (let isReply = (mReplyGuid new \<noteq> None \<and> mReplyGuid new \<noteq> Some []) in
      old\<lparr>mRecord := mRecord new, mChat := mChat new, mPortal := mPortal new, mTs := mTs new,
        mSender := (if mScrubbed old then mSender old else mSender new),
        mFromMe := mFromMe new,
        mText := (if mScrubbed old then mText old else mText new),
        mSubject := (if mScrubbed old then mSubject old else mSubject new),
        mService := mService new,
        mDeleted := (if mDeleted old then mDeleted old else mDeleted new),
        mTapback := mTapback new, mTapbackTarget := mTapbackTarget new,
        mTapbackEmoji := (if mScrubbed old then mTapbackEmoji old else mTapbackEmoji new),
        mAttachments := mAttachments new,
        mDateRead := (if mDateRead old < mDateRead new then mDateRead new else mDateRead old),
        mHasBody := mHasBody new,
        mReplyGuid := (if isReply then mReplyGuid new else mReplyGuid old),
        mReplyPart := (if isReply then mReplyPart new else mReplyPart old),
        mUpdated := mUpdated new\<rparr>)"

section \<open>Import\<close>

text \<open>One row per GUID, the newest; \<open>order\<close> is the order of first appearance.\<close>

definition newestStep :: "cloudMessageRow \<Rightarrow> (bytes \<Rightarrow> cloudMessageRow option) \<times> bytes list
    \<Rightarrow> (bytes \<Rightarrow> cloudMessageRow option) \<times> bytes list" where
  "newestStep row st =
     (case st of (rowsByGUID, order) \<Rightarrow>
        if GUID row = [] then st
        else (case rowsByGUID (GUID row) of
                None \<Rightarrow> (rowsByGUID(GUID row \<mapsto> row), order @ [GUID row])
              | Some prev \<Rightarrow>
                  if TimestampMS prev \<le> TimestampMS row then (rowsByGUID(GUID row \<mapsto> row), order)
                  else st))"

definition newestByGUID :: "cloudMessageRow list \<Rightarrow> cloudMessageRow list" where
  "newestByGUID rows = (case fold newestStep rows (Map.empty, []) of
     (rowsByGUID, order) \<Rightarrow> map (\<lambda>g. the (rowsByGUID g)) order)"

definition isUniqueConstraintErr :: "err \<Rightarrow> bool" where
  "isUniqueConstraintErr e =
     (Contains (ToLower e) ''unique constraint'' \<or> Contains (ToLower e) ''primary key'')"

definition insertMessage :: "bytes \<Rightarrow> time_ms \<Rightarrow> cloudMessageRow \<Rightarrow> unit db" where
  "insertMessage l now row =
     dbCatch (sqlExec (\<lambda>s. s\<lparr>messages := upsertRow messageKey mergeMessage (importedRow l now row) (messages s)\<rparr>))
       (\<lambda>e. if isUniqueConstraintErr e then dbReturn ()
            else dbFail (''failed to insert message '' @ GUID row @ '': '' @ e))"

definition upsertMessageBatch :: "bytes \<Rightarrow> time_ms \<Rightarrow> cloudMessageRow list \<Rightarrow> unit db" where
  "upsertMessageBatch l now rows =
     (if rows = [] then dbReturn ()
      else sqlTx (dbThen (wrapErr ''failed to prepare batch statement'' (sqlExec id))
                         (dbEach (insertMessage l now) (newestByGUID rows))))"

section \<open>Soft deletion\<close>

definition sealRow :: "message_row \<Rightarrow> message_row" where
  "sealRow r = r\<lparr>mDeleted := True, mText := None, mSubject := None, mSender := Some [],
     mTapbackEmoji := None, mScrubbed := True\<rparr>"

definition deleteMessageBatch :: "bytes \<Rightarrow> time_ms \<Rightarrow> bytes list \<Rightarrow> unit db" where
  "deleteMessageBatch l now guids =
     dbEach (\<lambda>chunk. wrapErr ''failed to soft-delete message batch'' (sqlExec (\<lambda>s. s\<lparr>messages :=
         updateWhere (\<lambda>r. mLogin r = l \<and> mGuid r \<in> set chunk \<and> \<not> mDeleted r)
           (\<lambda>r. (sealRow r)\<lparr>mUpdated := now\<rparr>) (messages s)\<rparr>)))
       (chunksOf 500 guids)"

definition softDeleteMessageByGUID :: "bytes \<Rightarrow> time_ms \<Rightarrow> bytes \<Rightarrow> unit db" where
  "softDeleteMessageByGUID l now guid =
     (let hit = (\<lambda>r. mLogin r = l \<and> sqlUpper (mGuid r) = sqlUpper guid);
          stub = (emptyMessage l guid now now)\<lparr>mDeleted := True, mScrubbed := True\<rparr> in
      sqlTx (dbBind
        (wrapErr (''soft-delete message '' @ guid)
          (sqlExecN (\<lambda>s. countWhere hit (messages s)) (\<lambda>s. s\<lparr>messages := updateWhere hit sealRow (messages s)\<rparr>)))
        (\<lambda>n. if 0 < n then dbReturn ()
             else wrapErr (''stub-insert deleted message '' @ guid)
               (sqlExec (\<lambda>s. s\<lparr>messages := insertIgnore messageKey stub (messages s)\<rparr>)))))"

definition deleteMessagesByChatIDs :: "bytes \<Rightarrow> bytes list \<Rightarrow> unit db" where
  "deleteMessagesByChatIDs l chatIDs =
     dbEach (\<lambda>chunk. wrapErr ''failed to delete messages by chat ID'' (sqlExec (\<lambda>s. s\<lparr>messages :=
         deleteWhere (\<lambda>r. mLogin r = l \<and> (\<exists>c\<in>set chunk. mChat r = Some c)) (messages s)\<rparr>)))
       (chunksOf 500 chatIDs)"

definition hardDeleteMessagesByPortalID :: "bytes \<Rightarrow> bytes \<Rightarrow> nat db" where
  "hardDeleteMessagesByPortalID l portalID =
     (let hit = (\<lambda>r. mLogin r = l \<and> mPortal r = Some portalID) in
      wrapErr (''failed to hard-delete cloud_message rows for portal '' @ portalID)
        (sqlExecN (\<lambda>s. countWhere hit (messages s)) (\<lambda>s. s\<lparr>messages := deleteWhere hit (messages s)\<rparr>)))"

section \<open>Stubs of live messages\<close>

definition persistMessageUUID :: "bytes \<Rightarrow> time_ms \<Rightarrow> bytes \<Rightarrow> bytes \<Rightarrow> time_ms \<Rightarrow> bool \<Rightarrow> unit db" where
  "persistMessageUUID l now uuid portalID timestampMS isFromMe = sqlExec (\<lambda>s. s\<lparr>messages :=
     insertIgnore messageKey
       ((emptyMessage l uuid timestampMS now)\<lparr>mPortal := Some portalID, mFromMe := isFromMe\<rparr>) (messages s)\<rparr>)"

definition persistTapbackUUID :: "bytes \<Rightarrow> time_ms \<Rightarrow> bytes \<Rightarrow> bytes \<Rightarrow> time_ms \<Rightarrow> bool \<Rightarrow> nat \<Rightarrow> unit db" where
  "persistTapbackUUID l now uuid portalID timestampMS isFromMe kind = sqlExec (\<lambda>s. s\<lparr>messages :=
     insertIgnore messageKey
       ((emptyMessage l uuid timestampMS now)\<lparr>mPortal := Some portalID, mFromMe := isFromMe,
          mTapback := Some kind\<rparr>) (messages s)\<rparr>)"

section \<open>Lookups by GUID\<close>

definition guidHit :: "bytes \<Rightarrow> bytes \<Rightarrow> message_row \<Rightarrow> bool" where
  "guidHit l uuid r = (mLogin r = l \<and> sqlUpper (mGuid r) = sqlUpper uuid)"

definition hasMessageUUID :: "bytes \<Rightarrow> bytes \<Rightarrow> bool db" where
  "hasMessageUUID l uuid = sqlQuery (\<lambda>s. 0 < countWhere (guidHit l uuid) (messages s))"

definition hasMessageBatch :: "bytes \<Rightarrow> bytes list \<Rightarrow> bytes set db" where
  "hasMessageBatch l guids =
     dbFold (\<lambda>chunk existing. dbBind
         (sqlQuery (\<lambda>s. map mGuid (filter (\<lambda>r. mLogin r = l \<and> mGuid r \<in> set chunk) (messages s))))
         (\<lambda>found. dbReturn (existing \<union> set found)))
       (chunksOf 500 guids) {}"

definition getMessageTextByGUID :: "bytes \<Rightarrow> bytes \<Rightarrow> bytes db" where
  "getMessageTextByGUID l uuid = sqlQuery (\<lambda>s.
     case find (\<lambda>r. guidHit l uuid r \<and> mTapback r = None) (messages s) of
       Some r \<Rightarrow> coalesce (mText r) [] | None \<Rightarrow> [])"

definition getMessageTimestampByGUID :: "bytes \<Rightarrow> bytes \<Rightarrow> (time_ms \<times> bool) db" where
  "getMessageTimestampByGUID l uuid = sqlQuery (\<lambda>s.
     case find (guidHit l uuid) (messages s) of Some r \<Rightarrow> (mTs r, True) | None \<Rightarrow> (0, False))"

definition hasCloudReadReceipt :: "bytes \<Rightarrow> bytes \<Rightarrow> bool db" where
  "hasCloudReadReceipt l uuid = sqlQuery (\<lambda>s.
     case find (\<lambda>r. guidHit l uuid r \<and> mFromMe r) (messages s) of
       Some r \<Rightarrow> 978307200000 < mDateRead r | None \<Rightarrow> False)"

definition isCloudBackfilledMessage :: "bytes \<Rightarrow> bytes \<Rightarrow> bool db" where
  "isCloudBackfilledMessage l uuid = sqlQuery (\<lambda>s. list_ex (\<lambda>r. guidHit l uuid r \<and> mRecord r \<noteq> []) (messages s))"

definition getRecordNameByGUID :: "bytes \<Rightarrow> bytes \<Rightarrow> bytes db" where
  "getRecordNameByGUID l guid = dbCatch (sqlQuery (\<lambda>s.
     case find (\<lambda>r. mLogin r = l \<and> mGuid r = guid \<and> mRecord r \<noteq> []) (messages s) of
       Some r \<Rightarrow> mRecord r | None \<Rightarrow> [])) (\<lambda>_. dbReturn [])"

definition getMessageRecordNamesByPortalID :: "bytes \<Rightarrow> bytes \<Rightarrow> bytes list db" where
  "getMessageRecordNamesByPortalID l portalID = sqlQuery (\<lambda>s.
     map mRecord (filter (\<lambda>r. mLogin r = l \<and> mPortal r = Some portalID \<and> mRecord r \<noteq> []) (messages s)))"

definition portalHasPreStartupOutgoingMessages :: "bytes \<Rightarrow> bytes \<Rightarrow> time_ms \<Rightarrow> bool db" where
  "portalHasPreStartupOutgoingMessages l portalID beforeMS = sqlQuery (\<lambda>s.
     0 < countWhere (\<lambda>r. mLogin r = l \<and> mPortal r = Some portalID \<and> mFromMe r \<and> mTs r < beforeMS) (messages s))"

section \<open>Paging through a portal\<close>

text \<open>The rows backfill can deliver; stubs of live messages have no record name.\<close>

definition servable :: "bytes \<Rightarrow> bytes \<Rightarrow> message_row \<Rightarrow> bool" where
  "servable l portalID r = (mLogin r = l \<and> mPortal r = Some portalID \<and> \<not> mDeleted r \<and> mRecord r \<noteq> [])"

definition pageKey :: "message_row \<Rightarrow> time_ms \<times> bytes" where
  "pageKey r = (mTs r, mGuid r)"

definition oldestFirst :: "message_row list \<Rightarrow> message_row list" where
  "oldestFirst rs = sort_key pageKey rs"

definition newestFirst :: "message_row list \<Rightarrow> message_row list" where
  "newestFirst rs = rev (sort_key pageKey rs)"

definition isReaction :: "message_row \<Rightarrow> bool" where
  "isReaction r = (case mTapback r of Some t \<Rightarrow> 2000 \<le> t | None \<Rightarrow> False)"

definition contentful :: "message_row \<Rightarrow> bool" where
  "contentful r = (coalesce (mText r) [] \<noteq> [] \<or> coalesce (mAttachments r) [] \<noteq> []
     \<or> (mScrubbed r \<and> \<not> isReaction r))"

text \<open>The selected columns; \<open>None\<close> is the failed scan of a \<open>NULL\<close> portal into a string.\<close>

definition scanMessage :: "message_row \<Rightarrow> cloudMessageRow option" where
  "scanMessage r = map_option (\<lambda>p.
     \<lparr>GUID = mGuid r, RecordName = [], CloudChatID = coalesce (mChat r) [], PortalID = p,
      TimestampMS = mTs r, Sender = coalesce (mSender r) [], IsFromMe = mFromMe r,
      Text = coalesce (mText r) [], Subject = coalesce (mSubject r) [], Service = coalesce (mService r) [],
      Deleted = mDeleted r, TapbackKind = mTapback r, TapbackTargetGUID = coalesce (mTapbackTarget r) [],
      TapbackEmoji = coalesce (mTapbackEmoji r) [], AttachmentsJSON = coalesce (mAttachments r) [],
      DateReadMS = mDateRead r, HasBody = mHasBody r, ReplyToGUID = coalesce (mReplyGuid r) [],
      ReplyToPart = coalesce (mReplyPart r) [], BodyScrubbed = mScrubbed r\<rparr>) (mPortal r)"

definition queryMessages :: "(store \<Rightarrow> message_row list) \<Rightarrow> cloudMessageRow list db" where
  "queryMessages q = dbBind (sqlQuery q) (\<lambda>rs.
     case those (map scanMessage rs) of Some rows \<Rightarrow> dbReturn rows
     | None \<Rightarrow> dbFail ''converting NULL to string is unsupported'')"

definition backwardRows :: "bytes \<Rightarrow> bytes \<Rightarrow> time_ms \<Rightarrow> bytes \<Rightarrow> nat \<Rightarrow> store \<Rightarrow> message_row list" where
  "backwardRows l portalID beforeTS beforeGUID count s =
     (let all = newestFirst (filter (servable l portalID) (messages s)) in
      if 0 < beforeTS \<or> beforeGUID \<noteq> []
      then take count (filter (\<lambda>r. mTs r < beforeTS \<or> mTs r = beforeTS \<and> mGuid r < beforeGUID) all)
      else take count all)"

definition listBackwardMessages :: "bytes \<Rightarrow> bytes \<Rightarrow> time_ms \<Rightarrow> bytes \<Rightarrow> nat \<Rightarrow> cloudMessageRow list db" where
  "listBackwardMessages l portalID beforeTS beforeGUID count =
     queryMessages (backwardRows l portalID beforeTS beforeGUID count)"

definition forwardRows :: "bytes \<Rightarrow> bytes \<Rightarrow> time_ms \<Rightarrow> bytes \<Rightarrow> nat \<Rightarrow> store \<Rightarrow> message_row list" where
  "forwardRows l portalID afterTS afterGUID count s =
     take count (filter (\<lambda>r. afterTS < mTs r \<or> mTs r = afterTS \<and> afterGUID < mGuid r)
       (oldestFirst (filter (servable l portalID) (messages s))))"

definition listForwardMessages :: "bytes \<Rightarrow> bytes \<Rightarrow> time_ms \<Rightarrow> bytes \<Rightarrow> nat \<Rightarrow> cloudMessageRow list db" where
  "listForwardMessages l portalID afterTS afterGUID count =
     queryMessages (forwardRows l portalID afterTS afterGUID count)"

definition latestRows :: "bytes \<Rightarrow> bytes \<Rightarrow> nat \<Rightarrow> store \<Rightarrow> message_row list" where
  "latestRows l portalID count s = take count (newestFirst (filter (servable l portalID) (messages s)))"

definition listLatestMessages :: "bytes \<Rightarrow> bytes \<Rightarrow> nat \<Rightarrow> cloudMessageRow list db" where
  "listLatestMessages l portalID count = queryMessages (latestRows l portalID count)"

definition listOldestMessages :: "bytes \<Rightarrow> bytes \<Rightarrow> nat \<Rightarrow> cloudMessageRow list db" where
  "listOldestMessages l portalID count = queryMessages (\<lambda>s.
     take count (oldestFirst (filter (servable l portalID) (messages s))))"

definition listAllAttachmentMessages :: "bytes \<Rightarrow> cloudMessageRow list db" where
  "listAllAttachmentMessages l = queryMessages (\<lambda>s. oldestFirst (filter
     (\<lambda>r. mLogin r = l \<and> \<not> mDeleted r \<and> coalesce (mAttachments r) [] \<noteq> []) (messages s)))"

section \<open>Aggregates\<close>

definition minOr0 :: "time_ms list \<Rightarrow> time_ms" where
  "minOr0 xs = (if xs = [] then 0 else Min (set xs))"

definition maxOr0 :: "time_ms list \<Rightarrow> time_ms" where
  "maxOr0 xs = (if xs = [] then 0 else Max (set xs))"

definition getOldestMessageTimestamp :: "bytes \<Rightarrow> bytes \<Rightarrow> time_ms db" where
  "getOldestMessageTimestamp l portalID = sqlQuery (\<lambda>s. minOr0 (map mTs
     (filter (\<lambda>r. mLogin r = l \<and> mPortal r = Some portalID \<and> \<not> mDeleted r) (messages s))))"

definition getNewestMessageTimestamp :: "bytes \<Rightarrow> bytes \<Rightarrow> time_ms db" where
  "getNewestMessageTimestamp l portalID = sqlQuery (\<lambda>s. maxOr0 (map mTs
     (filter (\<lambda>r. mLogin r = l \<and> mPortal r = Some portalID \<and> \<not> mDeleted r) (messages s))))"

definition getNewestBackfillableMessageTimestamp :: "bytes \<Rightarrow> bytes \<Rightarrow> bool \<Rightarrow> time_ms db" where
  "getNewestBackfillableMessageTimestamp l portalID requireContentful = sqlQuery (\<lambda>s. maxOr0 (map mTs
     (filter (\<lambda>r. servable l portalID r \<and> (\<not> requireContentful \<or> contentful r)) (messages s))))"

definition hasPortalMessages :: "bytes \<Rightarrow> bytes \<Rightarrow> bool db" where
  "hasPortalMessages l portalID = sqlQuery (\<lambda>s. 0 < countWhere (servable l portalID) (messages s))"

definition hasContentfulMessages :: "bytes \<Rightarrow> bytes \<Rightarrow> bool db" where
  "hasContentfulMessages l portalID = sqlQuery (\<lambda>s.
     0 < countWhere (\<lambda>r. servable l portalID r \<and> contentful r) (messages s))"

definition countBackfillableMessages :: "bytes \<Rightarrow> bytes \<Rightarrow> bool \<Rightarrow> nat db" where
  "countBackfillableMessages l portalID requireContentful = sqlQuery (\<lambda>s.
     countWhere (\<lambda>r. servable l portalID r \<and> (\<not> requireContentful \<or> contentful r)) (messages s))"

section \<open>Restoring\<close>

definition clearBodyScrubByPortalID :: "bytes \<Rightarrow> time_ms \<Rightarrow> bytes \<Rightarrow> nat db" where
  "clearBodyScrubByPortalID l now portalID =
     (let hit = (\<lambda>r. mLogin r = l \<and> mPortal r = Some portalID \<and> mScrubbed r) in
      sqlExecN (\<lambda>s. countWhere hit (messages s))
        (\<lambda>s. s\<lparr>messages := updateWhere hit (\<lambda>r. r\<lparr>mScrubbed := False, mUpdated := now\<rparr>) (messages s)\<rparr>))"

definition clearAllBodyScrub :: "bytes \<Rightarrow> time_ms \<Rightarrow> nat db" where
  "clearAllBodyScrub l now =
     (let hit = (\<lambda>r. mLogin r = l \<and> mScrubbed r \<and> \<not> mDeleted r) in
      sqlExecN (\<lambda>s. countWhere hit (messages s))
        (\<lambda>s. s\<lparr>messages := updateWhere hit (\<lambda>r. r\<lparr>mScrubbed := False, mUpdated := now\<rparr>) (messages s)\<rparr>))"

interpretation message_table: keyed_table messageKey mergeMessage
  by unfold_locales (simp add: messageKey_def mergeMessage_def Let_def)

interpretation message_stubs: keyed_table messageKey "\<lambda>old _. old"
  by unfold_locales

end
