(* ===== verification/RecycleBin.thy ===== *)
theory RecycleBin
  imports CloudMessages
begin

text \<open>
  \<open>classifyRecycleBinPortals\<close> of \<open>cloud_backfill_store.go\<close>: which portals look deleted on the user's
  devices, from the overlap of their newest messages with the identifiers in Apple's recycle bin.
\<close>

record recycleBinPortalState =
  rbPortalID :: bytes
  Total :: nat
  Recoverable :: nat
  RecoverableSuffix :: nat
  rbNewestTS :: time_ms
  HasLiveMessages :: bool
  HasDeletedMessages :: bool

definition recycleBinDeleteThreshold :: "nat \<Rightarrow> nat" where
  "recycleBinDeleteThreshold n = (if n \<le> 0 then 0 else if n < 3 then n else 3)"

definition LooksDeleted :: "recycleBinPortalState \<Rightarrow> bool" where
  "LooksDeleted s = (let threshold = recycleBinDeleteThreshold (Total s) in
     0 < threshold \<and> threshold \<le> RecoverableSuffix s)"

definition LooksRestored :: "recycleBinPortalState \<Rightarrow> bool" where
  "LooksRestored s = (0 < Recoverable s \<and> \<not> LooksDeleted s)"

definition NeedsUndelete :: "recycleBinPortalState \<Rightarrow> bool" where
  "NeedsUndelete s = (LooksRestored s \<and> HasDeletedMessages s \<and> \<not> HasLiveMessages s)"

definition normalizeRecoverableGUIDSet :: "bytes list \<Rightarrow> bytes set" where
  "normalizeRecoverableGUIDSet guids = set (filter (\<lambda>g. g \<noteq> [])
     (map (\<lambda>g. case Index g ''|'' of Some i \<Rightarrow> take i g | None \<Rightarrow> g) guids))"

text \<open>The scan keeps the states of the portals seen so far, the current one first, and whether the run of
  recoverable newest messages of the current portal is still open.\<close>

definition countRow :: "bytes set \<Rightarrow> message_row \<Rightarrow> recycleBinPortalState \<times> bool \<Rightarrow> recycleBinPortalState \<times> bool" where
  "countRow guidSet r st = (case st of (cur, open_suffix) \<Rightarrow>
     let isRecoverable = (mGuid r \<in> guidSet);
         cur1 = cur\<lparr>Total := Total cur + 1,
                    HasDeletedMessages := (HasDeletedMessages cur \<or> mDeleted r),
                    HasLiveMessages := (HasLiveMessages cur \<or> \<not> mDeleted r),
                    Recoverable := (if isRecoverable then Recoverable cur + 1 else Recoverable cur)\<rparr> in
     if open_suffix then
       (if isRecoverable then (cur1\<lparr>RecoverableSuffix := RecoverableSuffix cur + 1\<rparr>, True) else (cur1, False))
     else (cur1, False))"

definition freshState :: "message_row \<Rightarrow> recycleBinPortalState" where
  "freshState r = \<lparr>rbPortalID = coalesce (mPortal r) [], Total = 0, Recoverable = 0, RecoverableSuffix = 0,
     rbNewestTS = mTs r, HasLiveMessages = False, HasDeletedMessages = False\<rparr>"

definition scanRow :: "bytes set \<Rightarrow> message_row \<Rightarrow> recycleBinPortalState list \<times> bool
    \<Rightarrow> recycleBinPortalState list \<times> bool" where
  "scanRow guidSet r st = (case st of (states, open_suffix) \<Rightarrow>
     let (states1, open1) = (case states of
            cur # _ \<Rightarrow> if rbPortalID cur = coalesce (mPortal r) [] then (states, open_suffix)
                       else (freshState r # states, True)
          | [] \<Rightarrow> ([freshState r], True));
         (cur1, open2) = countRow guidSet r (hd states1, open1) in
     (cur1 # tl states1, open2))"

definition scannedRows :: "bytes \<Rightarrow> store \<Rightarrow> message_row list" where
  "scannedRows l s = sort_key (\<lambda>r. coalesce (mPortal r) []) (newestFirst (filter
     (\<lambda>r. mLogin r = l \<and> coalesce (mPortal r) [] \<noteq> [] \<and> mRecord r \<noteq> []) (messages s)))"

definition classifyRows :: "bytes set \<Rightarrow> message_row list \<Rightarrow> recycleBinPortalState list" where
  "classifyRows guidSet rows = filter (\<lambda>st. Recoverable st \<noteq> 0) (rev (fst (fold (scanRow guidSet) rows ([], False))))"

definition classifyRecycleBinPortals :: "bytes \<Rightarrow> bytes list \<Rightarrow> recycleBinPortalState list db" where
  "classifyRecycleBinPortals l recoverableGUIDs =
     (let guidSet = normalizeRecoverableGUIDSet recoverableGUIDs in
      if guidSet = {} then dbReturn []
      else dbBind (sqlQuery (scannedRows l)) (\<lambda>rows. dbReturn (classifyRows guidSet rows)))"

section \<open>The scan as a summary of each portal\<close>

text \<open>What the fields of a state mean, for the newest-first rows of its portal.\<close>

definition portalSummary :: "bytes set \<Rightarrow> message_row list \<Rightarrow> recycleBinPortalState" where
  "portalSummary guidSet rows =
     \<lparr>rbPortalID = coalesce (mPortal (hd rows)) [], Total = length rows,
      Recoverable = length (filter (\<lambda>r. mGuid r \<in> guidSet) rows),
      RecoverableSuffix = length (takeWhile (\<lambda>r. mGuid r \<in> guidSet) rows),
      rbNewestTS = mTs (hd rows), HasLiveMessages = list_ex (\<lambda>r. \<not> mDeleted r) rows,
      HasDeletedMessages = list_ex mDeleted rows\<rparr>"

lemma countRow_fold:
  assumes "open_suffix \<longleftrightarrow> takeWhile (\<lambda>r. mGuid r \<in> G) xs = xs"
    and "cur = (freshState h)\<lparr>Total := length xs, Recoverable := length (filter (\<lambda>r. mGuid r \<in> G) xs),
       RecoverableSuffix := length (takeWhile (\<lambda>r. mGuid r \<in> G) xs),
       HasLiveMessages := list_ex (\<lambda>r. \<not> mDeleted r) xs, HasDeletedMessages := list_ex mDeleted xs\<rparr>"
  shows "countRow G r (cur, open_suffix) =
    ((freshState h)\<lparr>Total := length (xs @ [r]), Recoverable := length (filter (\<lambda>r. mGuid r \<in> G) (xs @ [r])),
       RecoverableSuffix := length (takeWhile (\<lambda>r. mGuid r \<in> G) (xs @ [r])),
       HasLiveMessages := list_ex (\<lambda>r. \<not> mDeleted r) (xs @ [r]), HasDeletedMessages := list_ex mDeleted (xs @ [r])\<rparr>,
     takeWhile (\<lambda>r. mGuid r \<in> G) (xs @ [r]) = xs @ [r])"
proof (cases open_suffix)
  case True
  then have tw: "takeWhile (\<lambda>r. mGuid r \<in> G) xs = xs" using assms(1) by simp
  then have "\<forall>x\<in>set xs. mGuid x \<in> G" by (metis takeWhile_eq_all_conv)
  then show ?thesis using True assms(2) tw by (auto simp: countRow_def Let_def freshState_def takeWhile_append)
next
  case False
  then have "\<not> (\<forall>x\<in>set xs. mGuid x \<in> G)" using assms(1) by (metis takeWhile_eq_all_conv)
  moreover have "takeWhile (\<lambda>r. mGuid r \<in> G) xs \<noteq> xs @ [r]"
    by (metis length_takeWhile_le length_append_singleton Suc_n_not_le_n)
  ultimately show ?thesis using False assms(2)
    by (auto simp: countRow_def Let_def freshState_def takeWhile_append takeWhile_append1 takeWhile_eq_all_conv)
qed

lemma summary_fresh:
  "xs \<noteq> [] \<Longrightarrow> portalSummary G xs = (freshState (hd xs))\<lparr>Total := length xs,
     Recoverable := length (filter (\<lambda>r. mGuid r \<in> G) xs),
     RecoverableSuffix := length (takeWhile (\<lambda>r. mGuid r \<in> G) xs),
     HasLiveMessages := list_ex (\<lambda>r. \<not> mDeleted r) xs, HasDeletedMessages := list_ex mDeleted xs\<rparr>"
  by (simp add: portalSummary_def freshState_def)

abbreviation portalOf :: "message_row \<Rightarrow> bytes" where
  "portalOf r \<equiv> coalesce (mPortal r) []"

definition groupOf :: "message_row list \<Rightarrow> bytes \<Rightarrow> message_row list" where
  "groupOf rows p = filter (\<lambda>r. portalOf r = p) rows"

lemma countRow_summary:
  assumes "xs \<noteq> []" "open_suffix \<longleftrightarrow> takeWhile (\<lambda>r. mGuid r \<in> G) xs = xs"
  shows "countRow G r (portalSummary G xs, open_suffix) =
    (portalSummary G (xs @ [r]), takeWhile (\<lambda>r. mGuid r \<in> G) (xs @ [r]) = xs @ [r])"
  using countRow_fold [OF assms(2) summary_fresh [OF assms(1), of G], of r] assms(1)
  by (simp add: summary_fresh [of "xs @ [r]"])

lemma countRow_first:
  "countRow G r (freshState r, True) = (portalSummary G [r], takeWhile (\<lambda>r. mGuid r \<in> G) [r] = [r])"
  by (simp add: countRow_def freshState_def portalSummary_def Let_def)

lemma scanRow_same:
  "rbPortalID cur = portalOf r \<Longrightarrow> countRow G r (cur, opn) = (cur', opn') \<Longrightarrow>
   scanRow G r (cur # sts, opn) = (cur' # sts, opn')"
  by (simp add: scanRow_def)

lemma scanRow_new:
  "sts = [] \<or> rbPortalID (hd sts) \<noteq> portalOf r \<Longrightarrow>
   scanRow G r (sts, opn) = (portalSummary G [r] # sts, takeWhile (\<lambda>r. mGuid r \<in> G) [r] = [r])"
  by (cases sts) (auto simp: scanRow_def countRow_first)

lemma distinct_remdups_adj_sorted:
  fixes xs :: "'a::linorder list"
  shows "sorted xs \<Longrightarrow> distinct (remdups_adj xs)"
  by (induction xs rule: remdups_adj.induct) (auto dest: order_antisym)

lemma scan_summary:
  assumes "sorted (map portalOf rows)"
  shows "fold (scanRow G) rows ([], False) =
    (rev (map (\<lambda>p. portalSummary G (groupOf rows p)) (remdups_adj (map portalOf rows))),
     rows \<noteq> [] \<and> (let g = groupOf rows (portalOf (last rows)) in takeWhile (\<lambda>r. mGuid r \<in> G) g = g))"
  using assms
proof (induction rows rule: rev_induct)
  case Nil
  then show ?case by simp
next
  case (snoc r rows)
  let ?T = "\<lambda>xs. takeWhile (\<lambda>r. mGuid r \<in> G) xs = xs"
  have IH: "fold (scanRow G) rows ([], False) =
    (rev (map (\<lambda>p. portalSummary G (groupOf rows p)) (remdups_adj (map portalOf rows))),
     rows \<noteq> [] \<and> ?T (groupOf rows (portalOf (last rows))))"
    using snoc by (simp add: sorted_append Let_def)
  have sorted: "sorted (map portalOf rows)" using snoc.prems by (simp add: sorted_append)
  note snoc_prems = snoc.prems
  show ?case
  proof (cases rows rule: rev_cases)
    case Nil
    then show ?thesis by (simp add: scanRow_new groupOf_def)
  next
    case (snoc ys y)
    let ?K = "remdups_adj (map portalOf rows)"
    let ?g = "groupOf rows (portalOf y)"
    have ly: "rows \<noteq> []" "last rows = y" by (simp_all add: snoc)
    have "?K \<noteq> []" "last ?K = portalOf y" by (simp_all add: snoc last_remdups_adj)
    then obtain K where K: "?K = K @ [portalOf y]" by (metis append_butlast_last_id)
    have "distinct ?K" using sorted by (simp add: distinct_remdups_adj_sorted)
    then have K': "portalOf y \<notin> set K" by (simp add: K)
    have g: "?g \<noteq> []" "portalOf (hd ?g) = portalOf y"
      using hd_in_set [of ?g] by (auto simp: snoc groupOf_def)
    have id: "rbPortalID (portalSummary G ?g) = portalOf y" using g(2) by (simp add: portalSummary_def)
    have IH': "fold (scanRow G) rows ([], False) =
        (portalSummary G ?g # rev (map (\<lambda>p. portalSummary G (groupOf rows p)) K), ?T ?g)"
      using IH ly by (simp add: K)
    have grp: "groupOf (rows @ [r]) p = groupOf rows p @ (if portalOf r = p then [r] else [])" for p
      by (simp add: groupOf_def)
    have Kr: "remdups_adj (map portalOf rows @ [portalOf r]) =
        K @ portalOf y # (if portalOf y = portalOf r then [] else [portalOf r])"
      using remdups_adj_append_two [of "map portalOf ys" "portalOf y" "portalOf r"] K by (simp add: snoc)
    show ?thesis
    proof (cases "portalOf r = portalOf y")
      case True
      have "map (\<lambda>p. portalSummary G (groupOf (rows @ [r]) p)) K = map (\<lambda>p. portalSummary G (groupOf rows p)) K"
        using K' True by (auto simp: grp)
      moreover have "scanRow G r (fold (scanRow G) rows ([], False)) =
          (portalSummary G (?g @ [r]) # rev (map (\<lambda>p. portalSummary G (groupOf rows p)) K), ?T (?g @ [r]))"
        unfolding IH' using id True countRow_summary [OF g(1) refl] by (intro scanRow_same) simp_all
      ultimately show ?thesis using True Kr by (simp add: grp)
    next
      case False
      have "portalOf r \<notin> portalOf ` set rows"
      proof
        assume "portalOf r \<in> portalOf ` set rows"
        then have "portalOf r \<le> portalOf y" using sorted by (auto simp: snoc sorted_append)
        moreover have "portalOf y \<le> portalOf r" using snoc_prems by (simp add: snoc sorted_append)
        ultimately show False using False by simp
      qed
      then have e: "groupOf rows (portalOf r) = []" by (auto simp: groupOf_def filter_empty_conv image_iff)
      have "portalOf r \<notin> set ?K" using \<open>portalOf r \<notin> portalOf ` set rows\<close> by simp
      then have "map (\<lambda>p. portalSummary G (groupOf (rows @ [r]) p)) ?K = map (\<lambda>p. portalSummary G (groupOf rows p)) ?K"
        by (auto simp: grp)
      moreover have "scanRow G r (fold (scanRow G) rows ([], False)) =
          (portalSummary G [r] # portalSummary G ?g # rev (map (\<lambda>p. portalSummary G (groupOf rows p)) K), ?T [r])"
        unfolding IH' using id False by (intro scanRow_new) simp
      ultimately show ?thesis using False e Kr K by (simp add: grp)
    qed
  qed
qed

lemma takeWhile_at_least:
  "k \<le> length xs \<Longrightarrow> k \<le> length (takeWhile P xs) \<longleftrightarrow> list_all P (take k xs)"
proof (induction xs arbitrary: k)
  case (Cons x xs)
  then show ?case by (cases k) auto
qed simp

lemma LooksDeleted_summary:
  "rows \<noteq> [] \<Longrightarrow> LooksDeleted (portalSummary G rows) = list_all (\<lambda>r. mGuid r \<in> G) (take 3 rows)"
proof -
  assume ne: "rows \<noteq> []"
  let ?k = "recycleBinDeleteThreshold (length rows)"
  have k: "0 < ?k" "?k \<le> length rows" "take ?k rows = take 3 rows"
    using ne by (auto simp: recycleBinDeleteThreshold_def)
  show ?thesis
    using takeWhile_at_least [OF k(2), of "\<lambda>r. mGuid r \<in> G"] k by (simp add: LooksDeleted_def portalSummary_def Let_def)
qed

definition portalRows :: "bytes \<Rightarrow> bytes \<Rightarrow> store \<Rightarrow> message_row list" where
  "portalRows l p s = newestFirst (filter (\<lambda>r. mLogin r = l \<and> portalOf r = p \<and> mRecord r \<noteq> []) (messages s))"

lemma filter_newestFirst: "filter P (newestFirst rs) = newestFirst (filter P rs)"
  by (simp add: newestFirst_def rev_filter [symmetric] filter_sort)

lemma groupOf_scanned: "p \<noteq> [] \<Longrightarrow> groupOf (scannedRows l s) p = portalRows l p s"
  unfolding groupOf_def scannedRows_def portalRows_def sort_key_stable filter_newestFirst
  by (simp add: conj_commute) (metis (mono_tags, lifting) filter_cong)

lemma set_scanned: "set (scannedRows l s) = {r \<in> set (messages s). mLogin r = l \<and> portalOf r \<noteq> [] \<and> mRecord r \<noteq> []}"
  by (simp add: scannedRows_def newestFirst_def)

lemma classify_states:
  fixes l s G
  defines "ps \<equiv> remdups_adj (map portalOf (scannedRows l s))"
  shows "classifyRows G (scannedRows l s) =
    map (\<lambda>p. portalSummary G (portalRows l p s))
      (filter (\<lambda>p. list_ex (\<lambda>r. mGuid r \<in> G) (portalRows l p s)) ps)"
proof -
  have sorted: "sorted (map portalOf (scannedRows l s))" by (simp add: scannedRows_def)
  have ps: "p \<noteq> []" if "p \<in> set ps" for p using that by (auto simp: ps_def set_scanned)
  have "rev (fst (fold (scanRow G) (scannedRows l s) ([], False))) = map (\<lambda>p. portalSummary G (groupOf (scannedRows l s) p)) ps"
    by (simp add: scan_summary [OF sorted] ps_def rev_map)
  also have "\<dots> = map (\<lambda>p. portalSummary G (portalRows l p s)) ps"
    using ps by (auto simp: groupOf_scanned)
  finally show ?thesis
    by (simp add: classifyRows_def filter_map comp_def portalSummary_def list_ex_iff filter_empty_conv)
qed

lemma rbPortalID_summary:
  "portalRows l p s \<noteq> [] \<Longrightarrow> rbPortalID (portalSummary G (portalRows l p s)) = p"
  using hd_in_set [of "portalRows l p s"] by (auto simp: portalSummary_def portalRows_def newestFirst_def)

text \<open>The recycle-bin classification reports exactly the portals with a message in the bin, each once,
  with the true counts of its rows, and calls one deleted exactly when its three newest messages
  (all of them, if it has fewer) are in the bin.\<close>

theorem recycle_bin_verdict:
  "\<exists>states. outcome (classifyRecycleBinPortals l guids (s, [])) = Inr states
    \<and> distinct (map rbPortalID states)
    \<and> set (map rbPortalID states) = {p. p \<noteq> [] \<and> list_ex (\<lambda>r. mGuid r \<in> normalizeRecoverableGUIDSet guids) (portalRows l p s)}
    \<and> list_all (\<lambda>st. st = portalSummary (normalizeRecoverableGUIDSet guids) (portalRows l (rbPortalID st) s)
        \<and> LooksDeleted st = list_all (\<lambda>r. mGuid r \<in> normalizeRecoverableGUIDSet guids)
                              (take 3 (portalRows l (rbPortalID st) s))) states"
proof -
  let ?G = "normalizeRecoverableGUIDSet guids"
  let ?hit = "\<lambda>p. list_ex (\<lambda>r. mGuid r \<in> ?G) (portalRows l p s)"
  let ?states = "map (\<lambda>p. portalSummary ?G (portalRows l p s)) (filter ?hit (remdups_adj (map portalOf (scannedRows l s))))"
  have "outcome (classifyRecycleBinPortals l guids (s, [])) = Inr ?states"
  proof (cases "?G = {}")
    case True
    then show ?thesis by (simp add: classifyRecycleBinPortals_def dbReturn_def list_ex_iff)
  next
    case False
    then show ?thesis
      by (simp add: classifyRecycleBinPortals_def dbBind_def dbReturn_def classify_states Let_def)
  qed
  moreover have ne: "portalRows l p s \<noteq> []" if "?hit p" for p using that by (auto simp: list_ex_iff)
  have ids: "map rbPortalID ?states = filter ?hit (remdups_adj (map portalOf (scannedRows l s)))"
    by (auto simp: comp_def ne rbPortalID_summary intro!: map_idI)
  moreover have "distinct (map rbPortalID ?states)"
    unfolding ids by (intro distinct_filter distinct_remdups_adj_sorted) (simp add: scannedRows_def)
  moreover have "set (map rbPortalID ?states) = {p. p \<noteq> [] \<and> ?hit p}"
    unfolding ids by (auto simp: set_scanned list_ex_iff portalRows_def newestFirst_def image_iff)
  moreover have "list_all (\<lambda>st. st = portalSummary ?G (portalRows l (rbPortalID st) s)
        \<and> LooksDeleted st = list_all (\<lambda>r. mGuid r \<in> ?G) (take 3 (portalRows l (rbPortalID st) s))) ?states"
    using ne by (auto simp: list_all_iff rbPortalID_summary LooksDeleted_summary)
  ultimately show ?thesis by blast
qed

end
