(* ===== verification/Json.thy ===== *)
theory Json
  imports GoStrings
begin

text \<open>
  What the store uses of \<open>encoding/json\<close>: \<open>Marshal\<close> of a \<open>[]string\<close> and \<open>Unmarshal\<close> into one.  A slice is
  an \<open>option\<close>, because a nil slice is written \<open>null\<close> and an empty one \<open>[]\<close>.  \<open>Unmarshal\<close> answers \<open>None\<close>
  for an error: a syntax error, or a value that is no string.
\<close>

section \<open>Marshal\<close>

definition hexByte :: "nat \<Rightarrow> char" where
  "hexByte d = char_of (if d < 10 then 48 + d else 87 + d)"

definition backslash :: char where
  "backslash = char_of (92 :: nat)"

definition quote :: char where
  "quote = char_of (34 :: nat)"

definition safeByte :: "nat \<Rightarrow> bool" where
  "safeByte b = (32 \<le> b \<and> b < 128 \<and> b \<noteq> 34 \<and> b \<noteq> 92 \<and> b \<noteq> 38 \<and> b \<noteq> 60 \<and> b \<noteq> 62)"

definition escapeRune :: "nat \<times> bytes \<Rightarrow> bytes" where
  "escapeRune rb = (case rb of (r, bs) \<Rightarrow>
     if r < 128 then
       (if safeByte r then bs
        else if r = 34 \<or> r = 92 then backslash # bs
        else if r = 8 then [backslash, CHR ''b'']
        else if r = 12 then [backslash, CHR ''f'']
        else if r = 10 then [backslash, CHR ''n'']
        else if r = 13 then [backslash, CHR ''r'']
        else if r = 9 then [backslash, CHR ''t'']
        else backslash # ''u00'' @ [hexByte (r div 16), hexByte (r mod 16)])
     else if r = runeError \<and> length bs = 1 then backslash # ''ufffd''
     else if r = 0x2028 \<or> r = 0x2029 then backslash # ''u202'' @ [hexByte (r mod 16)]
     else bs)"

definition jsonString :: "bytes \<Rightarrow> bytes" where
  "jsonString s = quote # concat (map escapeRune (runes s)) @ [quote]"

definition marshalStrings :: "bytes list option \<Rightarrow> bytes" where
  "marshalStrings v = (case v of
     None \<Rightarrow> ''null''
   | Some xs \<Rightarrow> ''['' @ Join (map jsonString xs) '','' @ '']'')"

section \<open>Unmarshal\<close>

definition jsonSpace :: "char \<Rightarrow> bool" where
  "jsonSpace c = (of_char c \<in> {32, 9, 10, 13 :: nat})"

definition hexVal :: "char \<Rightarrow> nat option" where
  "hexVal c = (let b = of_char c :: nat in
     if 48 \<le> b \<and> b \<le> 57 then Some (b - 48)
     else if 97 \<le> b \<and> b \<le> 102 then Some (b - 87)
     else if 65 \<le> b \<and> b \<le> 70 then Some (b - 55)
     else None)"

fun hex4 :: "bytes \<Rightarrow> (nat \<times> bytes) option" where
  "hex4 (a # b # c # d # rest) =
     (case (hexVal a, hexVal b, hexVal c, hexVal d) of
        (Some w, Some x, Some y, Some z) \<Rightarrow> Some (w * 4096 + x * 256 + y * 16 + z, rest)
      | _ \<Rightarrow> None)"
| "hex4 _ = None"

text \<open>A \<open>\u\<close> escape; a high surrogate takes the low one that follows, a lone surrogate becomes U+FFFD.\<close>

definition unicodeEscape :: "bytes \<Rightarrow> (bytes \<times> bytes) option" where
  "unicodeEscape s =
     (case hex4 s of
        None \<Rightarrow> None
      | Some (r, rest) \<Rightarrow>
          if 0xD800 \<le> r \<and> r \<le> 0xDFFF then
            (case rest of
               b # u # rest2 \<Rightarrow>
                 (if b = backslash \<and> u = CHR ''u'' then
                    (case hex4 rest2 of
                       Some (r2, rest3) \<Rightarrow>
                         if r \<le> 0xDBFF \<and> 0xDC00 \<le> r2 \<and> r2 \<le> 0xDFFF
                         then Some (encodeRune ((r - 0xD800) * 1024 + (r2 - 0xDC00) + 0x10000), rest3)
                         else Some (encodeRune runeError, rest)
                     | None \<Rightarrow> Some (encodeRune runeError, rest))
                  else Some (encodeRune runeError, rest))
             | _ \<Rightarrow> Some (encodeRune runeError, rest))
          else Some (encodeRune r, rest))"

definition simpleEscape :: "char \<Rightarrow> bytes option" where
  "simpleEscape e =
     (if e = quote \<or> e = backslash \<or> e = CHR ''/'' then Some [e]
      else if e = CHR ''b'' then Some [char_of (8 :: nat)]
      else if e = CHR ''f'' then Some [char_of (12 :: nat)]
      else if e = CHR ''n'' then Some [char_of (10 :: nat)]
      else if e = CHR ''r'' then Some [char_of (13 :: nat)]
      else if e = CHR ''t'' then Some [char_of (9 :: nat)]
      else None)"

text \<open>One character of a string literal: its bytes and what follows, or the end of the literal.\<close>

datatype literal_step = LitBad | LitEnd bytes | LitChar bytes bytes

definition literalStep :: "bytes \<Rightarrow> literal_step" where
  "literalStep s =
     (case s of
        [] \<Rightarrow> LitBad
      | c # cs \<Rightarrow>
          if c = quote then LitEnd cs
          else if c = backslash then
            (case cs of
               [] \<Rightarrow> LitBad
             | e # rest \<Rightarrow>
                 if e = CHR ''u''
                 then (case unicodeEscape rest of Some (bs, r) \<Rightarrow> LitChar bs r | None \<Rightarrow> LitBad)
                 else (case simpleEscape e of Some bs \<Rightarrow> LitChar bs rest | None \<Rightarrow> LitBad))
          else if of_char c < (32 :: nat) then LitBad
          else let d = decodeRune s in LitChar (encodeRune (fst d)) (drop (snd d) s))"

lemma hex4_shorter: "hex4 s = Some (r, t) \<Longrightarrow> length t < length s"
  by (induction s rule: hex4.induct) (auto split: option.splits)

lemma unicodeEscape_shorter: "unicodeEscape s = Some (b, t) \<Longrightarrow> length t < length s"
  by (auto simp: unicodeEscape_def split: option.splits if_splits list.splits dest!: hex4_shorter)

lemma literalStep_shorter: "literalStep s = LitChar b t \<Longrightarrow> length t < length s"
  using decodeRune_width [of s]
  by (auto simp: literalStep_def Let_def split: list.splits if_splits option.splits
           dest!: unicodeEscape_shorter)

function parseLiteral :: "bytes \<Rightarrow> (bytes \<times> bytes) option" where
  "parseLiteral s =
     (case literalStep s of
        LitBad \<Rightarrow> None
      | LitEnd rest \<Rightarrow> Some ([], rest)
      | LitChar bs rest \<Rightarrow>
          (case parseLiteral rest of Some (t, r) \<Rightarrow> Some (bs @ t, r) | None \<Rightarrow> None))"
  by pat_completeness auto
termination by (relation "measure length") (auto dest: literalStep_shorter)

declare parseLiteral.simps [simp del]

definition parseElement :: "bytes \<Rightarrow> (bytes \<times> bytes) option" where
  "parseElement s =
     (if HasPrefix s ''null'' then Some ([], drop 4 s)
      else case s of c # cs \<Rightarrow> (if c = quote then parseLiteral cs else None) | [] \<Rightarrow> None)"

lemma parseLiteral_shorter: "parseLiteral s = Some (x, t) \<Longrightarrow> length t < length s"
proof (induction s arbitrary: x t rule: parseLiteral.induct)
  case (1 s)
  show ?case
  proof (cases "literalStep s")
    case (LitEnd r)
    then have "s = quote # r" by (auto simp: literalStep_def Let_def split: list.splits if_splits option.splits)
    moreover have "t = r" using 1(2) LitEnd by (simp add: parseLiteral.simps [of s])
    ultimately show ?thesis by simp
  next
    case (LitChar b r)
    then show ?thesis
      using 1(1) [OF LitChar] 1(2) literalStep_shorter [OF LitChar]
      by (auto simp: parseLiteral.simps [of s] split: option.splits)
  qed (use 1(2) in \<open>simp add: parseLiteral.simps [of s]\<close>)
qed

lemma parseElement_shorter: "parseElement s = Some (x, t) \<Longrightarrow> length t < length s"
proof (cases "HasPrefix s ''null''")
  case True
  then have "s \<noteq> []" by auto
  then show "parseElement s = Some (x, t) \<Longrightarrow> length t < length s" using True by (auto simp: parseElement_def)
next
  case False
  then show "parseElement s = Some (x, t) \<Longrightarrow> length t < length s"
    using parseLiteral_shorter [of "tl s" x t]
    by (cases s) (auto simp: parseElement_def split: if_splits)
qed

function parseElements :: "bytes \<Rightarrow> (bytes list \<times> bytes) option" where
  "parseElements s =
     (case parseElement (dropWhile jsonSpace s) of
        None \<Rightarrow> None
      | Some (x, t) \<Rightarrow>
          (case dropWhile jsonSpace t of
             [] \<Rightarrow> None
           | c # r \<Rightarrow>
               if c = CHR '']'' then Some ([x], r)
               else if c = CHR '','' then
                 (case parseElements r of Some (xs, u) \<Rightarrow> Some (x # xs, u) | None \<Rightarrow> None)
               else None))"
  by pat_completeness auto
termination
proof (relation "measure length")
  fix s p x t c and r :: bytes
  assume "parseElement (dropWhile jsonSpace s) = Some p" "(x, t) = p" "dropWhile jsonSpace t = c # r"
  then show "(r, s) \<in> measure length"
    using parseElement_shorter [of "dropWhile jsonSpace s" x t] length_dropWhile_le [of jsonSpace s]
      length_dropWhile_le [of jsonSpace t] by (simp add: Suc_le_eq)
qed simp

declare parseElements.simps [simp del]

definition unmarshalStrings :: "bytes \<Rightarrow> bytes list option option" where
  "unmarshalStrings s =
     (let t = dropWhile jsonSpace s in
      if HasPrefix t ''null'' then (if dropWhile jsonSpace (drop 4 t) = [] then Some None else None)
      else case t of
        c # cs \<Rightarrow>
          (if c = CHR ''['' then
             (case dropWhile jsonSpace cs of
                d # ds \<Rightarrow>
                  if d = CHR '']'' then (if dropWhile jsonSpace ds = [] then Some (Some []) else None)
                  else (case parseElements cs of
                          Some (xs, u) \<Rightarrow> (if dropWhile jsonSpace u = [] then Some (Some xs) else None)
                        | None \<Rightarrow> None)
              | [] \<Rightarrow> None)
           else None)
      | [] \<Rightarrow> None)"

section \<open>Round trip\<close>

lemma hexVal_hexByte: "d < 16 \<Longrightarrow> hexVal (hexByte d) = Some d"
  by (auto simp: hexVal_def hexByte_def Let_def)

lemma of_char_consts: "(of_char quote :: nat) = 34" "(of_char backslash :: nat) = 92"
  by (simp_all add: quote_def backslash_def)

lemma char_eq_iff_nat: "(c :: char) = d \<longleftrightarrow> (of_char c :: nat) = of_char d"
  by simp

lemma quote_backslash: "backslash \<noteq> quote" "quote \<noteq> CHR ''u''" "backslash \<noteq> CHR ''u''"
  by (simp_all only: char_eq_iff_nat of_char_consts) simp_all

lemma short_escape:
  "(n, e) \<in> {(8, CHR ''b''), (12, CHR ''f''), (10, CHR ''n''), (13, CHR ''r''), (9, CHR ''t'')} \<Longrightarrow>
     escapeRune (n, [char_of n]) = [backslash, e] \<and> simpleEscape e = Some [char_of n] \<and> e \<noteq> CHR ''u''"
  by (elim insertE emptyE; clarify;
      simp add: escapeRune_def safeByte_def simpleEscape_def char_eq_iff_nat [of _ quote]
        char_eq_iff_nat [of _ backslash] of_char_consts)

lemma literal_escape:
  assumes "of_char c < (128 :: nat)"
  shows "literalStep (escapeRune (of_char c, [c]) @ t) = LitChar [c] t"
proof -
  let ?r = "of_char c :: nat"
  have enc: "encodeRune ?r = [c]" using assms by (simp add: encodeRune_of_char)
  consider (safe) "safeByte ?r" | (self) "?r = 34 \<or> ?r = 92"
    | (short) "?r \<in> {8, 9, 10, 12, 13}"
    | (hex) "\<not> safeByte ?r" "?r \<notin> {34, 92, 8, 9, 10, 12, 13}" by blast
  then show ?thesis
  proof cases
    case safe
    then have "c \<noteq> quote" "c \<noteq> backslash" "\<not> ?r < 32"
      by (auto simp: safeByte_def quote_def backslash_def)
    moreover have "decodeRune (c # t) = (?r, 1)"
      using assms by (simp add: decodeRune_def byteAt_def Let_def)
    ultimately show ?thesis using safe assms enc
      by (simp add: literalStep_def escapeRune_def Let_def)
  next
    case self
    then have "c = quote \<or> c = backslash" unfolding char_eq_iff_nat of_char_consts .
    then show ?thesis
      by (elim disjE) (simp_all add: literalStep_def escapeRune_def safeByte_def of_char_consts
        simpleEscape_def quote_backslash)
  next
    case short
    then obtain e where "(?r, e) \<in> {(8, CHR ''b''), (12, CHR ''f''), (10, CHR ''n''), (13, CHR ''r''), (9, CHR ''t'')}"
      by auto
    from short_escape [OF this] show ?thesis
      by (simp add: literalStep_def quote_backslash)
  next
    case hex
    then have e: "escapeRune (?r, [c]) = backslash # ''u00'' @ [hexByte (?r div 16), hexByte (?r mod 16)]"
      using assms by (auto simp: escapeRune_def)
    have z: "hexVal (CHR ''0'') = Some 0" by (simp add: hexVal_def)
    have "?r div 16 < 16" "?r mod 16 < 16" using assms by auto
    then have "hex4 (''00'' @ [hexByte (?r div 16), hexByte (?r mod 16)] @ t) = Some (?r, t)"
      by (simp add: z hexVal_hexByte)
    moreover have "\<not> 0xD800 \<le> ?r" using assms by simp
    ultimately have "unicodeEscape (''00'' @ [hexByte (?r div 16), hexByte (?r mod 16)] @ t) = Some ([c], t)"
      by (simp add: unicodeEscape_def enc)
    then show ?thesis
      by (simp add: e literalStep_def quote_backslash)
  qed
qed

lemma parse_literal:
  "ascii s \<Longrightarrow> parseLiteral (concat (map escapeRune (runes s)) @ quote # t) = Some (s, t)"
proof (induction s)
  case Nil
  then show ?case by (simp add: parseLiteral.simps [of "quote # t"] literalStep_def)
next
  case (Cons c s)
  then have c: "of_char c < (128 :: nat)" and s: "ascii s" by simp_all
  let ?tail = "concat (map escapeRune (runes s)) @ quote # t"
  have "parseLiteral (escapeRune (of_char c, [c]) @ ?tail) = Some (c # s, t)"
    using Cons.IH [OF s] literal_escape [OF c, of ?tail] by (simp add: parseLiteral.simps [of "_ @ _"])
  then show ?case using c by (simp add: runes_ascii_Cons)
qed

lemma quote_plain: "quote \<noteq> CHR '','' \<and> quote \<noteq> CHR '']'' \<and> quote \<noteq> CHR ''n'' \<and> \<not> jsonSpace quote"
  by (simp add: quote_def char_eq_iff_nat jsonSpace_def)

lemma parse_string: "ascii s \<Longrightarrow> parseElement (jsonString s @ t) = Some (s, t)"
  using quote_plain by (simp add: parseElement_def jsonString_def parse_literal HasPrefix_def)

lemma jsonString_start: "dropWhile jsonSpace (jsonString s @ t) = jsonString s @ t"
  using quote_plain by (simp add: jsonString_def)

lemma json_punct: "\<not> jsonSpace (CHR '','')" "\<not> jsonSpace (CHR '']'')" "\<not> jsonSpace (CHR ''['')" "\<not> jsonSpace (CHR ''n'')"
  by (simp_all add: jsonSpace_def)

lemma parse_elements:
  "xs \<noteq> [] \<Longrightarrow> list_all ascii xs \<Longrightarrow>
   parseElements (Join (map jsonString xs) '','' @ CHR '']'' # t) = Some (xs, t)"
proof (induction xs rule: induct_list012)
  case (2 x)
  then show ?case
    by (simp add: parseElements.simps [of "_ @ _"] jsonString_start parse_string json_punct)
next
  case (3 x y zs)
  let ?rest = "Join (map jsonString (y # zs)) '','' @ CHR '']'' # t"
  have "parseElements (jsonString x @ CHR '','' # ?rest) = Some (x # y # zs, t)"
    using 3 by (simp add: parseElements.simps [of "jsonString x @ _"] jsonString_start parse_string json_punct)
  then show ?case by simp
qed simp

lemma unmarshal_marshal:
  assumes "list_all ascii xs"
  shows "unmarshalStrings (marshalStrings (Some xs)) = Some (Some xs)"
    and "unmarshalStrings (marshalStrings None) = Some None"
proof -
  have e: "dropWhile jsonSpace [] = []" by simp
  show "unmarshalStrings (marshalStrings None) = Some None"
    by (simp add: unmarshalStrings_def marshalStrings_def json_punct)
  show "unmarshalStrings (marshalStrings (Some xs)) = Some (Some xs)"
  proof (cases xs)
    case Nil
    then show ?thesis by (simp add: unmarshalStrings_def marshalStrings_def json_punct)
  next
    case (Cons x ys)
    let ?body = "Join (map jsonString xs) '','' @ CHR '']'' # []"
    obtain r where r: "?body = quote # r" by (cases ys) (auto simp: Cons jsonString_def)
    have "parseElements ?body = Some (xs, [])" using parse_elements [of xs "[]"] assms Cons by simp
    then show ?thesis using r quote_plain
      by (simp add: unmarshalStrings_def marshalStrings_def json_punct Let_def)
  qed
qed

end
