(* ===== verification/CloudChats.thy ===== *)
theory CloudChats
  imports CloudMessages Identifiers Json
begin

text \<open>
  The chat half of \<open>cloud_backfill_store.go\<close>: the rows of \<open>cloud_chat\<close>, their import, deletion and
  restoration, the tombstones, and the lookups that join chats and messages.  Where the code takes
  \<open>LIMIT 1\<close> without an order, the model takes the first row of the table.
\<close>

section \<open>Rows\<close>

record cloudChatUpsertRow =
  uCloudChatID :: bytes
  uRecordName :: bytes
  uGroupID :: bytes
  uPortalID :: bytes
  uService :: bytes
  uDisplayName :: "bytes option"
  uGroupPhotoGuid :: "bytes option"
  uParticipantsJSON :: bytes
  uUpdatedTS :: time_ms
  uIsFiltered :: int

definition emptyChat :: "bytes \<Rightarrow> bytes \<Rightarrow> bytes \<Rightarrow> time_ms \<Rightarrow> chat_row" where
  "emptyChat l chatID portalID now =
     \<lparr>cLogin = l, cChat = chatID, cRecord = [], cGroup = [], cPortal = portalID, cService = None,
      cDisplay = None, cPhoto = None, cParticipants = None, cUpdated = None, cCreated = now,
      cDeleted = False, cFiltered = 0, cFwdDone = False\<rparr>"

definition importedChat :: "bytes \<Rightarrow> time_ms \<Rightarrow> cloudChatUpsertRow \<Rightarrow> chat_row" where
  "importedChat l now c =
     \<lparr>cLogin = l, cChat = uCloudChatID c, cRecord = uRecordName c, cGroup = uGroupID c,
      cPortal = uPortalID c, cService = Some (uService c), cDisplay = uDisplayName c,
      cPhoto = uGroupPhotoGuid c, cParticipants = Some (uParticipantsJSON c), cUpdated = Some (uUpdatedTS c),
      cCreated = now, cDeleted = False, cFiltered = uIsFiltered c, cFwdDone = False\<rparr>"

text \<open>The conflict clause that \<open>upsertChat\<close> and \<open>upsertChatBatch\<close> share; the batch also takes over
  \<open>is_filtered\<close>.  An unset roster is the empty string or an empty JSON array.\<close>

definition rosterUnset :: "bytes option \<Rightarrow> bool" where
  "rosterUnset p = (coalesce p [] \<in> {[], ''[]''})"

definition mergeChat :: "chat_row \<Rightarrow> chat_row \<Rightarrow> chat_row" where
  "mergeChat old new =
     (let newer = (case cUpdated new of None \<Rightarrow> False | Some u \<Rightarrow> coalesce (cUpdated old) 0 \<le> u) in
      old\<lparr>cRecord := cRecord new, cGroup := cGroup new, cPortal := cPortal new, cService := cService new,
        cDisplay := (if newer then cDisplay new else cDisplay old),
        cPhoto := (if newer then cPhoto new else cPhoto old),
        cParticipants := (if rosterUnset (cParticipants old) then cParticipants new else cParticipants old),
        cUpdated := (if newer then cUpdated new else cUpdated old)\<rparr>)"

definition mergeChatBatch :: "chat_row \<Rightarrow> chat_row \<Rightarrow> chat_row" where
  "mergeChatBatch old new = (mergeChat old new)\<lparr>cFiltered := cFiltered new, cDeleted := cDeleted old\<rparr>"

definition chatStmt :: "(chat_row list \<Rightarrow> chat_row list) \<Rightarrow> unit db" where
  "chatStmt f = sqlExec (\<lambda>s. s\<lparr>chats := f (chats s)\<rparr>)"

section \<open>Import\<close>

definition upsertChat :: "bytes \<Rightarrow> time_ms \<Rightarrow> bytes \<Rightarrow> bytes \<Rightarrow> bytes \<Rightarrow> bytes \<Rightarrow> bytes \<Rightarrow> bytes option
    \<Rightarrow> bytes option \<Rightarrow> bytes list option \<Rightarrow> time_ms \<Rightarrow> unit db" where
  "upsertChat l now cloudChatID recordName groupID portalID service displayName groupPhotoGuid participants updatedTS =
     chatStmt (upsertRow chatKey mergeChat
       \<lparr>cLogin = l, cChat = cloudChatID, cRecord = recordName, cGroup = groupID, cPortal = portalID,
        cService = Some service, cDisplay = displayName, cPhoto = groupPhotoGuid,
        cParticipants = Some (marshalStrings participants), cUpdated = Some updatedTS, cCreated = now,
        cDeleted = False, cFiltered = 0, cFwdDone = False\<rparr>)"

definition upsertChatBatch :: "bytes \<Rightarrow> time_ms \<Rightarrow> cloudChatUpsertRow list \<Rightarrow> unit db" where
  "upsertChatBatch l now cs =
     (if cs = [] then dbReturn ()
      else sqlTx (dbThen (wrapErr ''failed to prepare batch statement'' (sqlExec id))
        (dbEach (\<lambda>c. wrapErr (''failed to insert chat '' @ uCloudChatID c)
            (chatStmt (upsertRow chatKey mergeChatBatch (importedChat l now c)))) cs)))"

definition seedChatFromRecycleBin :: "bytes \<Rightarrow> time_ms \<Rightarrow> bytes \<Rightarrow> bytes \<Rightarrow> bytes \<Rightarrow> bytes \<Rightarrow> bytes
    \<Rightarrow> bytes list \<Rightarrow> unit db" where
  "seedChatFromRecycleBin l now portalID chatID0 groupID displayName groupPhotoGuid participants =
     (let chatID = (if chatID0 = [] then ''recycle:'' @ portalID else chatID0);
          new = (emptyChat l chatID portalID now)\<lparr>cGroup := groupID,
            cDisplay := (if displayName = [] then None else Some displayName),
            cPhoto := (if groupPhotoGuid = [] then None else Some groupPhotoGuid),
            cParticipants := Some (if participants = [] then ''[]'' else marshalStrings (Some participants)),
            cUpdated := Some now\<rparr> in
      dbCatch (chatStmt (upsertRow chatKey
        (\<lambda>old new. old\<lparr>cPortal := cPortal new,
           cDisplay := (if cDisplay new \<noteq> None then cDisplay new else cDisplay old),
           cPhoto := (if cPhoto new \<noteq> None then cPhoto new else cPhoto old),
           cParticipants := (if rosterUnset (cParticipants old) then cParticipants new else cParticipants old),
           cDeleted := False, cUpdated := cUpdated new\<rparr>) new)) (\<lambda>_. dbReturn ()))"

section \<open>Deletion by CloudKit\<close>

definition deleteChatBatch :: "bytes \<Rightarrow> bytes list \<Rightarrow> unit db" where
  "deleteChatBatch l chatIDs = dbEach (\<lambda>chunk. wrapErr ''failed to delete chat batch''
     (chatStmt (deleteWhere (\<lambda>r. cLogin r = l \<and> cChat r \<in> set chunk)))) (chunksOf 500 chatIDs)"

definition deleteChatsByRecordNames :: "bytes \<Rightarrow> time_ms \<Rightarrow> bytes list \<Rightarrow> unit db" where
  "deleteChatsByRecordNames l now recordNames = dbEach (\<lambda>chunk.
     wrapErr ''failed to soft-delete chats by record name''
       (chatStmt (updateWhere (\<lambda>r. cLogin r = l \<and> cRecord r \<in> set chunk \<and> \<not> cDeleted r)
          (\<lambda>r. r\<lparr>cDeleted := True, cUpdated := Some now\<rparr>)))) (chunksOf 500 recordNames)"

definition lookupPortalIDsByRecordNames :: "bytes \<Rightarrow> bytes list \<Rightarrow> (bytes \<Rightarrow> bytes option) db" where
  "lookupPortalIDsByRecordNames l recordNames = dbFold (\<lambda>chunk result. dbBind
      (wrapErr ''failed to lookup portal IDs by record names''
        (sqlQuery (\<lambda>s. filter (\<lambda>r. cLogin r = l \<and> cRecord r \<in> set chunk) (chats s))))
      (\<lambda>rows. dbReturn (fold (\<lambda>r m. m(cRecord r \<mapsto> cPortal r)) rows result)))
     (chunksOf 500 recordNames) Map.empty"

definition hasChatBatch :: "bytes \<Rightarrow> bytes list \<Rightarrow> bytes set db" where
  "hasChatBatch l chatIDs = dbFold (\<lambda>chunk existing. dbBind
      (sqlQuery (\<lambda>s. map cChat (filter (\<lambda>r. cLogin r = l \<and> cChat r \<in> set chunk) (chats s))))
      (\<lambda>found. dbReturn (existing \<union> set found))) (chunksOf 500 chatIDs) {}"

section \<open>Lookups\<close>

definition ofPortal :: "bytes \<Rightarrow> bytes \<Rightarrow> chat_row \<Rightarrow> bool" where
  "ofPortal l portalID r = (cLogin r = l \<and> cPortal r = portalID)"

text \<open>\<open>LOWER(group_id)=LOWER(x) OR LOWER(cloud_chat_id)=LOWER(x)\<close>\<close>

definition ofGroup :: "bytes \<Rightarrow> bytes \<Rightarrow> chat_row \<Rightarrow> bool" where
  "ofGroup l uuid r = (cLogin r = l \<and> (sqlLower (cGroup r) = sqlLower uuid \<or> sqlLower (cChat r) = sqlLower uuid))"

definition isGid :: "bytes \<Rightarrow> bool" where
  "isGid portalID = HasPrefix portalID ''gid:''"

definition gidUUID :: "bytes \<Rightarrow> bytes" where
  "gidUUID portalID = TrimPrefix portalID ''gid:''"

definition hasChat :: "bytes \<Rightarrow> bytes \<Rightarrow> bool db" where
  "hasChat l cloudChatID = sqlQuery (\<lambda>s. 0 < countWhere (\<lambda>r. cLogin r = l \<and> cChat r = cloudChatID) (chats s))"

definition portalHasChat :: "bytes \<Rightarrow> bytes \<Rightarrow> bool db" where
  "portalHasChat l portalID = sqlQuery (\<lambda>s. 0 < countWhere (\<lambda>r. ofPortal l portalID r \<and> \<not> cDeleted r) (chats s))"

definition portalIsExplicitlyDeleted :: "bytes \<Rightarrow> bytes \<Rightarrow> bool db" where
  "portalIsExplicitlyDeleted l portalID = sqlQuery (\<lambda>s.
     0 < countWhere (\<lambda>r. ofPortal l portalID r \<and> cDeleted r) (chats s))"

definition chatPrefixes :: "bytes list" where
  "chatPrefixes = [''iMessage;-;'', ''any;-;'', ''SMS;-;'']"

text \<open>The loop over the prefixes ignores errors and empty portal IDs.\<close>

fun tryPrefixes :: "bytes \<Rightarrow> bytes \<Rightarrow> bytes list \<Rightarrow> bytes db" where
  "tryPrefixes l skip [] = dbReturn []"
| "tryPrefixes l skip (candidate # rest) =
     (if candidate = skip then tryPrefixes l skip rest
      else dbBind (dbTry (sqlQuery (\<lambda>s.
             find (\<lambda>r. cLogin r = l \<and> (cChat r = candidate \<or> cRecord r = candidate)) (chats s))))
           (\<lambda>r. case r of
              Inr (Some c) \<Rightarrow> if cPortal c \<noteq> [] then dbReturn (cPortal c) else tryPrefixes l skip rest
            | _ \<Rightarrow> tryPrefixes l skip rest))"

text \<open>\<open>strings.SplitN(id, ";-;", 2)\<close> has two parts: the second one.\<close>

definition bareChatID :: "bytes \<Rightarrow> bytes option" where
  "bareChatID s = (case Index s '';-;'' of Some i \<Rightarrow> Some (drop (i + 3) s) | None \<Rightarrow> None)"

lemma Index_nonempty: "Index s (c # p) = Some i \<Longrightarrow> s \<noteq> []"
  using Index_set [of s "c # p" i] by auto

lemma bareChatID_shorter: "bareChatID s = Some t \<Longrightarrow> length t < length s"
  using Index_nonempty [of s] by (auto simp: bareChatID_def split: option.splits)

function getChatPortalID :: "bytes \<Rightarrow> bytes \<Rightarrow> bytes db" where
  "getChatPortalID l cloudChatID =
     dbBind (sqlQuery (\<lambda>s. find (\<lambda>r. cLogin r = l \<and> (cChat r = cloudChatID \<or> cRecord r = cloudChatID
                \<or> sqlLower (cGroup r) = sqlLower cloudChatID)) (chats s)))
       (\<lambda>row. case row of
          Some r \<Rightarrow> dbReturn (cPortal r)
        | None \<Rightarrow>
            (case bareChatID cloudChatID of
               Some bareID \<Rightarrow>
                 dbBind (dbTry (getChatPortalID l bareID))
                   (\<lambda>pid. case pid of
                      Inr (c # cs) \<Rightarrow> dbReturn (c # cs)
                    | _ \<Rightarrow> tryPrefixes l cloudChatID (map (\<lambda>p. p @ bareID) chatPrefixes))
             | None \<Rightarrow>
                 if \<not> Contains cloudChatID '';''
                 then tryPrefixes l [] (map (\<lambda>p. p @ cloudChatID) chatPrefixes)
                 else dbReturn []))"
  by pat_completeness auto
termination by (relation "measure (length \<circ> snd)") (auto dest: bareChatID_shorter)

declare getChatPortalID.simps [simp del]

definition listDeletedPortalIDs :: "bytes \<Rightarrow> bytes list db" where
  "listDeletedPortalIDs l = sqlQuery (\<lambda>s.
     filter (\<lambda>p. list_ex (\<lambda>r. ofPortal l p r \<and> cDeleted r) (chats s)
               \<and> \<not> list_ex (\<lambda>r. ofPortal l p r \<and> \<not> cDeleted r) (chats s))
       (remdups (map cPortal (filter (\<lambda>r. cLogin r = l \<and> cPortal r \<noteq> []) (chats s)))))"

record softDeletedPortalInfo =
  NewestTS :: time_ms
  InfoDeleted :: bool

definition getSoftDeletedPortalInfo :: "bytes \<Rightarrow> bytes \<Rightarrow> softDeletedPortalInfo db" where
  "getSoftDeletedPortalInfo l portalID = sqlQuery (\<lambda>s.
     let cs = filter (ofPortal l portalID) (chats s);
         ms = filter (\<lambda>r. mLogin r = l \<and> mPortal r = Some portalID \<and> mDeleted r) (messages s) in
     \<lparr>NewestTS = max (max 0 (maxOr0 (map mTs ms))) (maxOr0 (map the (filter (\<lambda>u. u \<noteq> None) (map cUpdated cs)))),
      InfoDeleted = (0 < countWhere cDeleted cs \<and> countWhere (\<lambda>r. \<not> cDeleted r) cs = 0)\<rparr>)"

text \<open>\<open>ORDER BY updated_ts DESC LIMIT 1\<close>; \<open>NULL\<close> is the smallest value.\<close>

definition newestChat :: "chat_row list \<Rightarrow> chat_row option" where
  "newestChat rs = (case sort_key (\<lambda>r. case cUpdated r of None \<Rightarrow> (1 :: nat, 0) | Some t \<Rightarrow> (0, - t)) rs of
     [] \<Rightarrow> None | r # _ \<Rightarrow> Some r)"

definition rosterRow :: "(chat_row \<Rightarrow> bool) \<Rightarrow> store \<Rightarrow> bytes option" where
  "rosterRow P s = (case find (\<lambda>r. P r \<and> coalesce (cParticipants r) [] \<noteq> []) (chats s) of
     Some r \<Rightarrow> cParticipants r | None \<Rightarrow> None)"

definition normalizeAll :: "bytes list \<Rightarrow> bytes list" where
  "normalizeAll ps = filter (\<lambda>n. n \<noteq> []) (map normalizeIdentifierForPortalID ps)"

definition getChatParticipantsByPortalID :: "bytes \<Rightarrow> bytes \<Rightarrow> bytes list option db" where
  "getChatParticipantsByPortalID l portalID =
     dbBind (dbTry (sqlQuery (rosterRow (ofPortal l portalID)))) (\<lambda>r1.
     dbBind (case r1 of
               Inr (Some j) \<Rightarrow> dbReturn r1
             | _ \<Rightarrow> if isGid portalID then dbTry (sqlQuery (rosterRow (ofGroup l (gidUUID portalID))))
                    else dbReturn r1) (\<lambda>r2.
     case r2 of
       Inl e \<Rightarrow> dbFail e
     | Inr None \<Rightarrow> dbReturn None
     | Inr (Some j) \<Rightarrow>
         (case unmarshalStrings j of
            None \<Rightarrow> dbFail ''invalid participants_json''
          | Some ps \<Rightarrow> dbReturn (Some (normalizeAll (coalesce ps []))))))"

definition updateChatParticipants :: "bytes \<Rightarrow> time_ms \<Rightarrow> bytes \<Rightarrow> bytes list option \<Rightarrow> unit db" where
  "updateChatParticipants l now portalID participants =
     (let change = (\<lambda>r. r\<lparr>cParticipants := Some (marshalStrings participants), cUpdated := Some now\<rparr>) in
      dbBind (sqlExecN (\<lambda>s. countWhere (ofPortal l portalID) (chats s))
               (\<lambda>s. s\<lparr>chats := updateWhere (ofPortal l portalID) change (chats s)\<rparr>))
        (\<lambda>affected. if isGid portalID \<and> affected = 0
           then chatStmt (updateWhere (ofGroup l (gidUUID portalID)) change) else dbReturn ()))"

definition participantSetsMatch :: "bytes list \<Rightarrow> bytes list \<Rightarrow> (bytes \<Rightarrow> bool) option \<Rightarrow> bool" where
  "participantSetsMatch a b isSelf =
     (if a = [] \<or> b = [] then False
      else let differing = remdups (filter (\<lambda>p. p \<notin> set b) a) @ remdups (filter (\<lambda>p. p \<notin> set a) b) in
        length differing = 0
        \<or> (case isSelf of Some self \<Rightarrow> list_all self differing | None \<Rightarrow> False))"

definition syncStoredGroupRoster :: "bytes \<Rightarrow> time_ms \<Rightarrow> bytes \<Rightarrow> bytes list \<Rightarrow> (bytes \<Rightarrow> bool) option
    \<Rightarrow> (nat \<times> bool) db" where
  "syncStoredGroupRoster l now portalID normalized isSelf =
     dbBind (getChatParticipantsByPortalID l portalID) (\<lambda>r.
       let existing = coalesce r [] in
       if existing = [] \<or> participantSetsMatch existing normalized isSelf
       then dbReturn (length existing, False)
       else dbBind (updateChatParticipants l now portalID (Some normalized))
              (\<lambda>_. dbReturn (length existing, True)))"

end
