(* ===== verification/CloudPortals.thy ===== *)
theory CloudPortals
  imports CloudChats
begin

text \<open>
  The operations of \<open>cloud_backfill_store.go\<close> that work on a whole portal, over chats and messages
  together: deletion and restoration, tombstones, re-keying, the repairs of misrouted rows, the
  forward-backfill flag, and the listings that decide which portals exist.
\<close>

section \<open>Names and records\<close>

definition getDisplayNameByPortalID :: "bytes \<Rightarrow> bytes \<Rightarrow> bytes db" where
  "getDisplayNameByPortalID l portalID =
     (let named = (\<lambda>P s. case newestChat (filter (\<lambda>r. P r \<and> coalesce (cDisplay r) [] \<noteq> []) (chats s)) of
                     Some r \<Rightarrow> cDisplay r | None \<Rightarrow> None) in
      dbBind (dbTry (sqlQuery (named (ofPortal l portalID)))) (\<lambda>r1.
        case r1 of
          Inr (Some d) \<Rightarrow> dbReturn d
        | _ \<Rightarrow> if isGid portalID then
                 dbBind (dbTry (sqlQuery (named (ofGroup l (gidUUID portalID))))) (\<lambda>r2.
                   case r2 of Inr (Some d) \<Rightarrow> dbReturn d | _ \<Rightarrow> dbReturn [])
               else dbReturn []))"

definition getChatIdentifierByPortalID :: "bytes \<Rightarrow> bytes \<Rightarrow> bytes db" where
  "getChatIdentifierByPortalID l portalID = dbCatch (sqlQuery (\<lambda>s.
     case find (\<lambda>r. ofPortal l portalID r \<and> cChat r \<noteq> [] \<and> \<not> likePrefix (cChat r) ''synthetic:''
                    \<and> \<not> likePrefix (cChat r) ''recycle:'') (chats s) of
       Some r \<Rightarrow> cChat r | None \<Rightarrow> [])) (\<lambda>_. dbReturn [])"

definition getCloudRecordNamesByPortalID :: "bytes \<Rightarrow> bytes \<Rightarrow> bytes list db" where
  "getCloudRecordNamesByPortalID l portalID = sqlQuery (\<lambda>s.
     map cRecord (filter (\<lambda>r. ofPortal l portalID r \<and> cRecord r \<noteq> []) (chats s)))"

definition getCloudRecordNamesByGroupID :: "bytes \<Rightarrow> bytes \<Rightarrow> bytes list db" where
  "getCloudRecordNamesByGroupID l groupID = sqlQuery (\<lambda>s.
     map cRecord (filter (\<lambda>r. ofGroup l groupID r \<and> cRecord r \<noteq> []) (chats s)))"

definition getMessageRecordNamesByGroupID :: "bytes \<Rightarrow> bytes \<Rightarrow> bytes list db" where
  "getMessageRecordNamesByGroupID l groupID = sqlQuery (\<lambda>s.
     concat (map (\<lambda>m. map (\<lambda>_. mRecord m) (filter (\<lambda>c. cLogin c = mLogin m \<and> mPortal m = Some (cPortal c)
                        \<and> sqlLower (cGroup c) = sqlLower groupID) (chats s)))
       (filter (\<lambda>m. mLogin m = l \<and> mRecord m \<noteq> []) (messages s))))"

definition findPortalIDsByGroupID :: "bytes \<Rightarrow> bytes \<Rightarrow> bytes list db" where
  "findPortalIDsByGroupID l groupID = sqlQuery (\<lambda>s.
     remdups (map cPortal (filter (\<lambda>r. ofGroup l groupID r \<and> cPortal r \<noteq> []) (chats s))))"

definition getGroupIDForPortalID :: "bytes \<Rightarrow> bytes \<Rightarrow> bytes db" where
  "getGroupIDForPortalID l portalID =
     (let group = (\<lambda>P s. map_option cGroup (find (\<lambda>r. P r \<and> cGroup r \<noteq> []) (chats s))) in
      dbBind (dbTry (sqlQuery (group (ofPortal l portalID)))) (\<lambda>r1.
        case r1 of
          Inr (Some g) \<Rightarrow> dbReturn g
        | _ \<Rightarrow> if isGid portalID then
                 dbBind (dbTry (sqlQuery (group (\<lambda>r. cLogin r = l
                           \<and> sqlLower (cChat r) = sqlLower (gidUUID portalID))))) (\<lambda>r2.
                   case r2 of Inr (Some g) \<Rightarrow> dbReturn g | _ \<Rightarrow> dbReturn [])
               else dbReturn []))"

definition getGroupPhotoByPortalID :: "bytes \<Rightarrow> bytes \<Rightarrow> (bytes \<times> bytes) db" where
  "getGroupPhotoByPortalID l portalID = sqlQuery (\<lambda>s.
     case newestChat (filter (\<lambda>r. ofPortal l portalID r \<and> coalesce (cPhoto r) [] \<noteq> []) (chats s)) of
       Some r \<Rightarrow> (coalesce (cPhoto r) [], cRecord r) | None \<Rightarrow> ([], []))"

definition clearGroupPhotoGuid :: "bytes \<Rightarrow> bytes \<Rightarrow> unit db" where
  "clearGroupPhotoGuid l portalID = chatStmt (updateWhere (ofPortal l portalID) (\<lambda>r. r\<lparr>cPhoto := None\<rparr>))"

definition updateDisplayNameByPortalID :: "bytes \<Rightarrow> bytes \<Rightarrow> bytes \<Rightarrow> unit db" where
  "updateDisplayNameByPortalID l portalID displayName =
     chatStmt (updateWhere (ofPortal l portalID) (\<lambda>r. r\<lparr>cDisplay := Some displayName\<rparr>))"

section \<open>Deleting and restoring a portal\<close>

definition killChat :: "time_ms \<Rightarrow> chat_row \<Rightarrow> chat_row" where
  "killChat now r = r\<lparr>cDeleted := True, cUpdated := Some now\<rparr>"

definition killMessage :: "time_ms \<Rightarrow> message_row \<Rightarrow> message_row" where
  "killMessage now r = (sealRow r)\<lparr>mUpdated := now\<rparr>"

definition messageStmt :: "(store \<Rightarrow> message_row list) \<Rightarrow> unit db" where
  "messageStmt f = sqlExec (\<lambda>s. s\<lparr>messages := f s\<rparr>)"

definition deleteLocalChatByPortalID :: "bytes \<Rightarrow> time_ms \<Rightarrow> bytes \<Rightarrow> unit db" where
  "deleteLocalChatByPortalID l now portalID =
     dbThen (wrapErr (''failed to soft-delete cloud_chat records for portal '' @ portalID)
       (chatStmt (updateWhere (\<lambda>r. ofPortal l portalID r \<and> \<not> cDeleted r) (killChat now))))
     (dbThen (wrapErr (''failed to soft-delete cloud_message records for portal '' @ portalID)
       (messageStmt (\<lambda>s. updateWhere (\<lambda>r. mLogin r = l \<and> mPortal r = Some portalID \<and> \<not> mDeleted r)
          (killMessage now) (messages s))))
     (if isGid portalID then
        dbThen (wrapErr (''failed to soft-delete cloud_chat records by group_id '' @ gidUUID portalID)
          (chatStmt (updateWhere (\<lambda>r. ofGroup l (gidUUID portalID) r \<and> \<not> cDeleted r) (killChat now))))
        (wrapErr (''failed to soft-delete cloud_message records by group_id '' @ gidUUID portalID)
          (messageStmt (\<lambda>s. updateWhere (\<lambda>r. mLogin r = l \<and> \<not> mDeleted r
               \<and> list_ex (\<lambda>c. ofGroup l (gidUUID portalID) c \<and> mPortal r = Some (cPortal c)) (chats s))
             (killMessage now) (messages s))))
      else dbReturn ()))"

definition deleteLocalChatByGroupID :: "bytes \<Rightarrow> time_ms \<Rightarrow> bytes \<Rightarrow> unit db" where
  "deleteLocalChatByGroupID l now groupID =
     dbBind (findPortalIDsByGroupID l groupID) (dbEach (deleteLocalChatByPortalID l now))"

definition undeleteCloudChatByPortalID :: "bytes \<Rightarrow> time_ms \<Rightarrow> bytes \<Rightarrow> unit db" where
  "undeleteCloudChatByPortalID l now portalID =
     wrapErr (''failed to undelete cloud_chat for portal '' @ portalID)
       (chatStmt (updateWhere (\<lambda>r. ofPortal l portalID r \<and> cDeleted r)
          (\<lambda>r. r\<lparr>cDeleted := False, cUpdated := Some now, cFwdDone := False\<rparr>)))"

definition resetForwardBackfillDone :: "bytes \<Rightarrow> bytes \<Rightarrow> unit db" where
  "resetForwardBackfillDone l portalID =
     chatStmt (updateWhere (ofPortal l portalID) (\<lambda>r. r\<lparr>cFwdDone := False\<rparr>))"

definition undeleteCloudMessagesByPortalID :: "bytes \<Rightarrow> time_ms \<Rightarrow> bytes \<Rightarrow> nat db" where
  "undeleteCloudMessagesByPortalID l now portalID =
     (let hit = (\<lambda>r. mLogin r = l \<and> mPortal r = Some portalID \<and> mDeleted r) in
      dbThen (wrapErr (''failed to undelete cloud_chat for portal '' @ portalID)
        (chatStmt (updateWhere (\<lambda>r. ofPortal l portalID r \<and> cDeleted r)
           (\<lambda>r. r\<lparr>cDeleted := False, cUpdated := Some now\<rparr>))))
      (dbThen (wrapErr (''failed to reset fwd_backfill_done for portal '' @ portalID)
        (resetForwardBackfillDone l portalID))
      (sqlExecN (\<lambda>s. countWhere hit (messages s))
        (\<lambda>s. s\<lparr>messages := updateWhere hit (\<lambda>r. r\<lparr>mDeleted := False, mUpdated := now\<rparr>) (messages s)\<rparr>))))"

definition reKeyPortalID :: "bytes \<Rightarrow> time_ms \<Rightarrow> bytes \<Rightarrow> bytes \<Rightarrow> unit db" where
  "reKeyPortalID l now oldPortalID newPortalID =
     (if oldPortalID = [] \<or> newPortalID = [] \<or> oldPortalID = newPortalID then dbReturn ()
      else dbThen (chatStmt (updateWhere (ofPortal l oldPortalID)
                     (\<lambda>r. r\<lparr>cPortal := newPortalID, cFwdDone := False, cUpdated := Some now\<rparr>)))
           (messageStmt (\<lambda>s. updateWhere (\<lambda>r. mLogin r = l \<and> mPortal r = Some oldPortalID)
              (\<lambda>r. r\<lparr>mPortal := Some newPortalID, mUpdated := now\<rparr>) (messages s))))"

section \<open>Tombstones\<close>

definition insertDeletedChatTombstone :: "bytes \<Rightarrow> time_ms \<Rightarrow> bytes \<Rightarrow> bytes \<Rightarrow> bytes \<Rightarrow> bytes \<Rightarrow> bytes
    \<Rightarrow> bytes option \<Rightarrow> bytes \<Rightarrow> unit db" where
  "insertDeletedChatTombstone l now cloudChatID portalID recordName groupID service displayName participantsJSON =
     chatStmt (insertIgnore chatKey ((emptyChat l cloudChatID portalID now)\<lparr>cRecord := recordName,
       cGroup := groupID, cService := Some service, cDisplay := displayName,
       cParticipants := Some participantsJSON, cUpdated := Some now, cDeleted := True\<rparr>))"

definition ensureDeletedChatTombstoneByPortalID :: "bytes \<Rightarrow> time_ms \<Rightarrow> bytes \<Rightarrow> unit db" where
  "ensureDeletedChatTombstoneByPortalID l now portalID =
     dbBind (getChatIdentifierByPortalID l portalID) (\<lambda>chatID0.
     let chatID = (if chatID0 = [] then ''synthetic:recoverable:'' @ portalID else chatID0) in
     dbBind (getCloudRecordNamesByPortalID l portalID) (\<lambda>recordNames.
     let recordName = (case recordNames of r # _ \<Rightarrow> r | [] \<Rightarrow> []);
         groupID = (if isGid portalID then gidUUID portalID else []) in
     dbBind (getDisplayNameByPortalID l portalID) (\<lambda>name.
     let displayName = (if name \<noteq> [] then Some name else None) in
     dbBind (getChatParticipantsByPortalID l portalID) (\<lambda>participants0.
     let participants = (if coalesce participants0 [] = [] \<and> \<not> isGid portalID \<and> \<not> Contains portalID '',''
                         then Some [portalID] else participants0);
         service = (if HasPrefix chatID ''SMS'' then ''SMS'' else ''iMessage'') in
     insertDeletedChatTombstone l now chatID portalID recordName groupID service displayName
       (marshalStrings participants)))))"

section \<open>Repairs\<close>

definition normalizeGroupChatPortalIDs :: "bytes \<Rightarrow> nat db" where
  "normalizeGroupChatPortalIDs l =
     (let hit = (\<lambda>r. cLogin r = l \<and> cGroup r \<noteq> [] \<and> likePrefix (cPortal r) ''gid:''
                   \<and> sqlLower (sqlSubstr (cPortal r) 5) \<noteq> sqlLower (cGroup r)) in
      sqlExecN (\<lambda>s. countWhere hit (chats s))
        (\<lambda>s. s\<lparr>chats := updateWhere hit (\<lambda>r. r\<lparr>cPortal := ''gid:'' @ sqlLower (cGroup r)\<rparr>) (chats s)\<rparr>))"

definition canonicalChat :: "message_row \<Rightarrow> chat_row \<Rightarrow> bool" where
  "canonicalChat m c = (case mPortal m of
     None \<Rightarrow> False
   | Some p \<Rightarrow> cLogin c = mLogin m
       \<and> (sqlLower (cGroup c) = sqlLower (sqlSubstr p 5) \<or> sqlLower (cChat c) = sqlLower (sqlSubstr p 5))
       \<and> cPortal c \<noteq> p \<and> cPortal c \<noteq> [])"

definition normalizeGroupMessagePortalIDs :: "bytes \<Rightarrow> nat db" where
  "normalizeGroupMessagePortalIDs l =
     (let hit = (\<lambda>s m. mLogin m = l \<and> (case mPortal m of Some p \<Rightarrow> likePrefix p ''gid:'' | None \<Rightarrow> False)
                     \<and> list_ex (canonicalChat m) (chats s)) in
      sqlExecN (\<lambda>s. countWhere (hit s) (messages s))
        (\<lambda>s. s\<lparr>messages := updateWhere (hit s)
            (\<lambda>m. m\<lparr>mPortal := map_option cPortal (find (canonicalChat m) (chats s))\<rparr>) (messages s)\<rparr>))"

text \<open>What follows \<open>;+;\<close> in a message's chat identifier.\<close>

definition chatHexSuffix :: "message_row \<Rightarrow> bytes option" where
  "chatHexSuffix m = (case mChat m of
     None \<Rightarrow> None
   | Some ch \<Rightarrow> (case Index ch '';+;'' of Some i \<Rightarrow> Some (drop (i + 3) ch) | None \<Rightarrow> None))"

definition healTarget :: "bytes \<Rightarrow> store \<Rightarrow> message_row \<Rightarrow> chat_row option" where
  "healTarget l s m = (case (chatHexSuffix m, mPortal m) of
     (Some suffix, Some p) \<Rightarrow>
       if mLogin m = l then
         find (\<lambda>c. cLogin c = l
            \<and> (cChat c \<noteq> [] \<and> sqlLower (cChat c) = sqlLower suffix
               \<or> likePrefix (cPortal c) ''gid:'' \<and> sqlLower (sqlSubstr (cPortal c) 5) = sqlLower suffix)
            \<and> p \<noteq> cPortal c \<and> cPortal c \<noteq> []) (chats s)
       else None
   | _ \<Rightarrow> None)"

definition healMisroutedGroupMessages :: "bytes \<Rightarrow> time_ms \<Rightarrow> nat db" where
  "healMisroutedGroupMessages l now =
     dbBind (sqlExecN (\<lambda>s. countWhere (\<lambda>m. healTarget l s m \<noteq> None) (messages s))
       (\<lambda>s. s\<lparr>messages := map (\<lambda>m. case healTarget l s m of
             Some c \<Rightarrow> m\<lparr>mPortal := Some (cPortal c), mUpdated := now\<rparr> | None \<Rightarrow> m) (messages s)\<rparr>))
     (\<lambda>n. dbThen
        (if 0 < n then
           dbCatch (sqlExec (\<lambda>s. s\<lparr>chats := updateWhere
              (\<lambda>c. cLogin c = l \<and> \<not> cDeleted c \<and> \<not> likePrefix (cPortal c) ''gid:'' \<and> cPortal c \<noteq> []
                 \<and> \<not> list_ex (\<lambda>m. mLogin m = l \<and> mPortal m = Some (cPortal c) \<and> \<not> mDeleted m) (messages s))
              (killChat now) (chats s)\<rparr>)) (\<lambda>_. dbReturn ())
         else dbReturn ())
        (dbReturn n))"

section \<open>The forward-backfill flag\<close>

definition markForwardBackfillDone :: "bytes \<Rightarrow> time_ms \<Rightarrow> bytes \<Rightarrow> unit db" where
  "markForwardBackfillDone l now portalID =
     dbBind (dbTry (sqlExecN (\<lambda>s. countWhere (ofPortal l portalID) (chats s))
         (\<lambda>s. s\<lparr>chats := updateWhere (ofPortal l portalID) (\<lambda>r. r\<lparr>cFwdDone := True\<rparr>) (chats s)\<rparr>)))
       (\<lambda>res. let needsInsert = (case res of Inl _ \<Rightarrow> True | Inr rows \<Rightarrow> rows = 0) in
          if needsInsert then
            dbCatch (chatStmt (insertIgnore chatKey
               ((emptyChat l (''synthetic:'' @ portalID) portalID now)\<lparr>cFwdDone := True\<rparr>))) (\<lambda>_. dbReturn ())
          else dbReturn ())"

definition isForwardBackfillDone :: "bytes \<Rightarrow> bytes \<Rightarrow> bool db" where
  "isForwardBackfillDone l portalID = dbCatch (sqlQuery (\<lambda>s.
     list_ex (\<lambda>r. ofPortal l portalID r \<and> cFwdDone r) (chats s))) (\<lambda>_. dbReturn False)"

definition getForwardBackfillDonePortals :: "bytes \<Rightarrow> bytes set db" where
  "getForwardBackfillDonePortals l = sqlQuery (\<lambda>s.
     set (map cPortal (filter (\<lambda>r. cLogin r = l \<and> cFwdDone r) (chats s))))"

definition getConversationReadByMe :: "bytes \<Rightarrow> bytes \<Rightarrow> bool db" where
  "getConversationReadByMe l portalID =
     dbBind (sqlQuery (\<lambda>s. newestFirst (filter (\<lambda>r. mLogin r = l \<and> mPortal r = Some portalID \<and> \<not> mDeleted r
                \<and> mTapback r = None) (messages s))))
       (\<lambda>ms. case ms of
          m # _ \<Rightarrow> dbReturn (mFromMe m)
        | [] \<Rightarrow> sqlQuery (\<lambda>s. 0 < countWhere (\<lambda>c. ofPortal l portalID c \<and> \<not> cDeleted c \<and> cFiltered c = 0)
                   (chats s)))"

section \<open>Listings\<close>

definition listCarrierGroupChats :: "bytes \<Rightarrow> (bytes \<times> bytes list) list db" where
  "listCarrierGroupChats l = dbBind
     (sqlQuery (\<lambda>s. remdups (map (\<lambda>r. (cPortal r, coalesce (cParticipants r) []))
        (filter (\<lambda>r. cLogin r = l
            \<and> (case cService r of Some sv \<Rightarrow> sqlUpper (sqlTrim sv) \<in> {''SMS'', ''RCS'', ''MMS''} | None \<Rightarrow> False)
            \<and> \<not> cDeleted r \<and> cPortal r \<noteq> [] \<and> coalesce (cParticipants r) [] \<noteq> []
            \<and> (likePrefix (cPortal r) ''gid:'' \<or> Contains (cPortal r) '','')) (chats s)))))
     (\<lambda>rows. dbReturn (fold (\<lambda>(p, j) out.
         if p \<in> fst ` set out then out
         else (case unmarshalStrings j of
                 None \<Rightarrow> out
               | Some raw \<Rightarrow> (let n = normalizeAll (coalesce raw []) in if n = [] then out else out @ [(p, n)])))
        rows []))"

definition findPortalIDsByParticipants :: "bytes \<Rightarrow> bytes list \<Rightarrow> (bytes \<Rightarrow> bool) option \<Rightarrow> bytes list db" where
  "findPortalIDsByParticipants l target isSelf = dbBind
     (sqlQuery (\<lambda>s. remdups (map (\<lambda>r. (cPortal r, cParticipants r))
        (filter (\<lambda>r. cLogin r = l \<and> cPortal r \<noteq> [] \<and> \<not> cDeleted r) (chats s)))))
     (\<lambda>rows. if list_ex (\<lambda>r. snd r = None) rows then dbFail ''converting NULL to string is unsupported''
        else dbReturn (fold (\<lambda>(p, j) matches.
          if p \<in> set matches then matches
          else (case unmarshalStrings (the j) of
                  None \<Rightarrow> matches
                | Some raw \<Rightarrow> if participantSetsMatch (normalizeAll (coalesce raw [])) target isSelf
                              then matches @ [p] else matches)) rows []))"

definition listPortalIDsWithNewestTimestamp :: "bytes \<Rightarrow> (bytes \<times> time_ms \<times> nat) list db" where
  "listPortalIDsWithNewestTimestamp l = sqlQuery (\<lambda>s.
     let live = filter (\<lambda>m. mLogin m = l \<and> coalesce (mPortal m) [] \<noteq> [] \<and> \<not> mDeleted m) (messages s);
         served = filter (\<lambda>m. mRecord m \<noteq> []) live;
         fromMessages = map (\<lambda>p. let ms = filter (\<lambda>m. mPortal m = Some p) served in
                           (p, maxOr0 (map mTs ms), length ms)) (remdups (map (\<lambda>m. the (mPortal m)) served));
         fromChats = map (\<lambda>c. (cPortal c, coalesce (cUpdated c) 0, 0))
           (filter (\<lambda>c. cLogin c = l \<and> cPortal c \<noteq> [] \<and> cFiltered c = 0 \<and> \<not> cDeleted c
              \<and> \<not> list_ex (\<lambda>m. mPortal m = Some (cPortal c)) live) (chats s));
         sub = filter (\<lambda>(p, _). \<not> list_ex (\<lambda>c. ofPortal l p c \<and> cFiltered c \<noteq> 0) (chats s)) (fromMessages @ fromChats);
         groups = map (\<lambda>p. let g = filter (\<lambda>e. fst e = p) sub in
                     (p, maxOr0 (map (fst \<circ> snd) g), sum_list (map (snd \<circ> snd) g))) (remdups (map fst sub)) in
     sort_key (\<lambda>e. - (fst (snd e))) groups)"

record softDeletedPortal =
  sdPortalID :: bytes
  sdNewestTS :: time_ms
  sdCount :: nat
  sdCloudChatID :: bytes
  sdGroupID :: bytes
  sdParticipantsJSON :: bytes

definition maxText :: "bytes list \<Rightarrow> bytes" where
  "maxText xs = (if xs = [] then [] else Max (set xs))"

definition listSoftDeletedPortals :: "bytes \<Rightarrow> softDeletedPortal list db" where
  "listSoftDeletedPortals l = sqlQuery (\<lambda>s.
     let portals = filter (\<lambda>p. list_ex (\<lambda>r. ofPortal l p r \<and> cDeleted r) (chats s)
                       \<and> \<not> list_ex (\<lambda>r. ofPortal l p r \<and> \<not> cDeleted r) (chats s))
                     (remdups (map cPortal (filter (\<lambda>r. cLogin r = l \<and> cPortal r \<noteq> []) (chats s))));
         row = (\<lambda>p. let cs = filter (ofPortal l p) (chats s);
                        ms = filter (\<lambda>m. mLogin m = l \<and> mPortal m = Some p) (messages s) in
            \<lparr>sdPortalID = p,
             sdNewestTS = (if ms = [] then maxOr0 (map the (filter (\<lambda>u. u \<noteq> None) (map cUpdated cs)))
                           else maxOr0 (map mTs ms)),
             sdCount = length ms, sdCloudChatID = maxText (map cChat cs), sdGroupID = maxText (map cGroup cs),
             sdParticipantsJSON = maxText (map the (filter (\<lambda>u. u \<noteq> None) (map cParticipants cs)))\<rparr>) in
     sort_key (\<lambda>e. - sdNewestTS e) (map row (filter (\<lambda>p. \<not> list_ex (\<lambda>m. mLogin m = l \<and> mPortal m = Some p
        \<and> \<not> mDeleted m) (messages s)) portals)))"

definition portalsFullyBackfilledNoNewContent :: "bytes \<Rightarrow> bytes set db" where
  "portalsFullyBackfilledNoNewContent l = sqlQuery (\<lambda>s.
     set (map btPortal (filter (\<lambda>bt. btLogin bt = l \<and> btDone bt \<and> 0 < btCompleted bt
        \<and> \<not> list_ex (\<lambda>m. mLogin m = l \<and> mPortal m = Some (btPortal bt) \<and> \<not> mDeleted m
               \<and> btCompleted bt div 1000000 < max (mCreated m) (mUpdated m)) (messages s)) (backfillTasks s))))"

end
