(* ===== verification/CloudScrub.thy ===== *)
theory CloudScrub
  imports CloudPortals
begin

text \<open>
  The privacy scrubbers and the reapers of \<open>cloud_backfill_store.go\<close>.  They work in chunks of 1000 rows:
  a subquery picks the identifiers of candidate rows, the update changes them, and the loop ends with the
  first chunk that changes fewer rows than it may.  \<open>privacyOff\<close> is the build's \<open>debugDisablePrivacy\<close>.
\<close>

section \<open>The chunked update\<close>

definition chunkSize :: nat where
  "chunkSize = 1000"

text \<open>One chunk.  \<open>LIMIT\<close> without an order takes the first candidates of the table; \<open>outer\<close> is what the
  update checks again, and the flag is always set.\<close>

definition chunkGuids :: "(store \<Rightarrow> message_row \<Rightarrow> bool) \<Rightarrow> store \<Rightarrow> bytes list" where
  "chunkGuids inner s = take chunkSize (map mGuid (filter (inner s) (messages s)))"

definition chunkHit :: "(message_row \<Rightarrow> bool) \<Rightarrow> (store \<Rightarrow> message_row \<Rightarrow> bool) \<Rightarrow> store \<Rightarrow> message_row \<Rightarrow> bool" where
  "chunkHit outer inner s r = (\<not> mScrubbed r \<and> outer r \<and> mGuid r \<in> set (chunkGuids inner s))"

definition scrubChunk :: "(message_row \<Rightarrow> bool) \<Rightarrow> (store \<Rightarrow> message_row \<Rightarrow> bool) \<Rightarrow> (message_row \<Rightarrow> message_row)
    \<Rightarrow> nat db" where
  "scrubChunk outer inner f = sqlStmt (\<lambda>s. (countWhere (chunkHit outer inner s) (messages s),
     s\<lparr>messages := updateWhere (chunkHit outer inner s) (\<lambda>r. (f r)\<lparr>mScrubbed := True\<rparr>) (messages s)\<rparr>))"

text \<open>The wait between two chunks ends with the context's error or with the timer.\<close>

definition yieldChunk :: "unit db" where
  "yieldChunk = sqlExec id"

definition unscrubbed :: "store \<Rightarrow> nat" where
  "unscrubbed s = countWhere (\<lambda>r. \<not> mScrubbed r) (messages s)"

lemma updateWhere_fewer:
  assumes "\<And>r. P r \<Longrightarrow> Q r" "\<And>r. P r \<Longrightarrow> \<not> Q (f r)"
  shows "countWhere Q (updateWhere P f rs) + countWhere P rs = countWhere Q rs"
  using assms by (induction rs) (auto simp: countWhere_def updateWhere_def)

lemma scrubChunk_fewer:
  assumes "scrubChunk outer inner f st = (Inr n, st')"
  shows "unscrubbed (fst st') + n = unscrubbed (fst st)"
proof -
  obtain s fs where st: "st = (s, fs)" by (cases st)
  let ?P = "chunkHit outer inner s"
  have "countWhere (\<lambda>r. \<not> mScrubbed r) (updateWhere ?P (\<lambda>r. (f r)\<lparr>mScrubbed := True\<rparr>) (messages s))
      + countWhere ?P (messages s) = countWhere (\<lambda>r. \<not> mScrubbed r) (messages s)"
    by (rule updateWhere_fewer) (auto simp: chunkHit_def)
  moreover have "fst st' = s\<lparr>messages := updateWhere ?P (\<lambda>r. (f r)\<lparr>mScrubbed := True\<rparr>) (messages s)\<rparr>
      \<and> n = countWhere ?P (messages s)"
    using assms unfolding scrubChunk_def st
    by (cases fs rule: list.exhaust; simp) (auto split: option.splits elim: sqlStmt.elims)
  ultimately show ?thesis by (simp add: unscrubbed_def st)
qed

lemma yieldChunk_store: "yieldChunk st = (r, st') \<Longrightarrow> fst st' = fst st"
  unfolding yieldChunk_def sqlExec_def using sqlStmt_cases [of "\<lambda>s. ((), id s)" "fst st" "snd st"]
  by auto

lemma wrapErr_Inr: "wrapErr msg m st = (Inr x, st') \<longleftrightarrow> m st = (Inr x, st')"
  by (auto simp: wrapErr_def dbCatch_def dbFail_def split: prod.splits sum.splits)

text \<open>The loop; the count of the chunks before an error is lost, as the callers only log it.\<close>

function scrubLoop :: "bytes \<Rightarrow> (message_row \<Rightarrow> bool) \<Rightarrow> (store \<Rightarrow> message_row \<Rightarrow> bool) \<Rightarrow> (message_row \<Rightarrow> message_row)
    \<Rightarrow> nat \<Rightarrow> nat db" where
  "scrubLoop msg outer inner f cnt st =
     (case wrapErr msg (scrubChunk outer inner f) st of
        (Inl e, st1) \<Rightarrow> (Inl e, st1)
      | (Inr n, st1) \<Rightarrow>
          if n < chunkSize then (Inr (cnt + n), st1)
          else (case yieldChunk st1 of
                  (Inl e, st2) \<Rightarrow> (Inl e, st2)
                | (Inr _, st2) \<Rightarrow> scrubLoop msg outer inner f (cnt + n) st2))"
  by pat_completeness auto
termination
proof (relation "measure (\<lambda>(msg, outer, inner, f, cnt, st). unscrubbed (fst st))", goal_cases)
  case (2 msg outer inner f cnt st a st1 n x y u)
  then have "unscrubbed (fst st1) + n = unscrubbed (fst st)" using scrubChunk_fewer wrapErr_Inr by metis
  moreover have "fst y = fst st1" using 2 yieldChunk_store by metis
  moreover have "1 \<le> n" using 2 by (simp add: chunkSize_def)
  ultimately show ?case by simp
qed simp

declare scrubLoop.simps [simp del]

section \<open>The scrubbers\<close>

text \<open>The row is in bridgev2's \<open>message\<close> table, under its GUID or under the GUID and a part suffix.\<close>

definition bridgedRow :: "bytes \<Rightarrow> bytes \<Rightarrow> store \<Rightarrow> message_row \<Rightarrow> bool" where
  "bridgedRow l bridgeID s r = list_ex (\<lambda>bm. bmBridge bm = bridgeID \<and> (bmReceiver bm = l \<or> bmReceiver bm = [])
     \<and> (sqlUpper (bmId bm) = sqlUpper (mGuid r)
        \<or> (case Index (bmId bm) ''_'' of Some i \<Rightarrow> sqlUpper (take i (bmId bm)) = sqlUpper (mGuid r) | None \<Rightarrow> False)))
     (bridgeMsgs s)"

definition notExcluded :: "bytes list \<Rightarrow> message_row \<Rightarrow> bool" where
  "notExcluded excludePortals r =
     (excludePortals = [] \<or> (case mPortal r of Some p \<Rightarrow> p \<notin> set excludePortals | None \<Rightarrow> False))"

definition bridgedCandidate :: "bytes \<Rightarrow> bytes \<Rightarrow> time_ms \<Rightarrow> bytes list \<Rightarrow> store \<Rightarrow> message_row \<Rightarrow> bool" where
  "bridgedCandidate l bridgeID cutoff excludePortals s r =
     (mLogin r = l \<and> \<not> mScrubbed r \<and> \<not> isReaction r \<and> mUpdated r < cutoff
      \<and> (mDeleted r \<or> bridgedRow l bridgeID s r) \<and> notExcluded excludePortals r)"

definition scrubBody :: "message_row \<Rightarrow> message_row" where
  "scrubBody r = r\<lparr>mText := None, mSubject := None, mSender := Some [], mTapbackEmoji := None\<rparr>"

definition scrubBridgedBodies :: "bool \<Rightarrow> bytes \<Rightarrow> time_ms \<Rightarrow> bytes \<Rightarrow> time_ms \<Rightarrow> bytes list \<Rightarrow> nat db" where
  "scrubBridgedBodies privacyOff l now bridgeID graceWindow excludePortals =
     (if privacyOff then dbReturn 0
      else let cutoff = now - graceWindow in
        scrubLoop ''failed to scrub bridged bodies'' (\<lambda>r. mLogin r = l \<and> mUpdated r < cutoff)
          (bridgedCandidate l bridgeID cutoff excludePortals) scrubBody 0)"

definition reactionCandidate :: "bytes \<Rightarrow> time_ms \<Rightarrow> store \<Rightarrow> message_row \<Rightarrow> bool" where
  "reactionCandidate l cutoff s r =
     (mLogin r = l \<and> isReaction r \<and> \<not> mScrubbed r \<and> mUpdated r < cutoff
      \<and> (coalesce (mText r) [] \<noteq> [] \<or> coalesce (mSubject r) [] \<noteq> []))"

definition scrubReactionText :: "bool \<Rightarrow> bytes \<Rightarrow> time_ms \<Rightarrow> time_ms \<Rightarrow> nat db" where
  "scrubReactionText privacyOff l now graceWindow =
     (if privacyOff then dbReturn 0
      else let cutoff = now - graceWindow in
        scrubLoop ''failed to scrub reaction text'' (\<lambda>r. mLogin r = l \<and> isReaction r \<and> mUpdated r < cutoff)
          (reactionCandidate l cutoff) (\<lambda>r. r\<lparr>mText := None, mSubject := None\<rparr>) 0)"

definition tailCandidate :: "bytes \<Rightarrow> bytes \<Rightarrow> time_ms \<Rightarrow> time_ms \<Rightarrow> message_row \<Rightarrow> bool" where
  "tailCandidate l pid cutoff threshold r =
     (mLogin r = l \<and> mPortal r = Some pid \<and> \<not> isReaction r \<and> mUpdated r < cutoff \<and> mTs r < threshold)"

definition scrubTailOf :: "bytes \<Rightarrow> time_ms \<Rightarrow> nat \<Rightarrow> bytes \<Rightarrow> nat \<Rightarrow> nat db" where
  "scrubTailOf l cutoff keepPerPortal pid cnt =
     dbBind (wrapErr (''tail-scrub threshold for portal '' @ pid)
       (sqlQuery (\<lambda>s. drop (keepPerPortal - 1) (newestFirst (filter (servable l pid) (messages s))))))
     (\<lambda>rest. case rest of
        [] \<Rightarrow> dbReturn cnt
      | r # _ \<Rightarrow> scrubLoop (''scrub unbridged tail for portal '' @ pid)
          (tailCandidate l pid cutoff (mTs r))
          (\<lambda>s m. \<not> mScrubbed m \<and> tailCandidate l pid cutoff (mTs r) m) scrubBody cnt)"

definition tailPortals :: "bytes \<Rightarrow> nat \<Rightarrow> store \<Rightarrow> bytes list" where
  "tailPortals l keepPerPortal s =
     filter (\<lambda>p. keepPerPortal < countWhere (servable l p) (messages s))
       (remdups (map (\<lambda>r. the (mPortal r)) (filter (\<lambda>r. mLogin r = l \<and> \<not> mDeleted r \<and> mRecord r \<noteq> []
           \<and> mPortal r \<noteq> None) (messages s))))"

definition scrubUnbridgedTail :: "bool \<Rightarrow> bytes \<Rightarrow> time_ms \<Rightarrow> int \<Rightarrow> time_ms \<Rightarrow> bytes list \<Rightarrow> nat db" where
  "scrubUnbridgedTail privacyOff l now keepPerPortal graceWindow excludePortals =
     (if privacyOff \<or> keepPerPortal \<le> 0 then dbReturn 0
      else dbBind (wrapErr ''list portals for tail scrub'' (sqlQuery (tailPortals l (nat keepPerPortal))))
        (\<lambda>portals. dbFold (scrubTailOf l (now - graceWindow) (nat keepPerPortal))
           (filter (\<lambda>pid. pid \<notin> set excludePortals) portals) 0))"

section \<open>Reapers\<close>

definition orphanStubReapAge :: time_ms where
  "orphanStubReapAge = 24 * 60 * 60 * 1000"

definition orphanedMessage :: "bytes \<Rightarrow> time_ms \<Rightarrow> store \<Rightarrow> message_row \<Rightarrow> bool" where
  "orphanedMessage l stubCutoff s r =
     (mLogin r = l \<and> mDeleted r
      \<and> (case mPortal r of
           Some p \<Rightarrow> \<not> list_ex (\<lambda>c. ofPortal l p c) (chats s)
         | None \<Rightarrow> mCreated r < stubCutoff))"

definition deleteOrphanedMessages :: "bytes \<Rightarrow> time_ms \<Rightarrow> nat db" where
  "deleteOrphanedMessages l now =
     (let hit = orphanedMessage l (now - orphanStubReapAge) in
      wrapErr ''failed to delete orphaned messages''
        (sqlExecN (\<lambda>s. countWhere (hit s) (messages s)) (\<lambda>s. s\<lparr>messages := deleteWhere (hit s) (messages s)\<rparr>)))"

section \<open>The clean-up at start-up\<close>

definition scrubSoftDeleted :: "bytes \<Rightarrow> unit db" where
  "scrubSoftDeleted l = wrapErr ''failed to scrub pre-existing soft-deleted rows''
     (messageStmt (\<lambda>s. updateWhere (\<lambda>r. mLogin r = l \<and> mDeleted r \<and> \<not> mScrubbed r)
        (\<lambda>r. (scrubBody r)\<lparr>mScrubbed := True\<rparr>) (messages s)))"

definition systemMessage :: "bytes \<Rightarrow> store \<Rightarrow> message_row \<Rightarrow> bool" where
  "systemMessage l s r =
     (mLogin r = l \<and> coalesce (mAttachments r) [] = [] \<and> mTapback r = None
      \<and> (\<not> mHasBody r
         \<or> (coalesce (mText r) [] \<noteq> []
            \<and> list_ex (\<lambda>c. cLogin c = l \<and> mPortal r = Some (cPortal c) \<and> coalesce (cDisplay c) [] \<noteq> []
                 \<and> cDisplay c = mText r) (chats s))))"

definition deleteSystemMessages :: "bytes \<Rightarrow> unit db" where
  "deleteSystemMessages l = wrapErr ''failed to delete system messages''
     (messageStmt (\<lambda>s. deleteWhere (systemMessage l s) (messages s)))"

text \<open>The statements of \<open>ensureSchema\<close> that change rows; the definitions of the tables are the model's types.\<close>

definition ensureSchema :: "bytes \<Rightarrow> unit db" where
  "ensureSchema l = dbThen (scrubSoftDeleted l) (deleteSystemMessages l)"

end
