(* ===== verification/CloudSync.thy ===== *)
theory CloudSync
  imports CloudRun GoNumbers
begin

text \<open>
  The small tables of \<open>cloud_backfill_store.go\<close>: the continuation tokens and schema versions
  (\<open>cloud_sync_state\<close>), the restore overrides, the group photos and the attachment caches.
  \<open>l\<close> is the store's login and \<open>now\<close> the value of \<open>time.Now().UnixMilli()\<close>.
\<close>

section \<open>Sync state\<close>

definition getSyncState :: "bytes \<Rightarrow> bytes \<Rightarrow> bytes option db" where
  "getSyncState l zone = sqlQuery (\<lambda>s.
     case find (\<lambda>r. yLogin r = l \<and> yZone r = zone) (syncs s) of Some r \<Rightarrow> yToken r | None \<Rightarrow> None)"

definition mergeSuccess :: "sync_row \<Rightarrow> sync_row \<Rightarrow> sync_row" where
  "mergeSuccess old new = old\<lparr>yToken := yToken new, yLastSuccess := yLastSuccess new,
     yLastError := None, yUpdated := yUpdated new\<rparr>"

definition setSyncStateSuccess :: "bytes \<Rightarrow> time_ms \<Rightarrow> bytes \<Rightarrow> bytes option \<Rightarrow> unit db" where
  "setSyncStateSuccess l now zone token = sqlExec (\<lambda>s. s\<lparr>syncs := upsertRow syncKey mergeSuccess
     \<lparr>yLogin = l, yZone = zone, yToken = token, yLastSuccess = Some now, yLastError = None,
      yUpdated = now\<rparr> (syncs s)\<rparr>)"

definition mergeError :: "sync_row \<Rightarrow> sync_row \<Rightarrow> sync_row" where
  "mergeError old new = old\<lparr>yLastError := yLastError new, yUpdated := yUpdated new\<rparr>"

definition setSyncStateError :: "bytes \<Rightarrow> time_ms \<Rightarrow> bytes \<Rightarrow> bytes \<Rightarrow> unit db" where
  "setSyncStateError l now zone errMsg = sqlExec (\<lambda>s. s\<lparr>syncs := upsertRow syncKey mergeError
     \<lparr>yLogin = l, yZone = zone, yToken = None, yLastSuccess = None, yLastError = Some errMsg,
      yUpdated = now\<rparr> (syncs s)\<rparr>)"

definition clearSyncTokens :: "bytes \<Rightarrow> unit db" where
  "clearSyncTokens l = sqlExec (\<lambda>s. s\<lparr>syncs := deleteWhere
     (\<lambda>r. yLogin r = l \<and> yZone r \<noteq> ''_version'') (syncs s)\<rparr>)"

definition clearZoneToken :: "bytes \<Rightarrow> bytes \<Rightarrow> unit db" where
  "clearZoneToken l zone = sqlExec (\<lambda>s. s\<lparr>syncs := deleteWhere
     (\<lambda>r. yLogin r = l \<and> yZone r = zone) (syncs s)\<rparr>)"

text \<open>\<open>fmt.Sscanf(s, "%d", &v)\<close> with \<open>v\<close> zero before and left alone on an error.\<close>

definition sscanfInt :: "bytes \<Rightarrow> int" where
  "sscanfInt s =
     (let t = dropWhile (\<lambda>c. spaceChar c \<and> of_char c \<noteq> (10 :: nat)) s;
          neg = (t \<noteq> [] \<and> hd t = CHR ''-'');
          body = (if t \<noteq> [] \<and> (hd t = CHR ''-'' \<or> hd t = CHR ''+'') then tl t else t);
          ds = takeWhile (\<lambda>c. digitVal c \<noteq> None) body in
      if ds = [] then 0
      else case digitsVal 0 ds of None \<Rightarrow> 0
        | Some n \<Rightarrow>
            let v = (if neg then - int n else int n) in
            if v < minInt64 \<or> maxInt64 < v then 0 else v)"

definition versionOf :: "bytes \<Rightarrow> bytes \<Rightarrow> int db" where
  "versionOf l zone = sqlQuery (\<lambda>s.
     case find (\<lambda>r. yLogin r = l \<and> yZone r = zone) (syncs s) of
       None \<Rightarrow> 0
     | Some r \<Rightarrow> (case yToken r of None \<Rightarrow> 0 | Some t \<Rightarrow> sscanfInt t))"

definition mergeVersion :: "sync_row \<Rightarrow> sync_row \<Rightarrow> sync_row" where
  "mergeVersion old new = old\<lparr>yToken := yToken new, yUpdated := yUpdated new\<rparr>"

definition setVersionOf :: "bytes \<Rightarrow> time_ms \<Rightarrow> bytes \<Rightarrow> int \<Rightarrow> unit db" where
  "setVersionOf l now zone version = sqlExec (\<lambda>s. s\<lparr>syncs := upsertRow syncKey mergeVersion
     \<lparr>yLogin = l, yZone = zone, yToken = Some (Itoa version), yLastSuccess = None, yLastError = None,
      yUpdated = now\<rparr> (syncs s)\<rparr>)"

definition getSyncVersion :: "bytes \<Rightarrow> int db" where
  "getSyncVersion l = versionOf l ''_version''"

definition setSyncVersion :: "bytes \<Rightarrow> time_ms \<Rightarrow> int \<Rightarrow> unit db" where
  "setSyncVersion l now version = setVersionOf l now ''_version'' version"

definition getChatSyncVersion :: "bytes \<Rightarrow> int db" where
  "getChatSyncVersion l = versionOf l ''_chat_version''"

definition setChatSyncVersion :: "bytes \<Rightarrow> time_ms \<Rightarrow> int \<Rightarrow> unit db" where
  "setChatSyncVersion l now version = setVersionOf l now ''_chat_version'' version"

definition hasAnySyncState :: "bytes \<Rightarrow> bool db" where
  "hasAnySyncState l = sqlQuery (\<lambda>s. 0 < countWhere (\<lambda>r. yLogin r = l) (syncs s))"

definition clearAllData :: "bytes \<Rightarrow> unit db" where
  "clearAllData l =
     dbThen (wrapErr ''failed to clear cloud_sync_state''
       (sqlExec (\<lambda>s. s\<lparr>syncs := deleteWhere (\<lambda>r. yLogin r = l) (syncs s)\<rparr>)))
     (dbThen (wrapErr ''failed to clear cloud_chat''
       (sqlExec (\<lambda>s. s\<lparr>chats := deleteWhere (\<lambda>r. cLogin r = l) (chats s)\<rparr>)))
     (dbThen (wrapErr ''failed to clear cloud_message''
       (sqlExec (\<lambda>s. s\<lparr>messages := deleteWhere (\<lambda>r. mLogin r = l) (messages s)\<rparr>)))
     (dbThen (wrapErr ''failed to clear cloud_attachment_cache''
       (sqlExec (\<lambda>s. s\<lparr>attCache := deleteWhere (\<lambda>r. aLogin r = l) (attCache s)\<rparr>)))
     (wrapErr ''failed to clear cloud_attachment_dead''
       (sqlExec (\<lambda>s. s\<lparr>deadAtts := deleteWhere (\<lambda>r. dLogin r = l) (deadAtts s)\<rparr>))))))"

section \<open>Restore overrides\<close>

definition mergeOverride :: "override_row \<Rightarrow> override_row \<Rightarrow> override_row" where
  "mergeOverride old new = old\<lparr>oUpdated := oUpdated new\<rparr>"

definition setRestoreOverride :: "bytes \<Rightarrow> time_ms \<Rightarrow> bytes \<Rightarrow> unit db" where
  "setRestoreOverride l now portalID = sqlExec (\<lambda>s. s\<lparr>overrides := upsertRow overrideKey mergeOverride
     \<lparr>oLogin = l, oPortal = portalID, oUpdated = now\<rparr> (overrides s)\<rparr>)"

definition clearRestoreOverride :: "bytes \<Rightarrow> bytes \<Rightarrow> unit db" where
  "clearRestoreOverride l portalID = sqlExec (\<lambda>s. s\<lparr>overrides := deleteWhere
     (\<lambda>r. oLogin r = l \<and> oPortal r = portalID) (overrides s)\<rparr>)"

definition hasRestoreOverride :: "bytes \<Rightarrow> bytes \<Rightarrow> bool db" where
  "hasRestoreOverride l portalID = sqlQuery (\<lambda>s.
     0 < countWhere (\<lambda>r. oLogin r = l \<and> oPortal r = portalID) (overrides s))"

definition listRestoreOverrides :: "bytes \<Rightarrow> bytes list db" where
  "listRestoreOverrides l = dbCatch (sqlQuery (\<lambda>s.
     sort (map oPortal (filter (\<lambda>r. oLogin r = l) (overrides s))))) (\<lambda>_. dbReturn [])"

section \<open>Group photos\<close>

definition mergePhoto :: "photo_row \<Rightarrow> photo_row \<Rightarrow> photo_row" where
  "mergePhoto old new = old\<lparr>pTs := pTs new, pData := pData new\<rparr>"

definition saveGroupPhoto :: "bytes \<Rightarrow> bytes \<Rightarrow> time_ms \<Rightarrow> bytes \<Rightarrow> unit db" where
  "saveGroupPhoto l portalID ts content = sqlExec (\<lambda>s. s\<lparr>photos := upsertRow photoKey mergePhoto
     \<lparr>pLogin = l, pPortal = portalID, pTs = ts, pData = content\<rparr> (photos s)\<rparr>)"

definition getGroupPhoto :: "bytes \<Rightarrow> bytes \<Rightarrow> (time_ms \<times> bytes option) db" where
  "getGroupPhoto l portalID = sqlQuery (\<lambda>s.
     case find (\<lambda>r. pLogin r = l \<and> pPortal r = portalID) (photos s) of
       None \<Rightarrow> (0, None) | Some r \<Rightarrow> (pTs r, Some (pData r)))"

definition clearGroupPhoto :: "bytes \<Rightarrow> bytes \<Rightarrow> unit db" where
  "clearGroupPhoto l portalID = sqlExec (\<lambda>s. s\<lparr>photos := deleteWhere
     (\<lambda>r. pLogin r = l \<and> pPortal r = portalID) (photos s)\<rparr>)"

section \<open>Attachment caches\<close>

definition loadAttachmentCacheJSON :: "bytes \<Rightarrow> (bytes \<Rightarrow> bytes option) db" where
  "loadAttachmentCacheJSON l = sqlQuery (\<lambda>s.
     fold (\<lambda>r m. m(aRecord r \<mapsto> aContent r)) (filter (\<lambda>r. aLogin r = l) (attCache s)) Map.empty)"

definition mergeCache :: "cache_row \<Rightarrow> cache_row \<Rightarrow> cache_row" where
  "mergeCache old new = old\<lparr>aContent := aContent new\<rparr>"

definition saveAttachmentCacheEntry :: "bytes \<Rightarrow> time_ms \<Rightarrow> bytes \<Rightarrow> bytes \<Rightarrow> unit db" where
  "saveAttachmentCacheEntry l now recordName content = dbCatch (sqlExec (\<lambda>s. s\<lparr>attCache :=
     upsertRow cacheKey mergeCache
       \<lparr>aLogin = l, aRecord = recordName, aContent = content, aCreated = now\<rparr> (attCache s)\<rparr>))
     (\<lambda>_. dbReturn ())"

definition loadDeadAttachments :: "bytes \<Rightarrow> bytes list db" where
  "loadDeadAttachments l = sqlQuery (\<lambda>s. map dRecord (filter (\<lambda>r. dLogin r = l) (deadAtts s)))"

definition saveDeadAttachment :: "bytes \<Rightarrow> time_ms \<Rightarrow> bytes \<Rightarrow> bytes \<Rightarrow> unit db" where
  "saveDeadAttachment l now recordName reason = dbCatch (sqlExec (\<lambda>s. s\<lparr>deadAtts :=
     insertIgnore deadKey \<lparr>dLogin = l, dRecord = recordName, dReason = reason, dFailed = now\<rparr> (deadAtts s)\<rparr>))
     (\<lambda>_. dbReturn ())"

text \<open>The record names the attachment metadata of a live message refers to.  \<open>recordNames\<close> stands for
  the engine's \<open>json_each\<close> and \<open>json_extract\<close> on one cell; \<open>None\<close> is its error for malformed JSON.\<close>

definition pruneOrphanedAttachmentCache :: "(bytes \<Rightarrow> bytes list option) \<Rightarrow> bytes \<Rightarrow> nat db" where
  "pruneOrphanedAttachmentCache recordNames l = wrapErr ''failed to prune orphaned attachment cache''
     (sqlTry (\<lambda>s.
        let cells = map (\<lambda>r. recordNames (coalesce (mAttachments r) []))
              (filter (\<lambda>r. mLogin r = l \<and> \<not> mDeleted r \<and> coalesce (mAttachments r) [] \<noteq> []) (messages s));
            orphan = (\<lambda>r. aLogin r = l \<and> aRecord r \<notin> set (concat (map the cells))) in
        if None \<in> set cells then Inl ''malformed JSON''
        else Inr (countWhere orphan (attCache s), s\<lparr>attCache := deleteWhere orphan (attCache s)\<rparr>)))"

interpretation sync_success: keyed_table syncKey mergeSuccess
  by unfold_locales (simp add: syncKey_def mergeSuccess_def)

interpretation sync_error: keyed_table syncKey mergeError
  by unfold_locales (simp add: syncKey_def mergeError_def)

interpretation sync_version: keyed_table syncKey mergeVersion
  by unfold_locales (simp add: syncKey_def mergeVersion_def)

interpretation override_table: keyed_table overrideKey mergeOverride
  by unfold_locales (simp add: overrideKey_def mergeOverride_def)

interpretation photo_table: keyed_table photoKey mergePhoto
  by unfold_locales (simp add: photoKey_def mergePhoto_def)

interpretation cache_table: keyed_table cacheKey mergeCache
  by unfold_locales (simp add: cacheKey_def mergeCache_def)

interpretation dead_table: keyed_table deadKey "\<lambda>old _. old"
  by unfold_locales

lemma sscanf_Itoa: "minInt64 \<le> i \<Longrightarrow> i \<le> maxInt64 \<Longrightarrow> sscanfInt (Itoa i) = i"
proof -
  assume b: "minInt64 \<le> i" "i \<le> maxInt64"
  have sp: "\<not> spaceChar c" if "c = CHR ''-'' \<or> digitVal c \<noteq> None" for c
    using that by (auto simp: spaceChar_def isSpace_def digitVal_def split: if_splits)
  have tw: "takeWhile (\<lambda>c. \<exists>d. digitVal c = Some d) (natDigits n) = natDigits n" for n
    using natDigits_digits [of n] by (auto simp: takeWhile_eq_all_conv)
  have d: "digitVal (hd (natDigits n)) \<noteq> None" for n
    using natDigits_digits [of n] hd_in_set [OF natDigits_nonempty] by blast
  have hdc: "Itoa i \<noteq> [] \<and> (hd (Itoa i) = CHR ''-'' \<or> digitVal (hd (Itoa i)) \<noteq> None)"
    using d by (simp add: Itoa_def)
  have dw: "dropWhile (\<lambda>c. spaceChar c \<and> of_char c \<noteq> (10 :: nat)) (Itoa i) = Itoa i"
    using sp hdc by (cases "Itoa i") auto
  show ?thesis
    using b natDigits_hd [of "nat i"] unfolding sscanfInt_def dw
    by (cases "i < 0") (simp_all add: Itoa_def Let_def tw digitsVal_natDigits)
qed

lemma stored_version:
  assumes "minInt64 \<le> v" "v \<le> maxInt64"
  shows "outcome (dbThen (setVersionOf l now zone v) (versionOf l zone) (s, [])) = Inr v"
proof -
  let ?new = "\<lparr>yLogin = l, yZone = zone, yToken = Some (Itoa v), yLastSuccess = None, yLastError = None,
      yUpdated = now\<rparr>"
  let ?rs = "upsertRow syncKey mergeVersion ?new (syncs s)"
  have t: "\<forall>r\<in>set ?rs. yLogin r = l \<and> yZone r = zone \<longrightarrow> yToken r = Some (Itoa v)"
    by (auto simp: upsertRow_def syncKey_def mergeVersion_def list_ex_iff)
  have "\<exists>r\<in>set ?rs. yLogin r = l \<and> yZone r = zone"
    using sync_version.upsert_present [of ?new "syncs s"] by (auto simp: syncKey_def)
  then obtain r where "find (\<lambda>r. yLogin r = l \<and> yZone r = zone) ?rs = Some r"
    using find_None_all [of "\<lambda>r. yLogin r = l \<and> yZone r = zone" ?rs] by fastforce
  moreover from this have "yToken r = Some (Itoa v)" using t find_Some_mem by fast
  ultimately show ?thesis
    using sscanf_Itoa [OF assms] by (simp add: setVersionOf_def versionOf_def dbThen_def dbBind_def)
qed

text \<open>A schema version that is stored is the version read back, for every Go int: the chat version and
  the message version do not disturb each other.\<close>

theorem versions_roundtrip:
  assumes "minInt64 \<le> v" "v \<le> maxInt64" "minInt64 \<le> w" "w \<le> maxInt64"
  shows "outcome (dbThen (setSyncVersion l now v) (dbThen (setChatSyncVersion l now w) (getSyncVersion l)) (s, [])) = Inr v
    \<and> outcome (dbThen (setSyncVersion l now v) (dbThen (setChatSyncVersion l now w) (getChatSyncVersion l)) (s, [])) = Inr w"
proof -
  have other: "find (\<lambda>r. yLogin r = l \<and> yZone r = z) (upsertRow syncKey mergeVersion new rs)
      = find (\<lambda>r. yLogin r = l \<and> yZone r = z) rs" if "yZone new \<noteq> z" for z new rs
  proof -
    have "find (\<lambda>r. yLogin r = l \<and> yZone r = z) (map (\<lambda>r. if syncKey r = syncKey new then mergeVersion r new else r) rs)
        = find (\<lambda>r. yLogin r = l \<and> yZone r = z) rs"
      using that by (induction rs) (simp_all add: syncKey_def mergeVersion_def)
    moreover have "find (\<lambda>r. yLogin r = l \<and> yZone r = z) (rs @ [new]) = find (\<lambda>r. yLogin r = l \<and> yZone r = z) rs"
      using that by (induction rs) simp_all
    ultimately show ?thesis by (simp add: upsertRow_def)
  qed
  let ?s1 = "s\<lparr>syncs := upsertRow syncKey mergeVersion \<lparr>yLogin = l, yZone = ''_version'', yToken = Some (Itoa v),
      yLastSuccess = None, yLastError = None, yUpdated = now\<rparr> (syncs s)\<rparr>"
  show ?thesis
    using stored_version [OF assms(1,2), of l now "''_version''" s]
      stored_version [OF assms(3,4), of l now "''_chat_version''" ?s1]
    by (simp add: dbThen_def dbBind_def setSyncVersion_def setChatSyncVersion_def getSyncVersion_def
        getChatSyncVersion_def setVersionOf_def versionOf_def other)
qed

theorem versions_roundtrip_witness:
  "outcome (dbThen (setSyncVersion ''me'' 5 (- 7)) (dbThen (setChatSyncVersion ''me'' 5 12) (getSyncVersion ''me''))
     (\<lparr>messages = [], chats = [], syncs = [], photos = [], overrides = [], attCache = [], deadAtts = [],
       bridgeMsgs = [], backfillTasks = []\<rparr>, [])) = Inr (- 7)"
  by (rule versions_roundtrip [THEN conjunct1]) (simp_all add: minInt64_def maxInt64_def)

text \<open>The reset of the tokens drops the chat schema version.\<close>

lemma clearSyncTokens_drops_chat_version:
  "outcome (dbThen (setChatSyncVersion l now 3) (dbThen (clearSyncTokens l) (getChatSyncVersion l)) (s, [])) = Inr 0"
proof -
  have "find (\<lambda>r. yLogin r = l \<and> yZone r = ''_chat_version'')
      (deleteWhere (\<lambda>r. yLogin r = l \<and> yZone r \<noteq> ''_version'') rs) = None" for rs
    by (auto simp: find_None_all set_deleteWhere)
  note none = this
  show ?thesis
    by (simp add: none setChatSyncVersion_def getChatSyncVersion_def setVersionOf_def versionOf_def
        clearSyncTokens_def dbThen_def dbBind_def)
qed

end
