(* ===== verification/CloudOps.thy ===== *)
theory CloudOps
  imports CloudScrub CloudSync
begin

text \<open>
  The operations of the store as one data type, so that a guarantee can be stated for any sequence of
  them, under any failures of the database.
\<close>

datatype store_op =
    UpsertMessages "cloudMessageRow list"
  | DeleteMessages "bytes list"
  | SoftDelete bytes
  | DeleteByChats "bytes list"
  | HardDelete bytes
  | PersistMessage bytes bytes time_ms bool
  | PersistTapback bytes bytes time_ms bool nat
  | ClearPortalScrub bytes
  | ClearAllScrub
  | UpsertChat bytes bytes bytes bytes bytes "bytes option" "bytes option" "bytes list option" time_ms
  | UpsertChats "cloudChatUpsertRow list"
  | SeedChat bytes bytes bytes bytes bytes "bytes list"
  | DeleteChats "bytes list"
  | DeleteChatRecords "bytes list"
  | UpdateRoster bytes "bytes list option"
  | SyncRoster bytes "bytes list" "(bytes \<Rightarrow> bool) option"
  | ClearPhotoGuid bytes
  | Rename bytes bytes
  | DeletePortal bytes
  | DeleteGroup bytes
  | UndeleteChat bytes
  | ResetForward bytes
  | UndeleteMessages bytes
  | ReKey bytes bytes
  | Tombstone bytes bytes bytes bytes bytes "bytes option" bytes
  | EnsureTombstone bytes
  | NormalizeChats
  | NormalizeMessages
  | Heal
  | MarkForward bytes
  | ScrubBridged bool bytes time_ms "bytes list"
  | ScrubReactions bool time_ms
  | ScrubTail bool int time_ms "bytes list"
  | Reap
  | EnsureSchema
  | TokenSuccess bytes "bytes option"
  | TokenError bytes bytes
  | ClearTokens
  | ClearZone bytes
  | SetVersion int
  | SetChatVersion int
  | ClearAll
  | SetOverride bytes
  | ClearOverride bytes
  | SavePhoto bytes time_ms bytes
  | DropPhoto bytes
  | SaveCache bytes bytes
  | SaveDead bytes bytes
  | Prune

definition noResult :: "'a db \<Rightarrow> unit db" where
  "noResult m = dbBind m (\<lambda>_. dbReturn ())"

text \<open>\<open>recordNames\<close> is the engine's reading of the attachment metadata.\<close>

fun runOp :: "(bytes \<Rightarrow> bytes list option) \<Rightarrow> bytes \<Rightarrow> time_ms \<Rightarrow> store_op \<Rightarrow> unit db" where
  "runOp rn l now (UpsertMessages rows) = upsertMessageBatch l now rows"
| "runOp rn l now (DeleteMessages guids) = deleteMessageBatch l now guids"
| "runOp rn l now (SoftDelete guid) = softDeleteMessageByGUID l now guid"
| "runOp rn l now (DeleteByChats ids) = deleteMessagesByChatIDs l ids"
| "runOp rn l now (HardDelete p) = noResult (hardDeleteMessagesByPortalID l p)"
| "runOp rn l now (PersistMessage uuid p ts me) = persistMessageUUID l now uuid p ts me"
| "runOp rn l now (PersistTapback uuid p ts me k) = persistTapbackUUID l now uuid p ts me k"
| "runOp rn l now (ClearPortalScrub p) = noResult (clearBodyScrubByPortalID l now p)"
| "runOp rn l now ClearAllScrub = noResult (clearAllBodyScrub l now)"
| "runOp rn l now (UpsertChat c r g p sv dn ph ps ts) = upsertChat l now c r g p sv dn ph ps ts"
| "runOp rn l now (UpsertChats cs) = upsertChatBatch l now cs"
| "runOp rn l now (SeedChat p c g dn ph ps) = seedChatFromRecycleBin l now p c g dn ph ps"
| "runOp rn l now (DeleteChats ids) = deleteChatBatch l ids"
| "runOp rn l now (DeleteChatRecords ns) = deleteChatsByRecordNames l now ns"
| "runOp rn l now (UpdateRoster p ps) = updateChatParticipants l now p ps"
| "runOp rn l now (SyncRoster p ns self) = noResult (syncStoredGroupRoster l now p ns self)"
| "runOp rn l now (ClearPhotoGuid p) = clearGroupPhotoGuid l p"
| "runOp rn l now (Rename p dn) = updateDisplayNameByPortalID l p dn"
| "runOp rn l now (DeletePortal p) = deleteLocalChatByPortalID l now p"
| "runOp rn l now (DeleteGroup g) = deleteLocalChatByGroupID l now g"
| "runOp rn l now (UndeleteChat p) = undeleteCloudChatByPortalID l now p"
| "runOp rn l now (ResetForward p) = resetForwardBackfillDone l p"
| "runOp rn l now (UndeleteMessages p) = noResult (undeleteCloudMessagesByPortalID l now p)"
| "runOp rn l now (ReKey a b) = reKeyPortalID l now a b"
| "runOp rn l now (Tombstone c p r g sv dn ps) = insertDeletedChatTombstone l now c p r g sv dn ps"
| "runOp rn l now (EnsureTombstone p) = ensureDeletedChatTombstoneByPortalID l now p"
| "runOp rn l now NormalizeChats = noResult (normalizeGroupChatPortalIDs l)"
| "runOp rn l now NormalizeMessages = noResult (normalizeGroupMessagePortalIDs l)"
| "runOp rn l now Heal = noResult (healMisroutedGroupMessages l now)"
| "runOp rn l now (MarkForward p) = markForwardBackfillDone l now p"
| "runOp rn l now (ScrubBridged off b w ex) = noResult (scrubBridgedBodies off l now b w ex)"
| "runOp rn l now (ScrubReactions off w) = noResult (scrubReactionText off l now w)"
| "runOp rn l now (ScrubTail off k w ex) = noResult (scrubUnbridgedTail off l now k w ex)"
| "runOp rn l now Reap = noResult (deleteOrphanedMessages l now)"
| "runOp rn l now EnsureSchema = ensureSchema l"
| "runOp rn l now (TokenSuccess z t) = setSyncStateSuccess l now z t"
| "runOp rn l now (TokenError z e) = setSyncStateError l now z e"
| "runOp rn l now ClearTokens = clearSyncTokens l"
| "runOp rn l now (ClearZone z) = clearZoneToken l z"
| "runOp rn l now (SetVersion v) = setSyncVersion l now v"
| "runOp rn l now (SetChatVersion v) = setChatSyncVersion l now v"
| "runOp rn l now ClearAll = clearAllData l"
| "runOp rn l now (SetOverride p) = setRestoreOverride l now p"
| "runOp rn l now (ClearOverride p) = clearRestoreOverride l p"
| "runOp rn l now (SavePhoto p ts d) = saveGroupPhoto l p ts d"
| "runOp rn l now (DropPhoto p) = clearGroupPhoto l p"
| "runOp rn l now (SaveCache r c) = saveAttachmentCacheEntry l now r c"
| "runOp rn l now (SaveDead r why) = saveDeadAttachment l now r why"
| "runOp rn l now Prune = noResult (pruneOrphanedAttachmentCache rn l)"

text \<open>A history: operations with the time of each; a failed operation does not stop the next one.\<close>

fun runHistory :: "(bytes \<Rightarrow> bytes list option) \<Rightarrow> bytes \<Rightarrow> (time_ms \<times> store_op) list \<Rightarrow> store \<times> script \<Rightarrow> store \<times> script" where
  "runHistory rn l [] st = st"
| "runHistory rn l ((now, op) # ops) st = runHistory rn l ops (snd (runOp rn l now op st))"

text \<open>Small tables to instantiate the guarantees at: a live message, a scrubbed one and a deleted one.\<close>

definition sampleMessage :: "bytes \<Rightarrow> message_row" where
  "sampleMessage guid = (emptyMessage ''me'' guid 10 20)\<lparr>mPortal := Some ''tel:+15550100'', mText := Some ''hi'',
     mRecord := ''rec'' @ guid\<rparr>"

definition sampleStore :: store where
  "sampleStore = \<lparr>messages = [sampleMessage ''A'', (sealRow (sampleMessage ''B''))\<lparr>mDeleted := False\<rparr>,
       sealRow (sampleMessage ''C'')],
     chats = [emptyChat ''me'' ''chat1'' ''tel:+15550100'' 5], syncs = [], photos = [], overrides = [],
     attCache = [], deadAtts = [], bridgeMsgs = [], backfillTasks = []\<rparr>"

definition sampleImport :: "bytes \<Rightarrow> cloudMessageRow" where
  "sampleImport guid = \<lparr>GUID = guid, RecordName = ''r'', CloudChatID = ''c'', PortalID = ''tel:+15550100'',
     TimestampMS = 30, Sender = ''bob'', IsFromMe = False, Text = ''again'', Subject = [], Service = ''iMessage'',
     Deleted = False, TapbackKind = None, TapbackTargetGUID = [], TapbackEmoji = [], AttachmentsJSON = [],
     DateReadMS = 0, HasBody = True, ReplyToGUID = [], ReplyToPart = [], BodyScrubbed = False\<rparr>"

lemmas sample_defs = sampleStore_def sampleMessage_def emptyMessage_def emptyChat_def sealRow_def

text \<open>Statements of the store by the table they change; what the relations below have to say of them.\<close>

lemma sqlStmt_scrub:
  "scrubChunk outer inner f = sqlExecN (\<lambda>s. countWhere (chunkHit outer inner s) (messages s))
     (\<lambda>s. s\<lparr>messages := updateWhere (chunkHit outer inner s) (\<lambda>r. (f r)\<lparr>mScrubbed := True\<rparr>) (messages s)\<rparr>)"
  by (simp add: scrubChunk_def sqlExecN_def)

context run_relation begin

lemma keeps_noResult: "keepsRel R m \<Longrightarrow> keepsRel R (noResult m)"
  unfolding noResult_def by (intro keeps_bind keeps_return)

lemma keeps_if: "(b \<Longrightarrow> keepsRel R m) \<Longrightarrow> (\<not> b \<Longrightarrow> keepsRel R k) \<Longrightarrow> keepsRel R (if b then m else k)"
  by simp

lemma keeps_let: "keepsRel R (f x) \<Longrightarrow> keepsRel R (let y = x in f y)"
  by simp

lemma keeps_chatStmt: "(\<And>s. R s (s\<lparr>chats := f (chats s)\<rparr>)) \<Longrightarrow> keepsRel R (chatStmt f)"
  unfolding chatStmt_def by (rule keeps_exec)

lemma keeps_messageStmt: "(\<And>s. R s (s\<lparr>messages := f s\<rparr>)) \<Longrightarrow> keepsRel R (messageStmt f)"
  unfolding messageStmt_def by (rule keeps_exec)

lemma keeps_idle: "keepsRel R (sqlExec id)"
  by (rule keeps_exec) (simp add: R_refl)

lemma keeps_scrubLoop:
  assumes "\<And>s. R s (s\<lparr>messages := updateWhere (chunkHit outer inner s) (\<lambda>r. (f r)\<lparr>mScrubbed := True\<rparr>) (messages s)\<rparr>)"
  shows "keepsRel R (scrubLoop msg outer inner f cnt)"
proof -
  have "R (fst st) (finalStore (scrubLoop msg outer inner f cnt st))" for st
    using assms
  proof (induction msg outer inner f cnt st rule: scrubLoop.induct)
    case (1 msg outer inner f cnt st)
    obtain r st1 where c: "wrapErr msg (scrubChunk outer inner f) st = (r, st1)"
      by (cases "wrapErr msg (scrubChunk outer inner f) st")
    have R1: "R (fst st) (fst st1)"
    proof -
      have "keepsRel R (wrapErr msg (scrubChunk outer inner f))"
        unfolding sqlStmt_scrub by (intro keeps_wrap keeps_execN 1(2))
      from keepsRelD [OF this, of "fst st" "snd st"] show ?thesis by (simp add: c finalStore_def)
    qed
    obtain r2 st2 where y: "yieldChunk st1 = (r2, st2)" by (cases "yieldChunk st1")
    have s2: "fst st2 = fst st1" using yieldChunk_store [OF y] .
    show ?case
    proof (cases "\<exists>n u. r = Inr n \<and> \<not> n < chunkSize \<and> r2 = Inr u")
      case True
      then obtain n u where n: "r = Inr n" "\<not> n < chunkSize" "r2 = Inr u" by blast
      have "R (fst st2) (finalStore (scrubLoop msg outer inner f (cnt + n) st2))"
        using 1(1) [OF c [symmetric, unfolded n] refl n(2) y [symmetric, unfolded n] refl 1(2)] .
      then show ?thesis
        using R1 R_trans by (simp add: scrubLoop.simps [of msg outer inner f cnt st] c n y s2)
    next
      case False
      then show ?thesis using R1 s2
        by (auto simp: scrubLoop.simps [of msg outer inner f cnt st] c y finalStore_def split: sum.split)
    qed
  qed
  then show ?thesis by (force simp: keepsRel_def)
qed

end

end
