(* ===== verification/CloudIso.thy ===== *)
theory CloudIso
  imports CloudOps
begin

text \<open>
  The bridge keeps the rows of all its logins in the same tables.  The relation \<open>othersSame\<close>, an instance
  of the locale \<open>run_relation\<close>, says that the rows of other logins and bridgev2's tables are untouched;
  every operation keeps it, also one that fails half way.
\<close>

definition othersSame :: "bytes \<Rightarrow> store \<Rightarrow> store \<Rightarrow> bool" where
  "othersSame l s t =
     (filter (\<lambda>r. mLogin r \<noteq> l) (messages t) = filter (\<lambda>r. mLogin r \<noteq> l) (messages s)
      \<and> filter (\<lambda>r. cLogin r \<noteq> l) (chats t) = filter (\<lambda>r. cLogin r \<noteq> l) (chats s)
      \<and> filter (\<lambda>r. yLogin r \<noteq> l) (syncs t) = filter (\<lambda>r. yLogin r \<noteq> l) (syncs s)
      \<and> filter (\<lambda>r. pLogin r \<noteq> l) (photos t) = filter (\<lambda>r. pLogin r \<noteq> l) (photos s)
      \<and> filter (\<lambda>r. oLogin r \<noteq> l) (overrides t) = filter (\<lambda>r. oLogin r \<noteq> l) (overrides s)
      \<and> filter (\<lambda>r. aLogin r \<noteq> l) (attCache t) = filter (\<lambda>r. aLogin r \<noteq> l) (attCache s)
      \<and> filter (\<lambda>r. dLogin r \<noteq> l) (deadAtts t) = filter (\<lambda>r. dLogin r \<noteq> l) (deadAtts s)
      \<and> bridgeMsgs t = bridgeMsgs s \<and> backfillTasks t = backfillTasks s)"

interpretation iso: run_relation "othersSame l" for l
  by (rule run_relation.intro; unfold othersSame_def; iprover intro: trans)

lemmas op_defs = upsertMessageBatch_def insertMessage_def deleteMessageBatch_def softDeleteMessageByGUID_def
  deleteMessagesByChatIDs_def hardDeleteMessagesByPortalID_def persistMessageUUID_def persistTapbackUUID_def
  clearBodyScrubByPortalID_def clearAllBodyScrub_def upsertChat_def upsertChatBatch_def
  seedChatFromRecycleBin_def deleteChatBatch_def deleteChatsByRecordNames_def updateChatParticipants_def
  syncStoredGroupRoster_def clearGroupPhotoGuid_def updateDisplayNameByPortalID_def
  deleteLocalChatByPortalID_def deleteLocalChatByGroupID_def undeleteCloudChatByPortalID_def
  resetForwardBackfillDone_def undeleteCloudMessagesByPortalID_def reKeyPortalID_def
  insertDeletedChatTombstone_def ensureDeletedChatTombstoneByPortalID_def normalizeGroupChatPortalIDs_def
  normalizeGroupMessagePortalIDs_def healMisroutedGroupMessages_def markForwardBackfillDone_def
  scrubBridgedBodies_def scrubReactionText_def scrubUnbridgedTail_def scrubTailOf_def
  deleteOrphanedMessages_def ensureSchema_def scrubSoftDeleted_def deleteSystemMessages_def
  setSyncStateSuccess_def setSyncStateError_def clearSyncTokens_def clearZoneToken_def setSyncVersion_def
  setChatSyncVersion_def setVersionOf_def clearAllData_def setRestoreOverride_def clearRestoreOverride_def
  saveGroupPhoto_def clearGroupPhoto_def saveAttachmentCacheEntry_def saveDeadAttachment_def

text \<open>The lookups inside the operations only read.\<close>

context run_relation begin

lemma keeps_getChatParticipants: "keepsRel R (getChatParticipantsByPortalID l p)"
  unfolding getChatParticipantsByPortalID_def
  by (intro keeps_intros) (auto split: sum.split option.split intro!: keeps_intros)

lemma keeps_getDisplayName: "keepsRel R (getDisplayNameByPortalID l p)"
  unfolding getDisplayNameByPortalID_def Let_def
  by (intro keeps_intros) (auto split: sum.split option.split intro!: keeps_intros)

lemma keeps_getChatIdentifier: "keepsRel R (getChatIdentifierByPortalID l p)"
  unfolding getChatIdentifierByPortalID_def by (intro keeps_intros)

lemma keeps_getRecordNames: "keepsRel R (getCloudRecordNamesByPortalID l p)"
  unfolding getCloudRecordNamesByPortalID_def by (intro keeps_intros)

lemma keeps_findPortals: "keepsRel R (findPortalIDsByGroupID l p)"
  unfolding findPortalIDsByGroupID_def by (intro keeps_intros)

lemmas keeps_all = keeps_return keeps_fail keeps_query keeps_bind keeps_catch keeps_then keeps_wrap
  keeps_each keeps_fold keeps_try_result keeps_tx keeps_noResult keeps_if keeps_let keeps_idle
  keeps_getChatParticipants keeps_getDisplayName keeps_getChatIdentifier keeps_getRecordNames keeps_findPortals
  keeps_scrubLoop keeps_chatStmt keeps_messageStmt keeps_exec keeps_execN keeps_try

end

text \<open>What a statement on one table has to satisfy.\<close>

lemma othersSame_table [simp]:
  "othersSame l s (s\<lparr>messages := ms\<rparr>) \<longleftrightarrow> filter (\<lambda>r. mLogin r \<noteq> l) ms = filter (\<lambda>r. mLogin r \<noteq> l) (messages s)"
  "othersSame l s (s\<lparr>chats := cs\<rparr>) \<longleftrightarrow> filter (\<lambda>r. cLogin r \<noteq> l) cs = filter (\<lambda>r. cLogin r \<noteq> l) (chats s)"
  "othersSame l s (s\<lparr>syncs := ys\<rparr>) \<longleftrightarrow> filter (\<lambda>r. yLogin r \<noteq> l) ys = filter (\<lambda>r. yLogin r \<noteq> l) (syncs s)"
  "othersSame l s (s\<lparr>photos := ps\<rparr>) \<longleftrightarrow> filter (\<lambda>r. pLogin r \<noteq> l) ps = filter (\<lambda>r. pLogin r \<noteq> l) (photos s)"
  "othersSame l s (s\<lparr>overrides := os\<rparr>) \<longleftrightarrow> filter (\<lambda>r. oLogin r \<noteq> l) os = filter (\<lambda>r. oLogin r \<noteq> l) (overrides s)"
  "othersSame l s (s\<lparr>attCache := as\<rparr>) \<longleftrightarrow> filter (\<lambda>r. aLogin r \<noteq> l) as = filter (\<lambda>r. aLogin r \<noteq> l) (attCache s)"
  "othersSame l s (s\<lparr>deadAtts := ds\<rparr>) \<longleftrightarrow> filter (\<lambda>r. dLogin r \<noteq> l) ds = filter (\<lambda>r. dLogin r \<noteq> l) (deadAtts s)"
  by (simp_all add: othersSame_def)

text \<open>A changed row is a row of the login and stays one.\<close>

lemma filter_other_login:
  "\<forall>r. Q r \<longrightarrow> g r = l \<Longrightarrow> \<forall>r. g (f r) = g r \<Longrightarrow>
     filter (\<lambda>r. g r \<noteq> l) (updateWhere Q f rs) = filter (\<lambda>r. g r \<noteq> l) rs"
  "\<forall>r. Q r \<longrightarrow> g r = l \<Longrightarrow> filter (\<lambda>r. g r \<noteq> l) (deleteWhere Q rs) = filter (\<lambda>r. g r \<noteq> l) rs"
  "\<forall>r. key r = key new \<longrightarrow> g r = l \<Longrightarrow> \<forall>r. key r = key new \<longrightarrow> g (merge r new) = l \<Longrightarrow>
     filter (\<lambda>r. g r \<noteq> l) (upsertRow key merge new rs) = filter (\<lambda>r. g r \<noteq> l) rs"
  by (intro filter_updateWhere filter_deleteWhere filter_upsertRow; simp)+

lemmas row_defs = keys ofPortal_def ofGroup_def killChat_def killMessage_def sealRow_def scrubBody_def
  mergeMessage_def mergeChat_def mergeChatBatch_def mergeSuccess_def mergeError_def mergeVersion_def
  mergeOverride_def mergePhoto_def mergeCache_def importedRow_def importedChat_def emptyMessage_def
  emptyChat_def insertIgnore_def chunkHit_def systemMessage_def orphanedMessage_def tailCandidate_def

lemma filter_heal: "filter (\<lambda>m. mLogin m \<noteq> l) (map (\<lambda>m. case healTarget l s m of
      Some c \<Rightarrow> m\<lparr>mPortal := Some (cPortal c), mUpdated := now\<rparr> | None \<Rightarrow> m) ms) = filter (\<lambda>m. mLogin m \<noteq> l) ms"
  by (induction ms) (auto simp: healTarget_def split: option.splits if_splits)

lemma iso_insert: "keepsRel (othersSame l) (insertMessage l now row)"
  unfolding insertMessage_def by (intro iso.keeps_all; simp add: filter_other_login row_defs Let_def)

lemma iso_kill: "keepsRel (othersSame l) (deleteLocalChatByPortalID l now p)"
  unfolding deleteLocalChatByPortalID_def by (intro iso.keeps_all; simp add: filter_other_login row_defs)

lemma iso_tail: "keepsRel (othersSame l) (scrubTailOf l cutoff k p cnt)"
  unfolding scrubTailOf_def
  by (intro iso.keeps_all; simp add: filter_other_login row_defs iso.keeps_all split: list.split)

lemma iso_prune: "keepsRel (othersSame l) (pruneOrphanedAttachmentCache rn l)"
  unfolding pruneOrphanedAttachmentCache_def Let_def
  by (intro iso.keeps_all) (auto simp: filter_other_login split: if_split_asm)

lemma op_iso: "keepsRel (othersSame l) (runOp rn l now op)"
  by (cases op; simp only: runOp.simps op_defs;
      (intro iso.keeps_all iso_insert iso_kill iso_tail iso_prune)?;
      simp add: filter_other_login row_defs filter_heal iso.keeps_all Let_def split: list.split sum.split)

text \<open>C31: No sequence of store operations of one login changes a row of another login or a table of
  bridgev2, whatever statements the database rejects on the way.\<close>

theorem login_isolation:
  "othersSame l (fst st) (fst (runHistory rn l ops st))"
proof (induction ops arbitrary: st)
  case (Cons a ops)
  then show ?case
    using keepsRelD [OF op_iso [of l rn "fst a" "snd a"], of "fst st" "snd st"] iso.R_trans
    by (cases a) (auto simp: finalStore_def)
qed (simp add: iso.R_refl)

end
