(* ===== verification/CloudRows.thy ===== *)
theory CloudRows
  imports CloudIso
begin

text \<open>
  What becomes of a message row.  The locale \<open>row_relation\<close> turns a reflexive and transitive relation of
  two versions of a row into a relation of the tables that runs keep; \<open>sealed\<close> is its instance for the
  tombstone and the privacy flag.
\<close>

section \<open>What becomes of a message row\<close>

definition rowsKept :: "(message_row \<Rightarrow> message_row \<Rightarrow> bool) \<Rightarrow> store \<Rightarrow> store \<Rightarrow> bool" where
  "rowsKept \<rho> s t \<longleftrightarrow> (\<forall>r\<in>set (messages s). \<exists>r'\<in>set (messages t). messageKey r' = messageKey r \<and> \<rho> r r')"

locale row_relation =
  fixes \<rho> :: "message_row \<Rightarrow> message_row \<Rightarrow> bool"
  assumes row_refl: "\<rho> r r"
    and row_trans: "\<rho> a b \<Longrightarrow> \<rho> b c \<Longrightarrow> \<rho> a c"

sublocale row_relation \<subseteq> kept: run_relation "rowsKept \<rho>"
proof
  show "rowsKept \<rho> s s" for s unfolding rowsKept_def using row_refl by blast
  show "rowsKept \<rho> s u" if st: "rowsKept \<rho> s t" and tu: "rowsKept \<rho> t u" for s t u
    unfolding rowsKept_def
  proof
    fix r assume "r \<in> set (messages s)"
    then obtain r1 where 1: "r1 \<in> set (messages t)" "messageKey r1 = messageKey r" "\<rho> r r1"
      using st by (auto simp: rowsKept_def)
    then obtain r2 where "r2 \<in> set (messages u)" "messageKey r2 = messageKey r1" "\<rho> r1 r2"
      using tu by (auto simp: rowsKept_def)
    then show "\<exists>r'\<in>set (messages u). messageKey r' = messageKey r \<and> \<rho> r r'"
      using 1 row_trans by metis
  qed
qed

context row_relation begin

lemma kept_other_tables [simp]:
  "rowsKept \<rho> s (s\<lparr>chats := cs\<rparr>)" "rowsKept \<rho> s (s\<lparr>syncs := ys\<rparr>)" "rowsKept \<rho> s (s\<lparr>photos := ps\<rparr>)"
  "rowsKept \<rho> s (s\<lparr>overrides := os\<rparr>)" "rowsKept \<rho> s (s\<lparr>attCache := as\<rparr>)" "rowsKept \<rho> s (s\<lparr>deadAtts := ds\<rparr>)"
  using row_refl by (auto simp: rowsKept_def)

lemma kept_map:
  "\<forall>r. messageKey (f r) = messageKey r \<and> \<rho> r (f r) \<Longrightarrow> rowsKept \<rho> s (s\<lparr>messages := map f (messages s)\<rparr>)"
  by (auto simp: rowsKept_def)

lemma kept_update:
  "\<forall>r. P r \<longrightarrow> messageKey (f r) = messageKey r \<and> \<rho> r (f r) \<Longrightarrow>
   rowsKept \<rho> s (s\<lparr>messages := updateWhere P f (messages s)\<rparr>)"
  unfolding updateWhere_def by (rule kept_map) (simp add: row_refl)

lemma kept_upsert:
  "\<forall>r. messageKey r = messageKey new \<longrightarrow> messageKey (merge r new) = messageKey new \<and> \<rho> r (merge r new) \<Longrightarrow>
   rowsKept \<rho> s (s\<lparr>messages := upsertRow messageKey merge new (messages s)\<rparr>)"
proof (cases "list_ex (\<lambda>r. messageKey r = messageKey new) (messages s)")
  case True
  assume "\<forall>r. messageKey r = messageKey new \<longrightarrow> messageKey (merge r new) = messageKey new \<and> \<rho> r (merge r new)"
  then have "rowsKept \<rho> s (s\<lparr>messages := map (\<lambda>r. if messageKey r = messageKey new then merge r new else r) (messages s)\<rparr>)"
    by (intro kept_map) (simp add: row_refl)
  then show ?thesis using True by (simp add: upsertRow_def)
next
  case False
  then show ?thesis using row_refl by (auto simp: upsertRow_def rowsKept_def)
qed

lemma kept_insert: "rowsKept \<rho> s (s\<lparr>messages := insertIgnore messageKey new (messages s)\<rparr>)"
  unfolding insertIgnore_def by (rule kept_upsert) (simp add: row_refl)

lemmas kept_rules = kept_update kept_upsert kept_insert

end

text \<open>The operations that neither remove a row nor bring a deleted or scrubbed message back.\<close>

fun ordinaryOp :: "store_op \<Rightarrow> bool" where
  "ordinaryOp (DeleteByChats _) = False"
| "ordinaryOp (HardDelete _) = False"
| "ordinaryOp (ClearPortalScrub _) = False"
| "ordinaryOp ClearAllScrub = False"
| "ordinaryOp (UndeleteMessages _) = False"
| "ordinaryOp Reap = False"
| "ordinaryOp EnsureSchema = False"
| "ordinaryOp ClearAll = False"
| "ordinaryOp _ = True"

definition sealed :: "message_row \<Rightarrow> message_row \<Rightarrow> bool" where
  "sealed old new =
     ((mDeleted old \<longrightarrow> mDeleted new)
      \<and> (mScrubbed old \<longrightarrow> mScrubbed new \<and> (mText new = mText old \<or> mText new = None)
           \<and> (mSubject new = mSubject old \<or> mSubject new = None)
           \<and> (mTapbackEmoji new = mTapbackEmoji old \<or> mTapbackEmoji new = None)))"

interpretation seal: row_relation sealed
  by unfold_locales (auto simp: sealed_def)

lemma kept_heal: "rowsKept sealed s (s\<lparr>messages := map (\<lambda>m. case healTarget l s m of
      Some c \<Rightarrow> m\<lparr>mPortal := Some (cPortal c), mUpdated := now\<rparr> | None \<Rightarrow> m) (messages s)\<rparr>)"
  by (rule seal.kept_map) (simp add: sealed_def messageKey_def split: option.split)

lemma seal_insert: "keepsRel (rowsKept sealed) (insertMessage l now row)"
  unfolding insertMessage_def
  by (intro seal.kept.keeps_all; intro seal.kept_rules; simp add: row_defs sealed_def Let_def)

lemma seal_kill: "keepsRel (rowsKept sealed) (deleteLocalChatByPortalID l now p)"
  unfolding deleteLocalChatByPortalID_def
  by (intro seal.kept.keeps_all; (intro seal.kept_rules)?; simp add: row_defs sealed_def)

lemma seal_tail: "keepsRel (rowsKept sealed) (scrubTailOf l cutoff k p cnt)"
  unfolding scrubTailOf_def
  by (intro seal.kept.keeps_all)
     (auto simp: row_defs sealed_def split: list.split intro!: seal.kept.keeps_all seal.kept_rules)

lemma seal_prune: "keepsRel (rowsKept sealed) (pruneOrphanedAttachmentCache rn l)"
  unfolding pruneOrphanedAttachmentCache_def Let_def
  by (intro seal.kept.keeps_all) (auto split: if_split_asm)

lemma op_seal: "ordinaryOp op \<Longrightarrow> keepsRel (rowsKept sealed) (runOp rn l now op)"
  by (cases op; simp only: ordinaryOp.simps runOp.simps op_defs;
      (intro seal.kept.keeps_all seal_insert seal_kill seal_tail seal_prune kept_heal seal.kept_rules)?;
      simp add: row_defs sealed_def seal.kept.keeps_all kept_heal Let_def split: list.split sum.split)

text \<open>C32: Under every history of ordinary operations (imports, deletions, repairs, scrubs; not the explicit
  undelete, reset or reap) a message row stays in the table, a deleted one stays deleted, and a scrubbed one
  stays scrubbed: its text, subject and reaction emoji are as they were or gone, however often CloudKit
  delivers the message again.\<close>

theorem sealed_for_good:
  assumes "list_all (\<lambda>(now, op). ordinaryOp op) ops" "r \<in> set (messages (fst st))"
  shows "\<exists>r'\<in>set (messages (fst (runHistory rn l ops st))). messageKey r' = messageKey r
    \<and> (mDeleted r \<longrightarrow> mDeleted r')
    \<and> (mScrubbed r \<longrightarrow> mScrubbed r' \<and> mText r' \<in> {mText r, None} \<and> mSubject r' \<in> {mSubject r, None}
         \<and> mTapbackEmoji r' \<in> {mTapbackEmoji r, None})"
proof -
  have "rowsKept sealed (fst st) (fst (runHistory rn l ops st))"
    using assms(1)
  proof (induction ops arbitrary: st)
    case (Cons a ops)
    then show ?case
      using keepsRelD [OF op_seal [of "snd a" rn l "fst a"], of "fst st" "snd st"] seal.kept.R_trans
      by (cases a) (auto simp: finalStore_def)
  qed (simp add: seal.kept.R_refl)
  then show ?thesis using assms(2) by (auto simp: rowsKept_def sealed_def)
qed

theorem sealed_for_good_witness:
  "\<exists>r'\<in>set (messages (fst (runHistory (\<lambda>_. None) ''me'' [(40, UpsertMessages [sampleImport ''C''])] (sampleStore, [])))).
     messageKey r' = (''me'', ''C'') \<and> mDeleted r' \<and> mScrubbed r' \<and> mText r' = None"
proof -
  have "list_all (\<lambda>(now, op). ordinaryOp op) [(40 :: time_ms, UpsertMessages [sampleImport ''C''])]" by simp
  moreover have "sealRow (sampleMessage ''C'') \<in> set (messages (fst (sampleStore, [])))" by (simp add: sampleStore_def)
  moreover have "messageKey (sealRow (sampleMessage ''C'')) = (''me'', ''C'')" "mDeleted (sealRow (sampleMessage ''C''))"
    "mScrubbed (sealRow (sampleMessage ''C''))" "mText (sealRow (sampleMessage ''C'')) = None"
    by (simp_all add: sample_defs messageKey_def)
  ultimately show ?thesis
    using sealed_for_good [of "[(40, UpsertMessages [sampleImport ''C''])]" "sealRow (sampleMessage ''C'')"
        "(sampleStore, [])" "\<lambda>_. None" "''me''"]
    by (metis (no_types, lifting) insert_iff singletonD)
qed

end
