(* ===== verification/CloudInv.thy ===== *)
theory CloudInv imports CloudRows begin

text \<open>
  Two invariants every history of store operations keeps: a scrubbed message row holds no text
  (\<open>noPlaintext\<close>, an instance of the locale \<open>row_invariant\<close> for facts about single rows), and no table
  holds two rows with one primary key.
\<close>

section \<open>Invariants of the message rows\<close>

definition allRows :: "(message_row \<Rightarrow> bool) \<Rightarrow> store \<Rightarrow> store \<Rightarrow> bool" where
  "allRows ok s t \<longleftrightarrow> ((\<forall>r\<in>set (messages s). ok r) \<longrightarrow> (\<forall>r\<in>set (messages t). ok r))"

lemma message_tables:
  "messages (s\<lparr>messages := ms\<rparr>) = ms"
  "messages (s\<lparr>chats := cs\<rparr>) = messages s" "messages (s\<lparr>syncs := ys\<rparr>) = messages s"
  "messages (s\<lparr>photos := ps\<rparr>) = messages s" "messages (s\<lparr>overrides := os\<rparr>) = messages s"
  "messages (s\<lparr>attCache := as\<rparr>) = messages s" "messages (s\<lparr>deadAtts := ds\<rparr>) = messages s"
  by simp_all

locale row_invariant =
  fixes ok :: "message_row \<Rightarrow> bool"

sublocale row_invariant \<subseteq> every: run_relation "allRows ok"
  by (rule run_relation.intro; unfold allRows_def; iprover)

context row_invariant begin

lemma every_other_tables [simp]:
  "allRows ok s (s\<lparr>chats := cs\<rparr>)" "allRows ok s (s\<lparr>syncs := ys\<rparr>)" "allRows ok s (s\<lparr>photos := ps\<rparr>)"
  "allRows ok s (s\<lparr>overrides := os\<rparr>)" "allRows ok s (s\<lparr>attCache := as\<rparr>)" "allRows ok s (s\<lparr>deadAtts := ds\<rparr>)"
  by (simp_all only: allRows_def message_tables simp_thms)

lemma every_map: "\<forall>r. ok r \<longrightarrow> ok (f r) \<Longrightarrow> allRows ok s (s\<lparr>messages := map f (messages s)\<rparr>)"
  unfolding allRows_def message_tables set_map by blast

lemma every_update: "\<forall>r. P r \<and> ok r \<longrightarrow> ok (f r) \<Longrightarrow> allRows ok s (s\<lparr>messages := updateWhere P f (messages s)\<rparr>)"
  unfolding updateWhere_def by (rule every_map) presburger

lemma every_delete: "allRows ok s (s\<lparr>messages := deleteWhere P (messages s)\<rparr>)"
  unfolding allRows_def message_tables set_deleteWhere by blast

lemma every_upsert: "ok new \<and> (\<forall>r. ok r \<longrightarrow> ok (merge r new)) \<Longrightarrow>
   allRows ok s (s\<lparr>messages := upsertRow messageKey merge new (messages s)\<rparr>)"
proof (cases "list_ex (\<lambda>r. messageKey r = messageKey new) (messages s)")
  case True
  assume "ok new \<and> (\<forall>r. ok r \<longrightarrow> ok (merge r new))"
  then have "\<forall>r. ok r \<longrightarrow> ok (if messageKey r = messageKey new then merge r new else r)" by presburger
  from every_map [OF this] show ?thesis by (simp only: upsertRow_def True if_True)
next
  case False
  assume "ok new \<and> (\<forall>r. ok r \<longrightarrow> ok (merge r new))"
  then show ?thesis
    unfolding allRows_def message_tables upsertRow_def by (simp only: False if_False set_append list.set) blast
qed

lemma every_insert: "ok new \<Longrightarrow> allRows ok s (s\<lparr>messages := insertIgnore messageKey new (messages s)\<rparr>)"
  unfolding insertIgnore_def by (rule every_upsert) iprover

lemmas every_rules = every_update every_delete every_upsert every_insert

end

definition noPlaintext :: "message_row \<Rightarrow> bool" where
  "noPlaintext r = (mScrubbed r \<longrightarrow> mText r = None \<and> mSubject r = None)"

interpretation plain: row_invariant noPlaintext .

lemma plain_heal: "allRows noPlaintext s (s\<lparr>messages := map (\<lambda>m. case healTarget l s m of
      Some c \<Rightarrow> m\<lparr>mPortal := Some (cPortal c), mUpdated := now\<rparr> | None \<Rightarrow> m) (messages s)\<rparr>)"
  by (rule plain.every_map) (simp add: noPlaintext_def split: option.split)

lemma plain_insert: "keepsRel (allRows noPlaintext) (insertMessage l now row)"
  unfolding insertMessage_def
  by (intro plain.every.keeps_all; intro plain.every_rules; simp add: row_defs noPlaintext_def Let_def)

lemma plain_kill: "keepsRel (allRows noPlaintext) (deleteLocalChatByPortalID l now p)"
  unfolding deleteLocalChatByPortalID_def
  by (intro plain.every.keeps_all; (intro plain.every_rules)?; simp add: row_defs noPlaintext_def)

lemma plain_tail: "keepsRel (allRows noPlaintext) (scrubTailOf l cutoff k p cnt)"
  unfolding scrubTailOf_def
  by (intro plain.every.keeps_all)
     (auto simp: row_defs noPlaintext_def split: list.split intro!: plain.every.keeps_all plain.every_rules)

lemma plain_prune: "keepsRel (allRows noPlaintext) (pruneOrphanedAttachmentCache rn l)"
  unfolding pruneOrphanedAttachmentCache_def Let_def
  by (intro plain.every.keeps_all) (auto split: if_split_asm)

lemma op_plain: "keepsRel (allRows noPlaintext) (runOp rn l now op)"
  by (cases op; simp only: runOp.simps op_defs;
      (intro plain.every.keeps_all plain_insert plain_kill plain_tail plain_prune plain_heal plain.every_rules)?;
      simp add: row_defs noPlaintext_def plain.every.keeps_all plain_heal Let_def split: list.split sum.split)

text \<open>C33: A message row whose body is marked scrubbed holds no text and no subject, after every history of
  store operations that starts from such tables, failures included.\<close>

theorem scrubbed_no_plaintext:
  assumes "list_all noPlaintext (messages (fst st))"
  shows "list_all noPlaintext (messages (fst (runHistory rn l ops st)))"
proof -
  have "allRows noPlaintext (fst st) (fst (runHistory rn l ops st))"
  proof (induction ops arbitrary: st)
    case (Cons a ops)
    then show ?case
      using keepsRelD [OF op_plain [of rn l "fst a" "snd a"], of "fst st" "snd st"] plain.every.R_trans
      by (cases a) (auto simp: finalStore_def)
  qed (simp add: plain.every.R_refl)
  then show ?thesis using assms by (simp add: allRows_def list_all_iff)
qed

theorem scrubbed_no_plaintext_witness:
  "list_all noPlaintext (messages (fst (runHistory (\<lambda>_. None) ''me''
     [(40, UpsertMessages [sampleImport ''B'']), (50, UndeleteMessages ''tel:+15550100'')] (sampleStore, []))))"
  by (rule scrubbed_no_plaintext) (simp add: sample_defs noPlaintext_def)

section \<open>Primary keys\<close>

definition uniqueKeys :: "store \<Rightarrow> bool" where
  "uniqueKeys s = (distinct (map messageKey (messages s)) \<and> distinct (map chatKey (chats s))
     \<and> distinct (map syncKey (syncs s)) \<and> distinct (map photoKey (photos s))
     \<and> distinct (map overrideKey (overrides s)) \<and> distinct (map cacheKey (attCache s))
     \<and> distinct (map deadKey (deadAtts s)))"

definition keepsKeys :: "store \<Rightarrow> store \<Rightarrow> bool" where
  "keepsKeys s t \<longleftrightarrow> (uniqueKeys s \<longrightarrow> uniqueKeys t)"

interpretation pk: run_relation keepsKeys
  by unfold_locales (auto simp: keepsKeys_def)

lemma keepsKeys_table:
  "(distinct (map messageKey (messages s)) \<longrightarrow> distinct (map messageKey ms)) \<Longrightarrow> keepsKeys s (s\<lparr>messages := ms\<rparr>)"
  "(distinct (map chatKey (chats s)) \<longrightarrow> distinct (map chatKey cs)) \<Longrightarrow> keepsKeys s (s\<lparr>chats := cs\<rparr>)"
  "(distinct (map syncKey (syncs s)) \<longrightarrow> distinct (map syncKey ys)) \<Longrightarrow> keepsKeys s (s\<lparr>syncs := ys\<rparr>)"
  "(distinct (map photoKey (photos s)) \<longrightarrow> distinct (map photoKey ps)) \<Longrightarrow> keepsKeys s (s\<lparr>photos := ps\<rparr>)"
  "(distinct (map overrideKey (overrides s)) \<longrightarrow> distinct (map overrideKey os)) \<Longrightarrow> keepsKeys s (s\<lparr>overrides := os\<rparr>)"
  "(distinct (map cacheKey (attCache s)) \<longrightarrow> distinct (map cacheKey as)) \<Longrightarrow> keepsKeys s (s\<lparr>attCache := as\<rparr>)"
  "(distinct (map deadKey (deadAtts s)) \<longrightarrow> distinct (map deadKey ds)) \<Longrightarrow> keepsKeys s (s\<lparr>deadAtts := ds\<rparr>)"
  by (auto simp: keepsKeys_def uniqueKeys_def)

lemma distinct_update: "\<forall>r. P r \<longrightarrow> key (f r) = key r \<Longrightarrow> distinct (map key rs) \<longrightarrow> distinct (map key (updateWhere P f rs))"
proof -
  assume "\<forall>r. P r \<longrightarrow> key (f r) = key r"
  then have "map key (updateWhere P f rs) = map key rs" by (simp add: updateWhere_def)
  then show ?thesis by simp
qed

lemma distinct_delete: "distinct (map key rs) \<longrightarrow> distinct (map key (deleteWhere P rs))"
  using distinct_deleteWhere by blast

lemma distinct_upsert: "\<forall>r. key r = key new \<longrightarrow> key (merge r new) = key new \<Longrightarrow>
   distinct (map key rs) \<longrightarrow> distinct (map key (upsertRow key merge new rs))"
proof -
  assume k: "\<forall>r. key r = key new \<longrightarrow> key (merge r new) = key new"
  have "map key (map (\<lambda>r. if key r = key new then merge r new else r) rs) = map key rs"
    using k by (induction rs) auto
  then show ?thesis by (auto simp: upsertRow_def list_ex_iff simp del: map_map)
qed

lemma distinct_ignore: "distinct (map key rs) \<longrightarrow> distinct (map key (insertIgnore key new rs))"
  unfolding insertIgnore_def by (rule distinct_upsert) simp

lemma distinct_heal: "distinct (map messageKey ms) \<longrightarrow> distinct (map messageKey (map (\<lambda>m. case healTarget l s m of
      Some c \<Rightarrow> m\<lparr>mPortal := Some (cPortal c), mUpdated := now\<rparr> | None \<Rightarrow> m) ms))"
proof -
  have "map messageKey (map (\<lambda>m. case healTarget l s m of
      Some c \<Rightarrow> m\<lparr>mPortal := Some (cPortal c), mUpdated := now\<rparr> | None \<Rightarrow> m) ms) = map messageKey ms"
    by (simp add: messageKey_def split: option.split)
  then show ?thesis by (simp only: simp_thms)
qed

lemma pk_heal: "keepsKeys s (s\<lparr>messages := map (\<lambda>m. case healTarget l s m of
      Some c \<Rightarrow> m\<lparr>mPortal := Some (cPortal c), mUpdated := now\<rparr> | None \<Rightarrow> m) (messages s)\<rparr>)"
  by (rule keepsKeys_table, rule distinct_heal)

lemmas pk_simps = distinct_update distinct_delete distinct_upsert distinct_ignore

lemma pk_insert: "keepsRel keepsKeys (insertMessage l now row)"
  unfolding insertMessage_def
  by (intro pk.keeps_all; rule keepsKeys_table; simp add: pk_simps row_defs Let_def)

lemma pk_kill: "keepsRel keepsKeys (deleteLocalChatByPortalID l now p)"
  unfolding deleteLocalChatByPortalID_def
  by (intro pk.keeps_all; (rule keepsKeys_table)?; simp add: pk_simps row_defs)

lemma pk_tail: "keepsRel keepsKeys (scrubTailOf l cutoff k p cnt)"
  unfolding scrubTailOf_def
  by (intro pk.keeps_all)
     (auto simp: pk_simps row_defs split: list.split intro!: pk.keeps_all keepsKeys_table)

lemma pk_prune: "keepsRel keepsKeys (pruneOrphanedAttachmentCache rn l)"
  unfolding pruneOrphanedAttachmentCache_def Let_def
  by (intro pk.keeps_all) (auto simp: pk_simps split: if_split_asm intro!: keepsKeys_table)

lemma op_pk: "keepsRel keepsKeys (runOp rn l now op)"
  by (cases op; simp only: runOp.simps op_defs;
      (intro pk.keeps_all pk_insert pk_kill pk_tail pk_prune pk_heal)?;
      (rule keepsKeys_table)?;
      simp add: pk_simps row_defs pk.keeps_all Let_def split: list.split sum.split)



end
