(* ===== verification/CloudScrubSpec.thy ===== *)
theory CloudScrubSpec
  imports CloudInv
begin

text \<open>
  What the scrubbers achieve.  The chunked loop with its subquery, its second look at the rows and its
  yields is equivalent to one update over all candidates (\<open>scrubLoop_all\<close>), and the tail scrub leaves
  alone the window of newest messages that forward backfill delivers.
\<close>

section \<open>The chunked loop is one update\<close>

lemma wrapErr_Nil: "m st = (Inr x, st') \<Longrightarrow> wrapErr msg m st = (Inr x, st')"
  by (simp add: wrapErr_Inr)

lemma chunkSize_pos: "0 < chunkSize"
  by (simp add: chunkSize_def)

text \<open>The rows of a chunk, counted by a table with unique identifiers.\<close>

lemma count_take_guids:
  assumes "distinct (map mGuid (filter P rs))"
  shows "filter (\<lambda>r. P r \<and> mGuid r \<in> set (take n (map mGuid (filter P rs)))) rs = take n (filter P rs)"
  using assms
proof (induction rs arbitrary: n)
  case (Cons a rs)
  show ?case
  proof (cases "P a")
    case True
    then have fresh: "\<forall>r\<in>set rs. P r \<longrightarrow> mGuid r \<noteq> mGuid a" and d: "distinct (map mGuid (filter P rs))"
      using Cons.prems by (simp_all add: image_iff) metis
    show ?thesis
    proof (cases n)
      case (Suc m)
      have "filter (\<lambda>r. P r \<and> (mGuid r = mGuid a \<or> mGuid r \<in> set (take m (map mGuid (filter P rs))))) rs
          = filter (\<lambda>r. P r \<and> mGuid r \<in> set (take m (map mGuid (filter P rs)))) rs"
        using fresh by (intro filter_cong) auto
      then show ?thesis using True Suc Cons.IH [OF d, of m] by simp
    qed simp
  qed (use Cons in simp)
qed simp

lemma filter_filter_and: "filter (\<lambda>r. Q r \<and> P r) rs = filter Q (filter P rs)"
  by (simp add: conj_commute)

locale scrub_step =
  fixes l :: bytes and outer :: "message_row \<Rightarrow> bool" and inner :: "store \<Rightarrow> message_row \<Rightarrow> bool"
    and f :: "message_row \<Rightarrow> message_row"
  assumes inner_open: "inner s r \<Longrightarrow> \<not> mScrubbed r \<and> outer r \<and> mLogin r = l"
    and outer_login: "outer r \<Longrightarrow> mLogin r = l"
    and inner_rows: "inner (s\<lparr>messages := ms\<rparr>) r = inner s r"
    and keeps_key: "messageKey (f r) = messageKey r"
begin

abbreviation seal_all :: "(message_row \<Rightarrow> bool) \<Rightarrow> store \<Rightarrow> store" where
  "seal_all P s \<equiv> s\<lparr>messages := updateWhere P (\<lambda>r. (f r)\<lparr>mScrubbed := True\<rparr>) (messages s)\<rparr>"

lemma keeps_login: "mLogin (f r) = mLogin r" "mGuid (f r) = mGuid r"
  using keeps_key [of r] by (simp_all add: messageKey_def)

lemma guids_distinct:
  assumes "distinct (map messageKey (messages s))"
  shows "distinct (map mGuid (filter (inner s) (messages s)))"
proof -
  have "inj_on mGuid (set (filter (inner s) (messages s)))"
    using assms inner_open [of s] by (fastforce simp: inj_on_def distinct_map messageKey_def)
  moreover have "distinct (filter (inner s) (messages s))" using assms by (simp add: distinct_map)
  ultimately show ?thesis by (simp add: distinct_map)
qed

text \<open>The second look of the update accepts exactly the rows the subquery chose.\<close>

lemma chunkHit_rows:
  assumes "distinct (map messageKey (messages s))" "r \<in> set (messages s)"
  shows "chunkHit outer inner s r \<longleftrightarrow> inner s r \<and> mGuid r \<in> set (chunkGuids inner s)"
proof
  assume h: "chunkHit outer inner s r"
  then obtain r' where r': "r' \<in> set (messages s)" "inner s r'" "mGuid r' = mGuid r"
    by (auto simp: chunkHit_def chunkGuids_def dest!: in_set_takeD)
  have "messageKey r' = messageKey r"
    using h r' inner_open [of s r'] outer_login [of r] by (auto simp: chunkHit_def messageKey_def)
  then have "r' = r" using assms r'(1) by (auto simp: distinct_map inj_on_def)
  then show "inner s r \<and> mGuid r \<in> set (chunkGuids inner s)" using h r' by (simp add: chunkHit_def)
next
  assume "inner s r \<and> mGuid r \<in> set (chunkGuids inner s)"
  then show "chunkHit outer inner s r" using inner_open [of s r] by (simp add: chunkHit_def)
qed

lemma count_chunk:
  assumes "distinct (map messageKey (messages s))"
  shows "countWhere (chunkHit outer inner s) (messages s) = min chunkSize (countWhere (inner s) (messages s))"
proof -
  have "filter (chunkHit outer inner s) (messages s)
      = filter (\<lambda>r. inner s r \<and> mGuid r \<in> set (chunkGuids inner s)) (messages s)"
    using chunkHit_rows [OF assms] by (intro filter_cong) auto
  also have "\<dots> = take chunkSize (filter (inner s) (messages s))"
    unfolding chunkGuids_def by (rule count_take_guids) (rule guids_distinct [OF assms])
  finally show ?thesis by (simp add: countWhere_def min.commute)
qed

lemma seal_split:
  assumes "distinct (map messageKey (messages s))"
  shows "updateWhere (inner s) (\<lambda>r. (f r)\<lparr>mScrubbed := True\<rparr>)
      (updateWhere (chunkHit outer inner s) (\<lambda>r. (f r)\<lparr>mScrubbed := True\<rparr>) (messages s))
    = updateWhere (inner s) (\<lambda>r. (f r)\<lparr>mScrubbed := True\<rparr>) (messages s)"
proof -
  have "\<not> inner s ((f r)\<lparr>mScrubbed := True\<rparr>)" for r using inner_open [of s "(f r)\<lparr>mScrubbed := True\<rparr>"] by auto
  then show ?thesis
    using chunkHit_rows [OF assms] by (auto simp: updateWhere_def)
qed

lemma distinct_seal:
  "distinct (map messageKey (messages s)) \<Longrightarrow> distinct (map messageKey (messages (seal_all P s)))"
  using map_key_updateWhere [of messageKey "\<lambda>r. (f r)\<lparr>mScrubbed := True\<rparr>" P "messages s"] keeps_login
  by (simp add: messageKey_def)

lemma seal_none: "countWhere P (messages s) = 0 \<Longrightarrow> seal_all P s = s"
proof -
  assume "countWhere P (messages s) = 0"
  then have "updateWhere P (\<lambda>r. (f r)\<lparr>mScrubbed := True\<rparr>) (messages s) = messages s"
    by (simp add: countWhere_0 updateWhere_def map_idI)
  then show ?thesis by simp
qed

lemma scrubLoop_all:
  assumes "distinct (map messageKey (messages s))"
  shows "scrubLoop msg outer inner f cnt (s, []) =
    (Inr (cnt + countWhere (inner s) (messages s)), seal_all (inner s) s, [])"
  using assms
proof (induction "unscrubbed s" arbitrary: s cnt rule: less_induct)
  case less
  let ?n = "countWhere (chunkHit outer inner s) (messages s)"
  let ?t = "seal_all (chunkHit outer inner s) s"
  have chunk: "wrapErr msg (scrubChunk outer inner f) (s, []) = (Inr ?n, ?t, [])"
    by (rule wrapErr_Nil) (simp add: scrubChunk_def)
  have yield: "yieldChunk (?t, []) = (Inr (), ?t, [])" by (simp add: yieldChunk_def)
  have inner_t: "inner ?t = inner s" by (rule ext) (rule inner_rows)
  have all: "seal_all (inner ?t) ?t = seal_all (inner s) s" using seal_split [OF less(2)] by (simp add: inner_t)
  show ?case
  proof (cases "?n < chunkSize")
    case True
    then have n: "?n = countWhere (inner s) (messages s)" using count_chunk [OF less(2)] by simp
    have "updateWhere (chunkHit outer inner s) (\<lambda>r. (f r)\<lparr>mScrubbed := True\<rparr>) (messages s)
        = updateWhere (inner s) (\<lambda>r. (f r)\<lparr>mScrubbed := True\<rparr>) (messages s)"
    proof -
      have "chunkGuids inner s = map mGuid (filter (inner s) (messages s))"
        using True n by (simp add: chunkGuids_def countWhere_def)
      then show ?thesis using chunkHit_rows [OF less(2)] by (auto simp: updateWhere_def)
    qed
    then show ?thesis using True n by (simp add: scrubLoop.simps [of msg outer inner f cnt] chunk)
  next
    case False
    have fewer: "unscrubbed ?t + ?n = unscrubbed s"
      using scrubChunk_fewer [of outer inner f "(s, [])" ?n "(?t, [])"] by (simp add: scrubChunk_def)
    have rest: "countWhere (inner ?t) (messages ?t) + ?n = countWhere (inner s) (messages s)"
      unfolding inner_t
    proof -
      have "countWhere (inner s) (updateWhere (chunkHit outer inner s) (\<lambda>r. (f r)\<lparr>mScrubbed := True\<rparr>) (messages s))
          + countWhere (\<lambda>r. inner s r \<and> mGuid r \<in> set (chunkGuids inner s)) (messages s) = countWhere (inner s) (messages s)"
      proof -
        have "updateWhere (chunkHit outer inner s) (\<lambda>r. (f r)\<lparr>mScrubbed := True\<rparr>) (messages s)
            = updateWhere (\<lambda>r. inner s r \<and> mGuid r \<in> set (chunkGuids inner s)) (\<lambda>r. (f r)\<lparr>mScrubbed := True\<rparr>) (messages s)"
          using chunkHit_rows [OF less(2)] by (auto simp: updateWhere_def)
        moreover have "\<not> inner s ((f r)\<lparr>mScrubbed := True\<rparr>)" for r using inner_open [of s "(f r)\<lparr>mScrubbed := True\<rparr>"] by auto
        ultimately show ?thesis
          using updateWhere_fewer [of "\<lambda>r. inner s r \<and> mGuid r \<in> set (chunkGuids inner s)" "inner s"
              "\<lambda>r. (f r)\<lparr>mScrubbed := True\<rparr>" "messages s"] by simp
      qed
      moreover have "countWhere (\<lambda>r. inner s r \<and> mGuid r \<in> set (chunkGuids inner s)) (messages s) = ?n"
        using chunkHit_rows [OF less(2)] unfolding countWhere_def by (metis (mono_tags, lifting) filter_cong)
      ultimately show "countWhere (inner s) (messages ?t) + ?n = countWhere (inner s) (messages s)" by simp
    qed
    have "scrubLoop msg outer inner f (cnt + ?n) (?t, [])
        = (Inr (cnt + ?n + countWhere (inner ?t) (messages ?t)), seal_all (inner ?t) ?t, [])"
      using False fewer chunkSize_pos by (intro less(1) distinct_seal less(2)) simp
    then have "scrubLoop msg outer inner f (cnt + ?n) (?t, [])
        = (Inr (cnt + (countWhere (inner ?t) (messages ?t) + ?n)), seal_all (inner s) s, [])"
      unfolding all by (simp only: ac_simps)
    then show ?thesis
      unfolding rest using False by (simp add: scrubLoop.simps [of msg outer inner f cnt] chunk yield)
  qed
qed

end


lemma scrub_keys: "messageKey (scrubBody r) = messageKey r" "messageKey (r\<lparr>mText := None, mSubject := None\<rparr>) = messageKey r"
  by (simp_all add: messageKey_def scrubBody_def)

interpretation bridged_scrub: scrub_step l "\<lambda>r. mLogin r = l \<and> mUpdated r < cutoff"
    "bridgedCandidate l b cutoff ex" scrubBody for l b cutoff ex
  by unfold_locales (auto simp: bridgedCandidate_def bridgedRow_def scrub_keys)

interpretation reaction_scrub: scrub_step l "\<lambda>r. mLogin r = l \<and> isReaction r \<and> mUpdated r < cutoff"
    "reactionCandidate l cutoff" "\<lambda>r. r\<lparr>mText := None, mSubject := None\<rparr>" for l cutoff
  by unfold_locales (auto simp: reactionCandidate_def scrub_keys)

interpretation tail_scrub: scrub_step l "tailCandidate l pid cutoff threshold"
    "\<lambda>s m. \<not> mScrubbed m \<and> tailCandidate l pid cutoff threshold m" scrubBody for l pid cutoff threshold
  by unfold_locales (auto simp: tailCandidate_def scrub_keys)

text \<open>On tables with unique keys the chunked scrub of delivered bodies, thousand rows at a time, does
  exactly what one update over all candidates would do, and reports their number.\<close>

theorem scrubBridgedBodies_once:
  assumes "distinct (map messageKey (messages s))"
  shows "scrubBridgedBodies False l now bridge grace ex (s, []) =
    (Inr (countWhere (bridgedCandidate l bridge (now - grace) ex s) (messages s)),
     s\<lparr>messages := updateWhere (bridgedCandidate l bridge (now - grace) ex s)
         (\<lambda>r. r\<lparr>mText := None, mSubject := None, mSender := Some [], mTapbackEmoji := None, mScrubbed := True\<rparr>)
         (messages s)\<rparr>, [])"
  using bridged_scrub.scrubLoop_all [OF assms] by (simp add: scrubBridgedBodies_def scrubBody_def Let_def)

theorem scrubBridgedBodies_once_witness:
  "fst (scrubBridgedBodies False ''me'' 100 ''b'' 10 [] (sampleStore, [])) = Inr 0"
proof -
  have "distinct (map messageKey (messages sampleStore))" by (simp add: sample_defs keys)
  from scrubBridgedBodies_once [OF this, of "''me''" 100 "''b''" 10 "[]"] show ?thesis
    by (simp add: countWhere_def sample_defs bridgedCandidate_def bridgedRow_def isReaction_def)
qed

lemma scrubReactionText_once:
  assumes "distinct (map messageKey (messages s))"
  shows "scrubReactionText False l now grace (s, []) =
    (Inr (countWhere (reactionCandidate l (now - grace) s) (messages s)),
     s\<lparr>messages := updateWhere (reactionCandidate l (now - grace) s)
         (\<lambda>r. r\<lparr>mText := None, mSubject := None, mScrubbed := True\<rparr>) (messages s)\<rparr>, [])"
  using reaction_scrub.scrubLoop_all [OF assms] by (simp add: scrubReactionText_def Let_def)

section \<open>The tail scrub keeps the newest messages\<close>

text \<open>Later versions of the tables differ from the first only in old rows of one portal, and there neither
  in the order nor in what is served.\<close>

definition oldRowsOnly :: "bytes \<Rightarrow> bytes \<Rightarrow> time_ms \<Rightarrow> message_row \<Rightarrow> message_row \<Rightarrow> bool" where
  "oldRowsOnly l pid threshold a b =
     ((mLogin a = l \<and> mPortal a = Some pid \<and> mTs a < threshold \<or> b = a)
      \<and> mTs b = mTs a \<and> mGuid b = mGuid a \<and> mLogin b = mLogin a \<and> mPortal b = mPortal a
      \<and> mDeleted b = mDeleted a \<and> mRecord b = mRecord a)"

definition tailOnly :: "bytes \<Rightarrow> bytes \<Rightarrow> time_ms \<Rightarrow> store \<Rightarrow> store \<Rightarrow> bool" where
  "tailOnly l pid threshold s t = list_all2 (oldRowsOnly l pid threshold) (messages s) (messages t)"

interpretation tail: run_relation "tailOnly l pid threshold" for l pid threshold
proof
  show "tailOnly l pid threshold s s" for s
    unfolding tailOnly_def by (rule list_all2_refl) (simp add: oldRowsOnly_def)
  show "tailOnly l pid threshold s u" if "tailOnly l pid threshold s t" "tailOnly l pid threshold t u" for s t u
    using that unfolding tailOnly_def
    by (rule list_all2_trans [rotated]) (auto simp: oldRowsOnly_def)
qed

lemma tail_update:
  "\<forall>r. P r \<longrightarrow> oldRowsOnly l pid threshold r (g r) \<Longrightarrow>
   tailOnly l pid threshold s (s\<lparr>messages := updateWhere P g (messages s)\<rparr>)"
  by (simp add: tailOnly_def updateWhere_def list_all2_conv_all_nth oldRowsOnly_def)

lemma tail_loop:
  "keepsRel (tailOnly l pid threshold) (scrubLoop msg (tailCandidate l pid cutoff threshold) inner scrubBody cnt)"
  by (rule tail.keeps_scrubLoop, rule tail_update)
     (simp add: chunkHit_def tailCandidate_def oldRowsOnly_def scrubBody_def)

lemma oldRowsOnly_same:
  "oldRowsOnly l pid threshold a b \<Longrightarrow> servable l p b = servable l p a \<and> pageKey b = pageKey a"
  unfolding oldRowsOnly_def servable_def pageKey_def by presburger

lemma sort_key_map: "sort_key k (map g xs) = map g (sort_key (k \<circ> g) xs)"
proof -
  have "insort_key k (g x) (map g ys) = map g (insort_key (k \<circ> g) x ys)" for x ys by (induction ys) auto
  then show ?thesis by (induction xs) (auto simp: sort_key_def)
qed

lemma sort_key_cong:
  assumes "\<And>x. x \<in> set xs \<Longrightarrow> j x = k x"
  shows "sort_key j xs = sort_key k xs"
proof -
  have "sort_key h xs = map snd (sort_key fst (map (\<lambda>x. (h x, x)) xs))" for h :: "'a \<Rightarrow> 'b"
    by (simp add: sort_key_map comp_def)
  moreover have "map (\<lambda>x. (j x, x)) xs = map (\<lambda>x. (k x, x)) xs" using assms by simp
  ultimately show ?thesis by metis
qed

lemma window_pairs:
  assumes "tailOnly l pid threshold s t"
  shows "\<exists>zs. newestFirst (filter (servable l p) (messages s)) = map fst zs
      \<and> newestFirst (filter (servable l p) (messages t)) = map snd zs
      \<and> (\<forall>z\<in>set zs. servable l p (fst z) \<and> oldRowsOnly l pid threshold (fst z) (snd z))"
proof -
  let ?zs = "zip (messages s) (messages t)"
  have len: "length (messages s) = length (messages t)" and rel: "\<forall>z\<in>set ?zs. oldRowsOnly l pid threshold (fst z) (snd z)"
    using assms by (simp_all add: tailOnly_def list_all2_iff case_prod_unfold)
  have s: "messages s = map fst ?zs" and t: "messages t = map snd ?zs" using len by simp_all
  let ?ws = "filter (servable l p \<circ> fst) ?zs"
  have same: "servable l p (snd z) = servable l p (fst z) \<and> pageKey (snd z) = pageKey (fst z)"
    if "z \<in> set ?zs" for z
    using that rel oldRowsOnly_same [of l pid threshold "fst z" "snd z" p] by blast
  have t': "filter (servable l p \<circ> snd) ?zs = ?ws" by (intro filter_cong) (simp_all add: same)
  have key: "sort_key (pageKey \<circ> snd) ?ws = sort_key (pageKey \<circ> fst) ?ws"
    by (rule sort_key_cong) (simp add: same)
  show ?thesis
  proof (intro exI conjI)
    show "newestFirst (filter (servable l p) (messages s)) = map fst (rev (sort_key (pageKey \<circ> fst) ?ws))"
      by (subst s) (simp add: newestFirst_def filter_map sort_key_map rev_map)
    show "newestFirst (filter (servable l p) (messages t)) = map snd (rev (sort_key (pageKey \<circ> fst) ?ws))"
      by (subst t) (simp add: newestFirst_def filter_map sort_key_map rev_map t' key)
    show "\<forall>z\<in>set (rev (sort_key (pageKey \<circ> fst) ?ws)). servable l p (fst z) \<and> oldRowsOnly l pid threshold (fst z) (snd z)"
      using rel by simp
  qed
qed

lemma newest_above:
  assumes "drop k (newestFirst rs) = r # rest" "x \<in> set (take (Suc k) (newestFirst rs))"
  shows "mTs r \<le> mTs x"
proof -
  let ?q = "newestFirst rs"
  obtain i where i: "i \<le> k" "i < length ?q" "x = ?q ! i"
    using assms(2) less_Suc_eq_le by (auto simp: in_set_conv_nth)
  have k: "k < length ?q" "?q ! k = r"
    using assms(1) by (auto simp: nth_via_drop) (metis drop_all leI list.distinct(1))
  have "sorted (map pageKey (rev ?q))" by (simp add: newestFirst_def)
  then have "pageKey (?q ! k) \<le> pageKey (?q ! i)"
    using sorted_rev_nth_mono [of "map pageKey ?q" i k] i k by (simp add: rev_map)
  then show ?thesis using i k by (auto simp: pageKey_def)
qed

definition sameWindow :: "bytes \<Rightarrow> nat \<Rightarrow> store \<Rightarrow> store \<Rightarrow> bool" where
  "sameWindow l k s t \<longleftrightarrow> (\<forall>p. latestRows l p k t = latestRows l p k s)"

interpretation window: run_relation "sameWindow l k" for l k
  by unfold_locales (auto simp: sameWindow_def)

lemma tail_window:
  assumes rel: "tailOnly l pid (mTs r) s t"
    and top: "drop (k - 1) (newestFirst (filter (servable l pid) (messages s))) = r # rest"
  shows "sameWindow l k s t"
  unfolding sameWindow_def
proof
  fix p
  obtain zs where z: "newestFirst (filter (servable l p) (messages s)) = map fst zs"
      "newestFirst (filter (servable l p) (messages t)) = map snd zs"
      "\<forall>z\<in>set zs. servable l p (fst z) \<and> oldRowsOnly l pid (mTs r) (fst z) (snd z)"
    using window_pairs [OF rel] by blast
  have "snd ab = fst ab" if ab: "ab \<in> set (take k zs)" for ab
  proof -
    have in_zs: "ab \<in> set zs" using ab by (rule in_set_takeD)
    then have o: "oldRowsOnly l pid (mTs r) (fst ab) (snd ab)" "servable l p (fst ab)" using z(3) by simp_all
    show ?thesis
    proof (cases "p = pid \<and> 0 < k")
      case True
      have "fst ab \<in> set (take k (newestFirst (filter (servable l p) (messages s))))"
        using ab by (simp add: z(1) take_map)
      then have "fst ab \<in> set (take (Suc (k - 1)) (newestFirst (filter (servable l pid) (messages s))))"
        using True by simp
      then have "mTs r \<le> mTs (fst ab)" using newest_above top True by blast
      then show ?thesis using o by (auto simp: oldRowsOnly_def)
    next
      case False
      then show ?thesis using o ab by (auto simp: oldRowsOnly_def servable_def)
    qed
  qed
  then show "latestRows l p k t = latestRows l p k s"
    by (simp add: latestRows_def z take_map)
qed

lemma window_tail: "keepsRel (sameWindow l k) (scrubTailOf l cutoff k pid cnt)"
  unfolding keepsRel_def
proof (intro allI)
  fix s fs
  let ?rest = "\<lambda>s. drop (k - 1) (newestFirst (filter (servable l pid) (messages s)))"
  obtain q st where q: "wrapErr (''tail-scrub threshold for portal '' @ pid) (sqlQuery ?rest) (s, fs) = (q, st)"
    by (cases "wrapErr (''tail-scrub threshold for portal '' @ pid) (sqlQuery ?rest) (s, fs)")
  have st: "fst st = s" and rows: "q = Inr x \<Longrightarrow> x = ?rest s" for x
    using q sqlStmt_cases [of "\<lambda>s. (?rest s, s)" s fs]
    by (auto simp: sqlQuery_def wrapErr_def dbCatch_def dbFail_def)
  show "sameWindow l k s (finalStore (scrubTailOf l cutoff k pid cnt (s, fs)))"
  proof (cases q)
    case (Inl e)
    then show ?thesis using q st by (simp add: scrubTailOf_def dbBind_def finalStore_def window.R_refl)
  next
    case (Inr x)
    show ?thesis
    proof (cases x)
      case Nil
      then show ?thesis using q st Inr by (simp add: scrubTailOf_def dbBind_def dbReturn_def finalStore_def window.R_refl)
    next
      case (Cons r rest)
      have "tailOnly l pid (mTs r) (fst st) (finalStore (scrubLoop (''scrub unbridged tail for portal '' @ pid)
          (tailCandidate l pid cutoff (mTs r)) (\<lambda>s m. \<not> mScrubbed m \<and> tailCandidate l pid cutoff (mTs r) m)
          scrubBody cnt st))"
        using keepsRelD [OF tail_loop [of l pid "mTs r" "''scrub unbridged tail for portal '' @ pid" cutoff
            "\<lambda>s m. \<not> mScrubbed m \<and> tailCandidate l pid cutoff (mTs r) m" cnt], of "fst st" "snd st"]
        unfolding prod.collapse .
      note loop = this [unfolded st]
      have top: "?rest s = r # rest" using rows [OF Inr] Cons by simp
      note tail_window [OF loop top]
      then show ?thesis by (simp only: scrubTailOf_def dbBind_def q Inr Cons prod.case sum.case list.case)
    qed
  qed
qed

lemma query_outcome:
  assumes "q t = q u"
  shows "outcome (queryMessages q (t, fs)) = outcome (queryMessages q (u, fs))"
proof (cases fs)
  case Nil
  then show ?thesis by (simp add: queryMessages_def dbBind_def dbReturn_def dbFail_def outcome_def assms split: option.split)
next
  case (Cons e es)
  then show ?thesis
    by (cases e) (simp_all add: queryMessages_def sqlQuery_def dbBind_def dbReturn_def dbFail_def outcome_def assms
        split: option.split)
qed

text \<open>C35: Scrubbing the tail that backfill cannot reach never changes what the forward backfill will
  read: the newest \<open>keep\<close> messages of every portal are listed as before, whatever statements failed.\<close>

theorem tail_scrub_keeps_window:
  "let s' = finalStore (scrubUnbridgedTail privacyOff l now keep grace ex (s, fs)) in
   outcome (listLatestMessages l p (nat keep) (s', fs')) = outcome (listLatestMessages l p (nat keep) (s, fs'))"
proof -
  have "keepsRel (sameWindow l (nat keep)) (scrubUnbridgedTail privacyOff l now keep grace ex)"
    unfolding scrubUnbridgedTail_def by (intro window.keeps_all window_tail)
  then have w: "latestRows l p (nat keep) (finalStore (scrubUnbridgedTail privacyOff l now keep grace ex (s, fs)))
      = latestRows l p (nat keep) s"
    by (auto simp: keepsRel_def sameWindow_def)
  show ?thesis unfolding Let_def listLatestMessages_def by (rule query_outcome) (rule w)
qed

end
