(* ===== verification/CloudPaging.thy ===== *)
theory CloudPaging
  imports CloudInv
begin

text \<open>
  Paging through a portal.  The cursor of a page is the time and the identifier of its last row; because
  identifiers are unique the rows are strictly ordered by both together, so the next page starts right
  after the cursor, also among messages with one time stamp.
\<close>

lemma filter_less_strict:
  fixes key :: "'r \<Rightarrow> 'k :: linorder"
  assumes "sorted_wrt (\<lambda>a b. key b < key a) xs" "k < length xs"
  shows "filter (\<lambda>r. key r < key (xs ! k)) xs = drop (Suc k) xs"
  using assms
proof (induction xs arbitrary: k)
  case (Cons a xs)
  show ?case
  proof (cases k)
    case 0
    have "filter (\<lambda>r. key r < key a) xs = xs" using Cons.prems by (intro filter_True) auto
    then show ?thesis using 0 by simp
  next
    case (Suc j)
    then have "key (xs ! j) < key a" using Cons.prems by auto
    then have "\<not> key a < key (xs ! j)" by simp
    then show ?thesis using Cons Suc by simp
  qed
qed simp

lemma sorted_strict:
  fixes key :: "'r \<Rightarrow> 'k :: linorder"
  assumes "sorted (map key xs)" "distinct (map key xs)"
  shows "sorted_wrt (\<lambda>a b. key b < key a) (rev xs)"
  using strict_sorted_iff [of "map key xs"] assms by (simp add: sorted_wrt_rev sorted_wrt_map)

lemma pageKey_less: "pageKey r < (ts, guid) \<longleftrightarrow> mTs r < ts \<or> mTs r = ts \<and> mGuid r < guid"
  by (auto simp: pageKey_def)

lemma pageKey_distinct:
  assumes "distinct (map messageKey (messages s))"
  shows "distinct (map pageKey (filter (servable l p) (messages s)))"
proof -
  have "inj_on pageKey (set (filter (servable l p) (messages s)))"
  proof (rule inj_onI)
    fix a b assume "a \<in> set (filter (servable l p) (messages s))" "b \<in> set (filter (servable l p) (messages s))"
      and "pageKey a = pageKey b"
    then have "messageKey a = messageKey b" "a \<in> set (messages s)" "b \<in> set (messages s)"
      by (simp_all add: pageKey_def messageKey_def servable_def)
    then show "a = b" using assms unfolding distinct_map inj_on_def by blast
  qed
  then show ?thesis using assms by (simp add: distinct_map)
qed

lemma newest_strict:
  assumes "distinct (map messageKey (messages s))"
  shows "sorted_wrt (\<lambda>a b. pageKey b < pageKey a) (newestFirst (filter (servable l p) (messages s)))"
  unfolding newestFirst_def
proof (rule sorted_strict)
  show "distinct (map pageKey (sort_key pageKey (filter (servable l p) (messages s))))"
    using pageKey_distinct [OF assms, of l p] by (simp add: distinct_map)
qed simp

text \<open>The page after the row at position \<open>k\<close>.\<close>

lemma backward_page:
  assumes "distinct (map messageKey (messages s))"
    and "k < length (newestFirst (filter (servable l p) (messages s)))"
    and "mGuid (newestFirst (filter (servable l p) (messages s)) ! k) \<noteq> []"
  shows "backwardRows l p (mTs (newestFirst (filter (servable l p) (messages s)) ! k))
      (mGuid (newestFirst (filter (servable l p) (messages s)) ! k)) n s
    = take n (drop (Suc k) (newestFirst (filter (servable l p) (messages s))))"
  using filter_less_strict [OF newest_strict [OF assms(1)] assms(2)] assms(3)
  by (simp add: backwardRows_def Let_def pageKey_less [symmetric] pageKey_def)

text \<open>What backward backfill reads: page after page, from the newest message to the first empty page.\<close>

fun pagesBack :: "bytes \<Rightarrow> bytes \<Rightarrow> nat \<Rightarrow> nat \<Rightarrow> time_ms \<Rightarrow> bytes \<Rightarrow> store \<Rightarrow> message_row list" where
  "pagesBack l p n 0 ts guid s = []"
| "pagesBack l p n (Suc fuel) ts guid s =
     (let page = backwardRows l p ts guid n s in
      if page = [] then [] else page @ pagesBack l p n fuel (mTs (last page)) (mGuid (last page)) s)"

lemma last_take_drop: "0 < m \<Longrightarrow> k + m \<le> length xs \<Longrightarrow> last (take m (drop k xs)) = xs ! (k + m - 1)"
proof -
  assume m: "0 < m" "k + m \<le> length xs"
  then have "length (take m (drop k xs)) = m" by simp
  then have "last (take m (drop k xs)) = take m (drop k xs) ! (m - 1)"
    using m(1) by (metis last_conv_nth less_irrefl list.size(3))
  also have "\<dots> = xs ! (k + (m - 1))" using m by simp
  finally show ?thesis using m(1) by simp
qed

lemma pagesBack_rest:
  assumes "distinct (map messageKey (messages s))" "0 < n"
    and "\<forall>r\<in>set (messages s). servable l p r \<longrightarrow> mGuid r \<noteq> []"
    and "length (newestFirst (filter (servable l p) (messages s))) \<le> k + fuel"
    and "backwardRows l p ts guid n s = take n (drop k (newestFirst (filter (servable l p) (messages s))))"
  shows "pagesBack l p n fuel ts guid s = drop k (newestFirst (filter (servable l p) (messages s)))"
  using assms(4,5)
proof (induction fuel arbitrary: k ts guid)
  case (Suc fuel)
  let ?all = "newestFirst (filter (servable l p) (messages s))"
  show ?case
  proof (cases "k < length ?all")
    case True
    let ?m = "min n (length ?all - k)"
    have m: "0 < ?m" "k + ?m - 1 < length ?all" using True assms(2) by auto
    have page_m: "take n (drop k ?all) = take ?m (drop k ?all)" by (simp add: min_def)
    have ne: "take n (drop k ?all) \<noteq> []" using True assms(2) by simp
    have last: "last (take n (drop k ?all)) = ?all ! (k + ?m - 1)"
      unfolding page_m by (rule last_take_drop) (use m True in auto)
    have "?all ! (k + ?m - 1) \<in> set ?all" using m(2) by (rule nth_mem)
    then have "mGuid (?all ! (k + ?m - 1)) \<noteq> []" using assms(3) by (simp add: newestFirst_def)
    from backward_page [OF assms(1) m(2) this, of n]
    have page: "backwardRows l p (mTs (?all ! (k + ?m - 1))) (mGuid (?all ! (k + ?m - 1))) n s = take n (drop (k + ?m) ?all)"
      using m(1) by simp
    have "pagesBack l p n fuel (mTs (?all ! (k + ?m - 1))) (mGuid (?all ! (k + ?m - 1))) s = drop (k + ?m) ?all"
      using Suc.prems(1) m(1) by (intro Suc.IH page) linarith
    moreover have "take n (drop k ?all) @ drop (k + ?m) ?all = drop k ?all"
      unfolding page_m by (metis add.commute append_take_drop_id drop_drop)
    ultimately show ?thesis using Suc.prems(2) ne last by simp
  qed (use Suc in simp)
qed simp


text \<open>C36: Backward paging loses nothing and repeats nothing: following the cursors from the start, with
  pages of any positive size, yields every message backfill can deliver exactly once, newest first.\<close>

theorem backward_paging_complete:
  assumes "distinct (map messageKey (messages s))" "0 < n"
    and "\<forall>r\<in>set (messages s). mGuid r \<noteq> []"
  shows "pagesBack l p n (Suc (countWhere (servable l p) (messages s))) 0 [] s
      = newestFirst (filter (servable l p) (messages s))
    \<and> distinct (newestFirst (filter (servable l p) (messages s)))
    \<and> set (newestFirst (filter (servable l p) (messages s))) = {r \<in> set (messages s). servable l p r}"
proof -
  have "pagesBack l p n (Suc (countWhere (servable l p) (messages s))) 0 [] s
      = drop 0 (newestFirst (filter (servable l p) (messages s)))"
    by (rule pagesBack_rest) (use assms in \<open>simp_all add: newestFirst_def countWhere_def backwardRows_def\<close>)
  then show ?thesis using assms(1) by (auto simp: newestFirst_def distinct_map)
qed

theorem backward_paging_complete_witness:
  "map mGuid (pagesBack ''me'' ''tel:+15550100'' 1 (Suc (countWhere (servable ''me'' ''tel:+15550100'') (messages sampleStore)))
     0 [] sampleStore) = [''B'', ''A'']"
proof -
  have "distinct (map messageKey (messages sampleStore))" "\<forall>r\<in>set (messages sampleStore). mGuid r \<noteq> []"
    by (simp_all add: sample_defs keys)
  note * = backward_paging_complete [OF this(1) _ this(2), of 1 "''me''" "''tel:+15550100''"]
  have f: "filter (servable ''me'' ''tel:+15550100'') (messages sampleStore) = take 2 (messages sampleStore)"
    by (simp add: sample_defs servable_def numeral_2_eq_2)
  have "pagesBack ''me'' ''tel:+15550100'' 1 (Suc (countWhere (servable ''me'' ''tel:+15550100'') (messages sampleStore)))
     0 [] sampleStore = newestFirst (take 2 (messages sampleStore))"
    using * unfolding f by simp
  then show ?thesis by (simp add: newestFirst_def pageKey_def sample_defs numeral_2_eq_2)
qed

lemma pageKey_greater: "pageKey a < pageKey r \<longleftrightarrow> mTs a < mTs r \<or> mTs r = mTs a \<and> mGuid a < mGuid r"
  by (auto simp: pageKey_def)

text \<open>Forward pages start right after their cursor in the same way.\<close>

lemma forward_page:
  assumes "distinct (map messageKey (messages s))"
    and "k < length (oldestFirst (filter (servable l p) (messages s)))"
  shows "forwardRows l p (mTs (oldestFirst (filter (servable l p) (messages s)) ! k))
      (mGuid (oldestFirst (filter (servable l p) (messages s)) ! k)) n s
    = take n (drop (Suc k) (oldestFirst (filter (servable l p) (messages s))))"
proof -
  let ?all = "oldestFirst (filter (servable l p) (messages s))"
  have sw: "sorted_wrt (\<lambda>a b. pageKey a < pageKey b) ?all"
    using newest_strict [OF assms(1), of l p] by (simp add: newestFirst_def oldestFirst_def sorted_wrt_rev)
  have "filter (\<lambda>r. pageKey (xs ! k) < pageKey r) xs = drop (Suc k) xs"
    if "sorted_wrt (\<lambda>a b. pageKey a < pageKey b) xs" "k < length xs" for xs k
    using that
  proof (induction xs arbitrary: k)
    case (Cons a xs)
    show ?case
    proof (cases k)
      case 0
      have "filter (\<lambda>r. pageKey a < pageKey r) xs = xs" using Cons.prems by (intro filter_True) auto
      then show ?thesis using 0 by simp
    next
      case (Suc j)
      then have "pageKey a < pageKey (xs ! j)" using Cons.prems by auto
      then have "\<not> pageKey (xs ! j) < pageKey a" by simp
      then show ?thesis using Cons Suc by simp
    qed
  qed simp
  from this [OF sw assms(2)] show ?thesis
    by (simp only: forwardRows_def pageKey_greater)
qed

end
