(* ===== verification/CloudMessageSpec.thy ===== *)
theory CloudMessageSpec
  imports CloudInv
begin

text \<open>
  What the message operations promise: the import keeps one newest row per identifier and can be repeated,
  a soft deletion is all or nothing and covers identifiers that have not arrived yet, and the cursors of
  the paged listings neither skip nor repeat a message.
\<close>

section \<open>Import\<close>

text \<open>The newest row of its identifier, the last of them on a tie.\<close>

definition isNewest :: "cloudMessageRow list \<Rightarrow> cloudMessageRow \<Rightarrow> bool" where
  "isNewest rows r = (\<exists>xs ys. rows = xs @ r # ys
     \<and> (\<forall>x\<in>set xs. GUID x = GUID r \<longrightarrow> TimestampMS x \<le> TimestampMS r)
     \<and> (\<forall>y\<in>set ys. GUID y = GUID r \<longrightarrow> TimestampMS y < TimestampMS r))"

lemma isNewest_keep:
  assumes "isNewest rows r" "GUID row = GUID r \<longrightarrow> TimestampMS row < TimestampMS r"
  shows "isNewest (rows @ [row]) r"
proof -
  obtain xs ys where "rows = xs @ r # ys" "\<forall>x\<in>set xs. GUID x = GUID r \<longrightarrow> TimestampMS x \<le> TimestampMS r"
    "\<forall>y\<in>set ys. GUID y = GUID r \<longrightarrow> TimestampMS y < TimestampMS r"
    using assms(1) unfolding isNewest_def by blast
  then show ?thesis using assms(2) unfolding isNewest_def by (intro exI [of _ xs] exI [of _ "ys @ [row]"]) simp
qed

lemma isNewest_max: "isNewest rows r \<Longrightarrow> x \<in> set rows \<Longrightarrow> GUID x = GUID r \<Longrightarrow> TimestampMS x \<le> TimestampMS r"
  unfolding isNewest_def by (metis Un_iff less_imp_le order_refl set_ConsD set_append)

lemma isNewest_last:
  assumes "\<forall>x\<in>set rows. GUID x = GUID row \<longrightarrow> TimestampMS x \<le> TimestampMS row"
  shows "isNewest (rows @ [row]) row"
  unfolding isNewest_def using assms by (intro exI [of _ rows] exI [of _ "[]"]) simp

text \<open>The map and the order of the scan, after a prefix of the batch.\<close>

definition newestInv :: "cloudMessageRow list \<Rightarrow> (bytes \<Rightarrow> cloudMessageRow option) \<times> bytes list \<Rightarrow> bool" where
  "newestInv rows st = (distinct (snd st) \<and> set (snd st) = GUID ` set rows - {[]} \<and> dom (fst st) = set (snd st)
     \<and> (\<forall>g r. fst st g = Some r \<longrightarrow> GUID r = g \<and> isNewest rows r))"

lemma newestInv_step:
  assumes inv: "newestInv rows (m, order)"
  shows "newestInv (rows @ [row]) (newestStep row (m, order))"
proof -
  have rows: "m g = Some r \<Longrightarrow> GUID r = g \<and> isNewest rows r \<and> g \<noteq> []" for g r
    using inv by (auto simp: newestInv_def dom_def)
  consider "GUID row = []" | "GUID row \<noteq> []" "m (GUID row) = None"
    | prev where "GUID row \<noteq> []" "m (GUID row) = Some prev" by (cases "m (GUID row)") auto
  then show ?thesis
  proof cases
    case 1
    then have "m g = Some r \<Longrightarrow> isNewest (rows @ [row]) r" for g r using rows isNewest_keep by metis
    then show ?thesis using inv 1 by (auto simp: newestInv_def newestStep_def)
  next
    case 2
    then have fresh: "GUID row \<notin> set order" using inv by (auto simp: newestInv_def)
    then have "GUID row \<notin> GUID ` set rows" using inv 2(1) by (auto simp: newestInv_def)
    then have "\<forall>x\<in>set rows. GUID x \<noteq> GUID row" by (metis image_eqI)
    then have new: "isNewest (rows @ [row]) row" by (intro isNewest_last) blast
    have "m g = Some r \<Longrightarrow> isNewest (rows @ [row]) r" for g r
      using rows [of g r] 2 isNewest_keep by (metis option.simps(3))
    then show ?thesis using inv 2 fresh new by (auto simp: newestInv_def newestStep_def)
  next
    case (3 prev)
    have old: "isNewest (rows @ [row]) r" if "m g = Some r" "g \<noteq> GUID row \<or> TimestampMS row < TimestampMS prev" for g r
      using rows [OF that(1)] that 3 isNewest_keep by (metis option.inject)
    have new: "isNewest (rows @ [row]) row" if "TimestampMS prev \<le> TimestampMS row"
      using rows [OF 3(2)] isNewest_max that by (intro isNewest_last) (metis order_trans)
    have "GUID row \<in> dom m" using 3(2) by blast
    then have "GUID row \<in> set order" using inv by (simp add: newestInv_def)
    then show ?thesis
      using inv 3 old new by (auto simp: newestInv_def newestStep_def)
  qed
qed

lemma newestInv_fold: "newestInv rows (fold newestStep rows (Map.empty, []))"
proof (induction rows rule: rev_induct)
  case (snoc row rows)
  then show ?case
    using newestInv_step [of rows "fst (fold newestStep rows (Map.empty, []))" "snd (fold newestStep rows (Map.empty, []))" row]
    by simp
qed (simp add: newestInv_def)

lemma newestByGUID_rows:
  shows "distinct (map GUID (newestByGUID rows))"
    and "set (map GUID (newestByGUID rows)) = GUID ` set rows - {[]}"
    and "\<forall>r\<in>set (newestByGUID rows). isNewest rows r"
proof -
  obtain m order where mo: "fold newestStep rows (Map.empty, []) = (m, order)" by (cases "fold newestStep rows (Map.empty, [])")
  have inv: "newestInv rows (m, order)" using newestInv_fold [of rows] mo by simp
  have n: "newestByGUID rows = map (\<lambda>g. the (m g)) order" by (simp add: newestByGUID_def mo)
  have some: "GUID (the (m g)) = g \<and> isNewest rows (the (m g))" if "g \<in> set order" for g
  proof -
    have "g \<in> dom m" using inv that by (simp add: newestInv_def)
    then obtain r where "m g = Some r" by blast
    then show ?thesis using inv by (simp add: newestInv_def)
  qed
  have g: "map GUID (newestByGUID rows) = order" unfolding n using some by (simp add: comp_def map_idI)
  show "distinct (map GUID (newestByGUID rows))" unfolding g using inv by (simp add: newestInv_def)
  show "set (map GUID (newestByGUID rows)) = GUID ` set rows - {[]}"
    unfolding g using inv by (simp add: newestInv_def)
  show "\<forall>r\<in>set (newestByGUID rows). isNewest rows r" using some by (simp add: n)
qed


text \<open>A batch from CloudKit is reduced to one row per identifier that occurs in it (rows without one
  are dropped), the newest, and the last of several with the same time.\<close>

theorem newest_per_guid:
  "distinct (map GUID (newestByGUID rows)) \<and> set (map GUID (newestByGUID rows)) = GUID ` set rows - {[]}
   \<and> list_all (\<lambda>r. \<exists>xs ys. rows = xs @ r # ys
       \<and> list_all (\<lambda>x. TimestampMS x \<le> TimestampMS r) (filter (\<lambda>x. GUID x = GUID r) xs)
       \<and> list_all (\<lambda>y. TimestampMS y < TimestampMS r) (filter (\<lambda>y. GUID y = GUID r) ys)) (newestByGUID rows)"
proof -
  have "list_all (\<lambda>r. \<exists>xs ys. rows = xs @ r # ys
       \<and> list_all (\<lambda>x. TimestampMS x \<le> TimestampMS r) (filter (\<lambda>x. GUID x = GUID r) xs)
       \<and> list_all (\<lambda>y. TimestampMS y < TimestampMS r) (filter (\<lambda>y. GUID y = GUID r) ys)) (newestByGUID rows)"
    using newestByGUID_rows(3) [of rows] unfolding isNewest_def list_all_iff set_filter by fast
  then show ?thesis using newestByGUID_rows(1,2) [of rows] by blast
qed

text \<open>Without failures the import is one upsert after the other.\<close>

definition importAll :: "bytes \<Rightarrow> time_ms \<Rightarrow> cloudMessageRow list \<Rightarrow> message_row list \<Rightarrow> message_row list" where
  "importAll l now rows ms = fold (\<lambda>row. upsertRow messageKey mergeMessage (importedRow l now row)) rows ms"

lemma insertMessage_Nil: "insertMessage l now row (s, []) =
    (Inr (), s\<lparr>messages := upsertRow messageKey mergeMessage (importedRow l now row) (messages s)\<rparr>, [])"
  by (simp add: insertMessage_def dbCatch_def)

lemma dbEach_insert: "dbEach (insertMessage l now) rows (s, []) =
    (Inr (), s\<lparr>messages := importAll l now rows (messages s)\<rparr>, [])"
  by (induction rows arbitrary: s)
     (simp_all add: dbReturn_def dbThen_def dbBind_def insertMessage_Nil importAll_def)

lemma upsertMessageBatch_Nil: "upsertMessageBatch l now rows (s, []) =
    (Inr (), s\<lparr>messages := importAll l now (newestByGUID rows) (messages s)\<rparr>, [])"
proof (cases "rows = []")
  case True
  then show ?thesis by (simp add: upsertMessageBatch_def newestByGUID_def dbReturn_def importAll_def)
next
  case False
  then show ?thesis
    by (simp add: upsertMessageBatch_def sqlTx_Nil dbThen_def dbBind_def wrapErr_def dbCatch_def dbEach_insert)
qed

lemma importedRow_key: "messageKey (importedRow l now row) = (l, GUID row)"
  by (simp add: messageKey_def importedRow_def)

text \<open>Per row the import is a map of the old rows followed by the rows that are new.\<close>

definition importedOver :: "bytes \<Rightarrow> time_ms \<Rightarrow> cloudMessageRow list \<Rightarrow> message_row \<Rightarrow> message_row" where
  "importedOver l now rows r = (case find (\<lambda>row. messageKey r = (l, GUID row)) rows of
     Some row \<Rightarrow> mergeMessage r (importedRow l now row) | None \<Rightarrow> r)"

lemma mergeMessage_key: "messageKey (mergeMessage old new) = messageKey old"
  by (simp add: messageKey_def mergeMessage_def Let_def)

lemma importAll_rows:
  assumes "distinct (map GUID rows)"
  shows "importAll l now rows ms = map (importedOver l now rows) ms
    @ map (importedRow l now) (filter (\<lambda>row. (l, GUID row) \<notin> messageKey ` set ms) rows)"
  using assms
proof (induction rows arbitrary: ms)
  case Nil
  show ?case by (simp add: importAll_def importedOver_def)
next
  case (Cons row rows)
  let ?new = "importedRow l now row"
  have other: "find (\<lambda>row'. messageKey r = (l, GUID row')) rows = None" if "messageKey r = (l, GUID row)" for r
    using Cons.prems that by (auto simp: find_None_iff image_iff)
  have step: "importedOver l now rows (if messageKey r = messageKey ?new then mergeMessage r ?new else r)
      = importedOver l now (row # rows) r" for r
    using other [of "mergeMessage r ?new"] by (auto simp: importedOver_def importedRow_key mergeMessage_key)
  have all: "importAll l now (row # rows) ms = importAll l now rows (upsertRow messageKey mergeMessage ?new ms)"
    by (simp add: importAll_def)
  have IH: "importAll l now rows ms' = map (importedOver l now rows) ms'
      @ map (importedRow l now) (filter (\<lambda>row. (l, GUID row) \<notin> messageKey ` set ms') rows)" for ms'
    using Cons by simp
  show ?case
  proof (cases "(l, GUID row) \<in> messageKey ` set ms")
    case True
    then have u: "upsertRow messageKey mergeMessage ?new ms
        = map (\<lambda>r. if messageKey r = messageKey ?new then mergeMessage r ?new else r) ms"
      by (auto simp: upsertRow_def importedRow_key list_ex_iff)
    have "map messageKey (map (\<lambda>r. if messageKey r = messageKey ?new then mergeMessage r ?new else r) ms) = map messageKey ms"
      by (simp add: mergeMessage_key)
    then have k: "messageKey ` set (map (\<lambda>r. if messageKey r = messageKey ?new then mergeMessage r ?new else r) ms)
        = messageKey ` set ms"
      by (simp only: list.set_map [symmetric])
    show ?thesis unfolding all u IH k using True step by simp
  next
    case False
    then have u: "upsertRow messageKey mergeMessage ?new ms = ms @ [?new]"
      by (auto simp: upsertRow_def importedRow_key list_ex_iff image_iff)
    have "importedOver l now rows ?new = ?new"
      using other [of ?new] by (simp add: importedOver_def importedRow_key)
    moreover have "map (importedOver l now rows) ms = map (importedOver l now (row # rows)) ms"
    proof (intro map_cong refl)
      fix r assume "r \<in> set ms"
      then have "messageKey r \<noteq> messageKey ?new" using False by (metis image_eqI importedRow_key)
      then show "importedOver l now rows r = importedOver l now (row # rows) r" using step [of r] by simp
    qed
    moreover have "filter (\<lambda>row'. (l, GUID row') \<notin> messageKey ` set (ms @ [?new])) rows
        = filter (\<lambda>row'. (l, GUID row') \<notin> messageKey ` set ms) rows"
      using Cons.prems by (intro filter_cong) (auto simp: importedRow_key image_iff)
    ultimately show ?thesis unfolding all u IH using False by simp
  qed
qed


lemma importedOver_key: "messageKey (importedOver l now rows r) = messageKey r"
  by (simp add: importedOver_def mergeMessage_key split: option.split)

lemma merge_again:
  "mergeMessage (mergeMessage r (importedRow l now1 row)) (importedRow l now2 row)
     = (mergeMessage r (importedRow l now1 row))\<lparr>mUpdated := now2\<rparr>"
  "mergeMessage (importedRow l now1 row) (importedRow l now2 row) = (importedRow l now1 row)\<lparr>mUpdated := now2\<rparr>"
  by (simp_all add: mergeMessage_def importedRow_def Let_def)

lemma import_again:
  assumes d: "distinct (map GUID rows)"
  shows "importAll l now2 rows (importAll l now1 rows ms)
    = updateWhere (\<lambda>r. mLogin r = l \<and> mGuid r \<in> GUID ` set rows) (\<lambda>r. r\<lparr>mUpdated := now2\<rparr>) (importAll l now1 rows ms)"
proof -
  let ?ms1 = "importAll l now1 rows ms"
  have find_row: "find (\<lambda>row'. (l, GUID row) = (l, GUID row')) rows = Some row" if "row \<in> set rows" for row
    using d that by (induction rows) (auto simp: image_iff)
  have keys: "messageKey ` set ?ms1 = messageKey ` set ms \<union> (\<lambda>row. (l, GUID row)) ` set rows"
  proof -
    have "map messageKey ?ms1 = map messageKey ms
        @ map (\<lambda>row. (l, GUID row)) (filter (\<lambda>row. (l, GUID row) \<notin> messageKey ` set ms) rows)"
      unfolding importAll_rows [OF d] by (simp add: importedOver_key importedRow_key)
    from arg_cong [OF this, of set] show ?thesis by auto
  qed
  then have none: "filter (\<lambda>row. (l, GUID row) \<notin> messageKey ` set ?ms1) rows = []" by auto
  have hit: "importedOver l now2 rows r = (if mLogin r = l \<and> mGuid r \<in> GUID ` set rows then r\<lparr>mUpdated := now2\<rparr> else r)"
    if "r \<in> set ?ms1" for r
  proof -
    from that consider r0 where "r = importedOver l now1 rows r0"
      | row where "row \<in> set rows" "r = importedRow l now1 row"
      unfolding importAll_rows [OF d] by auto
    then show ?thesis
    proof cases
      case (1 r0)
      have key: "messageKey r = messageKey r0" using 1 by (simp add: importedOver_key)
      show ?thesis
      proof (cases "find (\<lambda>row. messageKey r0 = (l, GUID row)) rows")
        case None
        then have "\<not> (mLogin r = l \<and> mGuid r \<in> GUID ` set rows)"
          using key by (auto simp: find_None_iff messageKey_def)
        then show ?thesis using None key by (simp only: importedOver_def option.case if_False)
      next
        case (Some row)
        then have "messageKey r = (l, GUID row)" "row \<in> set rows"
          using key by (auto simp: find_Some_iff in_set_conv_nth)
        then have "mLogin r = l \<and> mGuid r \<in> GUID ` set rows" by (auto simp: messageKey_def)
        then show ?thesis using Some key 1 by (simp add: importedOver_def merge_again)
      qed
    next
      case (2 row)
      then have "mLogin r = l \<and> mGuid r \<in> GUID ` set rows" by (auto simp: importedRow_def)
      then show ?thesis using 2 find_row [of row] by (simp add: importedOver_def importedRow_key merge_again)
    qed
  qed
  have "importAll l now2 rows ?ms1 = map (importedOver l now2 rows) ?ms1"
    unfolding importAll_rows [OF d, of l now2 ?ms1] none by simp
  then show ?thesis unfolding updateWhere_def by (simp add: hit)
qed

text \<open>Importing a batch again, later, changes nothing but the modification time of its rows.\<close>

theorem reimport_idempotent:
  "let s1 = finalStore (upsertMessageBatch l now1 rows (s, []));
       s2 = finalStore (upsertMessageBatch l now2 rows (s1, [])) in
   s2 = s1\<lparr>messages := updateWhere (\<lambda>r. mLogin r = l \<and> mGuid r \<noteq> [] \<and> mGuid r \<in> GUID ` set rows)
              (\<lambda>r. r\<lparr>mUpdated := now2\<rparr>) (messages s1)\<rparr>"
proof -
  have g: "mGuid r \<in> GUID ` set (newestByGUID rows) \<longleftrightarrow> mGuid r \<noteq> [] \<and> mGuid r \<in> GUID ` set rows" for r :: message_row
    using newestByGUID_rows(2) [of rows] by auto
  show ?thesis
    unfolding Let_def upsertMessageBatch_Nil finalStore_simp
    using import_again [OF newestByGUID_rows(1) [of rows], of l now2 now1 "messages s"] by (simp add: g)
qed

section \<open>Soft deletion\<close>

lemma sqlStmt_Inr: "sqlStmt f (s, fs) = (Inr x, s', fs') \<Longrightarrow> x = fst (f s) \<and> s' = snd (f s)"
  using sqlStmt_cases [of f s fs] by auto

lemma sqlExec_Inr: "sqlExec f (s, fs) = (Inr x, s', fs') \<Longrightarrow> s' = f s"
  unfolding sqlExec_def by (drule sqlStmt_Inr) simp

lemma sqlExecN_Inr: "sqlExecN n f (s, fs) = (Inr x, s', fs') \<Longrightarrow> x = n s \<and> s' = f s"
  unfolding sqlExecN_def by (drule sqlStmt_Inr) simp

lemma dbBind_ok: "dbBind m k st = (Inr y, st') \<Longrightarrow> \<exists>x st1. m st = (Inr x, st1) \<and> k x st1 = (Inr y, st')"
  by (auto simp: dbBind_def split: prod.splits sum.splits)

lemma sqlTx_ok: "sqlTx m (s, fs) = (Inr x, s', fs') \<Longrightarrow> \<exists>fs1 fs2. m (s, fs1) = (Inr x, s', fs2)"
  using sqlStmt_cases [of "\<lambda>s. ((), s)" s fs]
  by (auto simp: sqlTx_def split: sum.splits prod.splits)

lemma sqlTx_error: "sqlTx m (s, fs) = (Inl e, s', fs') \<Longrightarrow> s' = s"
  using sqlTx_atomic [of m s fs e] by simp

lemma sealRow_seals: "mDeleted (sealRow r) \<and> mScrubbed (sealRow r) \<and> mText (sealRow r) = None \<and> mSubject (sealRow r) = None
    \<and> mTapbackEmoji (sealRow r) = None \<and> coalesce (mSender (sealRow r)) [] = []" "guidHit l guid (sealRow r) = guidHit l guid r"
  by (simp_all add: sealRow_def coalesce_def guidHit_def)

text \<open>What one of the two statements makes of the rows.\<close>

definition deletedRows :: "bytes \<Rightarrow> time_ms \<Rightarrow> bytes \<Rightarrow> message_row list \<Rightarrow> message_row list" where
  "deletedRows l now guid rs =
     (if list_ex (guidHit l guid) rs then updateWhere (guidHit l guid) sealRow rs
      else rs @ [(emptyMessage l guid now now)\<lparr>mDeleted := True, mScrubbed := True\<rparr>])"

lemma deletedRows_sealed:
  "list_all (\<lambda>r. \<not> guidHit l guid r \<or> mDeleted r \<and> mScrubbed r \<and> mText r = None \<and> mSubject r = None
     \<and> mTapbackEmoji r = None \<and> coalesce (mSender r) [] = []) (deletedRows l now guid rs)"
proof (cases "list_ex (guidHit l guid) rs")
  case True
  let ?ok = "\<lambda>r. \<not> guidHit l guid r \<or> mDeleted r \<and> mScrubbed r \<and> mText r = None \<and> mSubject r = None
     \<and> mTapbackEmoji r = None \<and> coalesce (mSender r) [] = []"
  have "?ok (if guidHit l guid r then sealRow r else r) = True" for r
    using sealRow_seals(1) [of r] by (cases "guidHit l guid r") (simp_all only: if_True if_False simp_thms)
  then have "list_all ?ok (map (\<lambda>r. if guidHit l guid r then sealRow r else r) rs)"
    by (simp only: list.pred_map comp_def) (simp only: list_all_iff simp_thms ball_triv)
  then show ?thesis unfolding deletedRows_def updateWhere_def by (simp only: True if_True)
next
  case False
  then have "\<forall>r\<in>set rs. \<not> guidHit l guid r" by (simp add: list_ex_iff)
  then show ?thesis using False by (simp add: deletedRows_def list_all_iff emptyMessage_def coalesce_def)
qed

lemma deletedRows_hit: "list_ex (guidHit l guid) (deletedRows l now guid rs)"
proof (cases "list_ex (guidHit l guid) rs")
  case True
  then obtain r where r: "r \<in> set rs" "guidHit l guid r" by (auto simp: list_ex_iff)
  then have "sealRow r \<in> set (updateWhere (guidHit l guid) sealRow rs)"
    unfolding set_updateWhere by (intro image_eqI [of _ _ r]) simp_all
  moreover have "guidHit l guid (sealRow r)" using r by (simp add: sealRow_seals(2))
  ultimately show ?thesis unfolding deletedRows_def using True by (simp only: if_True list_ex_iff) blast
next
  case False
  then show ?thesis by (simp add: deletedRows_def guidHit_def emptyMessage_def)
qed

lemma softDelete_result:
  assumes "softDeleteMessageByGUID l now guid (s, fs) = (Inr x, s', fs')"
  shows "s' = s\<lparr>messages := deletedRows l now guid (messages s)\<rparr>"
proof -
  let ?hit = "guidHit l guid"
  let ?upd = "\<lambda>s. s\<lparr>messages := updateWhere ?hit sealRow (messages s)\<rparr>"
  let ?stub = "(emptyMessage l guid now now)\<lparr>mDeleted := True, mScrubbed := True\<rparr>"
  have hit: "(\<lambda>r. mLogin r = l \<and> sqlUpper (mGuid r) = sqlUpper guid) = ?hit" by (simp add: guidHit_def fun_eq_iff)
  obtain fs1 fs2 n s1 fs3 where
    1: "wrapErr (''soft-delete message '' @ guid) (sqlExecN (\<lambda>s. countWhere ?hit (messages s)) ?upd) (s, fs1) = (Inr n, s1, fs3)"
    and 2: "(if 0 < n then dbReturn () else wrapErr (''stub-insert deleted message '' @ guid)
      (sqlExec (\<lambda>s. s\<lparr>messages := insertIgnore messageKey ?stub (messages s)\<rparr>))) (s1, fs3) = (Inr x, s', fs2)"
    using assms unfolding softDeleteMessageByGUID_def Let_def hit
    by (auto dest!: sqlTx_ok dbBind_ok)
  from 1 have n: "n = countWhere ?hit (messages s)" and s1: "s1 = ?upd s"
    unfolding wrapErr_Inr by (auto dest: sqlExecN_Inr)
  have ex: "0 < n \<longleftrightarrow> list_ex ?hit (messages s)"
    using countWhere_0 [of ?hit "messages s"] by (auto simp: n list_ex_iff)
  show ?thesis
  proof (cases "0 < n")
    case True
    then show ?thesis using 2 ex s1 by (simp add: dbReturn_def deletedRows_def)
  next
    case False
    then have no: "\<forall>r\<in>set (messages s). \<not> ?hit r" using ex by (simp add: list_ex_iff)
    then have same: "updateWhere ?hit sealRow (messages s) = messages s" by (simp add: updateWhere_def map_idI)
    have "messageKey r \<noteq> messageKey ?stub" if "r \<in> set (messages s)" for r
      using no that by (auto simp: guidHit_def messageKey_def emptyMessage_def)
    then have "insertIgnore messageKey ?stub (messages s) = messages s @ [?stub]"
      by (simp add: insertIgnore_def upsertRow_def list_ex_iff)
    then show ?thesis using 2 False ex s1 same by (auto simp: wrapErr_Inr deletedRows_def dest!: sqlExec_Inr)
  qed
qed

text \<open>C34: Deleting one message is all or nothing: an error leaves the tables as they were, and otherwise
  every row of the login with that identifier, in whatever case, is a deleted row without content, at
  least one such row exists (a stub when CloudKit has not delivered the message), and all other rows of
  all tables are unchanged.\<close>

theorem softDelete_all_or_nothing:
  "case softDeleteMessageByGUID l now guid (s, fs) of
     (Inl _, s', _) \<Rightarrow> s' = s
   | (Inr _, s', _) \<Rightarrow>
       list_ex (guidHit l guid) (messages s')
       \<and> list_all (\<lambda>r. mDeleted r \<and> mScrubbed r \<and> mText r = None \<and> mSubject r = None
            \<and> mTapbackEmoji r = None \<and> coalesce (mSender r) [] = []) (filter (guidHit l guid) (messages s'))
       \<and> filter (\<lambda>r. \<not> guidHit l guid r) (messages s') = filter (\<lambda>r. \<not> guidHit l guid r) (messages s)
       \<and> s' = s\<lparr>messages := messages s'\<rparr>"
proof -
  obtain q s' fs' where q: "softDeleteMessageByGUID l now guid (s, fs) = (q, s', fs')"
    by (cases "softDeleteMessageByGUID l now guid (s, fs)")
  show ?thesis
  proof (cases q)
    case (Inl e)
    then have "s' = s" using q unfolding softDeleteMessageByGUID_def Let_def by (blast dest: sqlTx_error)
    then show ?thesis by (simp add: q Inl)
  next
    case (Inr x)
    let ?ms = "deletedRows l now guid (messages s)"
    have "list_ex (guidHit l guid) ?ms" by (rule deletedRows_hit)
    moreover have "list_all (\<lambda>r. mDeleted r \<and> mScrubbed r \<and> mText r = None \<and> mSubject r = None
            \<and> mTapbackEmoji r = None \<and> coalesce (mSender r) [] = []) (filter (guidHit l guid) ?ms)"
      using deletedRows_sealed [of l guid now "messages s"] unfolding list_all_iff set_filter by blast
    moreover have "filter (\<lambda>r. \<not> guidHit l guid r) ?ms = filter (\<lambda>r. \<not> guidHit l guid r) (messages s)"
      by (auto simp: deletedRows_def guidHit_def emptyMessage_def sealRow_def intro!: filter_updateWhere)
    ultimately show ?thesis
      using softDelete_result [OF q [unfolded Inr]] by (simp add: q Inr)
  qed
qed

end
