(* ===== verification/CloudPortalSpec.thy ===== *)
theory CloudPortalSpec
  imports CloudInv
begin

text \<open>
  What the operations over whole portals achieve: deletion, restoration from CloudKit, the move of a portal
  to another identifier, and the forward-backfill flag.
\<close>

section \<open>Runs without failures\<close>

lemma dbThen_Nil: "m st = (Inr (), st') \<Longrightarrow> dbThen m k st = k st'"
  by (simp add: dbThen_def dbBind_def)

lemma stmt_Nil [simp]:
  "chatStmt f (s, []) = (Inr (), s\<lparr>chats := f (chats s)\<rparr>, [])"
  "messageStmt g (s, []) = (Inr (), s\<lparr>messages := g s\<rparr>, [])"
  "wrapErr msg (chatStmt f) (s, []) = (Inr (), s\<lparr>chats := f (chats s)\<rparr>, [])"
  "wrapErr msg (messageStmt g) (s, []) = (Inr (), s\<lparr>messages := g s\<rparr>, [])"
  by (simp_all add: chatStmt_def messageStmt_def wrapErr_def dbCatch_def)

lemma store_tables:
  "chats (s\<lparr>chats := cs\<rparr>) = cs" "messages (s\<lparr>chats := cs\<rparr>) = messages s"
  "messages (s\<lparr>messages := ms\<rparr>) = ms" "chats (s\<lparr>messages := ms\<rparr>) = chats s"
  "s\<lparr>chats := cs, messages := ms, chats := cs'\<rparr> = s\<lparr>chats := cs', messages := ms\<rparr>"
  "s\<lparr>chats := cs, messages := ms, messages := ms'\<rparr> = s\<lparr>chats := cs, messages := ms'\<rparr>"
  by simp_all

lemma countWhere_update_0: "\<forall>r. if P r then \<not> Q (f r) else \<not> Q r \<Longrightarrow> countWhere Q (updateWhere P f rs) = 0"
  by (auto simp: countWhere_0 set_updateWhere split: if_splits)

section \<open>Deleting a portal\<close>

text \<open>The rows a deletion marks: by portal, and for a group portal also by group.\<close>

definition chatOf :: "bytes \<Rightarrow> bytes \<Rightarrow> chat_row \<Rightarrow> bool" where
  "chatOf l p r = (ofPortal l p r \<or> isGid p \<and> ofGroup l (gidUUID p) r)"

definition messageOf :: "bytes \<Rightarrow> bytes \<Rightarrow> store \<Rightarrow> message_row \<Rightarrow> bool" where
  "messageOf l p s r = (mLogin r = l \<and> (mPortal r = Some p
     \<or> isGid p \<and> list_ex (\<lambda>c. ofGroup l (gidUUID p) c \<and> mPortal r = Some (cPortal c)) (chats s)))"

lemma kill_fields:
  "cLogin (killChat now r) = cLogin r" "cPortal (killChat now r) = cPortal r" "cGroup (killChat now r) = cGroup r"
  "cChat (killChat now r) = cChat r" "cDeleted (killChat now r)"
  "mLogin (killMessage now m) = mLogin m" "mPortal (killMessage now m) = mPortal m" "mDeleted (killMessage now m)"
  by (simp_all add: killChat_def killMessage_def sealRow_def)

lemma update_update:
  assumes "\<And>r. r \<in> set rs \<Longrightarrow> (if P r then Q (f r) = False else True)" "\<And>r. r \<in> set rs \<Longrightarrow> P r \<or> Q r \<longleftrightarrow> R r"
  shows "updateWhere Q f (updateWhere P f rs) = updateWhere R f rs"
  unfolding updateWhere_def list.map_comp comp_def
proof (rule map_cong)
  fix r assume r: "r \<in> set rs"
  show "(if Q (if P r then f r else r) then f (if P r then f r else r) else if P r then f r else r) = (if R r then f r else r)"
    using assms(1) [OF r] assms(2) [OF r] by (cases "P r"; cases "Q r") simp_all
qed simp

lemma group_after_kill:
  "list_ex (\<lambda>c. ofGroup l u c \<and> q = Some (cPortal c)) (updateWhere P (killChat now) cs)
     = list_ex (\<lambda>c. ofGroup l u c \<and> q = Some (cPortal c)) cs"
  by (induction cs) (simp_all add: updateWhere_def ofGroup_def kill_fields)

lemma deleteLocalChat_Nil:
  "deleteLocalChatByPortalID l now p (s, []) = (Inr (),
     s\<lparr>chats := updateWhere (\<lambda>r. chatOf l p r \<and> \<not> cDeleted r) (killChat now) (chats s),
       messages := updateWhere (\<lambda>r. messageOf l p s r \<and> \<not> mDeleted r) (killMessage now) (messages s)\<rparr>, [])"
proof (cases "isGid p")
  case True
  have c: "updateWhere (\<lambda>r. ofGroup l (gidUUID p) r \<and> \<not> cDeleted r) (killChat now)
        (updateWhere (\<lambda>r. ofPortal l p r \<and> \<not> cDeleted r) (killChat now) (chats s))
      = updateWhere (\<lambda>r. chatOf l p r \<and> \<not> cDeleted r) (killChat now) (chats s)"
    by (rule update_update) (simp_all add: chatOf_def True kill_fields, blast)
  have m: "updateWhere (\<lambda>r. mLogin r = l \<and> \<not> mDeleted r
          \<and> list_ex (\<lambda>c. ofGroup l (gidUUID p) c \<and> mPortal r = Some (cPortal c)) (chats s)) (killMessage now)
        (updateWhere (\<lambda>r. mLogin r = l \<and> mPortal r = Some p \<and> \<not> mDeleted r) (killMessage now) (messages s))
      = updateWhere (\<lambda>r. messageOf l p s r \<and> \<not> mDeleted r) (killMessage now) (messages s)"
    by (rule update_update) (simp_all add: messageOf_def True kill_fields, blast)
  show ?thesis
    unfolding deleteLocalChatByPortalID_def dbThen_def dbBind_def
    by (simp only: stmt_Nil prod.case sum.case True if_True store_tables group_after_kill c m)
next
  case False
  then show ?thesis
    unfolding deleteLocalChatByPortalID_def dbThen_def dbBind_def
    by (simp add: dbReturn_def chatOf_def messageOf_def conj_assoc)
qed

lemma killed_chats:
  "list_ex (\<lambda>r. ofPortal l p r \<and> cDeleted r) (updateWhere (\<lambda>r. chatOf l p r \<and> \<not> cDeleted r) (killChat now) cs)
     = list_ex (ofPortal l p) cs"
  by (induction cs) (simp_all add: updateWhere_def chatOf_def ofPortal_def kill_fields, blast)

lemma countWhere_pos: "0 < countWhere P rs \<longleftrightarrow> list_ex P rs"
  using countWhere_0 [of P rs] by (auto simp: list_ex_iff)

text \<open>After a portal is deleted it has no live chat and no message that backfill could deliver, it counts
  as explicitly deleted exactly when it had a chat row, and deleting it again at any later time changes
  nothing at all: the time stamps that gate late messages are not renewed.\<close>

theorem delete_portal_once:
  "let s1 = finalStore (deleteLocalChatByPortalID l now p (s, [])) in
   outcome (portalHasChat l p (s1, [])) = Inr False
   \<and> outcome (hasPortalMessages l p (s1, [])) = Inr False
   \<and> outcome (portalIsExplicitlyDeleted l p (s1, [])) = Inr (list_ex (ofPortal l p) (chats s))
   \<and> deleteLocalChatByPortalID l later p (s1, []) = (Inr (), s1, [])"
proof -
  let ?cs = "updateWhere (\<lambda>r. chatOf l p r \<and> \<not> cDeleted r) (killChat now) (chats s)"
  let ?ms = "updateWhere (\<lambda>r. messageOf l p s r \<and> \<not> mDeleted r) (killMessage now) (messages s)"
  let ?s1 = "s\<lparr>chats := ?cs, messages := ?ms\<rparr>"
  have mo: "messageOf l p ?s1 = messageOf l p s" by (simp add: messageOf_def fun_eq_iff group_after_kill)
  have "countWhere (\<lambda>r. ofPortal l p r \<and> \<not> cDeleted r) ?cs = 0"
    by (rule countWhere_update_0) (simp add: chatOf_def kill_fields)
  moreover have "countWhere (servable l p) ?ms = 0"
    by (rule countWhere_update_0) (simp add: servable_def messageOf_def kill_fields, blast)
  moreover have "(0 < countWhere (\<lambda>r. ofPortal l p r \<and> cDeleted r) ?cs) = list_ex (ofPortal l p) (chats s)"
    unfolding countWhere_pos by (rule killed_chats)
  moreover have "updateWhere (\<lambda>r. chatOf l p r \<and> \<not> cDeleted r) (killChat later) ?cs = ?cs"
    by (simp add: updateWhere_def kill_fields)
  moreover have "updateWhere (\<lambda>r. messageOf l p s r \<and> \<not> mDeleted r) (killMessage later) ?ms = ?ms"
    by (simp add: updateWhere_def kill_fields)
  ultimately show ?thesis
    unfolding deleteLocalChat_Nil Let_def finalStore_simp
    by (simp add: portalHasChat_def hasPortalMessages_def portalIsExplicitlyDeleted_def mo)
qed


section \<open>Moving a portal\<close>

lemma countWhere_moved:
  assumes "\<forall>r. P r \<longrightarrow> \<not> Q r" "\<forall>r. P r \<longrightarrow> Q (f r)"
  shows "countWhere Q (updateWhere P f rs) = countWhere P rs + countWhere Q rs"
  using assms by (induction rs) (simp_all add: countWhere_def updateWhere_def)

lemma servable_moved:
  "new \<noteq> old \<Longrightarrow> countWhere (servable l new) (updateWhere (\<lambda>r. mLogin r = l \<and> mPortal r = Some old)
      (\<lambda>r. r\<lparr>mPortal := Some new, mUpdated := now\<rparr>) ms)
    = countWhere (servable l old) ms + countWhere (servable l new) ms"
  by (induction ms) (simp_all add: countWhere_def updateWhere_def servable_def)

text \<open>Moving a portal to another identifier leaves no chat and no message behind: the target gets all
  rows of both, nothing about a message but its portal and its modification time changes, and the move
  of nothing, from nothing or to itself is no move.\<close>

theorem reKey_moves_all:
  "let s1 = finalStore (reKeyPortalID l now old new (s, [])) in
   if old = [] \<or> new = [] \<or> old = new then s1 = s
   else countWhere (ofPortal l old) (chats s1) = 0
     \<and> countWhere (ofPortal l new) (chats s1) = countWhere (ofPortal l old) (chats s) + countWhere (ofPortal l new) (chats s)
     \<and> countWhere (servable l old) (messages s1) = 0
     \<and> countWhere (servable l new) (messages s1) = countWhere (servable l old) (messages s) + countWhere (servable l new) (messages s)
     \<and> map (\<lambda>r. r\<lparr>mPortal := None, mUpdated := 0\<rparr>) (messages s1) = map (\<lambda>r. r\<lparr>mPortal := None, mUpdated := 0\<rparr>) (messages s)"
proof (cases "old = [] \<or> new = [] \<or> old = new")
  case True
  then show ?thesis by (simp add: reKeyPortalID_def dbReturn_def)
next
  case False
  let ?cs = "updateWhere (ofPortal l old) (\<lambda>r. r\<lparr>cPortal := new, cFwdDone := False, cUpdated := Some now\<rparr>) (chats s)"
  let ?ms = "updateWhere (\<lambda>r. mLogin r = l \<and> mPortal r = Some old) (\<lambda>r. r\<lparr>mPortal := Some new, mUpdated := now\<rparr>) (messages s)"
  have run: "finalStore (reKeyPortalID l now old new (s, [])) = s\<lparr>chats := ?cs, messages := ?ms\<rparr>"
    using False unfolding reKeyPortalID_def dbThen_def dbBind_def
    by (simp only: stmt_Nil prod.case sum.case if_False store_tables finalStore_simp simp_thms)
  have no: "new \<noteq> old" using False by blast
  have "countWhere (ofPortal l old) ?cs = 0"
    using no by (intro countWhere_update_0) (simp add: ofPortal_def)
  moreover have "countWhere (ofPortal l new) ?cs = countWhere (ofPortal l old) (chats s) + countWhere (ofPortal l new) (chats s)"
    using False by (intro countWhere_moved) (simp_all add: ofPortal_def)
  moreover have "countWhere (servable l old) ?ms = 0"
    using no by (intro countWhere_update_0) (simp add: servable_def, blast)
  moreover have "countWhere (servable l new) ?ms = countWhere (servable l old) (messages s) + countWhere (servable l new) (messages s)"
    by (rule servable_moved) (rule no)
  moreover have "map (\<lambda>r. r\<lparr>mPortal := None, mUpdated := 0\<rparr>) ?ms = map (\<lambda>r. r\<lparr>mPortal := None, mUpdated := 0\<rparr>) (messages s)"
    by (simp add: updateWhere_def)
  ultimately show ?thesis using False unfolding run Let_def store_tables by simp
qed

section \<open>The forward-backfill flag\<close>

lemma markForward_Nil:
  "markForwardBackfillDone l now p (s, []) = (Inr (),
     if list_ex (ofPortal l p) (chats s)
     then s\<lparr>chats := updateWhere (ofPortal l p) (\<lambda>r. r\<lparr>cFwdDone := True\<rparr>) (chats s)\<rparr>
     else s\<lparr>chats := insertIgnore chatKey ((emptyChat l (''synthetic:'' @ p) p now)\<lparr>cFwdDone := True\<rparr>) (chats s)\<rparr>, [])"
proof -
  have same: "updateWhere (ofPortal l p) (\<lambda>r. r\<lparr>cFwdDone := True\<rparr>) (chats s) = chats s"
    if "\<not> list_ex (ofPortal l p) (chats s)"
    using that by (simp add: updateWhere_def list_ex_iff map_idI)
  show ?thesis
    using countWhere_pos [of "ofPortal l p" "chats s"]
    by (auto simp: markForwardBackfillDone_def dbBind_def dbTry_def dbCatch_def Let_def dbReturn_def same)
qed

lemma insertIgnore_ex:
  "\<not> list_ex P rs \<Longrightarrow> P new \<Longrightarrow> list_ex P (insertIgnore key new rs) = (\<not> list_ex (\<lambda>r. key r = key new) rs)"
  by (simp add: insertIgnore_def upsertRow_def)

text \<open>After the forward backfill of a portal is marked done it reads as done, unless the portal has no
  chat row and the key of the synthetic row that would hold the flag is taken by a row of another portal
  (as it is after the portal was moved): then the mark is lost.\<close>

theorem forward_done_sticks:
  "outcome (isForwardBackfillDone l p (finalStore (markForwardBackfillDone l now p (s, [])), []))
     = Inr (if list_ex (ofPortal l p) (chats s) then True
            else \<not> list_ex (\<lambda>r. chatKey r = (l, ''synthetic:'' @ p)) (chats s))"
proof -
  define k where "k = ''synthetic:'' @ p"
  let ?new = "(emptyChat l k p now)\<lparr>cFwdDone := True\<rparr>"
  have key: "chatKey ?new = (l, k)" by (simp add: chatKey_def emptyChat_def)
  have upd: "list_ex (\<lambda>r. ofPortal l p r \<and> cFwdDone r)
      (updateWhere (ofPortal l p) (\<lambda>r. r\<lparr>cFwdDone := True\<rparr>) cs) = list_ex (ofPortal l p) cs" for cs
    by (induction cs) (simp_all add: updateWhere_def ofPortal_def, blast)
  have ins: "list_ex (\<lambda>r. ofPortal l p r \<and> cFwdDone r) (insertIgnore chatKey ?new (chats s))
      = (\<not> list_ex (\<lambda>r. chatKey r = (l, k)) (chats s))" if "\<not> list_ex (ofPortal l p) (chats s)"
  proof -
    have "\<not> list_ex (\<lambda>r. ofPortal l p r \<and> cFwdDone r) (chats s)" using that by (auto simp: list_ex_iff)
    moreover have "ofPortal l p ?new \<and> cFwdDone ?new"
      by (simp add: ofPortal_def emptyChat_def)
    ultimately show ?thesis unfolding key [symmetric] by (rule insertIgnore_ex)
  qed
  show ?thesis
    unfolding k_def [symmetric]
    by (simp add: isForwardBackfillDone_def markForward_Nil [of l now p s, folded k_def] dbCatch_def outcome_def upd ins)
qed

text \<open>The lost mark: a portal without chat rows is marked, moved away, and marked again when it comes back.\<close>

lemma forward_done_lost:
  "let s0 = sampleStore\<lparr>chats := []\<rparr>;
       s1 = finalStore (markForwardBackfillDone ''me'' 1 ''tel:+1'' (s0, []));
       s2 = finalStore (reKeyPortalID ''me'' 2 ''tel:+1'' ''tel:+2'' (s1, []));
       s3 = finalStore (markForwardBackfillDone ''me'' 3 ''tel:+1'' (s2, [])) in
   outcome (isForwardBackfillDone ''me'' ''tel:+1'' (s1, [])) = Inr True
   \<and> outcome (isForwardBackfillDone ''me'' ''tel:+1'' (s3, [])) = Inr False"
  by (simp add: markForward_Nil isForwardBackfillDone_def dbCatch_def outcome_def reKeyPortalID_def dbThen_def dbBind_def
      insertIgnore_def upsertRow_def ofPortal_def emptyChat_def updateWhere_def chatKey_def)

end
