(* ===== verification/CloudRestore.thy ===== *)
theory CloudRestore
  imports CloudMessageSpec CloudPortalSpec
begin

text \<open>
  The database stage of \<open>runRestoreBackfillPipeline\<close> in \<open>client.go\<close>: under \<open>restoreMu\<close> it lifts the
  tombstones of a portal and the privacy flags of its messages, so that the import that follows brings
  their content back.  Its errors are only logged.  The notices, the metadata refresh and the fetch
  retries around it talk to other services and are not modelled.
\<close>

record restorePipelineOptions =
  roPortalID :: bytes
  roParticipants :: "bytes list"
  roDisplayName :: bytes
  roChatID :: bytes
  roGroupID :: bytes
  roGroupPhotoGuid :: bytes

definition logged :: "'a db \<Rightarrow> unit db" where
  "logged m = dbCatch (noResult m) (\<lambda>_. dbReturn ())"

text \<open>The result says which portals stay recently deleted, and whether the messages have to be recovered
  from the recycle bin.\<close>

definition restoreStage1 :: "bytes \<Rightarrow> time_ms \<Rightarrow> restorePipelineOptions \<Rightarrow> bytes set \<Rightarrow> (bytes set \<times> bool) db" where
  "restoreStage1 l now opts recentlyDeleted =
     (let p = roPortalID opts in
      dbThen (logged (setRestoreOverride l now p))
     (dbThen (if roParticipants opts \<noteq> [] \<or> roDisplayName opts \<noteq> [] \<or> roChatID opts \<noteq> [] \<or> roGroupID opts \<noteq> []
                 \<or> roGroupPhotoGuid opts \<noteq> []
              then seedChatFromRecycleBin l now p (roChatID opts) (roGroupID opts) (roDisplayName opts)
                     (roGroupPhotoGuid opts) (roParticipants opts)
              else dbReturn ())
     (dbThen (logged (undeleteCloudChatByPortalID l now p))
     (dbThen (logged (undeleteCloudMessagesByPortalID l now p))
     (dbThen (logged (clearBodyScrubByPortalID l now p))
     (dbBind (dbTry (hasPortalMessages l p)) (\<lambda>r.
        dbReturn (recentlyDeleted - {p}, r = Inr False))))))))"

text \<open>Without failures the message rows of the portal lose both flags.\<close>

lemma logged_Nil: "m (s, []) = (Inr x, s', []) \<Longrightarrow> logged m (s, []) = (Inr (), s', [])"
  by (simp add: logged_def noResult_def dbCatch_def dbBind_def dbReturn_def)

lemma seed_messages: "\<exists>s'. seedChatFromRecycleBin l now p c g d ph ps (s, []) = (Inr (), s', []) \<and> messages s' = messages s"
  by (simp add: seedChatFromRecycleBin_def Let_def dbCatch_def)

lemma seed_if: "messages s = ms \<Longrightarrow> \<exists>s'. (if b then seedChatFromRecycleBin l now p c g d ph ps else dbReturn ()) (s, []) = (Inr (), s', [])
    \<and> messages s' = ms"
  using seed_messages [of l now p c g d ph ps s] by (cases b) (simp_all add: dbReturn_def)

definition reopened :: "bytes \<Rightarrow> time_ms \<Rightarrow> bytes \<Rightarrow> message_row list \<Rightarrow> message_row list" where
  "reopened l now p ms =
     updateWhere (\<lambda>r. mLogin r = l \<and> mPortal r = Some p \<and> mScrubbed r) (\<lambda>r. r\<lparr>mScrubbed := False, mUpdated := now\<rparr>)
      (updateWhere (\<lambda>r. mLogin r = l \<and> mPortal r = Some p \<and> mDeleted r) (\<lambda>r. r\<lparr>mDeleted := False, mUpdated := now\<rparr>) ms)"

lemma stage_Nil:
  "logged (setRestoreOverride l now p) (s, []) = (Inr (), s\<lparr>overrides := upsertRow overrideKey mergeOverride
     \<lparr>oLogin = l, oPortal = p, oUpdated = now\<rparr> (overrides s)\<rparr>, [])"
  "logged (undeleteCloudChatByPortalID l now p) (s, []) = (Inr (), s\<lparr>chats := updateWhere
     (\<lambda>r. ofPortal l p r \<and> cDeleted r) (\<lambda>r. r\<lparr>cDeleted := False, cUpdated := Some now, cFwdDone := False\<rparr>) (chats s)\<rparr>, [])"
  "logged (clearBodyScrubByPortalID l now p) (s, []) = (Inr (), s\<lparr>messages := updateWhere
     (\<lambda>r. mLogin r = l \<and> mPortal r = Some p \<and> mScrubbed r) (\<lambda>r. r\<lparr>mScrubbed := False, mUpdated := now\<rparr>) (messages s)\<rparr>, [])"
  by (rule logged_Nil; simp add: setRestoreOverride_def undeleteCloudChatByPortalID_def clearBodyScrubByPortalID_def Let_def)+

lemma undelete_Nil:
  "\<exists>s'. logged (undeleteCloudMessagesByPortalID l now p) (s, []) = (Inr (), s', []) \<and> messages s' = updateWhere
     (\<lambda>r. mLogin r = l \<and> mPortal r = Some p \<and> mDeleted r) (\<lambda>r. r\<lparr>mDeleted := False, mUpdated := now\<rparr>) (messages s)"
  by (simp add: logged_def noResult_def dbCatch_def dbBind_def dbReturn_def undeleteCloudMessagesByPortalID_def Let_def
      dbThen_def resetForwardBackfillDone_def wrapErr_def)

lemma stage1_messages:
  "messages (finalStore (restoreStage1 l now opts rd (s, []))) = reopened l now (roPortalID opts) (messages s)"
proof -
  let ?p = "roPortalID opts"
  let ?s1 = "s\<lparr>overrides := upsertRow overrideKey mergeOverride \<lparr>oLogin = l, oPortal = ?p, oUpdated = now\<rparr> (overrides s)\<rparr>"
  let ?seed = "if roParticipants opts \<noteq> [] \<or> roDisplayName opts \<noteq> [] \<or> roChatID opts \<noteq> [] \<or> roGroupID opts \<noteq> []
                 \<or> roGroupPhotoGuid opts \<noteq> []
              then seedChatFromRecycleBin l now ?p (roChatID opts) (roGroupID opts) (roDisplayName opts)
                     (roGroupPhotoGuid opts) (roParticipants opts)
              else dbReturn ()"
  have "\<exists>s2. ?seed (?s1, []) = (Inr (), s2, []) \<and> messages s2 = messages s" by (rule seed_if) simp
  then obtain s2 where s2: "?seed (?s1, []) = (Inr (), s2, [])" "messages s2 = messages s" by blast
  let ?s3 = "s2\<lparr>chats := updateWhere (\<lambda>r. ofPortal l ?p r \<and> cDeleted r)
     (\<lambda>r. r\<lparr>cDeleted := False, cUpdated := Some now, cFwdDone := False\<rparr>) (chats s2)\<rparr>"
  obtain s4 where s4: "logged (undeleteCloudMessagesByPortalID l now ?p) (?s3, []) = (Inr (), s4, [])"
    "messages s4 = updateWhere (\<lambda>r. mLogin r = l \<and> mPortal r = Some ?p \<and> mDeleted r)
      (\<lambda>r. r\<lparr>mDeleted := False, mUpdated := now\<rparr>) (messages s2)"
    using undelete_Nil [of l now ?p ?s3] by auto
  show ?thesis
    unfolding restoreStage1_def Let_def
    by (subst dbThen_Nil, rule stage_Nil, subst dbThen_Nil, rule s2, subst dbThen_Nil, rule stage_Nil,
        subst dbThen_Nil, rule s4, subst dbThen_Nil, rule stage_Nil)
       (simp add: dbBind_def dbTry_def hasPortalMessages_def dbReturn_def s2(2) s4(2) reopened_def)
qed

lemma reopened_row:
  assumes "r \<in> set ms" "mLogin r = l" "mPortal r = Some p"
  shows "\<exists>r'\<in>set (reopened l now p ms). messageKey r' = messageKey r \<and> \<not> mDeleted r' \<and> \<not> mScrubbed r'"
proof -
  let ?r1 = "if mDeleted r then r\<lparr>mDeleted := False, mUpdated := now\<rparr> else r"
  let ?r2 = "if mScrubbed ?r1 then ?r1\<lparr>mScrubbed := False, mUpdated := now\<rparr> else ?r1"
  have 1: "?r1 \<in> set (updateWhere (\<lambda>r. mLogin r = l \<and> mPortal r = Some p \<and> mDeleted r)
      (\<lambda>r. r\<lparr>mDeleted := False, mUpdated := now\<rparr>) ms)"
    unfolding set_updateWhere by (rule image_eqI [OF _ assms(1)]) (simp add: assms)
  have "?r2 \<in> set (reopened l now p ms)"
    unfolding reopened_def set_updateWhere [of _ _ "updateWhere P f ms" for P f]
    by (rule image_eqI [OF _ 1]) (simp add: assms)
  moreover have "messageKey ?r2 = messageKey r \<and> \<not> mDeleted ?r2 \<and> \<not> mScrubbed ?r2" by (simp add: messageKey_def)
  ultimately show ?thesis by blast
qed

lemma find_by_guid:
  "distinct (map GUID rows) \<Longrightarrow> row \<in> set rows \<Longrightarrow> find (\<lambda>row'. GUID row = GUID row') rows = Some row"
  by (induction rows) (auto simp: image_iff)

text \<open>A restore undoes a deletion: when its database stage has run, the next import of a message of the
  portal makes the row live again and gives it back its text, subject and sender, although the deletion
  had wiped them and ordinary imports could not bring them back.\<close>

theorem restore_reopens:
  assumes "r \<in> set (messages s)" "mLogin r = l" "mPortal r = Some (roPortalID opts)"
    and "row \<in> set (newestByGUID rows)" "GUID row = mGuid r" "\<not> Deleted row"
  shows "let s1 = finalStore (restoreStage1 l now opts rd (s, []));
             s2 = finalStore (upsertMessageBatch l later rows (s1, [])) in
    \<exists>r'\<in>set (messages s2). messageKey r' = messageKey r \<and> \<not> mDeleted r' \<and> mText r' = Some (Text row)
      \<and> mSubject r' = Some (Subject row) \<and> mSender r' = Some (Sender row) \<and> mTapbackEmoji r' = Some (TapbackEmoji row)"
proof -
  let ?rows = "newestByGUID rows"
  obtain r1 where r1: "r1 \<in> set (reopened l now (roPortalID opts) (messages s))" "messageKey r1 = messageKey r"
    "\<not> mDeleted r1" "\<not> mScrubbed r1"
    using reopened_row assms(1-3) by blast
  have key: "messageKey r1 = (l, GUID row)" using r1(2) assms(2,5) by (simp add: messageKey_def)
  let ?r2 = "mergeMessage r1 (importedRow l later row)"
  have "importedOver l later ?rows r1 = ?r2"
    unfolding importedOver_def key by (simp add: find_by_guid [OF newestByGUID_rows(1) assms(4)])
  then have "?r2 \<in> set (importAll l later ?rows (reopened l now (roPortalID opts) (messages s)))"
    unfolding importAll_rows [OF newestByGUID_rows(1)] using r1(1) by (auto intro: image_eqI [of _ _ r1])
  moreover have "messageKey ?r2 = messageKey r \<and> \<not> mDeleted ?r2 \<and> mText ?r2 = Some (Text row)
      \<and> mSubject ?r2 = Some (Subject row) \<and> mSender ?r2 = Some (Sender row) \<and> mTapbackEmoji ?r2 = Some (TapbackEmoji row)"
    using r1 assms(6) by (simp add: mergeMessage_key) (simp add: mergeMessage_def importedRow_def Let_def)
  ultimately show ?thesis
    unfolding Let_def upsertMessageBatch_Nil finalStore_simp stage1_messages store_tables by blast
qed

text \<open>At the deleted message of the sample tables.\<close>

theorem restore_reopens_witness:
  "let opts = \<lparr>roPortalID = ''tel:+15550100'', roParticipants = [], roDisplayName = [], roChatID = [], roGroupID = [],
         roGroupPhotoGuid = []\<rparr>;
       s1 = finalStore (restoreStage1 ''me'' 50 opts {} (sampleStore, []));
       s2 = finalStore (upsertMessageBatch ''me'' 60 [sampleImport ''C''] (s1, [])) in
   list_ex (\<lambda>r. messageKey r = (''me'', ''C'') \<and> \<not> mDeleted r \<and> mText r = Some ''again'') (messages s2)"
proof -
  let ?opts = "\<lparr>roPortalID = ''tel:+15550100'', roParticipants = [], roDisplayName = [], roChatID = [], roGroupID = [],
         roGroupPhotoGuid = []\<rparr>"
  have r: "sealRow (sampleMessage ''C'') \<in> set (messages sampleStore)" by (simp add: sampleStore_def)
  have "mLogin (sealRow (sampleMessage ''C'')) = ''me''" "mPortal (sealRow (sampleMessage ''C'')) = Some (roPortalID ?opts)"
    "sampleImport ''C'' \<in> set (newestByGUID [sampleImport ''C''])" "GUID (sampleImport ''C'') = mGuid (sealRow (sampleMessage ''C''))"
    "\<not> Deleted (sampleImport ''C'')" "messageKey (sealRow (sampleMessage ''C'')) = (''me'', ''C'')" "Text (sampleImport ''C'') = ''again''"
    by (simp_all add: sample_defs sampleImport_def newestByGUID_def newestStep_def messageKey_def)
  then show ?thesis
    using restore_reopens [OF r, of "''me''" ?opts "sampleImport ''C''" "[sampleImport ''C'']" 50 "{}" 60]
    unfolding Let_def list_ex_iff by metis
qed

end
