(* ===== verification/CloudRosterSpec.thy ===== *)
theory CloudRosterSpec
  imports CloudPortalSpec
begin

text \<open>
  The stored rosters of group portals: they are the recipient lists of outgoing messages, so what is written
  has to be what is read back, and the comparison that decides about writing has to be one of sets.
\<close>

section \<open>Comparing rosters\<close>

lemma participantSetsMatch_sets:
  "participantSetsMatch a b isSelf =
     (a \<noteq> [] \<and> b \<noteq> [] \<and> (case isSelf of
        None \<Rightarrow> set a = set b
      | Some self \<Rightarrow> {p. \<not> self p} \<inter> set a = {p. \<not> self p} \<inter> set b))"
proof -
  have "length (remdups (filter (\<lambda>p. p \<notin> set b) a) @ remdups (filter (\<lambda>p. p \<notin> set a) b)) = 0 \<longleftrightarrow> set a = set b"
    by (auto simp: filter_empty_conv)
  moreover have "list_all self (remdups (filter (\<lambda>p. p \<notin> set b) a) @ remdups (filter (\<lambda>p. p \<notin> set a) b))
      \<longleftrightarrow> {p. \<not> self p} \<inter> set a = {p. \<not> self p} \<inter> set b" for self
    by (auto simp: list_all_iff)
  ultimately show ?thesis
    unfolding participantSetsMatch_def Let_def by (cases isSelf) (simp_all only: option.case if_bool_eq_conj, blast+)
qed

text \<open>Two rosters match when both have members and they have the same ones, or differ only in members
  that are the user's own handles, however many; order, repetition and which roster comes first do not
  matter.\<close>

theorem participantSets_match:
  "participantSetsMatch a b isSelf =
     (a \<noteq> [] \<and> b \<noteq> [] \<and> (case isSelf of
        None \<Rightarrow> set a = set b
      | Some self \<Rightarrow> {p. \<not> self p} \<inter> set a = {p. \<not> self p} \<inter> set b))
   \<and> participantSetsMatch a b isSelf = participantSetsMatch b a isSelf"
proof -
  have "participantSetsMatch a b isSelf = participantSetsMatch b a isSelf"
    unfolding participantSetsMatch_sets [of a b] participantSetsMatch_sets [of b a]
    by (cases isSelf) (simp_all only: option.case, blast+)
  then show ?thesis using participantSetsMatch_sets [of a b] by blast
qed

text \<open>The comment in the source allows one differing member.\<close>

lemma participantSets_two_own_handles:
  "participantSetsMatch [''tel:+15550100'', ''tel:+15550101''] [''mailto:me@x.org''] (Some (\<lambda>_. True))"
  by (simp add: participantSetsMatch_def)

section \<open>Writing and reading a roster\<close>

lemma marshal_nonempty: "marshalStrings ps \<noteq> []"
  by (simp add: marshalStrings_def split: option.split)

text \<open>The rows that hold the roster of a portal: its own, or for a group portal without any those of its group.\<close>

definition hasRosterRow :: "bytes \<Rightarrow> bytes \<Rightarrow> store \<Rightarrow> bool" where
  "hasRosterRow l p s = (list_ex (ofPortal l p) (chats s) \<or> isGid p \<and> list_ex (ofGroup l (gidUUID p)) (chats s))"

lemma ex_updated: "\<forall>r. P (f r) = P r \<Longrightarrow> list_ex P (updateWhere Q f rs) = list_ex P rs"
  by (induction rs) (simp_all add: updateWhere_def)

lemma find_updated:
  assumes "list_ex P rs" "\<forall>r. P r \<longrightarrow> P (f r) \<and> Q (f r)"
  shows "\<exists>r. find (\<lambda>r. P r \<and> Q r) (updateWhere P f rs) = Some r \<and> (\<exists>r0\<in>set rs. P r0 \<and> r = f r0)"
  using assms
proof (induction rs)
  case (Cons a rs)
  then show ?case by (cases "P a") (auto simp: updateWhere_def)
qed simp

lemma roster_after_update:
  fixes ps :: "bytes list option" and now :: time_ms
  defines "change \<equiv> (\<lambda>r. r\<lparr>cParticipants := Some (marshalStrings ps), cUpdated := Some now\<rparr>)"
  assumes "list_ex P (chats s)" "\<forall>r. P r \<longrightarrow> P (change r)"
  shows "rosterRow P (s\<lparr>chats := updateWhere P change (chats s)\<rparr>) = Some (marshalStrings ps)"
proof -
  have "\<forall>r. P r \<longrightarrow> P (change r) \<and> coalesce (cParticipants (change r)) [] \<noteq> []"
    using assms(3) marshal_nonempty [of ps] by (simp add: change_def coalesce_def)
  from find_updated [OF assms(2) this] obtain r r0
    where "find (\<lambda>r. P r \<and> coalesce (cParticipants r) [] \<noteq> []) (updateWhere P change (chats s)) = Some r" "r = change r0"
    by blast
  then show ?thesis by (simp add: rosterRow_def change_def)
qed

lemma rosterRow_none: "\<not> list_ex P (chats s) \<Longrightarrow> rosterRow P s = None"
proof -
  assume "\<not> list_ex P (chats s)"
  then have "find (\<lambda>r. P r \<and> coalesce (cParticipants r) [] \<noteq> []) (chats s) = None"
    by (simp add: find_None_iff list_ex_iff) blast
  then show ?thesis by (simp add: rosterRow_def)
qed

lemma update_stable:
  "ofPortal l p (r\<lparr>cParticipants := x, cUpdated := y\<rparr>) = ofPortal l p r"
  "ofGroup l g (r\<lparr>cParticipants := x, cUpdated := y\<rparr>) = ofGroup l g r"
  by (simp_all add: ofPortal_def ofGroup_def)

lemma roster_written:
  assumes "hasRosterRow l p s"
  shows "\<exists>s'. updateChatParticipants l now p ps (s, []) = (Inr (), s', [])
    \<and> (rosterRow (ofPortal l p) s' = Some (marshalStrings ps)
       \<or> isGid p \<and> rosterRow (ofPortal l p) s' = None \<and> rosterRow (ofGroup l (gidUUID p)) s' = Some (marshalStrings ps))"
proof (cases "list_ex (ofPortal l p) (chats s)")
  case True
  then have "countWhere (ofPortal l p) (chats s) \<noteq> 0" using countWhere_pos [of "ofPortal l p" "chats s"] by simp
  then show ?thesis using roster_after_update [OF True, where ps = ps and now = now]
    by (simp add: updateChatParticipants_def Let_def dbBind_def dbReturn_def update_stable)
next
  case False
  then have g: "isGid p" "list_ex (ofGroup l (gidUUID p)) (chats s)" using assms by (auto simp: hasRosterRow_def)
  let ?change = "\<lambda>r. r\<lparr>cParticipants := Some (marshalStrings ps), cUpdated := Some now\<rparr>"
  let ?s' = "s\<lparr>chats := updateWhere (ofGroup l (gidUUID p)) ?change (chats s)\<rparr>"
  have 0: "countWhere (ofPortal l p) (chats s) = 0" using False countWhere_pos [of "ofPortal l p" "chats s"] by simp
  have same: "updateWhere (ofPortal l p) ?change (chats s) = chats s"
    using False by (simp add: updateWhere_def list_ex_iff map_idI)
  have "\<not> list_ex (ofPortal l p) (chats ?s')"
    using False ex_updated [of "ofPortal l p" ?change] by (simp add: update_stable)
  then have "rosterRow (ofPortal l p) ?s' = None" by (rule rosterRow_none)
  moreover have "rosterRow (ofGroup l (gidUUID p)) ?s' = Some (marshalStrings ps)"
    by (rule roster_after_update [OF g(2)]) (simp add: update_stable)
  moreover have "updateChatParticipants l now p ps (s, []) = (Inr (), ?s', [])"
    by (simp add: updateChatParticipants_def Let_def dbBind_def 0 g(1) same)
  ultimately show ?thesis using g(1) by blast
qed

lemma roster_read:
  assumes "rosterRow (ofPortal l p) s = Some j
     \<or> isGid p \<and> rosterRow (ofPortal l p) s = None \<and> rosterRow (ofGroup l (gidUUID p)) s = Some j"
    and "unmarshalStrings j = Some ps"
  shows "getChatParticipantsByPortalID l p (s, []) = (Inr (Some (normalizeAll (coalesce ps []))), s, [])"
  using assms by (auto simp: getChatParticipantsByPortalID_def dbBind_def dbTry_def dbReturn_def)

lemma roster_reads: "snd (getChatParticipantsByPortalID l p (s, [])) = (s, [])"
  unfolding getChatParticipantsByPortalID_def
  by (cases "rosterRow (ofPortal l p) s"; cases "isGid p"; cases "rosterRow (ofGroup l (gidUUID p)) s")
     (simp_all add: dbBind_def dbTry_def dbReturn_def dbFail_def split: option.split)

text \<open>A written roster is read back, normalised, whichever row of the portal or of its group holds it.\<close>

theorem roster_roundtrip:
  assumes "hasRosterRow l p s" "list_all ascii ps"
  shows "outcome (dbThen (updateChatParticipants l now p (Some ps)) (getChatParticipantsByPortalID l p) (s, []))
    = Inr (Some (normalizeAll ps))"
proof -
  obtain s' where u: "updateChatParticipants l now p (Some ps) (s, []) = (Inr (), s', [])"
    and r: "rosterRow (ofPortal l p) s' = Some (marshalStrings (Some ps))
       \<or> isGid p \<and> rosterRow (ofPortal l p) s' = None \<and> rosterRow (ofGroup l (gidUUID p)) s' = Some (marshalStrings (Some ps))"
    using roster_written [OF assms(1), of now "Some ps"] by blast
  show ?thesis
    using roster_read [OF r unmarshal_marshal(1) [OF assms(2)]] by (simp add: dbThen_def dbBind_def u coalesce_def)
qed

theorem roster_roundtrip_witness:
  "outcome (dbThen (updateChatParticipants ''me'' 7 ''tel:+15550100'' (Some [])) (getChatParticipantsByPortalID ''me'' ''tel:+15550100'')
     (sampleStore, [])) = Inr (Some [])"
proof -
  have "hasRosterRow ''me'' ''tel:+15550100'' sampleStore"
    by (simp add: hasRosterRow_def sampleStore_def ofPortal_def emptyChat_def)
  from roster_roundtrip [OF this, of "[]" 7] show ?thesis by (simp add: normalizeAll_def)
qed

text \<open>The self-heal settles: after it has overwritten a stored roster with a normalised one, running it
  again with the same members writes nothing.\<close>

theorem roster_sync_settles:
  assumes "syncStoredGroupRoster l now p ps isSelf (s, []) = (Inr (n, True), s1, [])"
    and "list_all ascii ps" "normalizeAll ps = ps"
  shows "syncStoredGroupRoster l later p ps isSelf (s1, []) = (Inr (length ps, False), s1, [])"
proof -
  obtain q where q: "getChatParticipantsByPortalID l p (s, []) = (q, s, [])"
    using roster_reads [of l p s] by (metis prod.collapse)
  obtain x where x: "getChatParticipantsByPortalID l p (s, []) = (Inr x, s, [])" "coalesce x [] \<noteq> []"
    and u: "updateChatParticipants l now p (Some ps) (s, []) = (Inr (), s1, [])"
    using assms(1) by (cases q)
      (auto simp: syncStoredGroupRoster_def dbBind_def dbReturn_def Let_def q split: prod.splits sum.splits if_splits)
  have "hasRosterRow l p s"
  proof (rule ccontr)
    assume "\<not> hasRosterRow l p s"
    then have "rosterRow (ofPortal l p) s = None" "isGid p \<Longrightarrow> rosterRow (ofGroup l (gidUUID p)) s = None"
      by (auto simp: hasRosterRow_def intro: rosterRow_none)
    then have "getChatParticipantsByPortalID l p (s, []) = (Inr None, s, [])"
      by (cases "isGid p") (simp_all add: getChatParticipantsByPortalID_def dbBind_def dbTry_def dbReturn_def)
    then show False using x by (simp add: coalesce_def)
  qed
  from roster_written [OF this, of now "Some ps"] u
  have r: "rosterRow (ofPortal l p) s1 = Some (marshalStrings (Some ps))
       \<or> isGid p \<and> rosterRow (ofPortal l p) s1 = None \<and> rosterRow (ofGroup l (gidUUID p)) s1 = Some (marshalStrings (Some ps))"
    by auto
  have g: "getChatParticipantsByPortalID l p (s1, []) = (Inr (Some ps), s1, [])"
    using roster_read [OF r unmarshal_marshal(1) [OF assms(2)]] assms(3) by (simp add: coalesce_def)
  have "participantSetsMatch ps ps isSelf \<or> ps = []"
    by (simp add: participantSetsMatch_def)
  then show ?thesis
    using g by (auto simp: syncStoredGroupRoster_def dbBind_def dbReturn_def coalesce_def)
qed


theorem roster_sync_settles_witness:
  "\<exists>s1. syncStoredGroupRoster ''me'' 1 ''gid:g'' [''mailto:new@x.org''] None
       (sampleStore\<lparr>chats := [(emptyChat ''me'' ''c'' ''gid:g'' 0)\<lparr>cParticipants := Some (marshalStrings (Some [''mailto:old@x.org'']))\<rparr>]\<rparr>, [])
       = (Inr (1, True), s1, [])
     \<and> syncStoredGroupRoster ''me'' 2 ''gid:g'' [''mailto:new@x.org''] None (s1, []) = (Inr (1, False), s1, [])"
proof -
  let ?c = "(emptyChat ''me'' ''c'' ''gid:g'' 0)\<lparr>cParticipants := Some (marshalStrings (Some [''mailto:old@x.org'']))\<rparr>"
  let ?s = "sampleStore\<lparr>chats := [?c]\<rparr>"
  have asc: "list_all ascii [''mailto:old@x.org'']" "list_all ascii [''mailto:new@x.org'']" by simp_all
  have "normalizeIdentifierForPortalID (''mailto:'' @ ''old@x.org'') = ''mailto:'' @ ''old@x.org''"
    "normalizeIdentifierForPortalID (''mailto:'' @ ''new@x.org'') = ''mailto:'' @ ''new@x.org''"
    by (rule canonical_mailto; simp add: ToLower_ascii lowerChar_def toLowerRune_def char_of_eq_iff spaceChar_def isSpace_def)+
  then have norm: "normalizeAll [''mailto:old@x.org''] = [''mailto:old@x.org'']" "normalizeAll [''mailto:new@x.org''] = [''mailto:new@x.org'']"
    by (simp_all add: normalizeAll_def)
  have "rosterRow (ofPortal ''me'' ''gid:g'') ?s = Some (marshalStrings (Some [''mailto:old@x.org'']))"
    using marshal_nonempty by (simp add: rosterRow_def ofPortal_def emptyChat_def coalesce_def)
  then have "getChatParticipantsByPortalID ''me'' ''gid:g'' (?s, []) = (Inr (Some [''mailto:old@x.org'']), ?s, [])"
    using roster_read [OF disjI1 unmarshal_marshal(1) [OF asc(1)], of "''me''" "''gid:g''" ?s] by (simp add: coalesce_def norm)
  moreover have "hasRosterRow ''me'' ''gid:g'' ?s" by (simp add: hasRosterRow_def ofPortal_def emptyChat_def)
  then obtain s1 where "updateChatParticipants ''me'' 1 ''gid:g'' (Some [''mailto:new@x.org'']) (?s, []) = (Inr (), s1, [])"
    using roster_written by blast
  ultimately have "syncStoredGroupRoster ''me'' 1 ''gid:g'' [''mailto:new@x.org''] None (?s, []) = (Inr (1, True), s1, [])"
    by (simp add: syncStoredGroupRoster_def dbBind_def dbReturn_def coalesce_def participantSetsMatch_def)
  with roster_sync_settles [OF this asc(2) norm(2), of 2] show ?thesis by simp
qed

end
