(* ===== verification/GroupPortals.thy ===== *)
theory GroupPortals
  imports Contacts CloudPortals "HOL-Library.AList"
begin

text \<open>
  Group portals: the caches of \<open>IMClient\<close> about groups, and the functions of \<open>client.go\<close> that decide which
  portal a message belongs to.  A group is named by its UUID or by its members; one group can arrive under
  several UUIDs, and its member list with or without the user.

  A Go map that is ranged over is an association list: its order is the order of the iteration, which Go
  leaves open.  \<open>be_range\<close> is the order of the one map that is local to a function.  What a
  function starts in a goroutine or queues for bridgev2 is a value of \<open>effect\<close>.
\<close>

section \<open>State\<close>

record PortalKey =
  pk_ID :: bytes
  pk_Receiver :: bytes

record PortalMetadata =
  ThreadID :: bytes
  SenderGuid :: bytes
  GroupName :: bytes
  IsSms :: bool

text \<open>\<open>groupPortalIndex\<close> is \<open>None\<close> until it has been loaded; \<open>portalMeta\<close> is the metadata bridgev2 keeps for
  its portals.\<close>

record group_state =
  imGroupNames :: "(bytes \<times> bytes) list"
  imGroupGuids :: "(bytes \<times> bytes) list"
  imGroupParticipants :: "(bytes \<times> bytes list) list"
  groupPortalIndex :: "(bytes \<times> bytes list) list option"
  lastGroupForMember :: "(bytes \<times> PortalKey) list"
  gidAliases :: "(bytes \<times> bytes) list"
  smsPortals :: "(bytes \<times> bool) list"
  portalMeta :: "(bytes \<times> PortalMetadata) list"

text \<open>What these functions ask bridgev2: \<open>GetAllWithMXID\<close>, beside \<open>ie_portalExists\<close> for a portal with a room.\<close>

record genv = imenv +
  be_portals :: "PortalKey list option"
  be_range :: "bytes list \<Rightarrow> bytes list"

definition keyOf :: "genv \<Rightarrow> bytes \<Rightarrow> PortalKey" where
  "keyOf c portalID = \<lparr>pk_ID = portalID, pk_Receiver = ie_loginID c\<rparr>"

text \<open>Reading a map gives the zero value for a missing key.\<close>

definition getOr :: "'v \<Rightarrow> ('k \<times> 'v) list \<Rightarrow> 'k \<Rightarrow> 'v" where
  "getOr zero m k = (case map_of m k of Some v \<Rightarrow> v | None \<Rightarrow> zero)"

definition isSelf :: "genv \<Rightarrow> bytes \<Rightarrow> bool" where
  "isSelf c = isMyHandle (ie_allHandles c)"

definition canonicalList :: "genv \<Rightarrow> bytes list \<Rightarrow> bytes list" where
  "canonicalList c = buildCanonicalParticipantList (ie_allHandles c) (ie_handle c)"

definition nonSelf :: "genv \<Rightarrow> bytes list \<Rightarrow> bytes option \<Rightarrow> nat" where
  "nonSelf c = countNonSelfMembers (imenv.truncate c)"

definition dmPortal :: "genv \<Rightarrow> bytes \<Rightarrow> bytes" where
  "dmPortal c handle =
     resolveExistingDMPortalID (imenv.truncate c) (resolveContactPortalID (imenv.truncate c) handle)"

section \<open>The index of members\<close>

definition indexMembers :: "bytes \<Rightarrow> (bytes \<times> bytes list) list \<Rightarrow> (bytes \<times> bytes list) list" where
  "indexMembers portalID idx =
     fold (\<lambda>m idx. AList.update m (List.insert portalID (getOr [] idx m)) idx) (Split portalID (CHR '','')) idx"

definition ensureGroupPortalIndex :: "genv \<Rightarrow> group_state \<Rightarrow> group_state" where
  "ensureGroupPortalIndex c st =
     (if groupPortalIndex st \<noteq> None then st
      else case be_portals c of
        None \<Rightarrow> st
      | Some ps \<Rightarrow> st\<lparr>groupPortalIndex := Some (fold (\<lambda>p idx.
            if Contains (pk_ID p) '','' \<and> pk_Receiver p = ie_loginID c then indexMembers (pk_ID p) idx else idx)
            ps [])\<rparr>)"

definition indexGroupPortalLocked :: "bytes \<Rightarrow> group_state \<Rightarrow> group_state" where
  "indexGroupPortalLocked portalID st =
     (case groupPortalIndex st of
        None \<Rightarrow> st
      | Some idx \<Rightarrow> if \<not> Contains portalID '','' then st
                    else st\<lparr>groupPortalIndex := Some (indexMembers portalID idx)\<rparr>)"

definition registerGroupPortal :: "bytes \<Rightarrow> group_state \<Rightarrow> group_state" where
  "registerGroupPortal portalID st = indexGroupPortalLocked portalID st"

definition portalsOf :: "group_state \<Rightarrow> bytes \<Rightarrow> bytes list" where
  "portalsOf st member = (case groupPortalIndex st of None \<Rightarrow> [] | Some idx \<Rightarrow> getOr [] idx member)"

section \<open>Moving a portal\<close>

definition moveKey :: "'k \<Rightarrow> 'k \<Rightarrow> ('k \<times> 'v) list \<Rightarrow> ('k \<times> 'v) list" where
  "moveKey old new m = (case map_of m old of
     Some v \<Rightarrow> AList.delete old (AList.update new v m) | None \<Rightarrow> m)"

definition redirect :: "'v \<Rightarrow> 'v \<Rightarrow> ('k \<times> 'v) list \<Rightarrow> ('k \<times> 'v) list" where
  "redirect old new m = map (\<lambda>(k, v). (k, if v = old then new else v)) m"

definition unindexMembers :: "bytes \<Rightarrow> (bytes \<times> bytes list) list \<Rightarrow> (bytes \<times> bytes list) list" where
  "unindexMembers oldID idx = fold (\<lambda>m idx. case map_of idx m of
       None \<Rightarrow> idx
     | Some portals \<Rightarrow> (let rest = removeAll oldID portals in
         if rest = [] then AList.delete m idx else AList.update m rest idx))
     (Split oldID (CHR '','')) idx"

text \<open>\<open>reID\<close> is bridgev2's \<open>ReIDPortal\<close>: whether it succeeded, and what it leaves of bridgev2.\<close>

definition reIDPortalWithCacheUpdate :: "(PortalKey \<Rightarrow> PortalKey \<Rightarrow> 'b \<Rightarrow> bool \<times> 'b) \<Rightarrow> PortalKey \<Rightarrow> PortalKey
    \<Rightarrow> group_state \<times> 'b \<Rightarrow> bool \<times> group_state \<times> 'b" where
  "reIDPortalWithCacheUpdate reID oldKey newKey w =
     (case w of (st, b) \<Rightarrow> (case reID oldKey newKey b of
        (False, b') \<Rightarrow> (False, st, b')
      | (True, b') \<Rightarrow>
          let oldID = pk_ID oldKey; newID = pk_ID newKey;
              st1 = st\<lparr>imGroupNames := moveKey oldID newID (imGroupNames st),
                imGroupGuids := moveKey oldID newID (imGroupGuids st),
                imGroupParticipants := moveKey oldID newID (imGroupParticipants st),
                groupPortalIndex := map_option (unindexMembers oldID) (groupPortalIndex st)\<rparr>;
              st2 = indexGroupPortalLocked newID st1 in
          (True, st2\<lparr>lastGroupForMember := redirect oldKey newKey (lastGroupForMember st2),
             gidAliases := redirect oldID newID (gidAliases st2),
             smsPortals := moveKey oldID newID (smsPortals st2)\<rparr>, b')))"

section \<open>Matching by members\<close>

definition sharedCount :: "group_state \<Rightarrow> bytes list \<Rightarrow> bytes \<Rightarrow> nat" where
  "sharedCount st candidate existingID = length (filter (\<lambda>m. existingID \<in> set (portalsOf st m)) candidate)"

definition overlapping :: "genv \<Rightarrow> group_state \<Rightarrow> bytes list \<Rightarrow> bytes list" where
  "overlapping c st candidate = be_range c (remdups (concat (map (portalsOf st) candidate)))"

definition memberDiff :: "group_state \<Rightarrow> bytes list \<Rightarrow> bytes \<Rightarrow> int" where
  "memberDiff st candidate existingID =
     (let shared = int (sharedCount st candidate existingID) in
      (int (length candidate) - shared) + (int (length (Split existingID (CHR '',''))) - shared))"

definition sameGroup :: "genv \<Rightarrow> group_state \<Rightarrow> bytes list \<Rightarrow> bytes \<Rightarrow> bool" where
  "sameGroup c st candidate existingID =
     (let diff = memberDiff st candidate existingID in
      \<not> 1 < diff \<and> \<not> (diff = 1
         \<and> \<not> participantSetsMatch candidate (Split existingID (CHR '','')) (Some (isSelf c))))"

definition guidConflict :: "group_state \<Rightarrow> bytes option \<Rightarrow> bytes \<Rightarrow> bool" where
  "guidConflict st senderGuid existingID =
     (case senderGuid of
        None \<Rightarrow> False
      | Some sg \<Rightarrow> sg \<noteq> [] \<and> (let existingGuid = getOr [] (imGroupGuids st) existingID in
            existingGuid \<noteq> [] \<and> existingGuid \<noteq> sg))"

definition resolveExistingGroupPortalID :: "genv \<Rightarrow> bytes \<Rightarrow> bytes option \<Rightarrow> group_state \<Rightarrow> bytes \<times> group_state" where
  "resolveExistingGroupPortalID c computedID senderGuid st0 =
     (let st = ensureGroupPortalIndex c st0; candidate = Split computedID (CHR '','') in
      if ie_portalExists c computedID then (computedID, st)
      else case find (\<lambda>existingID. sameGroup c st candidate existingID
               \<and> \<not> guidConflict st senderGuid existingID \<and> ie_portalExists c existingID)
             (overlapping c st candidate) of
          Some existingID \<Rightarrow> (existingID, st)
        | None \<Rightarrow> (computedID, registerGroupPortal computedID st))"

end
