(* ===== verification/GroupRouting.thy ===== *)
theory GroupRouting
  imports GroupPortals
begin

text \<open>
  Which portal an incoming message goes to (\<open>makePortalKey\<close> of \<open>client.go\<close> and what it calls), which portal
  a bare receipt or typing notice belongs to, and which recipients an outgoing message has
  (\<open>portalToConversation\<close>).
\<close>

section \<open>Stale cache entries\<close>

definition guidCacheMatchIsStale :: "genv \<Rightarrow> group_state \<Rightarrow> bytes \<Rightarrow> bytes list \<Rightarrow> bool" where
  "guidCacheMatchIsStale c st portalIDStr rawParticipants =
     (if rawParticipants = [] then False
      else let cached = getOr [] (imGroupParticipants st) portalIDStr in
        if \<not> Contains portalIDStr '','' \<and> cached = [] then False
        else let portalParts = (if Contains portalIDStr '','' then Split portalIDStr (CHR '','') else cached) in
          list_ex (\<lambda>p. p \<notin> set portalParts \<and> \<not> isSelf c p) (canonicalList c rawParticipants))"

definition clearStaleGuid :: "bytes \<Rightarrow> bytes \<Rightarrow> group_state \<Rightarrow> group_state" where
  "clearStaleGuid portalIDStr guid st =
     st\<lparr>imGroupGuids := (if map_of (imGroupGuids st) portalIDStr = Some guid
                        then AList.delete portalIDStr (imGroupGuids st) else imGroupGuids st),
       portalMeta := (case map_of (portalMeta st) portalIDStr of
          Some meta \<Rightarrow> if SenderGuid meta = guid
                       then AList.update portalIDStr (meta\<lparr>SenderGuid := []\<rparr>) (portalMeta st) else portalMeta st
        | None \<Rightarrow> portalMeta st)\<rparr>"

section \<open>resolveExistingGroupByGid\<close>

fun byCachedGuid :: "genv \<Rightarrow> bytes \<Rightarrow> bytes list \<Rightarrow> (bytes \<times> bytes) list \<Rightarrow> group_state \<Rightarrow> bytes option \<times> group_state" where
  "byCachedGuid c normalizedGuid ps [] st = (None, st)"
| "byCachedGuid c normalizedGuid ps ((portalIDStr, guid) # rest) st =
     (if ToLower guid \<noteq> normalizedGuid then byCachedGuid c normalizedGuid ps rest st
      else if guidCacheMatchIsStale c st portalIDStr ps
        then byCachedGuid c normalizedGuid ps rest (clearStaleGuid portalIDStr guid st)
      else if ie_portalExists c portalIDStr then (Some portalIDStr, st)
      else byCachedGuid c normalizedGuid ps rest st)"

definition byCachedParticipants :: "genv \<Rightarrow> bytes \<Rightarrow> bytes list \<Rightarrow> group_state \<Rightarrow> bytes option" where
  "byCachedParticipants c gidPortalID normalizedParts st = map_option fst (find (\<lambda>(portalIDStr, parts).
       portalIDStr \<noteq> gidPortalID \<and> HasPrefix portalIDStr ''gid:''
       \<and> participantSetsMatch parts normalizedParts (Some (isSelf c)) \<and> ie_portalExists c portalIDStr)
     (imGroupParticipants st))"

text \<open>An exact match ends the loop, a match up to an own handle is remembered.\<close>

fun matchLoop :: "genv \<Rightarrow> group_state \<Rightarrow> bytes list \<Rightarrow> bytes list \<Rightarrow> bytes \<Rightarrow> bytes \<times> bytes" where
  "matchLoop c st deduped [] fuzzyMatch = ([], fuzzyMatch)"
| "matchLoop c st deduped (existingID # rest) fuzzyMatch =
     (if sameGroup c st deduped existingID \<and> ie_portalExists c existingID then
        (if memberDiff st deduped existingID = 0 then (existingID, fuzzyMatch)
         else matchLoop c st deduped rest (if fuzzyMatch = [] then existingID else fuzzyMatch))
      else matchLoop c st deduped rest fuzzyMatch)"

definition byStoredRoster :: "genv \<Rightarrow> bytes \<Rightarrow> bytes \<Rightarrow> bytes list \<Rightarrow> bytes db" where
  "byStoredRoster c l gidPortalID normalizedParts =
     dbBind (dbTry (findPortalIDsByParticipants l normalizedParts (Some (isSelf c)))) (\<lambda>r.
       case r of
         Inl _ \<Rightarrow> dbReturn gidPortalID
       | Inr found \<Rightarrow>
           (case find (\<lambda>p. p \<noteq> gidPortalID \<and> (HasPrefix p ''gid:'' \<or> Contains p '','') \<and> ie_portalExists c p) found of
              Some p \<Rightarrow> dbReturn p | None \<Rightarrow> dbReturn gidPortalID))"

definition resolveExistingGroupByGid :: "genv \<Rightarrow> bytes \<Rightarrow> bytes \<Rightarrow> bytes \<Rightarrow> bytes list \<Rightarrow> group_state
    \<Rightarrow> (bytes \<times> group_state) db" where
  "resolveExistingGroupByGid c l gidPortalID senderGuid ps st0 =
     (case byCachedGuid c (ToLower senderGuid) ps (imGroupGuids st0) st0 of
        (Some portalID, st) \<Rightarrow> dbReturn (portalID, st)
      | (None, st) \<Rightarrow>
          let normalizedParts = normalizeAll ps in
          if normalizedParts = [] then dbReturn (gidPortalID, st)
          else case byCachedParticipants c gidPortalID normalizedParts st of
            Some portalID \<Rightarrow> dbReturn (portalID, st)
          | None \<Rightarrow>
              let st' = ensureGroupPortalIndex c st; deduped = canonicalList c normalizedParts;
                  (exactMatch, fuzzyMatch) = matchLoop c st' deduped (overlapping c st' deduped) [] in
              if exactMatch \<noteq> [] then dbReturn (exactMatch, st')
              else if fuzzyMatch \<noteq> [] then dbReturn (fuzzyMatch, st')
              else dbBind (byStoredRoster c l gidPortalID normalizedParts) (\<lambda>p. dbReturn (p, st')))"

section \<open>makePortalKey\<close>

text \<open>What a function starts in a goroutine or queues for bridgev2: a rename of the room, the roster of a new group,
  the metadata of the portal, the download of group photos, the deletion of a room.\<close>

datatype effect =
    RenameRoom bytes bytes
  | PersistRoster bytes "bytes list" bytes
  | PersistMeta bytes bytes bytes
  | WarmPhotos "bytes list"
  | ChatDelete bytes

definition nonEmpty :: "bytes option \<Rightarrow> bool" where
  "nonEmpty s = (case s of None \<Rightarrow> False | Some t \<Rightarrow> t \<noteq> [])"

definition isGroupMessage :: "genv \<Rightarrow> bytes list \<Rightarrow> bytes option \<Rightarrow> bytes option \<Rightarrow> bool" where
  "isGroupMessage c ps groupName sender = (2 \<le> nonSelf c ps sender \<or> nonEmpty groupName)"

text \<open>The alias of a UUID, unless the members contradict it.\<close>

definition useAlias :: "genv \<Rightarrow> bytes \<Rightarrow> bytes list \<Rightarrow> group_state \<Rightarrow> bytes \<times> group_state" where
  "useAlias c gidID ps st =
     (case map_of (gidAliases st) gidID of
        None \<Rightarrow> ([], st)
      | Some aliasedID \<Rightarrow>
          let canonical = canonicalList c ps in
          if ps \<noteq> [] \<and> canonical \<noteq> [] \<and> guidCacheMatchIsStale c st aliasedID canonical
          then ([], st\<lparr>gidAliases := AList.delete gidID (gidAliases st)\<rparr>)
          else (aliasedID, st))"

definition gidPortal :: "genv \<Rightarrow> bytes \<Rightarrow> bytes \<Rightarrow> bytes list \<Rightarrow> group_state \<Rightarrow> (bytes \<times> group_state) db" where
  "gidPortal c l senderGuid ps st0 =
     (let gidID = ''gid:'' @ ToLower senderGuid; (portalID, st) = useAlias c gidID ps st0 in
      if portalID \<noteq> [] then dbReturn (portalID, st)
      else if ie_portalExists c gidID then dbReturn (gidID, st)
      else dbBind (resolveExistingGroupByGid c l gidID senderGuid ps st) (\<lambda>(p, st').
        dbReturn (p, if p \<noteq> gidID then st'\<lparr>gidAliases := AList.update gidID p (gidAliases st')\<rparr> else st')))"

definition groupPortal :: "genv \<Rightarrow> bytes \<Rightarrow> bytes list \<Rightarrow> bytes option \<Rightarrow> bool \<Rightarrow> group_state \<Rightarrow> (bytes \<times> group_state) db" where
  "groupPortal c l ps senderGuid isSms st =
     (case senderGuid of
        Some sg \<Rightarrow>
          if sg \<noteq> [] \<and> \<not> isSms then gidPortal c l sg ps st
          else dbReturn (resolveExistingGroupPortalID c (Join (canonicalList c ps) '','')
                           (if isSms then None else senderGuid) st)
      | None \<Rightarrow> dbReturn (resolveExistingGroupPortalID c (Join (canonicalList c ps) '','') None st))"

definition rememberGroup :: "genv \<Rightarrow> bytes \<Rightarrow> bytes list \<Rightarrow> bytes option \<Rightarrow> bytes option \<Rightarrow> bytes option
    \<Rightarrow> group_state \<Rightarrow> group_state" where
  "rememberGroup c portalID ps groupName sender senderGuid st =
     (let normalized = normalizeAll ps;
          st1 = (if nonEmpty groupName
                 then st\<lparr>imGroupNames := AList.update portalID (the groupName) (imGroupNames st)\<rparr> else st);
          st2 = (if normalized \<noteq> []
                 then st1\<lparr>imGroupParticipants := AList.update portalID normalized (imGroupParticipants st1)\<rparr> else st1);
          st3 = (if nonEmpty senderGuid
                    \<and> (Contains portalID '','' \<or> portalID = ''gid:'' @ ToLower (the senderGuid))
                 then st2\<lparr>imGroupGuids := AList.update portalID (the senderGuid) (imGroupGuids st2)\<rparr> else st2);
          from = (case sender of None \<Rightarrow> [] | Some s \<Rightarrow> if s = [] then [] else normalizeIdentifierForPortalID s) in
      if from \<noteq> [] \<and> \<not> isSelf c from
      then st3\<lparr>lastGroupForMember := AList.update from (keyOf c portalID) (lastGroupForMember st3)\<rparr> else st3)"

definition groupEffects :: "bytes \<Rightarrow> bytes list \<Rightarrow> bytes option \<Rightarrow> bytes option \<Rightarrow> group_state \<Rightarrow> effect list" where
  "groupEffects portalID ps groupName senderGuid st =
     (let guid = coalesce senderGuid []; name = coalesce groupName [] in
      (if name \<noteq> [] \<and> getOr [] (imGroupNames st) portalID \<noteq> name then [RenameRoom portalID name] else [])
      @ (if HasPrefix portalID ''gid:'' \<and> ps \<noteq> [] then [PersistRoster portalID ps guid] else [])
      @ (if guid \<noteq> [] \<or> name \<noteq> [] then [PersistMeta portalID guid name] else []))"

definition directPortal :: "genv \<Rightarrow> bytes list \<Rightarrow> bytes option \<Rightarrow> bytes" where
  "directPortal c ps sender =
     (let remote = (\<lambda>n. n \<noteq> [] \<and> \<not> isSelf c n);
          from = (case sender of None \<Rightarrow> [] | Some s \<Rightarrow> if s = [] then [] else normalizeIdentifierForPortalID s) in
      case find remote (map normalizeIdentifierForPortalID ps) of
        Some n \<Rightarrow> dmPortal c n
      | None \<Rightarrow>
          if remote from then dmPortal c from
          else (case ps of
             p # _ \<Rightarrow> (let n = normalizeIdentifierForPortalID p in
                resolveExistingDMPortalID (imenv.truncate c) (if n = [] then p else n))
           | [] \<Rightarrow> ''unknown''))"

definition makePortalKey :: "genv \<Rightarrow> bytes \<Rightarrow> bytes list \<Rightarrow> bytes option \<Rightarrow> bytes option \<Rightarrow> bytes option \<Rightarrow> bool
    \<Rightarrow> group_state \<Rightarrow> (PortalKey \<times> effect list \<times> group_state) db" where
  "makePortalKey c l ps groupName sender senderGuid isSms st =
     (if isGroupMessage c ps groupName sender then
        dbBind (groupPortal c l ps senderGuid isSms st) (\<lambda>(portalID, st').
          dbReturn (keyOf c portalID, groupEffects portalID ps groupName senderGuid st',
            rememberGroup c portalID ps groupName sender senderGuid st'))
      else dbReturn (keyOf c (directPortal c ps sender), [], st))"

definition makeReceiptPortalKey :: "genv \<Rightarrow> bytes \<Rightarrow> bytes list \<Rightarrow> bytes option \<Rightarrow> bytes option \<Rightarrow> bytes option \<Rightarrow> bool
    \<Rightarrow> group_state \<Rightarrow> (PortalKey \<times> effect list \<times> group_state) db" where
  "makeReceiptPortalKey c l ps groupName sender senderGuid isSms st =
     (if ps \<noteq> [] then makePortalKey c l ps groupName sender senderGuid isSms st
      else dbReturn (case sender of
          Some s \<Rightarrow>
            if s = [] \<or> normalizeIdentifierForPortalID s = [] then (keyOf c ''unknown'', [], st)
            else (keyOf c (dmPortal c (normalizeIdentifierForPortalID s)), [], st)
        | None \<Rightarrow> (keyOf c ''unknown'', [], st)))"

section \<open>The goroutines\<close>

definition persistRoster :: "bytes \<Rightarrow> time_ms \<Rightarrow> bytes \<Rightarrow> bytes list \<Rightarrow> bytes \<Rightarrow> unit db" where
  "persistRoster l now portalID parts guid =
     dbBind (dbTry (getChatParticipantsByPortalID l portalID)) (\<lambda>r.
       case r of
         Inr (Some (p # ps)) \<Rightarrow> dbReturn ()
       | _ \<Rightarrow> dbCatch (upsertChat l now guid [] guid portalID ''iMessage'' None None (Some parts) 0)
                (\<lambda>_. dbReturn ()))"

definition persistMeta :: "bytes \<Rightarrow> bytes \<Rightarrow> bytes \<Rightarrow> group_state \<Rightarrow> group_state" where
  "persistMeta portalID guid gname st =
     (case map_of (portalMeta st) portalID of
        None \<Rightarrow> st
      | Some meta \<Rightarrow>
          let m1 = (if guid \<noteq> [] then meta\<lparr>SenderGuid := guid\<rparr> else meta);
              m2 = (if gname \<noteq> [] then m1\<lparr>GroupName := gname\<rparr> else m1) in
          st\<lparr>portalMeta := AList.update portalID m2 (portalMeta st)\<rparr>)"

definition persistGroupParticipantsIfChanged :: "genv \<Rightarrow> bytes \<Rightarrow> time_ms \<Rightarrow> bytes \<Rightarrow> bytes list \<Rightarrow> unit db" where
  "persistGroupParticipantsIfChanged c l now portalID participants =
     (if \<not> HasPrefix portalID ''gid:'' \<or> length (normalizeAll participants) < 2 then dbReturn ()
      else dbBind (dbTry (syncStoredGroupRoster l now portalID (normalizeAll participants) (Some (isSelf c))))
        (\<lambda>_. dbReturn ()))"

section \<open>Receipts and typing notices\<close>

definition findGroupPortalForMember :: "genv \<Rightarrow> bytes \<Rightarrow> group_state \<Rightarrow> PortalKey option \<times> group_state" where
  "findGroupPortalForMember c member st =
     (let normalized = normalizeIdentifierForPortalID member in
      if normalized = [] then (None, st)
      else case map_of (lastGroupForMember st) normalized of
        Some lastGroup \<Rightarrow> (Some lastGroup, st)
      | None \<Rightarrow>
          let st' = ensureGroupPortalIndex c st in
          (case portalsOf st' normalized of
             [portalID] \<Rightarrow> (Some (keyOf c portalID), st')
           | _ \<Rightarrow> (None, st')))"

section \<open>Carrier portals\<close>

definition updatePortalSMS :: "bytes \<Rightarrow> bool \<Rightarrow> group_state \<Rightarrow> bool \<times> group_state" where
  "updatePortalSMS portalID isSms st =
     (map_of (smsPortals st) portalID \<noteq> Some isSms, st\<lparr>smsPortals := AList.update portalID isSms (smsPortals st)\<rparr>)"

definition isPortalSMS :: "group_state \<Rightarrow> bytes \<Rightarrow> bool" where
  "isPortalSMS st portalID = (case map_of (smsPortals st) portalID of
     Some val \<Rightarrow> val | None \<Rightarrow> portalID \<noteq> stripSmsSuffix portalID)"

section \<open>Outgoing messages\<close>

record WrappedConversation =
  wcParticipants :: "bytes list"
  wcGroupName :: "bytes option"
  wcSenderGuid :: "bytes option"
  wcIsSms :: bool

definition firstNonEmpty :: "bytes list \<Rightarrow> bytes" where
  "firstNonEmpty xs = (case filter (\<lambda>x. x \<noteq> []) xs of [] \<Rightarrow> [] | x # _ \<Rightarrow> x)"

definition conversationGuid :: "bytes \<Rightarrow> group_state \<Rightarrow> bytes \<times> group_state" where
  "conversationGuid portalID st =
     (let cached = getOr [] (imGroupGuids st) portalID;
          stored = (case map_of (portalMeta st) portalID of Some meta \<Rightarrow> SenderGuid meta | None \<Rightarrow> []);
          own = (if HasPrefix portalID ''gid:'' then TrimPrefix portalID ''gid:'' else []) in
      if cached \<noteq> [] then (cached, st)
      else if stored \<noteq> [] \<and> \<not> HasPrefix portalID ''gid:''
        then (stored, st\<lparr>imGroupGuids := AList.update portalID stored (imGroupGuids st)\<rparr>)
      else (firstNonEmpty [stored, own], st))"

definition conversationName :: "bytes \<Rightarrow> group_state \<Rightarrow> bytes \<times> group_state" where
  "conversationName portalID st =
     (let cached = getOr [] (imGroupNames st) portalID;
          stored = (case map_of (portalMeta st) portalID of Some meta \<Rightarrow> GroupName meta | None \<Rightarrow> []) in
      if cached \<noteq> [] then (cached, st)
      else if stored \<noteq> [] then (stored, st\<lparr>imGroupNames := AList.update portalID stored (imGroupNames st)\<rparr>)
      else ([], st))"

definition orNil :: "bytes \<Rightarrow> bytes option" where
  "orNil s = (if s = [] then None else Some s)"

definition portalToConversation :: "genv \<Rightarrow> bytes \<Rightarrow> bytes \<Rightarrow> group_state \<Rightarrow> (WrappedConversation \<times> group_state) db" where
  "portalToConversation c l portalID st =
     (let isSms = isPortalSMS st portalID in
      if isGroupPortalID portalID then
        dbBind (if HasPrefix portalID ''gid:'' then dbTry (getChatParticipantsByPortalID l portalID)
                else dbReturn (Inr (Some (Split portalID (CHR '','')))))
          (\<lambda>r. let parts = (case r of Inr ps \<Rightarrow> coalesce ps [] | Inl _ \<Rightarrow> []);
                   (name, st1) = conversationName portalID st;
                   (guid, st2) = conversationGuid portalID st1 in
             dbReturn (\<lparr>wcParticipants = parts, wcGroupName = orNil name, wcSenderGuid = orNil guid, wcIsSms = isSms\<rparr>,
               st2))
      else let sendTo = resolveSendTarget (imenv.truncate c) (stripSmsSuffix portalID) in
        dbReturn (\<lparr>wcParticipants = (if isSelf c sendTo then [sendTo] else [ie_handle c, sendTo]),
          wcGroupName = None, wcSenderGuid = None, wcIsSms = isSms\<rparr>, st))"

definition resolveGroupMembers :: "bytes \<Rightarrow> bytes \<Rightarrow> group_state \<Rightarrow> bytes list db" where
  "resolveGroupMembers l portalID st =
     (if HasPrefix portalID ''gid:'' then
        dbBind (dbTry (getChatParticipantsByPortalID l portalID)) (\<lambda>r.
          case r of
            Inr (Some (p # ps)) \<Rightarrow> dbReturn (p # ps)
          | _ \<Rightarrow> dbReturn (getOr [] (imGroupParticipants st) portalID))
      else dbReturn (Split portalID (CHR '','')))"

end
