(* ===== verification/ChatIngest.thy ===== *)
theory ChatIngest
  imports GroupRouting CloudSync
begin

text \<open>
  The import of chat records from CloudKit, \<open>sync_controller.go\<close>: the portal of a record
  (\<open>resolvePortalIDForCloudChat\<close>), the import of a page (\<open>ingestCloudChats\<close>), and the memory of recently
  deleted portals that keeps stale data from bringing them back.  \<open>WrappedCloudSyncChat\<close> is the record the
  bindings hand over.
\<close>

section \<open>State\<close>

record WrappedCloudSyncChat =
  ucRecordName :: bytes
  ucCloudChatId :: bytes
  ucGroupId :: bytes
  ucStyle :: int
  ucService :: bytes
  ucDisplayName :: "bytes option"
  ucParticipants :: "bytes list"
  ucDeleted :: bool
  ucUpdatedTimestampMs :: "64 word"
  ucGroupPhotoGuid :: "bytes option"
  ucIsFiltered :: int

record cloudSyncCounters =
  nImported :: nat
  nUpdated :: nat
  nSkipped :: nat
  nDeleted :: nat
  nFiltered :: nat

definition noCounts :: cloudSyncCounters where
  "noCounts = \<lparr>nImported = 0, nUpdated = 0, nSkipped = 0, nDeleted = 0, nFiltered = 0\<rparr>"

definition addCounts :: "cloudSyncCounters \<Rightarrow> cloudSyncCounters \<Rightarrow> cloudSyncCounters" where
  "addCounts c other = \<lparr>nImported = nImported c + nImported other, nUpdated = nUpdated c + nUpdated other,
     nSkipped = nSkipped c + nSkipped other, nDeleted = nDeleted c + nDeleted other,
     nFiltered = nFiltered c + nFiltered other\<rparr>"

record deletedPortalEntry =
  deletedAt :: time_ms
  isTombstone :: bool

record client_state =
  groups :: group_state
  recentlyDeletedPortals :: "(bytes \<times> deletedPortalEntry) list"
  effects :: "effect list"

section \<open>Recently deleted portals\<close>

definition recentlyDeletedPortalsTTL :: time_ms where
  "recentlyDeletedPortalsTTL = 24 * 60 * 60 * 1000"

definition trackDeletedChat :: "bytes \<Rightarrow> time_ms \<Rightarrow> bytes \<Rightarrow> client_state \<Rightarrow> client_state db" where
  "trackDeletedChat l now portalID w =
     (let entry = \<lparr>deletedAt = now, isTombstone = False\<rparr>;
          mark = (\<lambda>p w. w\<lparr>recentlyDeletedPortals := AList.update p entry (recentlyDeletedPortals w)\<rparr>) in
      if isGid portalID then
        dbBind (dbTry (findPortalIDsByGroupID l (gidUUID portalID))) (\<lambda>r.
          dbReturn (case r of
            Inl _ \<Rightarrow> mark portalID w
          | Inr aliases \<Rightarrow> fold mark (filter (\<lambda>a. a \<noteq> portalID) aliases) (mark portalID w)))
      else dbReturn (mark portalID w))"

definition pruneRecentlyDeletedPortals :: "time_ms \<Rightarrow> client_state \<Rightarrow> client_state" where
  "pruneRecentlyDeletedPortals now w =
     w\<lparr>recentlyDeletedPortals := filter (\<lambda>(_, entry). \<not> deletedAt entry < now - recentlyDeletedPortalsTTL)
        (recentlyDeletedPortals w)\<rparr>"

section \<open>The portal of a chat record\<close>

definition resolvePortalIDForCloudChat :: "genv \<Rightarrow> bytes \<Rightarrow> bytes list \<Rightarrow> bytes option \<Rightarrow> bytes \<Rightarrow> int \<Rightarrow> bytes
    \<Rightarrow> group_state \<Rightarrow> (bytes \<times> effect list \<times> group_state) db" where
  "resolvePortalIDForCloudChat c l participants displayName groupID style service st =
     (let normalizedParticipants = normalizeAll participants; isGroup = (style = 43);
          remote = filter (\<lambda>p. \<not> isSelf c p) normalizedParticipants in
      if normalizedParticipants = [] then dbReturn ([], [], st)
      else if isGroup \<and> isCarrierService service \<and> 2 \<le> nonSelf c participants None
        then dbReturn (Join (canonicalList c participants) '','', [], st)
      else if isGroup \<and> groupID \<noteq> [] then dbReturn (''gid:'' @ ToLower groupID, [], st)
      else case remote of
        [handle] \<Rightarrow>
          let resolved = resolveContactPortalID (imenv.truncate c) handle;
              resolved' = (if resolved = handle then canonicalContactHandle (imenv.truncate c) handle else resolved) in
          dbReturn (resolveExistingDMPortalID (imenv.truncate c) resolved', [], st)
      | [] \<Rightarrow> dbReturn (hd normalizedParticipants, [], st)
      | _ \<Rightarrow>
          dbBind (makePortalKey c l normalizedParticipants displayName None
                    (if isGroup \<and> groupID \<noteq> [] then Some groupID else None) (isCarrierService service) st)
            (\<lambda>(key, effs, st'). dbReturn (pk_ID key, effs, st')))"

section \<open>The import of a page of chats\<close>

text \<open>\<open>strings.EqualFold\<close> against an ASCII string: the long s and the Kelvin sign fold to ASCII letters.\<close>

definition foldRune :: "nat \<Rightarrow> nat" where
  "foldRune r = (if 65 \<le> r \<and> r \<le> 90 then r + 32 else if r = 0x17F then 115 else if r = 0x212A then 107 else r)"

definition EqualFoldASCII :: "bytes \<Rightarrow> bytes \<Rightarrow> bool" where
  "EqualFoldASCII s t = (map (foldRune \<circ> fst) (runes s) = map (foldRune \<circ> fst) (runes t))"

definition upsertRowOf :: "bytes \<Rightarrow> WrappedCloudSyncChat \<Rightarrow> cloudChatUpsertRow" where
  "upsertRowOf portalID chat =
     \<lparr>uCloudChatID = ucCloudChatId chat, uRecordName = ucRecordName chat, uGroupID = ucGroupId chat,
      uPortalID = portalID, uService = ucService chat, uDisplayName = ucDisplayName chat,
      uGroupPhotoGuid = ucGroupPhotoGuid chat,
      uParticipantsJSON = marshalStrings (Some (ucParticipants chat)),
      uUpdatedTS = sint (ucUpdatedTimestampMs chat), uIsFiltered = ucIsFiltered chat\<rparr>"

definition countChat :: "bytes set \<Rightarrow> WrappedCloudSyncChat \<Rightarrow> cloudSyncCounters \<Rightarrow> cloudSyncCounters" where
  "countChat existingSet chat counts =
     (if ucIsFiltered chat \<noteq> 0 then counts\<lparr>nFiltered := nFiltered counts + 1\<rparr>
      else if ucCloudChatId chat \<in> existingSet then counts\<lparr>nUpdated := nUpdated counts + 1\<rparr>
      else counts\<lparr>nImported := nImported counts + 1\<rparr>)"

definition noteService :: "bytes \<Rightarrow> bytes \<Rightarrow> group_state \<Rightarrow> group_state" where
  "noteService portalID service st =
     (if isCarrierService service then snd (updatePortalSMS portalID True st)
      else if EqualFoldASCII service ''iMessage'' then snd (updatePortalSMS portalID False st)
      else st)"

record chat_page =
  cpCounts :: cloudSyncCounters
  cpBatch :: "cloudChatUpsertRow list"
  cpDeletedRecords :: "bytes list"
  cpPhotos :: "bytes list"
  cpClient :: client_state

definition chatStep :: "genv \<Rightarrow> bytes \<Rightarrow> bytes set \<Rightarrow> WrappedCloudSyncChat \<Rightarrow> chat_page \<Rightarrow> chat_page db" where
  "chatStep c l existingSet chat pg =
     (let counts = cpCounts pg; w = cpClient pg in
      if ucDeleted chat then
        dbReturn (pg\<lparr>cpCounts := counts\<lparr>nDeleted := nDeleted counts + 1\<rparr>,
                   cpDeletedRecords := cpDeletedRecords pg @ [ucRecordName chat]\<rparr>)
      else dbBind (resolvePortalIDForCloudChat c l (ucParticipants chat) (ucDisplayName chat) (ucGroupId chat)
                     (ucStyle chat) (ucService chat) (groups w))
        (\<lambda>(portalID, effs, st).
           if portalID = [] then
             dbReturn (pg\<lparr>cpCounts := counts\<lparr>nSkipped := nSkipped counts + 1\<rparr>,
               cpClient := w\<lparr>groups := st, effects := effects w @ effs\<rparr>\<rparr>)
           else
             dbReturn (pg\<lparr>cpCounts := countChat existingSet chat counts,
               cpBatch := cpBatch pg @ [upsertRowOf portalID chat],
               cpPhotos := cpPhotos pg @ (if nonEmpty (ucGroupPhotoGuid chat) then [portalID] else []),
               cpClient := w\<lparr>groups := noteService portalID (ucService chat) st, effects := effects w @ effs\<rparr>\<rparr>)))"

text \<open>A portal seeded from the recycle bin that CloudKit now lists is alive again.\<close>

fun clearTombstones :: "bytes list \<Rightarrow> (bytes \<times> deletedPortalEntry) list \<Rightarrow> bytes list \<times> (bytes \<times> deletedPortalEntry) list" where
  "clearTombstones [] m = ([], m)"
| "clearTombstones (p # ps) m =
     (case map_of m p of
        Some entry \<Rightarrow>
          if isTombstone entry
          then (case clearTombstones ps (AList.delete p m) of (cleared, m') \<Rightarrow> (p # cleared, m'))
          else clearTombstones ps m
      | None \<Rightarrow> clearTombstones ps m)"

definition buryPortal :: "genv \<Rightarrow> bytes \<Rightarrow> time_ms \<Rightarrow> bytes \<Rightarrow> client_state \<Rightarrow> client_state db" where
  "buryPortal c l now portalID w =
     dbBind (dbTry (deleteLocalChatByPortalID l now portalID)) (\<lambda>r.
       dbReturn (case r of
         Inl _ \<Rightarrow> w
       | Inr _ \<Rightarrow> w\<lparr>recentlyDeletedPortals :=
             AList.update portalID \<lparr>deletedAt = now, isTombstone = True\<rparr> (recentlyDeletedPortals w),
           effects := effects w @ (if ie_portalExists c portalID then [ChatDelete portalID] else [])\<rparr>))"

definition buryRecords :: "genv \<Rightarrow> bytes \<Rightarrow> time_ms \<Rightarrow> bytes list \<Rightarrow> client_state \<Rightarrow> (err option \<times> client_state) db" where
  "buryRecords c l now deletedRecordNames w =
     (if deletedRecordNames = [] then dbReturn (None, w)
      else dbBind (dbTry (lookupPortalIDsByRecordNames l deletedRecordNames)) (\<lambda>found.
        let portalMap = (case found of Inl _ \<Rightarrow> Map.empty | Inr m \<Rightarrow> m);
            names = be_range c (filter (\<lambda>n. portalMap n \<noteq> None) (remdups deletedRecordNames)) in
        dbBind (dbTry (wrapErr ''failed to soft-delete tombstoned chats by record_name''
                         (deleteChatsByRecordNames l now deletedRecordNames))) (\<lambda>r.
          case r of
            Inl e \<Rightarrow> dbReturn (Some e, w)
          | Inr _ \<Rightarrow> dbBind (dbFold (\<lambda>n w. buryPortal c l now (the (portalMap n)) w) names w)
                       (\<lambda>w'. dbReturn (None, w')))))"

definition ingestCloudChats :: "genv \<Rightarrow> bytes \<Rightarrow> time_ms \<Rightarrow> WrappedCloudSyncChat list \<Rightarrow> client_state
    \<Rightarrow> (cloudSyncCounters \<times> err option \<times> client_state) db" where
  "ingestCloudChats c l now chats0 w =
     dbBind (dbTry (wrapErr ''batch chat existence check failed''
               (hasChatBatch l (map ucCloudChatId (filter (\<lambda>ch. \<not> ucDeleted ch) chats0))))) (\<lambda>ex.
     case ex of
       Inl e \<Rightarrow> dbReturn (noCounts, Some e, w)
     | Inr existingSet \<Rightarrow>
         dbBind (dbFold (chatStep c l existingSet) chats0
           \<lparr>cpCounts = noCounts, cpBatch = [], cpDeletedRecords = [], cpPhotos = [], cpClient = w\<rparr>) (\<lambda>pg.
         dbBind (dbTry (upsertChatBatch l now (cpBatch pg))) (\<lambda>r.
         case r of
           Inl e \<Rightarrow> dbReturn (cpCounts pg, Some e, cpClient pg)
         | Inr _ \<Rightarrow>
             let w1 = cpClient pg;
                 (cleared, dels) = clearTombstones (map uPortalID (cpBatch pg)) (recentlyDeletedPortals w1);
                 w2 = w1\<lparr>recentlyDeletedPortals := dels\<rparr>;
                 w3 = w2\<lparr>effects := effects w2 @ (if cpPhotos pg = [] then [] else [WarmPhotos (cpPhotos pg)])\<rparr> in
             dbBind (dbEach (\<lambda>p. dbCatch (undeleteCloudChatByPortalID l now p) (\<lambda>_. dbReturn ())) cleared) (\<lambda>_.
             dbBind (buryRecords c l now (cpDeletedRecords pg) w3) (\<lambda>(e, w4).
             dbReturn (cpCounts pg, e, w4))))))"

end
