(* ===== verification/GroupSpec.thy ===== *)
theory GroupSpec
  imports ChatIngest CloudRosterSpec
begin

section \<open>The maps\<close>

lemma getOr_update: "getOr z (AList.update k v m) k' = (if k' = k then v else getOr z m k')"
  by (simp add: getOr_def update_conv')

lemma map_of_moveKey:
  "map_of (moveKey old new m) = (case map_of m old of None \<Rightarrow> map_of m | Some v \<Rightarrow> (map_of m)(new \<mapsto> v, old := None))"
  by (cases "map_of m old") (simp_all add: moveKey_def update_conv' delete_conv')

lemma map_of_redirect: "map_of (redirect old new m) k = map_option (\<lambda>v. if v = old then new else v) (map_of m k)"
  by (simp add: redirect_def map_of_map)

lemma getOr_indexMembers:
  "getOr [] (indexMembers p idx) m = (if m \<in> set (Split p (CHR '','')) then List.insert p (getOr [] idx m) else getOr [] idx m)"
proof -
  have "getOr [] (fold (\<lambda>m idx. AList.update m (List.insert p (getOr [] idx m)) idx) ms idx) m =
      (if m \<in> set ms then List.insert p (getOr [] idx m) else getOr [] idx m)" for ms
    by (induction ms arbitrary: idx) (auto simp: getOr_update)
  then show ?thesis by (simp add: indexMembers_def)
qed

definition unindexStep :: "bytes \<Rightarrow> bytes \<Rightarrow> (bytes \<times> bytes list) list \<Rightarrow> (bytes \<times> bytes list) list" where
  "unindexStep oldID m idx = (case map_of idx m of
       None \<Rightarrow> idx
     | Some portals \<Rightarrow> (let rest = removeAll oldID portals in
         if rest = [] then AList.delete m idx else AList.update m rest idx))"

lemma getOr_unindexStep:
  "getOr [] (unindexStep oldID m idx) k = (if k = m then removeAll oldID (getOr [] idx k) else getOr [] idx k)"
  by (simp add: unindexStep_def Let_def getOr_def update_conv' delete_conv' split: option.split)

lemma getOr_unindexMembers:
  "getOr [] (unindexMembers p idx) m =
     (if m \<in> set (Split p (CHR '','')) then removeAll p (getOr [] idx m) else getOr [] idx m)"
proof -
  have "getOr [] (fold (unindexStep p) ms idx) m =
      (if m \<in> set ms then removeAll p (getOr [] idx m) else getOr [] idx m)" for ms
    by (induction ms arbitrary: idx) (auto simp: getOr_unindexStep)
  then show ?thesis by (simp add: unindexMembers_def unindexStep_def [abs_def])
qed

section \<open>The index is sound\<close>

definition indexOK :: "group_state \<Rightarrow> bool" where
  "indexOK st \<longleftrightarrow> (\<forall>m p. p \<in> set (portalsOf st m) \<longrightarrow> Contains p '','' \<and> m \<in> set (Split p (CHR '','')))"

lemma indexOKD: "indexOK st \<Longrightarrow> p \<in> set (portalsOf st m) \<Longrightarrow> Contains p '','' \<and> m \<in> set (Split p (CHR '',''))"
  unfolding indexOK_def by blast

definition idxOK :: "(bytes \<times> bytes list) list \<Rightarrow> bool" where
  "idxOK idx \<longleftrightarrow> (\<forall>m p. p \<in> set (getOr [] idx m) \<longrightarrow> Contains p '','' \<and> m \<in> set (Split p (CHR '','')))"

lemma indexOK_cases: "indexOK st \<longleftrightarrow> (case groupPortalIndex st of None \<Rightarrow> True | Some idx \<Rightarrow> idxOK idx)"
  by (simp add: indexOK_def idxOK_def portalsOf_def split: option.split)

lemma idxOK_indexMembers: "idxOK idx \<Longrightarrow> Contains p '','' \<Longrightarrow> idxOK (indexMembers p idx)"
  unfolding idxOK_def getOr_indexMembers by (auto simp del: Contains_byte split: if_splits)

lemma idxOK_unindex: "idxOK idx \<Longrightarrow> idxOK (unindexMembers p idx)"
  unfolding idxOK_def getOr_unindexMembers by (auto simp del: Contains_byte split: if_splits)

lemma idxOK_fold: "idxOK idx \<Longrightarrow> idxOK (fold (\<lambda>p idx.
            if Contains (pk_ID p) '','' \<and> pk_Receiver p = r then indexMembers (pk_ID p) idx else idx) ps idx)"
  by (induction ps arbitrary: idx) (simp_all add: idxOK_indexMembers)

lemma idxOK_Nil: "idxOK []"
  by (simp add: idxOK_def getOr_def)

lemma indexOK_ensure: "indexOK st \<Longrightarrow> indexOK (ensureGroupPortalIndex c st)"
  by (auto simp: indexOK_cases ensureGroupPortalIndex_def simp del: Contains_byte intro: idxOK_fold idxOK_Nil split: option.splits)

lemma indexOK_register: "indexOK st \<Longrightarrow> indexOK (indexGroupPortalLocked p st)"
  by (auto simp: indexOK_cases indexGroupPortalLocked_def idxOK_indexMembers simp del: Contains_byte split: option.splits)

section \<open>Matching\<close>

lemma card_shared:
  assumes "distinct xs" "set xs \<inter> S \<subseteq> set ys" "length (filter (\<lambda>m. m \<in> S) xs) = length xs"
    "length (filter (\<lambda>m. m \<in> S) xs) = length ys"
  shows "set xs = set ys"
proof -
  have all: "set xs \<subseteq> S" using assms(3) by (metis filter_id_conv length_filter_less nless_le subsetI)
  then have sub: "set xs \<subseteq> set ys" using assms(2) by blast
  have "length ys = card (set xs)" using assms distinct_card by metis
  then have "card (set ys) \<le> card (set xs)" using card_length by metis
  then show ?thesis using sub by (simp add: card_seteq)
qed

lemma shared_le:
  assumes "distinct xs" "set xs \<inter> S \<subseteq> set ys"
  shows "length (filter (\<lambda>m. m \<in> S) xs) \<le> length ys"
proof -
  have "length (filter (\<lambda>m. m \<in> S) xs) = card (set (filter (\<lambda>m. m \<in> S) xs))"
    using assms(1) distinct_card distinct_filter by metis
  also have "\<dots> \<le> card (set ys)" using assms(2) by (intro card_mono) auto
  also have "\<dots> \<le> length ys" by (rule card_length)
  finally show ?thesis .
qed

lemma sharedCount_alt: "sharedCount st candidate p = length (filter (\<lambda>m. m \<in> {m. p \<in> set (portalsOf st m)}) candidate)"
  by (simp add: sharedCount_def)

lemma sameGroup_members:
  assumes "indexOK st" "distinct candidate" "sameGroup c st candidate p"
  shows "{m. \<not> isSelf c m} \<inter> set (Split p (CHR '','')) = {m. \<not> isSelf c m} \<inter> set candidate"
proof -
  define S where "S = {m. p \<in> set (portalsOf st m)}"
  define ys where "ys = Split p (CHR '','')"
  define n where "n = length (filter (\<lambda>m. m \<in> S) candidate)"
  have S: "set candidate \<inter> S \<subseteq> set ys"
    using indexOKD [OF assms(1)] by (auto simp: S_def ys_def simp del: Contains_byte)
  have n1: "n \<le> length candidate" by (simp add: n_def)
  have n2: "n \<le> length ys" unfolding n_def by (rule shared_le [OF assms(2) S])
  have d: "memberDiff st candidate p = int (length candidate - n) + int (length ys - n)"
    using n1 n2 by (simp add: memberDiff_def sharedCount_alt ys_def n_def S_def Let_def)
  show ?thesis
  proof (cases "memberDiff st candidate p = 1")
    case True
    then have "participantSetsMatch candidate ys (Some (isSelf c))"
      using assms(3) by (simp add: sameGroup_def ys_def Let_def)
    then show ?thesis by (simp add: participantSetsMatch_sets ys_def [symmetric])
  next
    case False
    then have "n = length candidate" "n = length ys"
      using assms(3) unfolding sameGroup_def Let_def d using False n1 n2 by linarith+
    then have "set candidate = set ys"
      using card_shared [OF assms(2) S, folded n_def] by blast
    then show ?thesis by (simp add: ys_def)
  qed
qed

lemma resolveExisting_same:
  assumes "indexOK st" "distinct (Split computedID (CHR '',''))"
    and "resolveExistingGroupPortalID c computedID senderGuid st = (portalID, st')"
  shows "(portalID = computedID \<or> ie_portalExists c portalID
            \<and> \<not> guidConflict (ensureGroupPortalIndex c st) senderGuid portalID)
    \<and> {m. \<not> isSelf c m} \<inter> set (Split portalID (CHR '','')) = {m. \<not> isSelf c m} \<inter> set (Split computedID (CHR '',''))
    \<and> indexOK st'"
proof -
  define st1 where "st1 = ensureGroupPortalIndex c st"
  have ok: "indexOK st1" unfolding st1_def by (rule indexOK_ensure [OF assms(1)])
  note r = assms(3) [unfolded resolveExistingGroupPortalID_def Let_def registerGroupPortal_def, folded st1_def]
  show ?thesis
  proof (cases "portalID = computedID")
    case True
    then show ?thesis using r ok indexOK_register [OF ok, of computedID]
      by (auto split: if_splits option.splits)
  next
    case False
    then have f: "find (\<lambda>p. sameGroup c st1 (Split computedID (CHR '','')) p \<and> \<not> guidConflict st1 senderGuid p
        \<and> ie_portalExists c p) (overlapping c st1 (Split computedID (CHR '',''))) = Some portalID" "st' = st1"
      using r by (auto split: if_splits option.splits)
    have "sameGroup c st1 (Split computedID (CHR '','')) portalID" "\<not> guidConflict st1 senderGuid portalID"
      "ie_portalExists c portalID" using find_Some_mem [OF f(1)] by blast+
    then show ?thesis using sameGroup_members [OF ok assms(2)] ok f(2) unfolding st1_def by blast
  qed
qed

section \<open>Member lists as keys\<close>

lemma canonical_key:
  assumes "list_all (\<lambda>m. \<not> Contains m '','') (canonicalList c ps)"
  shows "Split (Join (canonicalList c ps) '','') (CHR '','') = canonicalList c ps" "distinct (canonicalList c ps)"
proof -
  have "canonicalList c ps \<noteq> []"
    using buildCanonical_set [of "ie_allHandles c" "ie_handle c" ps] by (auto simp: canonicalList_def)
  then show "Split (Join (canonicalList c ps) '','') (CHR '','') = canonicalList c ps"
    using assms by (intro Split_Join) (simp_all add: list_all_iff)
  show "distinct (canonicalList c ps)" by (simp add: canonicalList_def buildCanonical_sorted)
qed

lemma canonicalList_cong:
  assumes "normalizeIdentifierForPortalID ` set ps = normalizeIdentifierForPortalID ` set qs"
  shows "canonicalList c ps = canonicalList c qs"
  unfolding canonicalList_def
  by (rule sorted_set_unique) (simp_all add: buildCanonical_sorted buildCanonical_set assms)

lemma countStep_empty:
  "normalizeAll qs = [] \<Longrightarrow> fold (countStep c) qs acc = acc"
  by (induction qs arbitrary: acc) (auto simp: normalizeAll_def countStep_def Let_def split: if_splits prod.split)

lemma nonSelf_normalized: "2 \<le> nonSelf c qs None \<Longrightarrow> normalizeAll qs \<noteq> []"
  using countStep_empty [of qs "imenv.truncate c" "({}, 0)"]
  by (auto simp: nonSelf_def countNonSelfMembers_def)

lemma existing_key: "ie_portalExists c k \<Longrightarrow> fst (resolveExistingGroupPortalID c k sg st) = k"
  by (simp add: resolveExistingGroupPortalID_def Let_def)

section \<open>Moving\<close>

definition moved :: "'k \<Rightarrow> 'k \<Rightarrow> ('k \<rightharpoonup> 'v) \<Rightarrow> 'k \<rightharpoonup> 'v" where
  "moved old new f = (case f old of None \<Rightarrow> f | Some v \<Rightarrow> f(new \<mapsto> v, old := None))"

lemma moveKey_moved: "map_of (moveKey old new m) = moved old new (map_of m)"
  by (simp add: map_of_moveKey moved_def)

lemma redirect_gone: "old \<noteq> new \<Longrightarrow> Some old \<notin> range (map_of (redirect old new m))"
  by (auto simp: map_of_redirect map_option_case split: option.splits if_splits)

lemma portalsOf_register: "set (portalsOf (indexGroupPortalLocked p st) m) = set (portalsOf st m)
    \<union> (if groupPortalIndex st \<noteq> None \<and> Contains p '','' \<and> m \<in> set (Split p (CHR '','')) then {p} else {})"
  by (auto simp: portalsOf_def indexGroupPortalLocked_def getOr_indexMembers simp del: Contains_byte
      split: option.splits if_splits)

lemma portalsOf_unindex:
  assumes "indexOK st"
  shows "set (portalsOf (st\<lparr>groupPortalIndex := map_option (unindexMembers p) (groupPortalIndex st)\<rparr>) m) =
    set (portalsOf st m) - {p}"
  using indexOKD [OF assms, of p m]
  by (auto simp: portalsOf_def getOr_unindexMembers split: option.splits)

lemma indexOK_unindex:
  "indexOK st \<Longrightarrow> indexOK (st\<lparr>groupPortalIndex := map_option (unindexMembers p) (groupPortalIndex st)\<rparr>)"
  by (auto simp: indexOK_cases intro: idxOK_unindex split: option.splits)

lemma index_frame:
  "indexOK st \<longleftrightarrow> indexOK st'" "portalsOf st = portalsOf st'" if "groupPortalIndex st = groupPortalIndex st'"
  using that by (simp_all add: indexOK_cases portalsOf_def fun_eq_iff)

section \<open>Properties\<close>

text \<open>C25: The search for an existing room of a member list never joins two groups: whatever the caches hold,
  its answer is the list itself or a portal with a room that has the same members up to the user's own
  handles, and that is not known under another UUID; the index stays sound.\<close>

theorem fuzzy_match_same_group:
  assumes "indexOK st" "distinct (Split computedID (CHR '',''))"
    and "resolveExistingGroupPortalID c computedID senderGuid st = (portalID, st')"
  shows "(portalID = computedID \<or> ie_portalExists c portalID
            \<and> \<not> guidConflict (ensureGroupPortalIndex c st) senderGuid portalID)
    \<and> {m. \<not> isSelf c m} \<inter> set (Split portalID (CHR '','')) = {m. \<not> isSelf c m} \<inter> set (Split computedID (CHR '',''))
    \<and> indexOK st'"
  using resolveExisting_same [OF assms] .


text \<open>C27: Moving a portal to another identifier moves all that the caches know of it: names, UUIDs, members and
  carrier flag of the old identifier become those of the new one, no member is indexed under the old
  identifier, no alias and no member's last group leads to it, and the index stays sound; when bridgev2
  refuses the move nothing changes.\<close>

theorem reID_moves_everything:
  assumes "indexOK st" "pk_ID oldKey \<noteq> pk_ID newKey"
  shows "case reIDPortalWithCacheUpdate reID oldKey newKey (st, b) of (ok, st', b') \<Rightarrow>
    if ok then
      map_of (imGroupNames st') = moved (pk_ID oldKey) (pk_ID newKey) (map_of (imGroupNames st))
      \<and> map_of (imGroupGuids st') = moved (pk_ID oldKey) (pk_ID newKey) (map_of (imGroupGuids st))
      \<and> map_of (imGroupParticipants st') = moved (pk_ID oldKey) (pk_ID newKey) (map_of (imGroupParticipants st))
      \<and> map_of (smsPortals st') = moved (pk_ID oldKey) (pk_ID newKey) (map_of (smsPortals st))
      \<and> (\<forall>m. set (portalsOf st' m) = set (portalsOf st m) - {pk_ID oldKey}
           \<union> (if groupPortalIndex st \<noteq> None \<and> Contains (pk_ID newKey) '','' \<and> m \<in> set (Split (pk_ID newKey) (CHR '',''))
              then {pk_ID newKey} else {}))
      \<and> Some oldKey \<notin> range (map_of (lastGroupForMember st'))
      \<and> Some (pk_ID oldKey) \<notin> range (map_of (gidAliases st'))
      \<and> indexOK st'
    else st' = st"
proof (cases "reID oldKey newKey b")
  case (Pair ok b')
  show ?thesis
  proof (cases ok)
    case False
    then show ?thesis using Pair by (simp add: reIDPortalWithCacheUpdate_def)
  next
    case True
    define stu where "stu = st\<lparr>groupPortalIndex := map_option (unindexMembers (pk_ID oldKey)) (groupPortalIndex st)\<rparr>"
    obtain st' where st': "reIDPortalWithCacheUpdate reID oldKey newKey (st, b) = (True, st', b')"
      using Pair True by (simp add: reIDPortalWithCacheUpdate_def Let_def)
    have fields: "imGroupNames st' = moveKey (pk_ID oldKey) (pk_ID newKey) (imGroupNames st)"
      "imGroupGuids st' = moveKey (pk_ID oldKey) (pk_ID newKey) (imGroupGuids st)"
      "imGroupParticipants st' = moveKey (pk_ID oldKey) (pk_ID newKey) (imGroupParticipants st)"
      "smsPortals st' = moveKey (pk_ID oldKey) (pk_ID newKey) (smsPortals st)"
      "lastGroupForMember st' = redirect oldKey newKey (lastGroupForMember st)"
      "gidAliases st' = redirect (pk_ID oldKey) (pk_ID newKey) (gidAliases st)"
      "groupPortalIndex st' = groupPortalIndex (indexGroupPortalLocked (pk_ID newKey) stu)"
      using Pair True st'
      by (auto simp: reIDPortalWithCacheUpdate_def Let_def stu_def indexGroupPortalLocked_def simp del: Contains_byte
          split: option.splits)
    have idx: "portalsOf st' = portalsOf (indexGroupPortalLocked (pk_ID newKey) stu)" "indexOK st'"
      using index_frame [OF fields(7)] indexOK_register [OF indexOK_unindex [OF assms(1)]] by (simp_all add: stu_def)
    have "groupPortalIndex stu \<noteq> None \<longleftrightarrow> groupPortalIndex st \<noteq> None" by (simp add: stu_def)
    then have "set (portalsOf st' m) = set (portalsOf st m) - {pk_ID oldKey}
           \<union> (if groupPortalIndex st \<noteq> None \<and> Contains (pk_ID newKey) '','' \<and> m \<in> set (Split (pk_ID newKey) (CHR '',''))
              then {pk_ID newKey} else {})" for m
      unfolding idx portalsOf_register portalsOf_unindex [OF assms(1), of "pk_ID oldKey", folded stu_def] by simp
    moreover have "oldKey \<noteq> newKey" using assms(2) by blast
    ultimately show ?thesis
      unfolding st' prod.case if_True by (simp add: fields(1-6) moveKey_moved redirect_gone assms(2) idx(2) del: range_eqI)
  qed
qed

section \<open>Witnesses\<close>

definition sampleGroupEnv :: genv where
  "sampleGroupEnv = \<lparr>ie_contacts = None, ie_chatDB = None,
     ie_portalExists = (\<lambda>p. p = ''mailto:a@x.org,mailto:b@x.org''), ie_client = None, ie_handle = ''mailto:me@x.org'',
     ie_allHandles = [''mailto:me@x.org''], ie_loginID = ''login'',
     be_portals = Some [\<lparr>pk_ID = ''mailto:a@x.org,mailto:b@x.org'', pk_Receiver = ''login''\<rparr>], be_range = (\<lambda>ks. ks)\<rparr>"

definition noGroups :: group_state where
  "noGroups = \<lparr>imGroupNames = [], imGroupGuids = [], imGroupParticipants = [], groupPortalIndex = None,
     lastGroupForMember = [], gidAliases = [], smsPortals = [], portalMeta = []\<rparr>"

lemma noGroups_OK: "indexOK noGroups"
  by (simp add: indexOK_cases noGroups_def)

lemma sample_norm:
  "normalizeIdentifierForPortalID ''b@x.org'' = ''mailto:b@x.org''"
  "normalizeIdentifierForPortalID ''mailto:A@x.org'' = ''mailto:a@x.org''"
  "normalizeIdentifierForPortalID ''mailto:a@x.org'' = ''mailto:a@x.org''"
  "normalizeIdentifierForPortalID ''mailto:b@x.org'' = ''mailto:b@x.org''"
  "normalizeIdentifierForPortalID ''mailto:me@x.org'' = ''mailto:me@x.org''"
  by (simp_all add: id_eval normalizeIdentifierForPortalID_def)

lemma sample_self: "isSelf sampleGroupEnv p \<longleftrightarrow> normalizeIdentifierForPortalID p = ''mailto:me@x.org''"
  by (simp add: isSelf_def isMyHandle_def sampleGroupEnv_def sample_norm)

lemma sample_canonical:
  "canonicalList sampleGroupEnv [''b@x.org'', ''mailto:A@x.org''] =
     [''mailto:a@x.org'', ''mailto:b@x.org'', ''mailto:me@x.org'']"
  by (simp add: canonicalList_def buildCanonicalParticipantList_def isMyHandle_def sampleGroupEnv_def sample_norm
      less_char_def)

lemma sample_nonSelf:
  "nonSelf sampleGroupEnv [''b@x.org'', ''mailto:A@x.org''] None = 2"
  "nonSelf sampleGroupEnv [''mailto:A@x.org'', ''b@x.org''] None = 2"
  by (simp_all add: nonSelf_def countNonSelfMembers_def countStep_def imenv.defs sampleGroupEnv_def sample_norm
      isMyHandle_def lookupContact_def contactPortalIDs_def Let_def)

definition noRows :: store where
  "noRows = \<lparr>messages = [], chats = [], syncs = [], photos = [], overrides = [], attCache = [], deadAtts = [],
     bridgeMsgs = [], backfillTasks = []\<rparr>"

lemma sample_SMS: "isCarrierService ''SMS''"
  by (simp add: isCarrierService_def id_eval ToUpper_ascii upperChar_def)

lemma fuzzy_match_same_group_witness:
  "indexOK (snd (resolveExistingGroupPortalID sampleGroupEnv ''mailto:a@x.org,mailto:b@x.org,mailto:me@x.org''
     None noGroups))"
  using fuzzy_match_same_group [OF noGroups_OK _ prod.collapse [symmetric],
      of "''mailto:a@x.org,mailto:b@x.org,mailto:me@x.org''" sampleGroupEnv None] by simp


lemma reID_moves_everything_witness:
  "map_of (imGroupNames (fst (snd (reIDPortalWithCacheUpdate (\<lambda>_ _ b. (True, b)) (keyOf sampleGroupEnv ''gid:a'')
      (keyOf sampleGroupEnv ''gid:b'') (noGroups\<lparr>imGroupNames := [(''gid:a'', ''Trip'')]\<rparr>, ()))))) ''gid:b''
    = Some ''Trip''"
proof -
  have ok: "indexOK (noGroups\<lparr>imGroupNames := [(''gid:a'', ''Trip'')]\<rparr>)"
    by (simp add: indexOK_cases noGroups_def)
  show ?thesis
    using reID_moves_everything [OF ok, of "keyOf sampleGroupEnv ''gid:a''" "keyOf sampleGroupEnv ''gid:b''"
        "\<lambda>_ _ b. (True, b)" "()"]
    by (simp add: keyOf_def moved_def reIDPortalWithCacheUpdate_def Let_def split_def)
qed

section \<open>The UUID of a carrier group\<close>

text \<open>The comment of the fallback branch promises that the unstable UUID of a carrier group is never associated
  with its portal; the cache entry and the metadata are written after the branch, for carrier groups too.\<close>

lemma carrier_guid_cached:
  assumes "2 \<le> nonSelf c ps sender" "Contains portalID '',''" "sg \<noteq> []"
    and "groupPortal c l ps (Some sg) True st x = (Inr (portalID, st1), y)"
  shows "\<exists>effs st'. makePortalKey c l ps None sender (Some sg) True st x = (Inr (keyOf c portalID, effs, st'), y)
    \<and> map_of (imGroupGuids st') portalID = Some sg \<and> PersistMeta portalID sg [] \<in> set effs"
  using assms
  by (simp add: makePortalKey_def isGroupMessage_def dbBind_def dbReturn_def groupEffects_def coalesce_def
      rememberGroup_def nonEmpty_def Let_def update_conv' del: Contains_byte)

end
