(* ===== verification/CarrierGroups.thy ===== *)
theory CarrierGroups
  imports ChatIngest
begin

text \<open>
  The consolidation of carrier groups, \<open>sync_controller.go\<close>: a group of SMS, RCS or MMS that was split over
  several portals is merged into the portal of its member list, the rows in the store and the rooms.
\<close>

section \<open>Which portals belong together\<close>

record carrierConsolidationEntry =
  cePortalID :: bytes
  ceCanonical :: bytes

record carrierConsolidationGroup =
  cgCanonical :: bytes
  cgMembers :: "bytes list"

definition planCarrierGroupConsolidation :: "carrierConsolidationEntry list \<Rightarrow> carrierConsolidationGroup list" where
  "planCarrierGroupConsolidation entries =
     (let valid = filter (\<lambda>e. ceCanonical e \<noteq> [] \<and> cePortalID e \<noteq> []) entries;
          members = (\<lambda>k. sort (remdups (map cePortalID (filter (\<lambda>e. ceCanonical e = k) valid))));
          needs = (\<lambda>g. 1 < length (cgMembers g) \<or> cgMembers g ! 0 \<noteq> cgCanonical g) in
      filter needs (map (\<lambda>k. \<lparr>cgCanonical = k, cgMembers = members k\<rparr>) (sort (remdups (map ceCanonical valid)))))"

section \<open>Which rooms move\<close>

record carrierMemberRoom =
  crPortalID :: bytes
  crHasRoom :: bool
  crMsgCount :: int

record carrierRoomMovePlan =
  rpSurvivor :: bytes
  rpReIDs :: "bytes list"

definition survivorStep :: "bytes \<Rightarrow> carrierMemberRoom \<Rightarrow> int \<times> bytes \<Rightarrow> int \<times> bytes" where
  "survivorStep canonical m st =
     (if crPortalID m = canonical \<or> \<not> crHasRoom m then st
      else if fst st < crMsgCount m then (crMsgCount m, crPortalID m) else st)"

definition planCarrierRoomMoves :: "bytes \<Rightarrow> bool \<Rightarrow> carrierMemberRoom list \<Rightarrow> carrierRoomMovePlan" where
  "planCarrierRoomMoves canonical canonicalHasRoom members =
     (let survivor = (if canonicalHasRoom then canonical else snd (fold (survivorStep canonical) members (-1, []))) in
      \<lparr>rpSurvivor = survivor,
       rpReIDs = (if survivor \<noteq> [] \<and> survivor \<noteq> canonical then [survivor] else [])
         @ map crPortalID (filter (\<lambda>m. crHasRoom m \<and> crPortalID m \<noteq> survivor \<and> crPortalID m \<noteq> canonical) members)\<rparr>)"

section \<open>The consolidation\<close>

text \<open>bridgev2: whether a portal has a room, how many messages are bridged into it, and \<open>ReIDPortal\<close>.\<close>

record 'b bridge_api =
  ba_hasRoom :: "'b \<Rightarrow> bytes \<Rightarrow> bool"
  ba_bridged :: "'b \<Rightarrow> bytes \<Rightarrow> int"
  ba_reID :: "PortalKey \<Rightarrow> PortalKey \<Rightarrow> 'b \<Rightarrow> bool \<times> 'b"

definition memberRoom :: "'b bridge_api \<Rightarrow> 'b \<Rightarrow> bytes \<Rightarrow> carrierMemberRoom" where
  "memberRoom api b m = \<lparr>crPortalID = m, crHasRoom = ba_hasRoom api b m,
     crMsgCount = (if ba_hasRoom api b m then ba_bridged api b m else 0)\<rparr>"

definition roomPlan :: "'b bridge_api \<Rightarrow> 'b \<Rightarrow> carrierConsolidationGroup \<Rightarrow> carrierRoomMovePlan" where
  "roomPlan api b g = planCarrierRoomMoves (cgCanonical g) (ba_hasRoom api b (cgCanonical g))
     (map (memberRoom api b) (filter (\<lambda>m. m \<noteq> cgCanonical g) (cgMembers g)))"

text \<open>The survivor has to claim the canonical key before the others move; when it cannot, the moves stop.\<close>

fun applyMoves :: "'b bridge_api \<Rightarrow> genv \<Rightarrow> bytes \<Rightarrow> bytes \<Rightarrow> bytes list \<Rightarrow> nat \<Rightarrow> group_state \<times> 'b
    \<Rightarrow> nat \<times> group_state \<times> 'b" where
  "applyMoves api c canonical survivor [] moves w = (moves, w)"
| "applyMoves api c canonical survivor (m # ms) moves w =
     (case reIDPortalWithCacheUpdate (ba_reID api) (keyOf c m) (keyOf c canonical) w of (ok, w') \<Rightarrow>
        if \<not> ok \<and> m = survivor then (moves + 1, w')
        else applyMoves api c canonical survivor ms (moves + 1) w')"

definition ignoreErr :: "unit db \<Rightarrow> unit db" where
  "ignoreErr m = dbCatch m (\<lambda>_. dbReturn ())"

definition consolidateOneCarrierGroup :: "'b bridge_api \<Rightarrow> genv \<Rightarrow> bytes \<Rightarrow> time_ms \<Rightarrow> carrierConsolidationGroup
    \<Rightarrow> group_state \<times> 'b \<Rightarrow> (nat \<times> group_state \<times> 'b) db" where
  "consolidateOneCarrierGroup api c l now g w =
     (let canonical = cgCanonical g; plan = roomPlan api (snd w) g in
      dbThen (dbEach (\<lambda>m. ignoreErr (reKeyPortalID l now m canonical)) (cgMembers g))
      (dbThen (ignoreErr (resetForwardBackfillDone l canonical))
      (dbReturn (applyMoves api c canonical (rpSurvivor plan) (rpReIDs plan) 0 w))))"

definition carrierGroupRoomMoveBudgetPerStartup :: nat where
  "carrierGroupRoomMoveBudgetPerStartup = 50"

fun consolidateGroups :: "'b bridge_api \<Rightarrow> genv \<Rightarrow> bytes \<Rightarrow> time_ms \<Rightarrow> carrierConsolidationGroup list
    \<Rightarrow> nat \<Rightarrow> nat \<Rightarrow> group_state \<times> 'b \<Rightarrow> (nat \<times> nat \<times> group_state \<times> 'b) db" where
  "consolidateGroups api c l now [] consolidated roomMoves w = dbReturn (consolidated, roomMoves, w)"
| "consolidateGroups api c l now (g # gs) consolidated roomMoves w =
     (if 0 < consolidated \<and> carrierGroupRoomMoveBudgetPerStartup \<le> roomMoves
      then dbReturn (consolidated, roomMoves, w)
      else dbBind (consolidateOneCarrierGroup api c l now g w) (\<lambda>(moves, w').
        consolidateGroups api c l now gs (consolidated + 1) (roomMoves + moves) w'))"

definition carrierEntries :: "genv \<Rightarrow> (bytes \<times> bytes list) list \<Rightarrow> carrierConsolidationEntry list" where
  "carrierEntries c chats0 =
     map (\<lambda>(p, ps). \<lparr>cePortalID = p, ceCanonical = Join (canonicalList c ps) '',''\<rparr>)
       (filter (\<lambda>(p, ps). \<not> nonSelf c ps None < 2) chats0)"

definition consolidateCarrierGroupPortals :: "'b bridge_api \<Rightarrow> genv \<Rightarrow> bytes \<Rightarrow> time_ms \<Rightarrow> group_state \<times> 'b
    \<Rightarrow> (nat \<times> nat \<times> group_state \<times> 'b) db" where
  "consolidateCarrierGroupPortals api c l now w =
     dbBind (dbTry (listCarrierGroupChats l)) (\<lambda>r.
       case r of
         Inl _ \<Rightarrow> dbReturn (0, 0, w)
       | Inr found \<Rightarrow> consolidateGroups api c l now (planCarrierGroupConsolidation (carrierEntries c found)) 0 0 w)"

end
