(* ===== verification/CarrierSpec.thy ===== *)
theory CarrierSpec
  imports CarrierGroups CloudPortalSpec GroupSpec
begin

text \<open>
  What the consolidation of carrier groups achieves: which rooms it merges into which, and what becomes of
  the rows in the store.
\<close>

section \<open>The choice of the survivor\<close>

definition roomsOf :: "bytes \<Rightarrow> carrierMemberRoom list \<Rightarrow> carrierMemberRoom list" where
  "roomsOf canonical members = filter (\<lambda>m. crHasRoom m \<and> crPortalID m \<noteq> canonical) members"

lemma survivor_scan:
  assumes "\<forall>m\<in>set members. 0 \<le> crMsgCount m" "\<forall>m\<in>set seen. 0 \<le> crMsgCount m"
    and "if roomsOf k seen = [] then st = (-1, []) else (\<exists>m\<in>set (roomsOf k seen). st = (crMsgCount m, crPortalID m))
        \<and> (\<forall>m\<in>set (roomsOf k seen). crMsgCount m \<le> fst st)"
  shows "let st' = fold (survivorStep k) members st; rooms = roomsOf k (seen @ members) in
    if rooms = [] then st' = (-1, []) else (\<exists>m\<in>set rooms. st' = (crMsgCount m, crPortalID m))
        \<and> (\<forall>m\<in>set rooms. crMsgCount m \<le> fst st')"
  using assms
proof (induction members arbitrary: seen st)
  case Nil
  then show ?case by (simp add: Let_def)
next
  case (Cons m members)
  have nn: "\<forall>m\<in>set members. 0 \<le> crMsgCount m" "\<forall>x\<in>set (seen @ [m]). 0 \<le> crMsgCount x" "0 \<le> crMsgCount m"
    using Cons.prems by auto
  show ?case
  proof (cases "crPortalID m = k \<or> \<not> crHasRoom m")
    case True
    then have r: "roomsOf k (seen @ [m]) = roomsOf k seen" "survivorStep k m st = st"
      by (auto simp: roomsOf_def survivorStep_def)
    then show ?thesis using Cons.IH [OF nn(1,2), of st] Cons.prems(3) by simp
  next
    case False
    then have r: "roomsOf k (seen @ [m]) = roomsOf k seen @ [m]"
      "survivorStep k m st = (if fst st < crMsgCount m then (crMsgCount m, crPortalID m) else st)"
      by (auto simp: roomsOf_def survivorStep_def)
    have "if roomsOf k (seen @ [m]) = [] then survivorStep k m st = (-1, [])
      else (\<exists>x\<in>set (roomsOf k (seen @ [m])). survivorStep k m st = (crMsgCount x, crPortalID x))
        \<and> (\<forall>x\<in>set (roomsOf k (seen @ [m])). crMsgCount x \<le> fst (survivorStep k m st))"
      using Cons.prems(3) nn(3) unfolding r by (fastforce split: if_splits)
    then show ?thesis using Cons.IH [OF nn(1,2)] by simp
  qed
qed

lemma survivor_spec:
  assumes "\<forall>m\<in>set members. 0 \<le> crMsgCount m"
  shows "let st = fold (survivorStep k) members (-1, []) in
    if roomsOf k members = [] then st = (-1, []) else (\<exists>m\<in>set (roomsOf k members). st = (crMsgCount m, crPortalID m))
        \<and> (\<forall>m\<in>set (roomsOf k members). crMsgCount m \<le> fst st)"
proof -
  have "roomsOf k [] = []" by (simp add: roomsOf_def)
  then show ?thesis
    using survivor_scan [OF assms, of "[]" k "(-1, [])"] unfolding append_Nil list.set ball_simps Let_def by simp
qed

text \<open>The plan of the room moves.  It merges exactly the members' rooms, each once, and never moves the
  canonical portal; a room that already holds the canonical key survives, otherwise one with the most
  bridged messages, and it moves first; without rooms there is nothing to do.\<close>

theorem room_moves_plan:
  assumes "distinct (map crPortalID members)" "list_all (\<lambda>m. crPortalID m \<noteq> [] \<and> 0 \<le> crMsgCount m) members"
  shows "let plan = planCarrierRoomMoves canonical canonicalHasRoom members;
      rooms = roomsOf canonical members in
    distinct (rpReIDs plan) \<and> set (rpReIDs plan) = crPortalID ` set rooms
    \<and> (if canonicalHasRoom then rpSurvivor plan = canonical
       else if rooms = [] then rpSurvivor plan = []
       else hd (rpReIDs plan) = rpSurvivor plan
         \<and> (\<exists>m. m \<in> set rooms \<and> rpSurvivor plan = crPortalID m \<and> list_all (\<lambda>x. crMsgCount x \<le> crMsgCount m) rooms))"
proof -
  define sv where "sv = (if canonicalHasRoom then canonical else snd (fold (survivorStep canonical) members (-1, [])))"
  define rooms where "rooms = roomsOf canonical members"
  define others where "others = map crPortalID (filter (\<lambda>m. crPortalID m \<noteq> sv) rooms)"
  have plan: "planCarrierRoomMoves canonical canonicalHasRoom members =
      \<lparr>rpSurvivor = sv, rpReIDs = (if sv \<noteq> [] \<and> sv \<noteq> canonical then [sv] else []) @ others\<rparr>"
    by (simp add: planCarrierRoomMoves_def sv_def [symmetric] Let_def others_def rooms_def roomsOf_def conj_ac)
  have d: "distinct (map crPortalID rooms)" unfolding rooms_def roomsOf_def using assms(1) by (rule distinct_map_filter)
  then have "distinct others" unfolding others_def by (rule distinct_map_filter)
  moreover have "sv \<notin> set others" by (auto simp: others_def)
  moreover have ne: "m \<in> set rooms \<Longrightarrow> crPortalID m \<noteq> [] \<and> crPortalID m \<noteq> canonical" for m
    using assms(2) by (auto simp: rooms_def roomsOf_def list_all_iff)
  moreover have S: "if canonicalHasRoom then sv = canonical else if rooms = [] then sv = []
      else \<exists>m. m \<in> set rooms \<and> sv = crPortalID m \<and> list_all (\<lambda>x. crMsgCount x \<le> crMsgCount m) rooms"
    using survivor_spec [of members canonical] assms(2)
    by (force simp: sv_def rooms_def Let_def list_all_iff split: if_splits)
  moreover have "set others = crPortalID ` set rooms - {sv}" by (auto simp: others_def)
  ultimately show ?thesis
    unfolding plan rooms_def [symmetric] Let_def
    by (cases canonicalHasRoom; cases "rooms = []") auto
qed

section \<open>The rows\<close>

definition moveMessage :: "time_ms \<Rightarrow> bytes \<Rightarrow> message_row \<Rightarrow> message_row" where
  "moveMessage now k r = r\<lparr>mPortal := Some k, mUpdated := now\<rparr>"

definition moveChat :: "time_ms \<Rightarrow> bytes \<Rightarrow> chat_row \<Rightarrow> chat_row" where
  "moveChat now k r = r\<lparr>cPortal := k, cFwdDone := False, cUpdated := Some now\<rparr>"

definition mergedMessage :: "bytes \<Rightarrow> time_ms \<Rightarrow> bytes set \<Rightarrow> bytes \<Rightarrow> message_row \<Rightarrow> message_row" where
  "mergedMessage l now ms k r = (if mLogin r = l \<and> mPortal r \<in> Some ` (ms - {k})
     then moveMessage now k r else r)"

definition mergedChat :: "bytes \<Rightarrow> time_ms \<Rightarrow> bytes set \<Rightarrow> bytes \<Rightarrow> chat_row \<Rightarrow> chat_row" where
  "mergedChat l now ms k r = (if cLogin r = l \<and> cPortal r \<in> ms - {k}
     then moveChat now k r else r)"

lemma reKey_Nil:
  assumes "m \<noteq> []" "k \<noteq> []"
  shows "ignoreErr (reKeyPortalID l now m k) (s, []) =
    (Inr (), s\<lparr>chats := map (mergedChat l now {m} k) (chats s), messages := map (mergedMessage l now {m} k) (messages s)\<rparr>, [])"
proof (cases "m = k")
  case True
  then have "mergedChat l now {m} k = (\<lambda>r. r)" "mergedMessage l now {m} k = (\<lambda>r. r)"
    by (simp_all add: mergedChat_def mergedMessage_def fun_eq_iff)
  then show ?thesis using True by (simp add: ignoreErr_def reKeyPortalID_def dbCatch_def dbReturn_def)
next
  case False
  have c: "updateWhere (ofPortal l m) (\<lambda>r. r\<lparr>cPortal := k, cFwdDone := False, cUpdated := Some now\<rparr>) cs =
      map (mergedChat l now {m} k) cs" for cs
    using False by (simp add: updateWhere_def mergedChat_def ofPortal_def moveChat_def)
  have ms: "updateWhere (\<lambda>r. mLogin r = l \<and> mPortal r = Some m) (\<lambda>r. r\<lparr>mPortal := Some k, mUpdated := now\<rparr>) rs =
      map (mergedMessage l now {m} k) rs" for rs
    using False by (simp add: updateWhere_def mergedMessage_def moveMessage_def)
  show ?thesis
    using False assms unfolding ignoreErr_def reKeyPortalID_def dbCatch_def dbThen_def dbBind_def
    by (simp only: stmt_Nil prod.case sum.case if_False store_tables simp_thms c ms)
qed

lemma moved_row:
  "cLogin (moveChat now k r) = cLogin r" "cPortal (moveChat now k r) = k"
  "mLogin (moveMessage now k t) = mLogin t" "mPortal (moveMessage now k t) = Some k"
  by (simp_all add: moveChat_def moveMessage_def)

lemma merged_compose:
  "mergedChat l now ms k (mergedChat l now {m} k r) = mergedChat l now (insert m ms) k r"
  "mergedMessage l now ms k (mergedMessage l now {m} k t) = mergedMessage l now (insert m ms) k t"
proof -
  show "mergedChat l now ms k (mergedChat l now {m} k r) = mergedChat l now (insert m ms) k r"
    by (cases "cLogin r = l \<and> cPortal r \<in> {m} - {k}") (auto simp: mergedChat_def moved_row)
  show "mergedMessage l now ms k (mergedMessage l now {m} k t) = mergedMessage l now (insert m ms) k t"
    by (cases "mLogin t = l \<and> mPortal t \<in> Some ` ({m} - {k})") (auto simp: mergedMessage_def moved_row)
qed

lemma reKeys_Nil:
  assumes "k \<noteq> []" "[] \<notin> set ms"
  shows "dbEach (\<lambda>m. ignoreErr (reKeyPortalID l now m k)) ms (s, []) =
    (Inr (), s\<lparr>chats := map (mergedChat l now (set ms) k) (chats s), messages := map (mergedMessage l now (set ms) k) (messages s)\<rparr>, [])"
  using assms(2)
proof (induction ms arbitrary: s)
  case Nil
  have "mergedChat l now {} k = (\<lambda>r. r)" "mergedMessage l now {} k = (\<lambda>r. r)"
    by (simp_all add: mergedChat_def mergedMessage_def fun_eq_iff)
  then show ?case by (simp add: dbReturn_def)
next
  case (Cons m ms)
  have m: "m \<noteq> []" "[] \<notin> set ms" using Cons.prems by auto
  show ?case
    by (simp only: dbEach.simps dbThen_def dbBind_def reKey_Nil [OF m(1) assms(1)] prod.case sum.case Cons.IH [OF m(2)]
        store_tables map_map o_def merged_compose list.set)
qed

text \<open>C30: The consolidation of a group, a loop of moves with ignored errors, is one update of the tables when no
  statement fails: every row of every member goes to the canonical portal, nothing else about a message
  changes but its modification time, no other row is touched, and the canonical portal is backfilled anew.\<close>

theorem consolidation_is_one_update:
  assumes "cgCanonical g \<noteq> []" "[] \<notin> set (cgMembers g)"
  shows "finalStore (consolidateOneCarrierGroup api c l now g w (s, [])) =
    s\<lparr>chats := map (\<lambda>r. let r' = mergedChat l now (set (cgMembers g)) (cgCanonical g) r in
          if ofPortal l (cgCanonical g) r' then r'\<lparr>cFwdDone := False\<rparr> else r') (chats s),
      messages := map (mergedMessage l now (set (cgMembers g)) (cgCanonical g)) (messages s)\<rparr>"
proof -
  let ?s = "s\<lparr>chats := map (mergedChat l now (set (cgMembers g)) (cgCanonical g)) (chats s),
      messages := map (mergedMessage l now (set (cgMembers g)) (cgCanonical g)) (messages s)\<rparr>"
  have reset: "ignoreErr (resetForwardBackfillDone l k) (t, []) = (Inr (), t\<lparr>chats :=
      map (\<lambda>r. if ofPortal l k r then r\<lparr>cFwdDone := False\<rparr> else r) (chats t)\<rparr>, [])" for k t
    by (simp add: ignoreErr_def resetForwardBackfillDone_def dbCatch_def updateWhere_def)
  show ?thesis
    unfolding consolidateOneCarrierGroup_def Let_def dbThen_def dbBind_def
    by (simp only: reKeys_Nil [OF assms] reset prod.case sum.case dbReturn_def finalStore_simp store_tables map_map o_def)
qed

section \<open>Witnesses\<close>

lemma room_moves_plan_witness:
  "set (rpReIDs (planCarrierRoomMoves ''k'' False
     [\<lparr>crPortalID = ''gid:a'', crHasRoom = True, crMsgCount = 3\<rparr>, \<lparr>crPortalID = ''gid:b'', crHasRoom = True, crMsgCount = 7\<rparr>,
      \<lparr>crPortalID = ''gid:c'', crHasRoom = False, crMsgCount = 0\<rparr>])) = {''gid:a'', ''gid:b''}"
  using room_moves_plan [of "[\<lparr>crPortalID = ''gid:a'', crHasRoom = True, crMsgCount = 3\<rparr>,
      \<lparr>crPortalID = ''gid:b'', crHasRoom = True, crMsgCount = 7\<rparr>, \<lparr>crPortalID = ''gid:c'', crHasRoom = False, crMsgCount = 0\<rparr>]"
      "''k''" False]
  by (simp add: roomsOf_def Let_def)

lemma consolidation_is_one_update_witness:
  "cPortal (hd (chats (finalStore (consolidateOneCarrierGroup
      \<lparr>ba_hasRoom = (\<lambda>_ _. False), ba_bridged = (\<lambda>_ _. 0), ba_reID = (\<lambda>_ _ b. (True, b))\<rparr> sampleGroupEnv ''login'' 9
      \<lparr>cgCanonical = ''tel:+1,tel:+2'', cgMembers = [''gid:a'', ''gid:b'']\<rparr> (noGroups, ())
      (noRows\<lparr>chats := [emptyChat ''login'' ''c1'' ''gid:a'' 1]\<rparr>, []))))) = ''tel:+1,tel:+2''"
  by (subst consolidation_is_one_update) (simp_all add: mergedChat_def moveChat_def emptyChat_def ofPortal_def Let_def)

end
