(* ===== verification/MessageIngest.thy ===== *)
theory MessageIngest
  imports ChatIngest GoNumbers
begin

text \<open>
  The import of messages from CloudKit, \<open>sync_controller.go\<close>: the conversation of a message
  (\<open>resolveConversationID\<close>), the recovery of its attachments, and the import of a page
  (\<open>ingestCloudMessages\<close>).  \<open>WrappedCloudSyncMessage\<close> is the record the bindings hand over.
\<close>

section \<open>Records\<close>

record WrappedCloudSyncMessage =
  umRecordName :: bytes
  umGuid :: bytes
  umCloudChatId :: bytes
  umSender :: bytes
  umIsFromMe :: bool
  umText :: "bytes option"
  umSubject :: "bytes option"
  umService :: bytes
  umTimestampMs :: time_ms
  umDeleted :: bool
  umTapbackType :: "nat option"
  umTapbackTargetGuid :: "bytes option"
  umTapbackEmoji :: "bytes option"
  umAttachmentGuids :: "bytes list"
  umDateReadMs :: time_ms
  umHasBody :: bool
  umReplyGuid :: "bytes option"
  umReplyPart :: "bytes option"

record cloudAttachmentRow =
  atGUID :: bytes
  atMimeType :: bytes
  atUTIType :: bytes
  atFilename :: bytes
  atFileSize :: int
  atRecordName :: bytes
  atHideAttachment :: bool
  atHasAvid :: bool

text \<open>\<open>json.Marshal\<close> of \<open>[]cloudAttachmentRow\<close>, with the \<open>omitempty\<close> of its tags.\<close>

definition jsonField :: "bytes \<Rightarrow> bytes \<Rightarrow> bytes" where
  "jsonField key v = jsonString key @ '':'' @ v"

definition attachmentJSON :: "cloudAttachmentRow \<Rightarrow> bytes" where
  "attachmentJSON a =
     (let text = (\<lambda>key v. if v = [] then [] else [jsonField key (jsonString v)]);
          flag = (\<lambda>key b. if b then [jsonField key ''true''] else []) in
      ''{'' @ Join ([jsonField ''guid'' (jsonString (atGUID a))] @ text ''mime_type'' (atMimeType a)
         @ text ''uti_type'' (atUTIType a) @ text ''filename'' (atFilename a)
         @ [jsonField ''file_size'' (Itoa (atFileSize a)), jsonField ''record_name'' (jsonString (atRecordName a))]
         @ flag ''hide_attachment'' (atHideAttachment a) @ flag ''has_avid'' (atHasAvid a)) '','' @ ''}'')"

definition marshalAttachments :: "cloudAttachmentRow list \<Rightarrow> bytes" where
  "marshalAttachments rows = ''['' @ Join (map attachmentJSON rows) '','' @ '']''"

section \<open>The conversation of a message\<close>

definition hexDigit :: "char \<Rightarrow> bool" where
  "hexDigit ch = (let b = of_char ch :: nat in
     48 \<le> b \<and> b \<le> 57 \<or> 97 \<le> b \<and> b \<le> 102 \<or> 65 \<le> b \<and> b \<le> 70)"

definition uuidPattern :: "bytes \<Rightarrow> bool" where
  "uuidPattern s = (let parts = Split s (CHR ''-'') in
     map length parts = [8, 4, 4, 4, 12] \<and> list_all (list_all hexDigit) parts)"

definition hexGroupPattern :: "bytes \<Rightarrow> bool" where
  "hexGroupPattern s = (40 \<le> length s \<and> length s \<le> 128 \<and> list_all hexDigit s)"

definition isNumericSuffix :: "bytes \<Rightarrow> bool" where
  "isNumericSuffix s = (s \<noteq> [] \<and> list_all (\<lambda>ch. 48 \<le> (of_char ch :: nat) \<and> of_char ch \<le> (57 :: nat)) s)"

text \<open>What follows \<open>;+;\<close>.\<close>

definition groupSuffix :: "bytes \<Rightarrow> bytes" where
  "groupSuffix chatID = (case Index chatID '';+;'' of Some i \<Rightarrow> drop (i + 3) chatID | None \<Rightarrow> [])"

text \<open>The recipient in the chat identifier of an own message: the third part, or all of an identifier without
  semicolons.\<close>

definition chatRecipient :: "bytes \<Rightarrow> bytes" where
  "chatRecipient chatID = (let parts = Split chatID (CHR '';'') in
     if length parts = 3 then parts ! 2 else if \<not> Contains chatID '';'' then chatID else [])"

definition selfChat :: "genv \<Rightarrow> bytes \<Rightarrow> bytes" where
  "selfChat c chatID =
     (if HasPrefix (ToLower chatID) ''chat'' \<and> isNumericSuffix (drop 4 chatID)
      then normalizeIdentifierForPortalID (ie_handle c) else [])"

text \<open>The rules for a message whose chat is not stored.\<close>

definition conversationByRule :: "genv \<Rightarrow> WrappedCloudSyncMessage \<Rightarrow> bytes" where
  "conversationByRule c msg =
     (let chatID = umCloudChatId msg; from = normalizeIdentifierForPortalID (umSender msg);
          to = normalizeIdentifierForPortalID (chatRecipient chatID) in
      if chatID \<noteq> [] \<and> (uuidPattern chatID \<or> hexGroupPattern chatID) then ''gid:'' @ ToLower chatID
      else if chatID \<noteq> [] \<and> groupSuffix chatID \<noteq> [] then ''gid:'' @ ToLower (groupSuffix chatID)
      else if umSender msg \<noteq> [] \<and> \<not> umIsFromMe msg \<and> from \<noteq> [] then dmPortal c from
      else if umIsFromMe msg \<and> chatID \<noteq> [] \<and> chatRecipient chatID \<noteq> [] \<and> to \<noteq> []
        \<and> (HasPrefix to ''tel:'' \<or> HasPrefix to ''mailto:'') then dmPortal c to
      else if umIsFromMe msg then selfChat c chatID
      else [])"

definition resolveConversationID :: "genv \<Rightarrow> bytes \<Rightarrow> WrappedCloudSyncMessage \<Rightarrow> bytes db" where
  "resolveConversationID c l msg =
     (if umCloudChatId msg = [] then dbReturn (conversationByRule c msg)
      else dbBind (dbTry (getChatPortalID l (umCloudChatId msg))) (\<lambda>r.
        dbReturn (case r of
          Inr portalID \<Rightarrow> if portalID \<noteq> [] then portalID else conversationByRule c msg
        | Inl _ \<Rightarrow> conversationByRule c msg)))"

section \<open>Attachments\<close>

text \<open>An attachment is identified by \<open>at_<index>_<message guid>\<close>; \<open>attachmentsByMessage\<close> and
  \<open>attMapLowercased\<close> are the two indexes over the attachments of the zone.\<close>

type_synonym att_map = "(bytes \<times> cloudAttachmentRow) list"
type_synonym att_index = "(bytes \<Rightarrow> bytes list) \<times> (bytes \<Rightarrow> bytes option)"

definition ownerOf :: "bytes \<Rightarrow> bytes option" where
  "ownerOf attGUID = (let rest = drop 3 attGUID in
     case IndexByte rest (CHR ''_'') of
       None \<Rightarrow> None
     | Some u \<Rightarrow> if u = 0 \<or> u = length rest - 1 then None else Some (drop (u + 1) rest))"

definition addTo :: "bytes \<Rightarrow> bytes \<Rightarrow> (bytes \<Rightarrow> bytes list) \<Rightarrow> bytes \<Rightarrow> bytes list" where
  "addTo k v m = m(k := m k @ [v])"

definition indexAttachment :: "bytes \<Rightarrow> att_index \<Rightarrow> att_index" where
  "indexAttachment attGUID ix =
     (case ix of (byMessage, lower) \<Rightarrow>
        if \<not> HasPrefix attGUID ''at_'' then ix
        else let lower' = lower(ToLower attGUID \<mapsto> attGUID) in
          (case ownerOf attGUID of
             None \<Rightarrow> (byMessage, lower')
           | Some m \<Rightarrow>
               (if ToLower m \<noteq> m then addTo (ToLower m) attGUID (addTo m attGUID byMessage) else addTo m attGUID byMessage,
                lower')))"

definition attachmentIndex :: "att_map \<Rightarrow> att_index" where
  "attachmentIndex attMap = fold indexAttachment (map fst attMap) (\<lambda>_. [], Map.empty)"

definition mergedGuids :: "(bytes \<Rightarrow> bytes list) \<Rightarrow> bytes \<Rightarrow> bytes list \<Rightarrow> bytes list" where
  "mergedGuids byMessage guid attachmentGuids =
     (let own = dedup_by {} (filter (\<lambda>g. g \<noteq> []) attachmentGuids);
          fallback = dedup_by (set own) (sort (byMessage guid));
          folded = (if ToLower guid \<noteq> guid then dedup_by (set own \<union> set fallback) (byMessage (ToLower guid)) else []) in
      own @ fallback @ folded)"

definition attachmentOf :: "att_map \<Rightarrow> (bytes \<Rightarrow> bytes option) \<Rightarrow> bytes \<Rightarrow> cloudAttachmentRow list" where
  "attachmentOf attMap lower g =
     (case map_of attMap g of
        Some enriched \<Rightarrow> [enriched]
      | None \<Rightarrow> (case lower (ToLower g) of
          Some origKey \<Rightarrow> (case map_of attMap origKey of Some enriched \<Rightarrow> [enriched] | None \<Rightarrow> [])
        | None \<Rightarrow> []))"

definition attachmentRows :: "att_map \<Rightarrow> (bytes \<Rightarrow> bytes option) \<Rightarrow> bytes list \<Rightarrow> cloudAttachmentRow list" where
  "attachmentRows attMap lower guids = concat (map (attachmentOf attMap lower) guids)"

definition attachmentsJSON :: "att_map \<Rightarrow> (bytes \<Rightarrow> bytes option) \<Rightarrow> bytes list \<Rightarrow> bytes" where
  "attachmentsJSON attMap lower guids =
     (let rows = attachmentRows attMap lower guids in if rows = [] then [] else marshalAttachments rows)"

section \<open>The import of a page of messages\<close>

definition rowFor :: "time_ms \<Rightarrow> bool \<Rightarrow> bytes \<Rightarrow> bytes \<Rightarrow> WrappedCloudSyncMessage \<Rightarrow> cloudMessageRow" where
  "rowFor now isDeleted portalID atts msg =
     \<lparr>GUID = umGuid msg, RecordName = umRecordName msg, CloudChatID = umCloudChatId msg, PortalID = portalID,
      TimestampMS = (if umTimestampMs msg \<le> 0 then now else umTimestampMs msg), Sender = umSender msg,
      IsFromMe = umIsFromMe msg, Text = coalesce (umText msg) [], Subject = coalesce (umSubject msg) [],
      Service = umService msg, Deleted = isDeleted, TapbackKind = umTapbackType msg,
      TapbackTargetGUID = coalesce (umTapbackTargetGuid msg) [], TapbackEmoji = coalesce (umTapbackEmoji msg) [],
      AttachmentsJSON = atts, DateReadMS = umDateReadMs msg, HasBody = umHasBody msg,
      ReplyToGUID = coalesce (umReplyGuid msg) [], ReplyToPart = coalesce (umReplyPart msg) [],
      BodyScrubbed = False\<rparr>"

record message_page =
  mpCounts :: cloudSyncCounters
  mpBatch :: "cloudMessageRow list"
  mpByMessage :: "bytes \<Rightarrow> bytes list"

definition countMessage :: "bool \<Rightarrow> cloudSyncCounters \<Rightarrow> cloudSyncCounters" where
  "countMessage known n = (if known then n\<lparr>nUpdated := nUpdated n + 1\<rparr> else n\<lparr>nImported := nImported n + 1\<rparr>)"

definition skipped :: "cloudSyncCounters \<Rightarrow> cloudSyncCounters" where
  "skipped n = n\<lparr>nSkipped := nSkipped n + 1\<rparr>"

definition filtered :: "cloudSyncCounters \<Rightarrow> cloudSyncCounters" where
  "filtered n = n\<lparr>nFiltered := nFiltered n + 1\<rparr>"

text \<open>A query that fails does not stop the message.\<close>

definition orElse :: "'a \<Rightarrow> 'a db \<Rightarrow> 'a db" where
  "orElse d m = dbCatch m (\<lambda>_. dbReturn d)"

text \<open>Sorting the fallback sorts the slice in the index.\<close>

definition addMessage :: "time_ms \<Rightarrow> bytes set \<Rightarrow> bytes set \<Rightarrow> att_map option \<Rightarrow> (bytes \<Rightarrow> bytes option) \<Rightarrow> bytes
    \<Rightarrow> WrappedCloudSyncMessage \<Rightarrow> message_page \<Rightarrow> message_page" where
  "addMessage now deletedPortals existing attMap lower portalID msg pg =
     (let guid = umGuid msg; byMessage = mpByMessage pg;
          atts = (case attMap of None \<Rightarrow> []
            | Some m \<Rightarrow> attachmentsJSON m lower (mergedGuids byMessage guid (umAttachmentGuids msg))) in
      pg\<lparr>mpCounts := countMessage (guid \<in> existing) (mpCounts pg),
         mpBatch := mpBatch pg @ [rowFor now (portalID \<in> deletedPortals) portalID atts msg],
         mpByMessage := (if attMap = None then byMessage else byMessage(guid := sort (byMessage guid)))\<rparr>)"

definition messageStep :: "genv \<Rightarrow> bytes \<Rightarrow> time_ms \<Rightarrow> bytes \<Rightarrow> bytes set \<Rightarrow> bytes set \<Rightarrow> att_map option
    \<Rightarrow> (bytes \<Rightarrow> bytes option) \<Rightarrow> WrappedCloudSyncMessage \<Rightarrow> message_page \<Rightarrow> message_page db" where
  "messageStep c l now preferredPortalID deletedPortals existing attMap lower msg pg =
     (if umGuid msg = [] then dbReturn (pg\<lparr>mpCounts := skipped (mpCounts pg)\<rparr>)
      else dbBind (resolveConversationID c l msg) (\<lambda>resolved.
        let portalID = (if resolved = [] then preferredPortalID else resolved) in
        if portalID = [] then dbReturn (pg\<lparr>mpCounts := skipped (mpCounts pg)\<rparr>)
        else dbBind (orElse False (portalIsExplicitlyDeleted l portalID)) (\<lambda>isTombstoned.
          if isTombstoned then dbReturn (pg\<lparr>mpCounts := filtered (mpCounts pg)\<rparr>)
          else dbBind (if umCloudChatId msg = [] then orElse True (portalHasChat l portalID) else dbReturn True) (\<lambda>hasChat.
            if \<not> hasChat then dbReturn (pg\<lparr>mpCounts := filtered (mpCounts pg)\<rparr>)
            else dbReturn (addMessage now deletedPortals existing attMap lower portalID msg pg)))))"

definition ingestCloudMessages :: "genv \<Rightarrow> bytes \<Rightarrow> time_ms \<Rightarrow> WrappedCloudSyncMessage list \<Rightarrow> bytes
    \<Rightarrow> cloudSyncCounters \<Rightarrow> att_map option \<Rightarrow> client_state \<Rightarrow> (cloudSyncCounters \<times> err option) db" where
  "ingestCloudMessages c l now msgs preferredPortalID counts0 attMap w =
     (let dead = filter umDeleted msgs; live = filter (\<lambda>m. \<not> umDeleted m) msgs;
          nonempty = filter (\<lambda>g. g \<noteq> []);
          counts = counts0\<lparr>nDeleted := nDeleted counts0 + length dead\<rparr>;
          deletedPortals = set (map fst (recentlyDeletedPortals w));
          (byMessage, lower) = attachmentIndex (coalesce attMap []) in
      dbBind (dbTry (wrapErr ''failed to delete messages'' (deleteMessageBatch l now (nonempty (map umGuid dead))))) (\<lambda>r1.
      case r1 of
        Inl e \<Rightarrow> dbReturn (counts, Some e)
      | Inr _ \<Rightarrow>
          dbBind (dbTry (wrapErr ''batch existence check failed'' (hasMessageBatch l (nonempty (map umGuid live))))) (\<lambda>r2.
          case r2 of
            Inl e \<Rightarrow> dbReturn (counts, Some e)
          | Inr existing \<Rightarrow>
              dbBind (dbFold (messageStep c l now preferredPortalID deletedPortals existing attMap lower) live
                  \<lparr>mpCounts = counts, mpBatch = [], mpByMessage = byMessage\<rparr>) (\<lambda>pg.
              dbBind (dbTry (upsertMessageBatch l now (mpBatch pg))) (\<lambda>r3.
              dbReturn (mpCounts pg, case r3 of Inl e \<Rightarrow> Some e | Inr _ \<Rightarrow> None))))))"

end
