(* ===== verification/SyncPaging.thy ===== *)
theory SyncPaging
  imports MessageIngest
begin

text \<open>
  The loops of \<open>sync_controller.go\<close> over the pages of a CloudKit zone: \<open>syncCloudMessages\<close>,
  \<open>syncCloudChats\<close> and the delay before a page is tried again.  \<open>fetch\<close> is the call into the bindings, a
  function of the number of the attempt and the continuation token; the fuel of the loops is
  \<open>maxCloudSyncPages\<close>, the bound the code itself sets.
\<close>

section \<open>The delay after an error\<close>

text \<open>The expression \<open>retry_after_seconds:\s*Some\((\d+)\)\<close>: its digits at the first place where it matches.\<close>

definition reSpace :: "char \<Rightarrow> bool" where
  "reSpace ch = (of_char ch \<in> {9, 10, 12, 13, 32 :: nat})"

definition reDigit :: "char \<Rightarrow> bool" where
  "reDigit ch = (48 \<le> (of_char ch :: nat) \<and> of_char ch \<le> (57 :: nat))"

definition retryHintHere :: "bytes \<Rightarrow> bytes option" where
  "retryHintHere s =
     (if \<not> HasPrefix s ''retry_after_seconds:'' then None
      else let t = dropWhile reSpace (drop 20 s) in
        if \<not> HasPrefix t ''Some('' then None
        else let u = drop 5 t; ds = takeWhile reDigit u in
          if ds \<noteq> [] \<and> HasPrefix (drop (length ds) u) '')'' then Some ds else None)"

fun retryHint :: "bytes \<Rightarrow> bytes option" where
  "retryHint [] = None"
| "retryHint (ch # s) = (case retryHintHere (ch # s) of Some ds \<Rightarrow> Some ds | None \<Rightarrow> retryHint s)"

text \<open>A \<open>time.Duration\<close> counts nanoseconds in 64 bits; the product of the hint with a second can wrap.\<close>

definition millisecond :: int where "millisecond = 1000000"
definition second :: int where "second = 1000000000"

definition mulDuration :: "int \<Rightarrow> int \<Rightarrow> int" where
  "mulDuration a b = sint (word_of_int (a * b) :: 64 word)"

definition cloudKitRetryDelay :: "bytes option \<Rightarrow> nat \<Rightarrow> int" where
  "cloudKitRetryDelay e consecutiveErrors =
     (let fallback0 = (if 1 < consecutiveErrors then push_bit (min 6 (consecutiveErrors - 1)) (500 * millisecond)
                       else 500 * millisecond);
          fallback = (if 30 * second < fallback0 then 30 * second else fallback0) in
      case e of
        None \<Rightarrow> fallback
      | Some text \<Rightarrow>
          (case retryHint text of
             None \<Rightarrow> fallback
           | Some ds \<Rightarrow>
               (case Atoi ds of (secs, parseErr) \<Rightarrow>
                  if parseErr = None \<and> 0 < secs then
                    let hint0 = mulDuration secs second; hint = (if 30 * second < hint0 then 30 * second else hint0) in
                    if fallback < hint then hint else fallback
                  else fallback)))"

section \<open>Messages\<close>

record messages_page =
  pgMessages :: "WrappedCloudSyncMessage list"
  pgToken :: "bytes option"
  pgDone :: bool

definition cloudZoneMessages :: bytes where "cloudZoneMessages = ''messageManateeZone''"
definition cloudZoneChats :: bytes where "cloudZoneChats = ''chatManateeZone''"

definition maxCloudSyncPages :: nat where "maxCloudSyncPages = 10000"
definition maxConsecutiveErrors :: nat where "maxConsecutiveErrors = 3"

definition persistToken :: "bytes \<Rightarrow> time_ms \<Rightarrow> bytes \<Rightarrow> bytes option \<Rightarrow> unit db" where
  "persistToken l now zone token = dbCatch (setSyncStateSuccess l now zone token) (\<lambda>_. dbReturn ())"

fun messagePages :: "genv \<Rightarrow> bytes \<Rightarrow> time_ms \<Rightarrow> (nat \<Rightarrow> bytes option \<Rightarrow> err + messages_page) \<Rightarrow> att_map option
    \<Rightarrow> client_state \<Rightarrow> nat \<Rightarrow> nat \<Rightarrow> nat \<Rightarrow> bytes option \<Rightarrow> cloudSyncCounters
    \<Rightarrow> (cloudSyncCounters \<times> bytes option \<times> err option) db" where
  "messagePages c l now fetch attMap w 0 page errs token counts = dbReturn (counts, token, None)"
| "messagePages c l now fetch attMap w (Suc n) page errs token counts =
     (case fetch page token of
        Inl _ \<Rightarrow>
          if maxConsecutiveErrors \<le> errs + 1 then dbReturn (counts, token, None)
          else messagePages c l now fetch attMap w n (page + 1) (errs + 1) token counts
      | Inr resp \<Rightarrow>
          dbBind (ingestCloudMessages c l now (pgMessages resp) [] counts attMap w) (\<lambda>(counts', e).
            if e \<noteq> None then dbReturn (counts', token, e)
            else let token' = pgToken resp in
              dbThen (if token' \<noteq> None \<and> pgMessages resp \<noteq> [] then persistToken l now cloudZoneMessages token'
                      else dbReturn ())
               (if pgDone resp \<or> 0 < page \<and> coalesce token [] = coalesce token' []
                then dbReturn (counts', token', None)
                else messagePages c l now fetch attMap w n (page + 1) 0 token' counts')))"

definition syncCloudMessages :: "genv \<Rightarrow> bytes \<Rightarrow> time_ms \<Rightarrow> (nat \<Rightarrow> bytes option \<Rightarrow> err + messages_page)
    \<Rightarrow> att_map option \<Rightarrow> client_state \<Rightarrow> (cloudSyncCounters \<times> bytes option \<times> err option) db" where
  "syncCloudMessages c l now fetch attMap w =
     dbBind (dbTry (getSyncState l cloudZoneMessages)) (\<lambda>r.
       case r of
         Inl e \<Rightarrow> dbReturn (noCounts, None, Some e)
       | Inr token \<Rightarrow> messagePages c l now fetch attMap w maxCloudSyncPages 0 0 token noCounts)"

section \<open>Chats\<close>

record chats_page =
  pcChats :: "WrappedCloudSyncChat list"
  pcToken :: "bytes option"
  pcDone :: bool

fun chatPages :: "genv \<Rightarrow> bytes \<Rightarrow> time_ms \<Rightarrow> (nat \<Rightarrow> bytes option \<Rightarrow> err + chats_page) \<Rightarrow> nat \<Rightarrow> nat \<Rightarrow> nat
    \<Rightarrow> bytes option \<Rightarrow> cloudSyncCounters \<Rightarrow> client_state
    \<Rightarrow> (cloudSyncCounters \<times> bytes option \<times> err option \<times> client_state) db" where
  "chatPages c l now fetch 0 page errs token counts w = dbReturn (counts, token, None, w)"
| "chatPages c l now fetch (Suc n) page errs token counts w =
     (case fetch page token of
        Inl _ \<Rightarrow>
          if maxConsecutiveErrors \<le> errs + 1 then dbReturn (counts, token, None, w)
          else chatPages c l now fetch n (page + 1) (errs + 1) token counts w
      | Inr resp \<Rightarrow>
          dbBind (ingestCloudChats c l now (pcChats resp) w) (\<lambda>(ingested, e, w').
            if e \<noteq> None then dbReturn (counts, token, e, w')
            else let counts' = addCounts counts ingested; token' = pcToken resp in
              dbThen (if token' \<noteq> None then persistToken l now cloudZoneChats token' else dbReturn ())
               (if pcDone resp \<or> 0 < page \<and> coalesce token [] = coalesce token' []
                then dbReturn (counts', token', None, w')
                else chatPages c l now fetch n (page + 1) 0 token' counts' w')))"

definition syncCloudChats :: "genv \<Rightarrow> bytes \<Rightarrow> time_ms \<Rightarrow> (nat \<Rightarrow> bytes option \<Rightarrow> err + chats_page) \<Rightarrow> client_state
    \<Rightarrow> (cloudSyncCounters \<times> bytes option \<times> err option \<times> client_state) db" where
  "syncCloudChats c l now fetch w =
     dbBind (dbTry (getSyncState l cloudZoneChats)) (\<lambda>r.
       case r of
         Inl e \<Rightarrow> dbReturn (noCounts, None, Some e, w)
       | Inr token \<Rightarrow> chatPages c l now fetch maxCloudSyncPages 0 0 token noCounts w)"

end
