(* ===== verification/MessageIngestSpec.thy ===== *)
theory MessageIngestSpec
  imports MessageIngest CloudMessageSpec GroupSpec
begin

text \<open>
  What the import of messages achieves: no attachment of a message is lost, every message of a page is
  accounted for, and a deleted conversation gets no live messages back.
\<close>

section \<open>Queries\<close>

text \<open>A run that only reads leaves the tables alone, and does not fail when no statement does.\<close>

definition reads :: "'a db \<Rightarrow> bool" where
  "reads m \<longleftrightarrow> (\<forall>s fs. \<exists>r fs'. m (s, fs) = (r, s, fs') \<and> (fs = [] \<longrightarrow> fs' = []))"

lemma readsD: "reads m \<Longrightarrow> \<exists>r fs'. m (s, fs) = (r, s, fs') \<and> (fs = [] \<longrightarrow> fs' = [])"
  by (simp add: reads_def)

lemma reads_return [intro]: "reads (dbReturn x)"
  by (simp add: reads_def dbReturn_def)

lemma reads_query [intro]: "reads (sqlQuery q)"
  unfolding reads_def
proof (intro allI)
  fix s fs
  show "\<exists>r fs'. sqlQuery q (s, fs) = (r, s, fs') \<and> (fs = [] \<longrightarrow> fs' = [])"
    using sqlStmt_cases [of "\<lambda>s. (q s, s)" s fs] by (auto simp: sqlQuery_def)
qed

lemma reads_bind [intro]:
  assumes "reads m" "\<And>x. reads (k x)"
  shows "reads (dbBind m k)"
  unfolding reads_def
proof (intro allI)
  fix s fs
  obtain r fs1 where m: "m (s, fs) = (r, s, fs1)" "fs = [] \<longrightarrow> fs1 = []" using readsD [OF assms(1)] by blast
  show "\<exists>r fs'. dbBind m k (s, fs) = (r, s, fs') \<and> (fs = [] \<longrightarrow> fs' = [])"
    using m readsD [OF assms(2), of "projr r" s fs1] by (cases r) (auto simp: dbBind_def)
qed

lemma reads_catch [intro]:
  assumes "reads m" "\<And>e. reads (h e)"
  shows "reads (dbCatch m h)"
  unfolding reads_def
proof (intro allI)
  fix s fs
  obtain r fs1 where m: "m (s, fs) = (r, s, fs1)" "fs = [] \<longrightarrow> fs1 = []" using readsD [OF assms(1)] by blast
  show "\<exists>r fs'. dbCatch m h (s, fs) = (r, s, fs') \<and> (fs = [] \<longrightarrow> fs' = [])"
    using m readsD [OF assms(2), of "projl r" s fs1] by (cases r) (auto simp: dbCatch_def)
qed

lemma reads_try [intro]: "reads m \<Longrightarrow> reads (dbTry m)"
  unfolding reads_def dbTry_def by (metis (no_types, lifting) case_prod_conv)

lemma reads_fold: "(\<And>x a. reads (f x a)) \<Longrightarrow> reads (dbFold f xs a)"
  by (induction xs arbitrary: a) auto

lemmas reads_intros = reads_return reads_query reads_bind reads_catch reads_try

lemma reads_tryPrefixes: "reads (tryPrefixes l skip ps)"
  by (induction l skip ps rule: tryPrefixes.induct) (auto intro!: reads_intros split: sum.split option.split)

lemma reads_getChatPortalID: "reads (getChatPortalID l chatID)"
proof (induction l chatID rule: getChatPortalID.induct)
  case (1 l chatID)
  show ?case
    unfolding getChatPortalID.simps [of l chatID]
    by (intro reads_bind reads_query)
      (auto intro!: reads_intros 1 reads_tryPrefixes split: option.split sum.split list.split)
qed

lemma reads_resolveConversationID: "reads (resolveConversationID c l msg)"
  by (auto simp: resolveConversationID_def intro!: reads_intros reads_getChatPortalID)

lemma reads_messageStep: "reads (messageStep c l now pref dels existing attMap lower msg pg)"
  by (auto simp: messageStep_def orElse_def portalIsExplicitlyDeleted_def portalHasChat_def Let_def
      intro!: reads_intros reads_resolveConversationID)

lemma reads_messages: "reads (dbFold (messageStep c l now pref dels existing attMap lower) msgs pg)"
  by (rule reads_fold) (rule reads_messageStep)

section \<open>Attachments\<close>

lemma index_step: "g \<in> set (fst ix k) \<Longrightarrow> g \<in> set (fst (indexAttachment a ix) k)"
  by (cases ix) (auto simp: indexAttachment_def addTo_def Let_def split: option.split)

lemma index_mono: "g \<in> set (fst ix k) \<Longrightarrow> g \<in> set (fst (fold indexAttachment gs ix) k)"
  by (induction gs arbitrary: ix) (simp_all add: index_step)

lemma index_complete:
  assumes "g \<in> set gs" "HasPrefix g ''at_''" "ownerOf g = Some m"
  shows "g \<in> set (fst (fold indexAttachment gs ix) (ToLower m))"
proof -
  obtain xs ys where gs: "gs = xs @ g # ys" using assms(1) split_list by metis
  have "g \<in> set (fst (indexAttachment g (fold indexAttachment xs ix)) (ToLower m))"
    using assms(2,3) by (auto simp: indexAttachment_def addTo_def Let_def split: prod.split)
  then show ?thesis unfolding gs by (simp add: index_mono)
qed

lemma mergedGuids_set:
  "set (mergedGuids byMessage guid own) = (set own - {[]}) \<union> set (byMessage guid) \<union> set (byMessage (ToLower guid))"
  by (auto simp: mergedGuids_def Let_def)

lemma attachmentRows_hit: "g \<in> set gs \<Longrightarrow> map_of attMap g = Some a \<Longrightarrow> a \<in> set (attachmentRows attMap lower gs)"
  by (auto simp: attachmentRows_def attachmentOf_def intro!: bexI [of _ g])

lemma map_of_zone: "map_of m k = Some a \<Longrightarrow> a \<in> snd ` set m"
  using map_of_SomeD by force

lemma attachmentOf_zone: "set (attachmentOf attMap lower g) \<subseteq> snd ` set attMap"
  by (auto simp: attachmentOf_def split: option.splits dest: map_of_zone map_of_zone [OF sym])

text \<open>C28: The import loses no attachment.  An attachment of the zone whose identifier names the message, in
  whatever letter case, and one that the message lists under its exact identifier, is among the rows stored
  with the message, and every row stored is an attachment of the zone.\<close>

theorem attachments_complete:
  assumes "attachmentIndex attMap = (byMessage, lower)" "map_of attMap g = Some a"
    and "g \<in> set own \<and> g \<noteq> [] \<or> HasPrefix g ''at_'' \<and> map_option ToLower (ownerOf g) = Some (ToLower guid)"
  shows "a \<in> set (attachmentRows attMap lower (mergedGuids byMessage guid own))
    \<and> set (attachmentRows attMap lower (mergedGuids byMessage guid own)) \<subseteq> snd ` set attMap"
proof
  have g: "g \<in> set (map fst attMap)" using map_of_SomeD [OF assms(2)] by force
  have "g \<in> set (mergedGuids byMessage guid own)"
    using assms(3)
  proof
    assume h: "HasPrefix g ''at_'' \<and> map_option ToLower (ownerOf g) = Some (ToLower guid)"
    then obtain m where m: "ownerOf g = Some m" "ToLower m = ToLower guid" by auto
    have "g \<in> set (fst (attachmentIndex attMap) (ToLower m))"
      unfolding attachmentIndex_def using g h m(1) by (intro index_complete) auto
    then show ?thesis using assms(1) m(2) by (simp add: mergedGuids_set)
  qed (simp add: mergedGuids_set)
  then show "a \<in> set (attachmentRows attMap lower (mergedGuids byMessage guid own))"
    using assms(2) by (rule attachmentRows_hit)
  show "set (attachmentRows attMap lower (mergedGuids byMessage guid own)) \<subseteq> snd ` set attMap"
    using attachmentOf_zone [of attMap lower] unfolding attachmentRows_def set_concat set_map by blast
qed

definition sampleAtt :: "bytes \<Rightarrow> cloudAttachmentRow" where
  "sampleAtt g = \<lparr>atGUID = g, atMimeType = ''image/png'', atUTIType = [], atFilename = [], atFileSize = 7,
     atRecordName = ''r1'', atHideAttachment = False, atHasAvid = False\<rparr>"

lemma sample_lower: "ToLower ''at_0_ABC'' = ''at_0_abc''" "ToLower ''ABC'' = ''abc''" "ToLower ''abc'' = ''abc''"
  "ToLower ''at_0_abc'' = ''at_0_abc''"
  by (simp_all add: id_eval)

lemma sample_index:
  "attachmentIndex [(''at_0_abc'', a)] =
     ((\<lambda>_. [])(''abc'' := [''at_0_abc'']), [''at_0_abc'' \<mapsto> ''at_0_abc''])"
  by (simp add: attachmentIndex_def indexAttachment_def ownerOf_def IndexByte_def addTo_def sample_lower Let_def)

lemma attachments_complete_witness:
  "sampleAtt ''at_0_abc'' \<in> set (attachmentRows [(''at_0_abc'', sampleAtt ''at_0_abc'')] [''at_0_abc'' \<mapsto> ''at_0_abc'']
     (mergedGuids ((\<lambda>_. [])(''abc'' := [''at_0_abc''])) ''ABC'' []))"
  using attachments_complete [OF sample_index [of "sampleAtt ''at_0_abc''"], of "''at_0_abc''" _ "[]" "''ABC''"]
  by (simp add: sample_lower ownerOf_def IndexByte_def)

text \<open>A message that lists its attachment in another letter case than the zone gets it twice: the fallback
  compares identifiers exactly, the lookup does not.\<close>

lemma attachment_twice:
  "attachmentRows [(''at_0_abc'', a)] [''at_0_abc'' \<mapsto> ''at_0_abc'']
     (mergedGuids ((\<lambda>_. [])(''abc'' := [''at_0_abc''])) ''ABC'' [''at_0_ABC'']) = [a, a]"
  by (simp add: attachmentRows_def attachmentOf_def mergedGuids_def sample_lower Let_def)

text \<open>The fallback is sorted as text, which is not the order of the indexes.\<close>

lemma attachment_order:
  "mergedGuids ((\<lambda>_. [])(''M'' := [''at_2_M'', ''at_10_M''])) ''M'' [] = [''at_10_M'', ''at_2_M'']"
  by (simp add: mergedGuids_def id_eval less_char_def)

section \<open>What a step does\<close>

definition tombstoned :: "bytes \<Rightarrow> bytes \<Rightarrow> store \<Rightarrow> bool" where
  "tombstoned l p s = list_ex (\<lambda>r. ofPortal l p r \<and> cDeleted r) (chats s)"

lemma countWhere_ex: "0 < countWhere P rs \<longleftrightarrow> list_ex P rs"
  by (induction rs) (auto simp: countWhere_def)

lemma orElse_query: "orElse d (sqlQuery q) (s, fs) = (Inr (q s), s, tl fs) \<or> fs \<noteq> [] \<and> orElse d (sqlQuery q) (s, fs) = (Inr d, s, tl fs)"
  using sqlStmt_cases [of "\<lambda>s. (q s, s)" s fs]
  by (cases fs) (auto simp: orElse_def dbCatch_def dbReturn_def sqlQuery_def)

lemma bindE:
  assumes "dbBind m k x = (Inr r, y)"
  obtains a z where "m x = (Inr a, z)" "k a z = (Inr r, y)"
  using assms by (auto simp: dbBind_def split: prod.splits sum.splits)

lemma returnD: "dbReturn a x = (Inr r, y) \<Longrightarrow> r = a \<and> y = x"
  by (simp add: dbReturn_def)

definition pageStep :: "time_ms \<Rightarrow> bytes set \<Rightarrow> bytes \<Rightarrow> store \<Rightarrow> script \<Rightarrow> WrappedCloudSyncMessage \<Rightarrow> message_page
    \<Rightarrow> message_page \<Rightarrow> bool" where
  "pageStep now dels l s fs msg pg pg' \<longleftrightarrow>
     mpBatch pg' = mpBatch pg \<and> (mpCounts pg' = skipped (mpCounts pg) \<or> mpCounts pg' = filtered (mpCounts pg))
     \<or> (\<exists>p atts known. mpBatch pg' = mpBatch pg @ [rowFor now (p \<in> dels) p atts msg]
          \<and> mpCounts pg' = countMessage known (mpCounts pg) \<and> (fs = [] \<longrightarrow> \<not> tombstoned l p s))"

lemma pageStep_add:
  "(fs = [] \<longrightarrow> \<not> tombstoned l p s) \<Longrightarrow> pageStep now dels l s fs msg pg (addMessage now dels existing attMap lower p msg pg)"
  unfolding pageStep_def addMessage_def Let_def by (simp; blast)

lemma pageStep_drop:
  "pageStep now dels l s fs msg pg (pg\<lparr>mpCounts := skipped (mpCounts pg)\<rparr>)"
  "pageStep now dels l s fs msg pg (pg\<lparr>mpCounts := filtered (mpCounts pg)\<rparr>)"
  by (simp_all add: pageStep_def)

lemma messageStep_result:
  assumes "messageStep c l now pref dels existing attMap lower msg pg (s, fs) = (Inr pg', y)"
  shows "pageStep now dels l s fs msg pg pg'"
proof (cases "umGuid msg = []")
  case True
  then show ?thesis using assms by (auto simp: messageStep_def pageStep_drop dest!: returnD)
next
  case False
  obtain resolved z where r: "resolveConversationID c l msg (s, fs) = (Inr resolved, z)"
    and k: "(let portalID = (if resolved = [] then pref else resolved) in
        if portalID = [] then dbReturn (pg\<lparr>mpCounts := skipped (mpCounts pg)\<rparr>)
        else dbBind (orElse False (portalIsExplicitlyDeleted l portalID)) (\<lambda>isTombstoned.
          if isTombstoned then dbReturn (pg\<lparr>mpCounts := filtered (mpCounts pg)\<rparr>)
          else dbBind (if umCloudChatId msg = [] then orElse True (portalHasChat l portalID) else dbReturn True) (\<lambda>hasChat.
            if \<not> hasChat then dbReturn (pg\<lparr>mpCounts := filtered (mpCounts pg)\<rparr>)
            else dbReturn (addMessage now dels existing attMap lower portalID msg pg)))) z = (Inr pg', y)"
    using assms False unfolding messageStep_def by (auto elim: bindE)
  obtain fs1 where z: "z = (s, fs1)" "fs = [] \<longrightarrow> fs1 = []"
    using readsD [OF reads_resolveConversationID, of c l msg s fs] r by auto
  define p where "p = (if resolved = [] then pref else resolved)"
  show ?thesis
  proof (cases "p = []")
    case True
    then show ?thesis using k by (auto simp: pageStep_drop p_def [symmetric] Let_def dest!: returnD)
  next
    case False
    obtain dead z2 where d: "orElse False (portalIsExplicitlyDeleted l p) (s, fs1) = (Inr dead, z2)"
      and k2: "(if dead then dbReturn (pg\<lparr>mpCounts := filtered (mpCounts pg)\<rparr>)
          else dbBind (if umCloudChatId msg = [] then orElse True (portalHasChat l p) else dbReturn True) (\<lambda>hasChat.
            if \<not> hasChat then dbReturn (pg\<lparr>mpCounts := filtered (mpCounts pg)\<rparr>)
            else dbReturn (addMessage now dels existing attMap lower p msg pg))) z2 = (Inr pg', y)"
      using k False unfolding p_def [symmetric] Let_def z(1) by (auto elim: bindE)
    have t: "fs = [] \<longrightarrow> dead = tombstoned l p s"
      using d z(2) orElse_query [of False "\<lambda>s. 0 < countWhere (\<lambda>r. ofPortal l p r \<and> cDeleted r) (chats s)" s fs1]
      by (auto simp: portalIsExplicitlyDeleted_def countWhere_ex tombstoned_def)
    show ?thesis
    proof (cases dead)
      case True
      then show ?thesis using k2 by (auto simp: pageStep_drop dest!: returnD)
    next
      case False
      obtain ok z3 where "(if \<not> ok then dbReturn (pg\<lparr>mpCounts := filtered (mpCounts pg)\<rparr>)
            else dbReturn (addMessage now dels existing attMap lower p msg pg)) z3 = (Inr pg', y)"
        using k2 False by (auto elim: bindE)
      then show ?thesis using t False
        by (cases ok) (auto simp: pageStep_add pageStep_drop dest!: returnD)
    qed
  qed
qed

section \<open>What a page does\<close>

definition totalCount :: "cloudSyncCounters \<Rightarrow> nat" where
  "totalCount n = nImported n + nUpdated n + nSkipped n + nDeleted n + nFiltered n"

lemma totalCount_simps:
  "totalCount (skipped n) = Suc (totalCount n)" "totalCount (filtered n) = Suc (totalCount n)"
  "totalCount (countMessage known n) = Suc (totalCount n)"
  "totalCount (n\<lparr>nDeleted := nDeleted n + k\<rparr>) = totalCount n + k"
  by (simp_all add: totalCount_def skipped_def filtered_def countMessage_def)

text \<open>What holds of every row that a page adds; the tombstone counts when no statement fails.\<close>

definition admitted :: "bytes set \<Rightarrow> bytes \<Rightarrow> store \<Rightarrow> bool \<Rightarrow> cloudMessageRow \<Rightarrow> bool" where
  "admitted dels l s quiet row \<longleftrightarrow> (Deleted row \<longleftrightarrow> PortalID row \<in> dels) \<and> (quiet \<longrightarrow> \<not> tombstoned l (PortalID row) s)"

lemma pageStep_effect:
  assumes "pageStep now dels l s fs msg pg pg'"
  shows "totalCount (mpCounts pg') = Suc (totalCount (mpCounts pg))"
    "list_all (admitted dels l s quiet) (mpBatch pg) \<Longrightarrow> (quiet \<Longrightarrow> fs = []) \<Longrightarrow> list_all (admitted dels l s quiet) (mpBatch pg')"
  using assms by (auto simp: pageStep_def totalCount_simps admitted_def rowFor_def)

lemma fold_messageStep:
  assumes "dbFold (messageStep c l now pref dels existing attMap lower) live pg (s, fs) = (Inr pg', y)"
    and "list_all (admitted dels l s quiet) (mpBatch pg)" "quiet \<Longrightarrow> fs = []"
  shows "totalCount (mpCounts pg') = totalCount (mpCounts pg) + length live
    \<and> fst y = s \<and> list_all (admitted dels l s quiet) (mpBatch pg')"
  using assms
proof (induction live arbitrary: pg fs)
  case Nil
  then show ?case by (auto dest!: returnD)
next
  case (Cons m live)
  obtain pg1 z where st: "messageStep c l now pref dels existing attMap lower m pg (s, fs) = (Inr pg1, z)"
    and rest: "dbFold (messageStep c l now pref dels existing attMap lower) live pg1 z = (Inr pg', y)"
    using Cons.prems(1) by (auto elim: bindE)
  obtain fs1 where z: "z = (s, fs1)" "fs = [] \<longrightarrow> fs1 = []"
    using readsD [OF reads_messageStep, of c l now pref dels existing attMap lower m pg s fs] st by auto
  note step = pageStep_effect [OF messageStep_result [OF st]]
  show ?case
    using Cons.IH [OF rest [unfolded z(1)] step(2)] step(1) Cons.prems(2,3) z(2) by simp
qed

section \<open>Live rows\<close>

definition liveRows :: "bytes \<Rightarrow> bytes \<Rightarrow> store \<Rightarrow> message_row set" where
  "liveRows l p s = {r. r \<in> set (messages s) \<and> mLogin r = l \<and> mPortal r = Some p \<and> \<not> mDeleted r}"

definition noNewLive :: "bytes \<Rightarrow> bytes \<Rightarrow> store \<Rightarrow> store \<Rightarrow> bool" where
  "noNewLive l p s t \<longleftrightarrow> chats t = chats s \<and> liveRows l p t \<subseteq> liveRows l p s"

interpretation live: run_relation "noNewLive l p" for l p
  by unfold_locales (auto simp: noNewLive_def)

lemma live_update:
  assumes "\<And>r. mDeleted (f r)"
  shows "noNewLive l p s (s\<lparr>messages := updateWhere P f (messages s)\<rparr>)"
  using assms by (auto simp: noNewLive_def liveRows_def updateWhere_def)

lemma live_upsert:
  assumes "mPortal new = Some p \<Longrightarrow> mDeleted new"
  shows "noNewLive l p s (s\<lparr>messages := upsertRow messageKey mergeMessage new (messages s)\<rparr>)"
proof -
  have "mPortal (mergeMessage r new) = Some p \<Longrightarrow> mDeleted (mergeMessage r new)" for r
    using assms by (simp add: mergeMessage_def Let_def)
  then show ?thesis
    using assms by (auto simp: noNewLive_def liveRows_def upsertRow_def)
qed

context run_relation begin

lemma keeps_each_in: "(\<And>x. x \<in> set xs \<Longrightarrow> keepsRel R (f x)) \<Longrightarrow> keepsRel R (dbEach f xs)"
  by (induction xs) (auto intro: keeps_return keeps_then)

end

lemma live_deleteBatch: "keepsRel (noNewLive l p) (deleteMessageBatch l now guids)"
  unfolding deleteMessageBatch_def
  by (intro live.keeps_each live.keeps_wrap live.keeps_exec live_update) (simp add: sealRow_def)

lemma live_insert:
  assumes "PortalID row = p \<Longrightarrow> Deleted row"
  shows "keepsRel (noNewLive l p) (insertMessage l now row)"
  unfolding insertMessage_def using assms
  by (intro live.keeps_catch live.keeps_exec live_upsert) (auto simp: importedRow_def intro: live.keeps_return live.keeps_fail)

lemma live_upsertBatch:
  assumes "list_all (\<lambda>row. PortalID row = p \<longrightarrow> Deleted row) rows"
  shows "keepsRel (noNewLive l p) (upsertMessageBatch l now rows)"
proof -
  have "x \<in> set rows" if "x \<in> set (newestByGUID rows)" for x
    using that newestByGUID_rows(3) [of rows] unfolding isNewest_def by fastforce
  then have "keepsRel (noNewLive l p) (dbEach (insertMessage l now) (newestByGUID rows))"
    using assms by (intro live.keeps_each_in live_insert) (auto simp: list_all_iff)
  then show ?thesis
    unfolding upsertMessageBatch_def
    by (auto intro!: live.keeps_return live.keeps_tx live.keeps_then live.keeps_wrap live.keeps_exec live.R_refl)
qed

lemma reads_hasMessageBatch: "reads (hasMessageBatch l guids)"
  unfolding hasMessageBatch_def by (intro reads_fold reads_bind reads_query reads_return)

lemma reads_wrap: "reads m \<Longrightarrow> reads (wrapErr msg m)"
  unfolding wrapErr_def by (intro reads_catch) (simp_all add: reads_def dbFail_def)

lemma each_exec_quiet:
  "\<exists>s'. dbEach (\<lambda>x. wrapErr msg (sqlExec (g x))) xs (s, []) = (Inr (), s', [])"
  by (induction xs arbitrary: s) (simp_all add: dbReturn_def dbThen_def dbBind_def wrapErr_def dbCatch_def)

lemma deleteBatch_quiet: "\<exists>s'. deleteMessageBatch l now guids (s, []) = (Inr (), s', [])"
  unfolding deleteMessageBatch_def by (rule each_exec_quiet)

text \<open>A run of the import: the deletions, the queries, and the rows that are added.\<close>

lemma ingest_cases:
  assumes "ingestCloudMessages c l now msgs pref counts attMap w (s, fs) = (res, t, fs')" and "quiet \<Longrightarrow> fs = []"
  shows "noNewLive l p s t \<and> (\<forall>n. res \<noteq> Inr (n, None))
    \<or> (\<exists>s1 (pg :: message_page) fs1 e. noNewLive l p s s1
        \<and> list_all (admitted (set (map fst (recentlyDeletedPortals w))) l s1 quiet) (mpBatch pg)
        \<and> t = finalStore (upsertMessageBatch l now (mpBatch pg) (s1, fs1))
        \<and> totalCount (mpCounts pg) = totalCount counts + length msgs \<and> res = Inr (mpCounts pg, e))"
  (is "?stopped \<or> ?added")
proof -
  define dels where "dels = set (map fst (recentlyDeletedPortals w))"
  define dead where "dead = filter umDeleted msgs"
  define live where "live = filter (\<lambda>m. \<not> umDeleted m) msgs"
  define counts1 where "counts1 = counts\<lparr>nDeleted := nDeleted counts + length dead\<rparr>"
  define nonempty where "nonempty = filter (\<lambda>g. g \<noteq> ([] :: bytes))"
  obtain byMessage lower where ix: "attachmentIndex (coalesce attMap []) = (byMessage, lower)" by fastforce
  define pg0 where "pg0 = \<lparr>mpCounts = counts1, mpBatch = [], mpByMessage = byMessage\<rparr>"
  have len: "length dead + length live = length msgs"
    unfolding dead_def live_def by (rule sum_length_filter_compl)
  obtain r1 s1 fs1 where d: "dbTry (wrapErr ''failed to delete messages'' (deleteMessageBatch l now (nonempty (map umGuid dead)))) (s, fs)
      = (Inr r1, s1, fs1)" by (cases "wrapErr ''failed to delete messages'' (deleteMessageBatch l now (nonempty (map umGuid dead))) (s, fs)")
        (simp add: dbTry_def)
  have s1: "noNewLive l p s s1"
    using keepsRelD [OF live.keeps_try_result [OF live.keeps_wrap [OF live_deleteBatch]]] d
    by (metis finalStore_simp)
  have q1: "quiet \<Longrightarrow> fs1 = []"
    using d assms(2) deleteBatch_quiet [of l now "nonempty (map umGuid dead)" s]
    by (auto simp: dbTry_def wrapErr_def dbCatch_def)
  have run: "ingestCloudMessages c l now msgs pref counts attMap w (s, fs) =
      (case r1 of Inl e \<Rightarrow> dbReturn (counts1, Some e)
       | Inr _ \<Rightarrow> dbBind (dbTry (wrapErr ''batch existence check failed'' (hasMessageBatch l (nonempty (map umGuid live))))) (\<lambda>r2.
          case r2 of
            Inl e \<Rightarrow> dbReturn (counts1, Some e)
          | Inr existing \<Rightarrow> dbBind (dbFold (messageStep c l now pref dels existing attMap lower) live pg0) (\<lambda>pg.
              dbBind (dbTry (upsertMessageBatch l now (mpBatch pg))) (\<lambda>r3.
              dbReturn (mpCounts pg, case r3 of Inl e \<Rightarrow> Some e | Inr _ \<Rightarrow> None))))) (s1, fs1)"
    unfolding ingestCloudMessages_def Let_def ix prod.case dead_def [symmetric] live_def [symmetric] counts1_def [symmetric]
      dels_def [symmetric] nonempty_def [symmetric] pg0_def [symmetric] dbBind_def [of "dbTry (wrapErr ''failed to delete messages'' _)"] d
    by simp
  show ?thesis
  proof (cases r1)
    case (Inl e)
    then show ?thesis using run assms(1) s1 by (intro disjI1) (auto simp: dbReturn_def)
  next
    case r1: (Inr u)
    obtain r2 fs2 where h: "dbTry (wrapErr ''batch existence check failed'' (hasMessageBatch l (nonempty (map umGuid live)))) (s1, fs1)
        = (Inr r2, s1, fs2)" "fs1 = [] \<longrightarrow> fs2 = []"
      using readsD [OF reads_wrap [OF reads_hasMessageBatch], of "''batch existence check failed''" l "nonempty (map umGuid live)" s1 fs1]
      by (auto simp: dbTry_def)
    show ?thesis
    proof (cases r2)
      case (Inl e)
      then show ?thesis using run assms(1) s1 h(1) r1 by (intro disjI1) (auto simp: dbReturn_def dbBind_def)
    next
      case r2: (Inr existing)
      obtain r3 fs3 where f: "dbFold (messageStep c l now pref dels existing attMap lower) live pg0 (s1, fs2) = (r3, s1, fs3)"
        using readsD [OF reads_messages] by blast
      show ?thesis
      proof (cases r3)
        case (Inl e)
        then show ?thesis using run assms(1) s1 h(1) r1 r2 f by (intro disjI1) (auto simp: dbBind_def)
      next
        case (Inr pg)
        have pg: "totalCount (mpCounts pg) = totalCount counts + length msgs"
          "list_all (admitted dels l s1 quiet) (mpBatch pg)"
          using fold_messageStep [OF f [unfolded Inr], of quiet] q1 h(2) len
          by (simp_all add: pg0_def counts1_def totalCount_simps)
        have "res = Inr (mpCounts pg, case fst (upsertMessageBatch l now (mpBatch pg) (s1, fs3)) of Inl e \<Rightarrow> Some e | Inr _ \<Rightarrow> None)
            \<and> t = finalStore (upsertMessageBatch l now (mpBatch pg) (s1, fs3))"
          using run assms(1) h(1) r1 r2 f Inr
          by (cases "upsertMessageBatch l now (mpBatch pg) (s1, fs3)") (auto simp: dbBind_def dbTry_def dbReturn_def)
        then have ?added using s1 pg unfolding dels_def by blast
        then show ?thesis ..
      qed
    qed
  qed
qed

section \<open>Properties\<close>

text \<open>The import brings no deleted conversation back.  For a portal that was deleted in this session, whatever
  statements fail, and for a portal with a tombstone row, when none does, no import of any page of messages
  adds a live message or revives one.\<close>

theorem deleted_portals_stay_dead:
  assumes "p \<in> fst ` set (recentlyDeletedPortals w) \<or> fs = [] \<and> tombstoned l p s"
  shows "liveRows l p (finalStore (ingestCloudMessages c l now msgs pref counts attMap w (s, fs))) \<subseteq> liveRows l p s"
proof -
  obtain res t fs' where run: "ingestCloudMessages c l now msgs pref counts attMap w (s, fs) = (res, t, fs')"
    by (cases "ingestCloudMessages c l now msgs pref counts attMap w (s, fs)") blast
  consider "noNewLive l p s t" | s1 and pg :: message_page and fs1 where "noNewLive l p s s1"
      "list_all (admitted (set (map fst (recentlyDeletedPortals w))) l s1 (fs = [])) (mpBatch pg)"
      "t = finalStore (upsertMessageBatch l now (mpBatch pg) (s1, fs1))"
    using ingest_cases [OF run, of "fs = []" p] by blast
  then have "noNewLive l p s t"
  proof cases
    case 2
    have "tombstoned l p s1 = tombstoned l p s" using 2(1) by (simp add: noNewLive_def tombstoned_def)
    then have "list_all (\<lambda>row. PortalID row = p \<longrightarrow> Deleted row) (mpBatch pg)"
      using 2(2) assms by (auto simp: list_all_iff admitted_def)
    then have "noNewLive l p s1 t"
      using keepsRelD [OF live_upsertBatch] 2(3) by blast
    then show ?thesis using 2(1) live.R_trans by blast
  qed
  then show ?thesis unfolding run finalStore_simp by (simp add: noNewLive_def)
qed

text \<open>Every message of a page is accounted for exactly once: when the import reports success, whatever
  queries failed on the way, the counters have grown by the number of messages of the page.\<close>

theorem ingest_accounts:
  "case outcome (ingestCloudMessages c l now msgs pref counts attMap w x) of
     Inr (counts', None) \<Rightarrow> totalCount counts' = totalCount counts + length msgs
   | Inr (counts', Some e) \<Rightarrow> True
   | Inl e \<Rightarrow> True"
proof -
  obtain s fs res t fs' where run: "x = (s, fs)" "ingestCloudMessages c l now msgs pref counts attMap w (s, fs) = (res, t, fs')"
    by (metis surj_pair)
  show ?thesis
    using ingest_cases [OF run(2), of False] unfolding run outcome_simp by (fastforce split: sum.split option.split)
qed

definition sampleCloudMessage :: WrappedCloudSyncMessage where
  "sampleCloudMessage = \<lparr>umRecordName = ''r1'', umGuid = ''G1'', umCloudChatId = ''any;+;9f'', umSender = ''a@x.org'',
     umIsFromMe = False, umText = Some ''hi'', umSubject = None, umService = ''iMessage'', umTimestampMs = 5,
     umDeleted = False, umTapbackType = None, umTapbackTargetGuid = None, umTapbackEmoji = None,
     umAttachmentGuids = [], umDateReadMs = 0, umHasBody = True, umReplyGuid = None, umReplyPart = None\<rparr>"

definition sampleClient :: client_state where
  "sampleClient = \<lparr>groups = noGroups, recentlyDeletedPortals = [(''gid:9f'', \<lparr>deletedAt = 1, isTombstone = False\<rparr>)],
     effects = []\<rparr>"

lemma deleted_portals_stay_dead_witness:
  "liveRows ''login'' ''gid:9f'' (finalStore (ingestCloudMessages sampleGroupEnv ''login'' 9 [sampleCloudMessage] []
     noCounts None sampleClient (noRows, [None, Some ''busy'']))) = {}"
  using deleted_portals_stay_dead [of "''gid:9f''" sampleClient "[None, Some ''busy'']" "''login''" noRows
      sampleGroupEnv 9 "[sampleCloudMessage]" "[]" noCounts None]
  by (simp add: sampleClient_def liveRows_def noRows_def)

end
