(* ===== verification/SyncPagingSpec.thy ===== *)
theory SyncPagingSpec
  imports SyncPaging MessageIngestSpec
begin

text \<open>What the loops over the pages promise: they end, they wait a bounded time, and no sync brings a deleted
  conversation back.\<close>

section \<open>Ending\<close>

text \<open>A server that is not asked any more after \<open>n\<close> attempts.\<close>

definition cutFetch :: "nat \<Rightarrow> (nat \<Rightarrow> bytes option \<Rightarrow> err + 'a) \<Rightarrow> nat \<Rightarrow> bytes option \<Rightarrow> err + 'a" where
  "cutFetch n fetch i token = (if i < n then fetch i token else Inl ''unreachable'')"

lemma messagePages_cut:
  "page + n \<le> m \<Longrightarrow> messagePages c l now (cutFetch m fetch) attMap w n page errs token counts
    = messagePages c l now fetch attMap w n page errs token counts"
proof (induction n arbitrary: page errs token counts)
  case (Suc n)
  have f: "cutFetch m fetch page token = fetch page token" using Suc.prems by (simp add: cutFetch_def)
  have ih: "messagePages c l now (cutFetch m fetch) attMap w n (page + 1) e t k =
      messagePages c l now fetch attMap w n (page + 1) e t k" for e t k
    using Suc.prems by (intro Suc.IH) simp
  show ?case unfolding messagePages.simps f ih ..
qed simp

lemma chatPages_cut:
  "page + n \<le> m \<Longrightarrow> chatPages c l now (cutFetch m fetch) n page errs token counts w
    = chatPages c l now fetch n page errs token counts w"
proof (induction n arbitrary: page errs token counts w)
  case (Suc n)
  have f: "cutFetch m fetch page token = fetch page token" using Suc.prems by (simp add: cutFetch_def)
  have ih: "chatPages c l now (cutFetch m fetch) n (page + 1) e t k v = chatPages c l now fetch n (page + 1) e t k v"
    for e t k v
    using Suc.prems by (intro Suc.IH) simp
  show ?case unfolding chatPages.simps f ih ..
qed simp


section \<open>Waiting\<close>

text \<open>The delay before a page is tried again is at least half a second and at most thirty, for every error
  text, also when the hint in it overflows; without a hint it doubles with each error up to the bound,
  and a hint of up to thirty seconds is honoured.\<close>

theorem retry_delay_bounds:
  "500 * millisecond \<le> cloudKitRetryDelay e n \<and> cloudKitRetryDelay e n \<le> 30 * second
   \<and> cloudKitRetryDelay None n = min (30 * second) (500 * millisecond * 2 ^ min 6 (n - 1))
   \<and> (case e of None \<Rightarrow> True | Some text \<Rightarrow>
        (case retryHint text of None \<Rightarrow> cloudKitRetryDelay e n = cloudKitRetryDelay None n
         | Some ds \<Rightarrow> (case Atoi ds of (secs, parseErr) \<Rightarrow>
             if parseErr = None \<and> 0 < secs \<and> secs \<le> 30 then secs * second \<le> cloudKitRetryDelay e n else True)))"
proof -
  define fb where "fb = min (30 * second) (500 * millisecond * 2 ^ min 6 (n - 1))"
  have "(2 :: int) ^ min 6 (n - 1) \<ge> 1" by simp
  then have fb: "500 * millisecond \<le> fb" "fb \<le> 30 * second"
    by (simp_all add: fb_def millisecond_def second_def)
  define f0 where "f0 = (if 1 < n then push_bit (min 6 (n - 1)) (500 * millisecond) else 500 * millisecond)"
  have "f0 = 500 * millisecond * 2 ^ min 6 (n - 1)"
    by (cases "1 < n") (simp_all add: f0_def push_bit_eq_mult)
  then have f: "(if 30 * second < f0 then 30 * second else f0) = fb" by (simp add: fb_def)
  have def: "cloudKitRetryDelay e n = (case e of None \<Rightarrow> fb | Some text \<Rightarrow> (case retryHint text of None \<Rightarrow> fb | Some ds \<Rightarrow>
      (case Atoi ds of (secs, parseErr) \<Rightarrow> if parseErr = None \<and> 0 < secs then
          if fb < (if 30 * second < mulDuration secs second then 30 * second else mulDuration secs second)
          then (if 30 * second < mulDuration secs second then 30 * second else mulDuration secs second) else fb else fb)))" for e
    unfolding cloudKitRetryDelay_def f0_def [symmetric] Let_def f ..
  have mul: "mulDuration secs second = secs * second" if "0 < secs" "secs \<le> 30" for secs
  proof -
    have "signed_take_bit 63 (secs * second) = secs * second"
      using that by (intro signed_take_bit_int_eq_self) (simp_all add: second_def)
    then show ?thesis unfolding mulDuration_def sint_sbintrunc' by simp
  qed
  show ?thesis
    unfolding def fb_def [symmetric] using fb mul
    by (auto simp: Let_def second_def split: option.split prod.split)
qed

section \<open>Deleted conversations\<close>

lemma ingest_noNewLive:
  assumes "p \<in> fst ` set (recentlyDeletedPortals w)"
  shows "keepsRel (noNewLive l p) (ingestCloudMessages c l now msgs pref counts attMap w)"
  unfolding keepsRel_def
proof (intro allI)
  fix s fs
  obtain res t fs' where run: "ingestCloudMessages c l now msgs pref counts attMap w (s, fs) = (res, t, fs')"
    by (cases "ingestCloudMessages c l now msgs pref counts attMap w (s, fs)") blast
  consider "noNewLive l p s t" | s1 and pg :: message_page and fs1 where "noNewLive l p s s1"
      "list_all (admitted (set (map fst (recentlyDeletedPortals w))) l s1 False) (mpBatch pg)"
      "t = finalStore (upsertMessageBatch l now (mpBatch pg) (s1, fs1))"
    using ingest_cases [OF run, of False p] by blast
  then have "noNewLive l p s t"
  proof cases
    case 2
    then have "list_all (\<lambda>row. PortalID row = p \<longrightarrow> Deleted row) (mpBatch pg)"
      using assms by (auto simp: list_all_iff admitted_def)
    then show ?thesis using keepsRelD [OF live_upsertBatch] 2 live.R_trans by blast
  qed
  then show "noNewLive l p s (finalStore (ingestCloudMessages c l now msgs pref counts attMap w (s, fs)))"
    by (simp add: run)
qed

lemma live_persist: "keepsRel (noNewLive l p) (persistToken l now zone token)"
  unfolding persistToken_def setSyncStateSuccess_def
  by (intro live.keeps_catch live.keeps_exec live.keeps_return) (simp add: noNewLive_def liveRows_def)

lemma messagePages_noNewLive:
  assumes "p \<in> fst ` set (recentlyDeletedPortals w)"
  shows "keepsRel (noNewLive l p) (messagePages c l now fetch attMap w n page errs token counts)"
  by (induction n arbitrary: page errs token counts)
    (auto intro!: live.keeps_return live.keeps_bind live.keeps_then live_persist ingest_noNewLive [OF assms]
      simp: Let_def split: sum.split prod.split)

text \<open>C3: No sync brings a deleted conversation back: for a portal that was deleted in this session, a whole sync of
  messages, over however many pages, whatever the server sends and whatever statements fail, adds no live
  message and revives none.\<close>

theorem sync_keeps_dead:
  assumes "p \<in> fst ` set (recentlyDeletedPortals w)"
  shows "liveRows l p (finalStore (syncCloudMessages c l now fetch attMap w (s, fs))) \<subseteq> liveRows l p s"
proof -
  have "keepsRel (noNewLive l p) (syncCloudMessages c l now fetch attMap w)"
    unfolding syncCloudMessages_def getSyncState_def
    by (auto intro!: live.keeps_return live.keeps_bind live.keeps_try_result live.keeps_query
        messagePages_noNewLive [OF assms] split: sum.split)
  then show ?thesis by (metis keepsRelD noNewLive_def)
qed

lemma sync_keeps_dead_witness:
  "liveRows ''login'' ''gid:9f'' (finalStore (syncCloudMessages sampleGroupEnv ''login'' 9
     (\<lambda>_ _. Inr \<lparr>pgMessages = [sampleCloudMessage], pgToken = None, pgDone = True\<rparr>) None sampleClient (noRows, []))) = {}"
  using sync_keeps_dead [of "''gid:9f''" sampleClient "''login''" sampleGroupEnv 9 _ None noRows "[]"]
  by (simp add: sampleClient_def liveRows_def noRows_def)

end
