(* ===== verification/PortalQueue.thy ===== *)
theory PortalQueue
  imports ChatIngest
begin

text \<open>
  \<open>createPortalsFromCloudSync\<close> of \<open>sync_controller.go\<close>: which of the stored conversations are queued for
  bridgev2, which count as initial backfills, and whose backfill tasks are reset.  The pauses between the
  events are left out.
\<close>

section \<open>State\<close>

record queue_state =
  queuedPortals :: "bytes \<Rightarrow> time_ms option"
  pendingInitialBackfills :: int
  chatResyncs :: "(bytes \<times> time_ms) list"
  backfillResets :: "bytes list"

record queue_scan =
  qsOrdered :: "bytes list"
  qsNewest :: "bytes \<Rightarrow> time_ms"
  qsSeen :: "bytes \<Rightarrow> bytes option"
  qsForward :: nat

section \<open>The selection\<close>

text \<open>The first occurrence is replaced.\<close>

fun replaceFirst :: "'a \<Rightarrow> 'a \<Rightarrow> 'a list \<Rightarrow> 'a list" where
  "replaceFirst old new [] = []"
| "replaceFirst old new (x # xs) = (if x = old then new # xs else x # replaceFirst old new xs)"

definition enqueue :: "genv \<Rightarrow> queue_state \<Rightarrow> bytes \<Rightarrow> time_ms \<Rightarrow> nat \<Rightarrow> queue_scan \<Rightarrow> queue_scan" where
  "enqueue c q pid ts count sc =
     (if (case queuedPortals q pid of Some lastTS \<Rightarrow> ts \<le> lastTS | None \<Rightarrow> False) then sc
      else sc\<lparr>qsForward := (if 0 < count \<and> \<not> ie_portalExists c pid then qsForward sc + 1 else qsForward sc),
             qsOrdered := qsOrdered sc @ [pid]\<rparr>)"

text \<open>A group that is already in the list keeps its place; the portal with a room is preferred.\<close>

definition duplicateGroup :: "genv \<Rightarrow> bytes \<Rightarrow> bytes \<Rightarrow> bytes \<Rightarrow> queue_scan \<Rightarrow> queue_scan" where
  "duplicateGroup c key existingID pid sc =
     (if ie_portalExists c pid \<and> \<not> ie_portalExists c existingID
      then sc\<lparr>qsSeen := (qsSeen sc)(key \<mapsto> pid), qsOrdered := replaceFirst existingID pid (qsOrdered sc)\<rparr>
      else sc)"

definition queueStep :: "genv \<Rightarrow> bytes \<Rightarrow> bytes set \<Rightarrow> queue_state \<Rightarrow> bytes \<times> time_ms \<times> nat \<Rightarrow> queue_scan \<Rightarrow> queue_scan db" where
  "queueStep c l dels q info sc0 =
     (case info of (pid, ts, count) \<Rightarrow>
        let sc = sc0\<lparr>qsNewest := (qsNewest sc0)(pid := ts)\<rparr> in
        if pid \<in> dels then dbReturn sc
        else if isGroupPortalID pid then
          dbBind (if isGid pid then getGroupIDForPortalID l pid else dbReturn []) (\<lambda>groupID.
            let key = groupPortalDedupKey pid groupID [] in
            case qsSeen sc key of
              Some existingID \<Rightarrow> dbReturn (duplicateGroup c key existingID pid sc)
            | None \<Rightarrow> dbReturn (enqueue c q pid ts count (sc\<lparr>qsSeen := (qsSeen sc)(key \<mapsto> pid)\<rparr>)))
        else dbReturn (enqueue c q pid ts count sc))"

section \<open>Queueing\<close>

definition createPortalsFromCloudSync :: "genv \<Rightarrow> bytes \<Rightarrow> bool \<Rightarrow> client_state \<Rightarrow> queue_state \<Rightarrow> queue_state db" where
  "createPortalsFromCloudSync c l cloudSyncDone w q =
     dbBind (dbTry (listPortalIDsWithNewestTimestamp l)) (\<lambda>r.
       case r of
         Inl _ \<Rightarrow> dbReturn q
       | Inr portalInfos \<Rightarrow>
           if portalInfos = [] then dbReturn q
           else dbBind (dbFold (queueStep c l (set (map fst (recentlyDeletedPortals w))) q) portalInfos
                  \<lparr>qsOrdered = [], qsNewest = (\<lambda>_. 0), qsSeen = Map.empty, qsForward = 0\<rparr>) (\<lambda>sc.
             dbBind (dbTry (portalsFullyBackfilledNoNewContent l)) (\<lambda>r2.
               let skipUnchanged = (case r2 of Inl _ \<Rightarrow> {} | Inr s \<Rightarrow> s);
                   queued = filter (\<lambda>p. p \<notin> skipUnchanged) (qsOrdered sc) in
               dbReturn (q\<lparr>
                 pendingInitialBackfills := (if cloudSyncDone then pendingInitialBackfills q else int (qsForward sc)),
                 chatResyncs := chatResyncs q @ map (\<lambda>p. (p, qsNewest sc p)) queued,
                 queuedPortals := fold (\<lambda>p m. m(p \<mapsto> qsNewest sc p)) queued (queuedPortals q),
                 backfillResets := backfillResets q @ filter (ie_portalExists c) queued\<rparr>))))"

end
