(* ===== verification/PortalQueueSpec.thy ===== *)
theory PortalQueueSpec
  imports PortalQueue CloudMessageSpec
begin

text \<open>What \<open>createPortalsFromCloudSync\<close> promises: one room per conversation.\<close>

section \<open>Replacing an element\<close>

lemma set_replaceFirst:
  "distinct xs \<Longrightarrow> set (replaceFirst a b xs) = (if a \<in> set xs then insert b (set xs - {a}) else set xs)"
  by (induction xs) auto

lemma distinct_replaceFirst: "distinct xs \<Longrightarrow> b \<notin> set xs \<Longrightarrow> distinct (replaceFirst a b xs)"
  by (induction xs) (auto simp: set_replaceFirst)

section \<open>The scan\<close>

definition storedGroupID :: "bytes \<Rightarrow> store \<Rightarrow> bytes \<Rightarrow> bytes" where
  "storedGroupID l s p = (if isGid p then (case outcome (getGroupIDForPortalID l p (s, [])) of Inr g \<Rightarrow> g | Inl _ \<Rightarrow> []) else [])"

definition dedupKey :: "bytes \<Rightarrow> store \<Rightarrow> bytes \<Rightarrow> bytes" where
  "dedupKey l s p = groupPortalDedupKey p (storedGroupID l s p) []"

lemma groupID_quiet: "\<exists>g. getGroupIDForPortalID l p (s, []) = (Inr g, s, [])"
  by (auto simp: getGroupIDForPortalID_def dbBind_def dbTry_def dbReturn_def Let_def split: option.split)

lemma queueStep_quiet:
  "queueStep c l dels q (pid, ts, n) sc0 (s, []) = (Inr (let sc = sc0\<lparr>qsNewest := (qsNewest sc0)(pid := ts)\<rparr> in
     if pid \<in> dels then sc
     else if isGroupPortalID pid then
       (case qsSeen sc (dedupKey l s pid) of
          Some ex \<Rightarrow> duplicateGroup c (dedupKey l s pid) ex pid sc
        | None \<Rightarrow> enqueue c q pid ts n (sc\<lparr>qsSeen := (qsSeen sc)(dedupKey l s pid \<mapsto> pid)\<rparr>))
     else enqueue c q pid ts n sc), s, [])"
  using groupID_quiet [of l pid s]
  by (auto simp: queueStep_def dedupKey_def storedGroupID_def dbReturn_def dbBind_def Let_def split: option.split)

text \<open>After the portals \<open>done\<close>: the list holds some of them, each group under its key.\<close>

definition scanInv :: "('a \<Rightarrow> 'k) \<Rightarrow> ('a \<Rightarrow> bool) \<Rightarrow> 'a set \<Rightarrow> 'a set \<Rightarrow> 'a list \<Rightarrow> ('k \<Rightarrow> 'a option) \<Rightarrow> bool" where
  "scanInv key grp dels visited ordered seen \<longleftrightarrow> distinct ordered \<and> set ordered \<subseteq> visited - dels
     \<and> (\<forall>k x. seen k = Some x \<longrightarrow> x \<in> visited - dels \<and> key x = k)
     \<and> (\<forall>x. x \<in> set ordered \<and> grp x \<longrightarrow> seen (key x) = Some x)"

lemma scanInv_group:
  assumes "scanInv key grp dels V xs seen" "p \<notin> V" "p \<notin> dels" "seen (key p) = None"
  shows "scanInv key grp dels (insert p V) (xs @ [p]) (seen(key p \<mapsto> p))"
    "scanInv key grp dels (insert p V) xs (seen(key p \<mapsto> p))"
proof -
  have i: "distinct xs" "set xs \<subseteq> V - dels" "seen k = Some x \<Longrightarrow> x \<in> V - dels \<and> key x = k"
    "x \<in> set xs \<Longrightarrow> grp x \<Longrightarrow> seen (key x) = Some x" for k x
    using assms(1) unfolding scanInv_def by blast+
  have g: "x \<in> set xs \<Longrightarrow> grp x \<Longrightarrow> (seen(key p \<mapsto> p)) (key x) = Some x" for x
    using i(4) assms(4) by (metis fun_upd_apply option.distinct(1))
  have e: "(seen(key p \<mapsto> p)) k = Some x \<Longrightarrow> x \<in> insert p V - dels \<and> key x = k" for k x
    using i(3) assms(3) by (metis DiffE DiffI fun_upd_apply insertCI option.inject)
  have "p \<notin> set xs" using i(2) assms(2) by blast
  then have "distinct (xs @ [p])" "set (xs @ [p]) \<subseteq> insert p V - dels"
    using i(1,2) assms(3) by auto
  moreover have "x \<in> set (xs @ [p]) \<Longrightarrow> grp x \<Longrightarrow> (seen(key p \<mapsto> p)) (key x) = Some x" for x
    using g [of x] by (cases "x = p") simp_all
  ultimately show "scanInv key grp dels (insert p V) (xs @ [p]) (seen(key p \<mapsto> p))"
    using e unfolding scanInv_def by blast
  show "scanInv key grp dels (insert p V) xs (seen(key p \<mapsto> p))"
    using i(1,2) e g unfolding scanInv_def by blast
qed

lemma scanInv_direct:
  assumes "scanInv key grp dels V xs seen" "p \<notin> V" "p \<notin> dels" "\<not> grp p"
  shows "scanInv key grp dels (insert p V) (xs @ [p]) seen"
  using assms unfolding scanInv_def by (simp; blast)

lemma scanInv_swap:
  assumes "scanInv key grp dels V xs seen" "p \<notin> V" "p \<notin> dels" "seen (key p) = Some ex"
  shows "scanInv key grp dels (insert p V) (replaceFirst ex p xs) (seen(key p \<mapsto> p))"
proof -
  have i: "distinct xs" "set xs \<subseteq> V - dels" "seen k = Some x \<Longrightarrow> x \<in> V - dels \<and> key x = k"
    "x \<in> set xs \<Longrightarrow> grp x \<Longrightarrow> seen (key x) = Some x" for k x
    using assms(1) unfolding scanInv_def by blast+
  have np: "p \<notin> set xs" using i(2) assms(2) by blast
  have sub: "set (replaceFirst ex p xs) \<subseteq> insert p (set xs - {ex})"
    using set_replaceFirst [OF i(1), of ex p] by (cases "ex \<in> set xs") auto
  have "(seen(key p \<mapsto> p)) (key x) = Some x" if "x \<in> set (replaceFirst ex p xs)" "grp x" for x
  proof (cases "x = p")
    case False
    then have "x \<in> set xs" "x \<noteq> ex" using that sub by blast+
    then show ?thesis using i(4) [of x] that(2) assms(4) by (metis fun_upd_apply option.inject)
  qed simp
  moreover have "set (replaceFirst ex p xs) \<subseteq> insert p V - dels" using sub i(2) assms(3) by blast
  moreover have "(seen(key p \<mapsto> p)) k = Some x \<Longrightarrow> x \<in> insert p V - dels \<and> key x = k" for k x
    using i(3) assms(3) by (metis DiffE DiffI fun_upd_apply insertCI option.inject)
  ultimately show ?thesis
    using distinct_replaceFirst [OF i(1) np] unfolding scanInv_def by blast
qed

lemma scanInv_visit: "scanInv key grp dels V xs seen \<Longrightarrow> scanInv key grp dels (insert p V) xs seen"
  unfolding scanInv_def by blast

lemma queueStep_inv:
  assumes "queueStep c l dels q (pid, ts, n) sc (s, []) = (Inr sc', y)" "pid \<notin> V"
    and "scanInv (dedupKey l s) isGroupPortalID dels V (qsOrdered sc) (qsSeen sc)"
  shows "y = (s, []) \<and> scanInv (dedupKey l s) isGroupPortalID dels (insert pid V) (qsOrdered sc') (qsSeen sc')"
proof -
  note r = assms(1) [unfolded queueStep_quiet Let_def]
  show ?thesis
  proof (cases "pid \<in> dels")
    case True
    then show ?thesis using r scanInv_visit [OF assms(3)] by auto
  next
    case False
    show ?thesis
    proof (cases "isGroupPortalID pid")
      case grp: True
      show ?thesis
      proof (cases "qsSeen sc (dedupKey l s pid)")
        case None
        then show ?thesis
          using r False grp scanInv_group [OF assms(3,2) False None]
          by (auto simp: enqueue_def split: if_splits)
      next
        case (Some ex)
        then show ?thesis
          using r False grp scanInv_swap [OF assms(3,2) False Some] scanInv_visit [OF assms(3)]
          by (auto simp: duplicateGroup_def split: if_splits)
      qed
    next
      case grp: False
      then show ?thesis
        using r False scanInv_direct [OF assms(3,2) False grp] scanInv_visit [OF assms(3)] by (auto simp: enqueue_def split: if_splits)
    qed
  qed
qed

lemma queueFold_inv:
  assumes "distinct (map fst infos)" "set (map fst infos) \<inter> V = {}"
    and "scanInv (dedupKey l s) isGroupPortalID dels V (qsOrdered sc) (qsSeen sc)"
  shows "\<exists>sc'. dbFold (queueStep c l dels q) infos sc (s, []) = (Inr sc', s, [])
    \<and> scanInv (dedupKey l s) isGroupPortalID dels (V \<union> set (map fst infos)) (qsOrdered sc') (qsSeen sc')"
  using assms
proof (induction infos arbitrary: sc V)
  case Nil
  then show ?case by (simp add: dbReturn_def)
next
  case (Cons info infos)
  obtain pid ts n where info: "info = (pid, ts, n)" by (cases info) blast
  obtain sc1 where st: "queueStep c l dels q (pid, ts, n) sc (s, []) = (Inr sc1, s, [])"
    using queueStep_quiet [of c l dels q pid ts n sc s] by blast
  have v: "pid \<notin> V" "distinct (map fst infos)" "set (map fst infos) \<inter> insert pid V = {}"
    using Cons.prems(1,2) by (auto simp: info)
  have "scanInv (dedupKey l s) isGroupPortalID dels (insert pid V) (qsOrdered sc1) (qsSeen sc1)"
    using queueStep_inv [OF st v(1) Cons.prems(3)] by blast
  then obtain sc' where "dbFold (queueStep c l dels q) infos sc1 (s, []) = (Inr sc', s, [])"
    "scanInv (dedupKey l s) isGroupPortalID dels (insert pid V \<union> set (map fst infos)) (qsOrdered sc') (qsSeen sc')"
    using Cons.IH [OF v(2,3)] by blast
  then show ?case using st by (auto simp: info dbBind_def)
qed

lemma distinct_listing: "distinct (map fst (sort_key f (map (\<lambda>p. (p, g p)) (remdups ks))))"
  by (simp add: distinct_map inj_on_def)

lemma listed_distinct:
  assumes "listPortalIDsWithNewestTimestamp l (s, []) = (Inr infos, y)"
  shows "distinct (map fst infos)"
  using assms unfolding listPortalIDsWithNewestTimestamp_def sqlQuery_Nil Let_def prod.inject sum.inject
  by (elim conjE, hypsubst) (rule distinct_listing)

section \<open>Properties\<close>

text \<open>C24: One room per conversation.  When no statement fails, the portals queued for bridgev2 in one pass are
  distinct, none was deleted in this session, and no two group portals among them belong to the same group,
  although the store may know a group under several identifiers.\<close>

theorem one_portal_per_group:
  "case outcome (createPortalsFromCloudSync c l cloudSyncDone w q (s, [])) of
     Inl e \<Rightarrow> False
   | Inr q' \<Rightarrow> \<exists>new. chatResyncs q' = chatResyncs q @ new \<and> distinct (map fst new)
       \<and> set (map fst new) \<inter> fst ` set (recentlyDeletedPortals w) = {}
       \<and> distinct (map (dedupKey l s) (filter isGroupPortalID (map fst new)))"
proof -
  obtain infos where ls: "listPortalIDsWithNewestTimestamp l (s, []) = (Inr infos, s, [])"
    unfolding listPortalIDsWithNewestTimestamp_def sqlQuery_Nil by blast
  obtain sk where sk: "portalsFullyBackfilledNoNewContent l (s, []) = (Inr sk, s, [])"
    unfolding portalsFullyBackfilledNoNewContent_def sqlQuery_Nil by blast
  define dels where "dels = set (map fst (recentlyDeletedPortals w))"
  define sc0 where "sc0 = \<lparr>qsOrdered = [], qsNewest = (\<lambda>_. 0), qsSeen = Map.empty, qsForward = 0\<rparr>"
  have "scanInv (dedupKey l s) isGroupPortalID dels {} (qsOrdered sc0) (qsSeen sc0)"
    by (simp add: scanInv_def sc0_def)
  then obtain sc where f: "dbFold (queueStep c l dels q) infos sc0 (s, []) = (Inr sc, s, [])"
    and inv: "scanInv (dedupKey l s) isGroupPortalID dels (set (map fst infos)) (qsOrdered sc) (qsSeen sc)"
    using queueFold_inv [OF listed_distinct [OF ls], of "{}" l s dels sc0 c q] by auto
  define qs where "qs = filter (\<lambda>p. p \<notin> sk) (qsOrdered sc)"
  have d: "distinct qs" "set qs \<inter> dels = {}" using inv by (auto simp: qs_def scanInv_def)
  have "inj_on (dedupKey l s) (set (filter isGroupPortalID qs))"
  proof (rule inj_onI)
    have own: "qsSeen sc (dedupKey l s x) = Some x" if "x \<in> set (filter isGroupPortalID qs)" for x
    proof -
      have "x \<in> set (qsOrdered sc) \<and> isGroupPortalID x" using that by (simp add: qs_def)
      then show ?thesis using inv unfolding scanInv_def by (elim conjE) (erule allE [of _ x], erule mp, rule conjI)
    qed
    fix x y
    assume "x \<in> set (filter isGroupPortalID qs)" "y \<in> set (filter isGroupPortalID qs)" "dedupKey l s x = dedupKey l s y"
    then show "x = y" by (metis own option.inject)
  qed
  then have g: "distinct (map (dedupKey l s) (filter isGroupPortalID qs))"
    using d(1) by (simp add: distinct_map)
  show ?thesis
  proof (cases "infos = []")
    case True
    then show ?thesis using ls by (simp add: createPortalsFromCloudSync_def dbBind_def dbTry_def dbReturn_def outcome_def)
  next
    case False
    obtain q' where q': "outcome (createPortalsFromCloudSync c l cloudSyncDone w q (s, [])) = Inr q'"
        "chatResyncs q' = chatResyncs q @ map (\<lambda>p. (p, qsNewest sc p)) qs"
      using False ls sk f unfolding dels_def sc0_def qs_def
      by (simp add: createPortalsFromCloudSync_def dbBind_def dbTry_def dbReturn_def outcome_def Let_def)
    have "map fst (map (\<lambda>p. (p, qsNewest sc p)) qs) = qs" by (simp add: o_def)
    moreover have "fst ` set (recentlyDeletedPortals w) = dels" by (simp add: dels_def)
    ultimately show ?thesis
      unfolding q'(1) sum.case using q'(2) d g by (intro exI [of _ "map (\<lambda>p. (p, qsNewest sc p)) qs"]) simp
  qed
qed

section \<open>The count of initial backfills\<close>

text \<open>When a group is swapped for its portal with a room, the portal it replaces stays in the count of
  initial backfills, although no backfill of it will ever report its end.\<close>

lemma swap_overcounts:
  assumes "dedupKey l s a = dedupKey l s b" "isGroupPortalID a" "isGroupPortalID b" "a \<noteq> b" "0 < n"
    and "\<not> ie_portalExists c a" "ie_portalExists c b" "queuedPortals q a = None" "a \<notin> dels" "b \<notin> dels"
  shows "\<exists>sc. dbFold (queueStep c l dels q) [(a, t, n), (b, t, n)]
      \<lparr>qsOrdered = [], qsNewest = (\<lambda>_. 0), qsSeen = Map.empty, qsForward = 0\<rparr> (s, []) = (Inr sc, s, [])
    \<and> qsOrdered sc = [b] \<and> filter (\<lambda>p. \<not> ie_portalExists c p) (qsOrdered sc) = [] \<and> qsForward sc = 1"
  using assms by (simp add: dbBind_def queueStep_quiet enqueue_def duplicateGroup_def dbReturn_def)

end
