(* ===== verification/TextParts.thy ===== *)
theory TextParts
  imports GoNumbers
begin

text \<open>
  Long texts, \<open>client.go\<close>: the text of one iMessage becomes one or more Matrix events that each fit into the
  size limit of a homeserver (\<open>buildTextParts\<close>), an edit maps its new parts onto the stored ones
  (\<open>handleEdit\<close>), and an outgoing text is cut into several messages (\<open>splitTextChunks\<close>).

  A maximal length \<open>mx\<close> is an \<open>int\<close>, since the functions accept one that is not positive.  The size of an event is what
  \<open>json.Marshal\<close> makes of it, for an edit after mautrix' \<open>SetEdit\<close>: \<open>marshal\<close> is that call.
\<close>

section \<open>Cutting\<close>

definition RuneStart :: "char \<Rightarrow> bool" where
  "RuneStart b = (\<not> (0x80 \<le> (of_char b :: nat) \<and> of_char b \<le> (0xBF :: nat)))"

text \<open>The largest position up to \<open>n\<close> at which a rune starts, or 0.\<close>

fun runeCut :: "bytes \<Rightarrow> nat \<Rightarrow> nat" where
  "runeCut s 0 = 0"
| "runeCut s (Suc n) = (if RuneStart (s ! Suc n) then Suc n else runeCut s n)"

definition truncateBytes :: "bytes \<Rightarrow> int \<Rightarrow> bytes" where
  "truncateBytes s mx =
     (if mx \<le> 0 \<or> int (length s) \<le> mx then s else take (runeCut s (nat mx)) s)"

fun LastIndexByte :: "bytes \<Rightarrow> char \<Rightarrow> nat option" where
  "LastIndexByte [] c = None"
| "LastIndexByte (x # xs) c =
     (case LastIndexByte xs c of Some i \<Rightarrow> Some (Suc i) | None \<Rightarrow> if x = c then Some 0 else None)"

text \<open>The position after the last \<open>c\<close> of the window, when that lies in its last quarter.\<close>

definition breakAfter :: "bytes \<Rightarrow> char \<Rightarrow> int \<Rightarrow> nat option" where
  "breakAfter window c mx = (case LastIndexByte window c of
     Some i \<Rightarrow> if mx * 3 div 4 < int i then Some (i + 1) else None
   | None \<Rightarrow> None)"

definition cutPoint :: "bytes \<Rightarrow> int \<Rightarrow> nat" where
  "cutPoint body mx =
     (let cut = runeCut body (nat mx) in
      case breakAfter (take cut body) (CHR 0x0A) mx of
        Some i \<Rightarrow> i
      | None \<Rightarrow> (case breakAfter (take cut body) (CHR '' '') mx of Some i \<Rightarrow> i | None \<Rightarrow> cut))"

definition firstChunk :: "bytes \<Rightarrow> int \<Rightarrow> bytes" where
  "firstChunk body mx =
     (if mx \<le> 0 \<or> int (length body) \<le> mx then body
      else let cut = cutPoint body mx in take (if cut = 0 then nat mx else cut) body)"

lemma runeCut_le: "runeCut s n \<le> n"
  by (induction n) (auto intro: le_SucI)

lemma LastIndexByte_Some: "LastIndexByte s c = Some i \<Longrightarrow> i < length s \<and> s ! i = c"
  by (induction s arbitrary: i) (auto split: option.splits if_splits)

lemma breakAfter_le: "breakAfter window c mx = Some i \<Longrightarrow> 0 < i \<and> i \<le> length window \<and> window ! (i - 1) = c"
  by (auto simp: breakAfter_def dest!: LastIndexByte_Some split: option.splits if_splits)

lemma cutPoint_le: "cutPoint body mx \<le> nat mx"
  using runeCut_le [of body "nat mx"]
  by (auto simp: cutPoint_def Let_def dest!: breakAfter_le split: option.split)

lemma firstChunk_prefix: "firstChunk body mx @ drop (length (firstChunk body mx)) body = body"
  by (auto simp: firstChunk_def Let_def min_def)

lemma firstChunk_nonempty [simp]: "firstChunk body mx = [] \<longleftrightarrow> body = []"
  by (auto simp: firstChunk_def Let_def)

lemma firstChunk_shrinks: "body \<noteq> [] \<Longrightarrow> length body - length (firstChunk body mx) < length body"
  using firstChunk_nonempty [of body mx] by (intro diff_less) auto

lemma firstChunk_le: "0 < mx \<Longrightarrow> int (length (firstChunk body mx)) \<le> mx"
  using cutPoint_le [of body mx] by (auto simp: firstChunk_def Let_def min_def)

function splitTextChunks :: "bytes \<Rightarrow> int \<Rightarrow> bytes list" where
  "splitTextChunks body mx =
     (if mx \<le> 0 \<or> int (length body) \<le> mx then [body]
      else let chunk = firstChunk body mx; rest = drop (length chunk) body in
        if mx < int (length rest) then chunk # splitTextChunks rest mx
        else chunk # (if rest = [] then [] else [rest]))"
  by pat_completeness auto
termination
  by (relation "measure (\<lambda>(body, mx). length body)") (auto intro!: firstChunk_shrinks)

declare splitTextChunks.simps [simp del]

section \<open>The parts of a message\<close>

record BeeperLinkPreview =
  bpMatchedURL :: bytes
  bpCanonicalURL :: bytes
  bpTitle :: bytes
  bpDescription :: bytes
  bpSiteName :: bytes
  bpType :: bytes
  bpImageURL :: bytes
  bpImageType :: bytes
  bpImageBlurhash :: bytes

record MessageEventContent =
  ecMsgType :: bytes
  ecBody :: bytes
  ecFormat :: bytes
  ecFormattedBody :: bytes
  ecPreviews :: "BeeperLinkPreview list"

definition maxTextContentBytes :: int where "maxTextContentBytes = 40000"
definition maxOutboundTextBytes :: int where "maxOutboundTextBytes = 45000"
definition maxSubjectBytes :: int where "maxSubjectBytes = 2048"
definition maxPreviewFieldBytes :: int where "maxPreviewFieldBytes = 2048"
definition maxShedLevel :: nat where "maxShedLevel = 2"

definition boundPreview :: "BeeperLinkPreview \<Rightarrow> BeeperLinkPreview" where
  "boundPreview p =
     (let cut = (\<lambda>s. truncateBytes s maxPreviewFieldBytes) in
      p\<lparr>bpTitle := cut (bpTitle p), bpDescription := cut (bpDescription p), bpSiteName := cut (bpSiteName p),
        bpType := cut (bpType p), bpImageType := cut (bpImageType p), bpCanonicalURL := cut (bpCanonicalURL p),
        bpMatchedURL := cut (bpMatchedURL p), bpImageBlurhash := cut (bpImageBlurhash p),
        bpImageURL := cut (bpImageURL p)\<rparr>)"

text \<open>A \<open>nil\<close> in the list of pointers is dropped.\<close>

definition boundPreviews :: "BeeperLinkPreview option list \<Rightarrow> BeeperLinkPreview list" where
  "boundPreviews previews = map boundPreview (List.map_filter id previews)"

text \<open>\<open>html.EscapeString\<close>\<close>

definition EscapeString :: "bytes \<Rightarrow> bytes" where
  "EscapeString s = concat (map (\<lambda>c.
     if c = CHR ''<'' then ''&lt;'' else if c = CHR ''>'' then ''&gt;'' else if c = CHR ''&'' then ''&amp;''
     else if c = CHR 0x27 then ''&#39;'' else if c = CHR 0x22 then ''&#34;'' else [c]) s)"

definition buildTextContent :: "bytes \<Rightarrow> bytes \<Rightarrow> bytes \<Rightarrow> BeeperLinkPreview list \<Rightarrow> bool \<Rightarrow> MessageEventContent" where
  "buildTextContent msgType subject chunk previews first =
     (let content = \<lparr>ecMsgType = msgType, ecBody = chunk, ecFormat = [], ecFormattedBody = [], ecPreviews = []\<rparr> in
      if \<not> first then content
      else (if subject = [] then content
            else if chunk = [] then content\<lparr>ecBody := subject\<rparr>
            else content\<lparr>ecBody := ''**'' @ subject @ ''**'' @ [CHR 0x0A] @ chunk,
              ecFormat := ''org.matrix.custom.html'',
              ecFormattedBody := ''<strong>'' @ EscapeString subject @ ''</strong><br/>'' @ EscapeString chunk\<rparr>)
           \<lparr>ecPreviews := previews\<rparr>)"

definition measuredSize :: "(MessageEventContent \<Rightarrow> bool \<Rightarrow> nat option) \<Rightarrow> MessageEventContent \<Rightarrow> bool \<Rightarrow> int" where
  "measuredSize marshal content forEdit = (case marshal content forEdit of
     Some n \<Rightarrow> int n | None \<Rightarrow> maxTextContentBytes + 1)"

definition shedOverhead :: "MessageEventContent \<Rightarrow> nat \<Rightarrow> MessageEventContent" where
  "shedOverhead content level =
     (let plain = (if 1 \<le> level then content\<lparr>ecFormat := [], ecFormattedBody := []\<rparr> else content) in
      if 2 \<le> level then plain\<lparr>ecPreviews := []\<rparr> else plain)"

text \<open>The two loops of \<open>fitPart\<close>: the limit shrinks, and once it is small the next level starts over.\<close>

definition nextLimit :: "int \<Rightarrow> int \<Rightarrow> int" where
  "nextLimit limit sz =
     (let next = limit * maxTextContentBytes div sz * 98 div 100 in if limit \<le> next then limit div 2 else next)"

lemma nextLimit_less: "512 < limit \<Longrightarrow> nextLimit limit sz < limit"
  by (auto simp: nextLimit_def Let_def)

lemma nextLimit_nat: "512 < limit \<Longrightarrow> nat (nextLimit limit sz) < nat limit"
  using nextLimit_less [of limit sz] by linarith

function fitLoop :: "(MessageEventContent \<Rightarrow> bool \<Rightarrow> nat option) \<Rightarrow> bytes \<Rightarrow> bytes \<Rightarrow> bytes \<Rightarrow> BeeperLinkPreview list
    \<Rightarrow> bool \<Rightarrow> bool \<Rightarrow> nat \<Rightarrow> int \<Rightarrow> bytes \<times> MessageEventContent" where
  "fitLoop marshal msgType subject body previews first forEdit level limit =
     (let chunk = firstChunk body limit;
          content = shedOverhead (buildTextContent msgType subject chunk previews first) level;
          sz = measuredSize marshal content forEdit in
      if sz \<le> maxTextContentBytes then (chunk, content)
      else if limit \<le> 512 then
        (if maxShedLevel \<le> level then (chunk, content)
         else fitLoop marshal msgType subject body previews first forEdit (level + 1) maxTextContentBytes)
      else fitLoop marshal msgType subject body previews first forEdit level (nextLimit limit sz))"
  by pat_completeness auto
termination
  by (relation "measures [\<lambda>(_, _, _, _, _, _, _, level, _). maxShedLevel - level, \<lambda>(_, _, _, _, _, _, _, _, limit). nat limit]")
    (auto simp: nextLimit_less)

declare fitLoop.simps [simp del]

definition fitPart :: "(MessageEventContent \<Rightarrow> bool \<Rightarrow> nat option) \<Rightarrow> bytes \<Rightarrow> bytes \<Rightarrow> bytes \<Rightarrow> BeeperLinkPreview list
    \<Rightarrow> bool \<Rightarrow> bool \<Rightarrow> bytes \<times> MessageEventContent" where
  "fitPart marshal msgType subject body previews first forEdit =
     fitLoop marshal msgType subject body previews first forEdit 0 maxTextContentBytes"

text \<open>\<open>%03d\<close>\<close>

definition pad3 :: "nat \<Rightarrow> bytes" where
  "pad3 n = replicate (3 - length (natDigits n)) (CHR ''0'') @ natDigits n"

definition textPartID :: "nat \<Rightarrow> bytes" where
  "textPartID n = (if n = 0 then [] else ''text'' @ pad3 n)"

record ConvertedMessagePart =
  cpID :: bytes
  cpContent :: MessageEventContent

lemma fitLoop_chunk:
  "\<exists>limit'. fst (fitLoop marshal msgType subject body previews first forEdit level limit) = firstChunk body limit'"
proof (induction marshal msgType subject body previews first forEdit level limit rule: fitLoop.induct)
  case (1 marshal msgType subject body previews first forEdit level limit)
  show ?case
    using 1 [OF refl refl refl]
    by (subst fitLoop.simps) (auto simp: Let_def)
qed

lemma fitPart_nonempty [simp]: "fst (fitPart m t s body ps first forEdit) = [] \<longleftrightarrow> body = []"
  unfolding fitPart_def by (metis fitLoop_chunk firstChunk_nonempty)

lemma fitPart_shrinks: "body \<noteq> [] \<Longrightarrow> length body - length (fst (fitPart m t s body ps first forEdit)) < length body"
  using fitPart_nonempty [of m t s body ps first forEdit] by (intro diff_less) auto

lemma fitPart_prefix: "fst (fitPart m t s body ps first forEdit) @ drop (length (fst (fitPart m t s body ps first forEdit))) body = body"
  unfolding fitPart_def by (metis fitLoop_chunk firstChunk_prefix)

text \<open>\<open>first\<close> is true exactly while there are no parts.\<close>

function partsLoop :: "(MessageEventContent \<Rightarrow> bool \<Rightarrow> nat option) \<Rightarrow> bytes \<Rightarrow> bytes \<Rightarrow> BeeperLinkPreview list \<Rightarrow> bool
    \<Rightarrow> bytes \<Rightarrow> ConvertedMessagePart list \<Rightarrow> ConvertedMessagePart list" where
  "partsLoop marshal msgType subject previews forEdit body parts =
     (let first = (parts = []); fit = fitPart marshal msgType subject body previews first forEdit;
          parts' = parts @ [\<lparr>cpID = (if first then [] else ''text'' @ pad3 (length parts)), cpContent = snd fit\<rparr>];
          rest = drop (length (fst fit)) body in
      if rest = [] then parts' else partsLoop marshal msgType subject previews forEdit rest parts')"
  by pat_completeness auto
termination
  by (relation "measure (\<lambda>(_, _, _, _, _, body, _). length body)") (auto intro!: fitPart_shrinks)

declare partsLoop.simps [simp del]

definition buildTextParts :: "(MessageEventContent \<Rightarrow> bool \<Rightarrow> nat option) \<Rightarrow> bytes \<Rightarrow> bytes \<Rightarrow> bytes
    \<Rightarrow> BeeperLinkPreview option list \<Rightarrow> bool \<Rightarrow> ConvertedMessagePart list" where
  "buildTextParts marshal msgType subject body previews forEdit =
     partsLoop marshal msgType (truncateBytes subject maxSubjectBytes) (boundPreviews previews) forEdit body []"

section \<open>Part identifiers and edits\<close>

definition textPartIndex :: "bytes \<Rightarrow> int" where
  "textPartIndex partID =
     (if partID = [] then 0
      else case Atoi (TrimPrefix partID ''text'') of (n, err) \<Rightarrow>
        if err \<noteq> None \<or> n < 0 then maxInt64 else n)"

definition isTextPartID :: "bytes \<Rightarrow> bool" where
  "isTextPartID partID = (partID = [] \<or> HasPrefix partID ''text'')"

text \<open>The edit of a stored message: which stored parts get which content, what is added, what is redacted.\<close>

record ConvertedEdit =
  edModified :: "(bytes \<times> ConvertedMessagePart) list"
  edAdded :: "ConvertedMessagePart list"
  edDeleted :: "bytes list"

definition convertEdit :: "(MessageEventContent \<Rightarrow> bool \<Rightarrow> nat option) \<Rightarrow> bytes list \<Rightarrow> bytes \<Rightarrow> ConvertedEdit" where
  "convertEdit marshal existing body =
     (let textParts = sort_key textPartIndex (filter isTextPartID existing);
          newParts = buildTextParts marshal ''m.text'' [] body [] True in
      \<lparr>edModified = zip textParts newParts, edAdded = drop (length textParts) newParts,
       edDeleted = drop (length newParts) textParts\<rparr>)"

end
