(* ===== verification/TextPartsSpec.thy ===== *)
theory TextPartsSpec
  imports TextParts
begin

text \<open>
  What the splitting of long texts guarantees: nothing is lost, no rune is cut, every part fits, the parts are
  found again in their order, and an edit touches the text parts only.
\<close>

section \<open>Valid UTF-8\<close>

definition goodRune :: "bytes \<Rightarrow> bool" where
  "goodRune s = (decodeRune s \<noteq> (runeError, 1))"

definition validUTF8 :: "bytes \<Rightarrow> bool" where
  "validUTF8 s = list_all (\<lambda>(r, bs). \<not> (r = runeError \<and> length bs = 1)) (runes s)"

lemma byteAt_len: "0 < byteAt s i \<Longrightarrow> i < length s"
  by (auto simp: byteAt_def split: if_splits)

lemma RuneStart_byteAt: "i < length s \<Longrightarrow> RuneStart (s ! i) \<longleftrightarrow> \<not> inR 0x80 0xBF (byteAt s i)"
  by (simp add: RuneStart_def byteAt_def inR_def)

lemma inR_pos: "inR lo hi (byteAt s i) \<Longrightarrow> 0 < lo \<Longrightarrow> i < length s"
  using byteAt_len [of s i] by (auto simp: inR_def)

text \<open>A well-formed rune is a lead byte and continuation bytes, and its decoding looks no further.\<close>

lemma goodRune_shape:
  assumes "goodRune s" "s \<noteq> []"
  shows "snd (decodeRune s) \<le> length s \<and> snd (decodeRune s) \<le> 4 \<and> RuneStart (s ! 0)
    \<and> list_all (\<lambda>i. \<not> RuneStart (s ! i)) [1..<snd (decodeRune s)]"
proof -
  have l: "0 < length s" using assms(2) by simp
  have lead: "RuneStart (s ! 0)" if "byteAt s 0 < 0x80 \<or> 0xC0 \<le> byteAt s 0"
    using that l by (auto simp: RuneStart_byteAt inR_def)
  have cont: "\<not> RuneStart (s ! i) \<and> i < length s" if "inR lo hi (byteAt s i)" "0x80 \<le> lo" "hi \<le> 0xBF" for i lo hi
    using that inR_pos [OF that(1)] by (auto simp: RuneStart_byteAt inR_def)
  let ?x = "byteAt s 0"
  consider (one) "?x < 0x80"
    | (two) "\<not> ?x < 0x80" "inR 0xC2 0xDF ?x \<and> inR 0x80 0xBF (byteAt s 1)"
    | (three) lo hi where "inR 0xE0 0xEF ?x" "inR lo hi (byteAt s 1)" "0x80 \<le> lo" "hi \<le> 0xBF" "inR 0x80 0xBF (byteAt s 2)"
        "snd (decodeRune s) = 3"
    | (four) lo hi where "inR 0xF0 0xF4 ?x" "inR lo hi (byteAt s 1)" "0x80 \<le> lo" "hi \<le> 0xBF" "inR 0x80 0xBF (byteAt s 2)"
        "inR 0x80 0xBF (byteAt s 3)" "snd (decodeRune s) = 4"
    using assms(1) unfolding goodRune_def decodeRune_def Let_def
    by (fastforce split: if_splits)
  then show ?thesis
  proof cases
    case one
    then show ?thesis using lead l by (simp add: decodeRune_def Let_def Suc_le_eq)
  next
    case two
    then have "snd (decodeRune s) = 2" by (simp add: decodeRune_def Let_def)
    moreover have "1 < length s" "\<not> RuneStart (s ! 1)" using two cont [of "0x80" "0xBF" 1] by auto
    ultimately show ?thesis using two lead by (auto simp: inR_def upt_rec)
  next
    case three
    then have "2 < length s" "\<not> RuneStart (s ! 1)" "\<not> RuneStart (s ! 2)"
      using cont [of lo hi 1] cont [of "0x80" "0xBF" 2] by auto
    then show ?thesis using three lead by (auto simp: inR_def upt_rec numeral_eq_Suc)
  next
    case four
    then have "3 < length s" "\<not> RuneStart (s ! 1)" "\<not> RuneStart (s ! 2)" "\<not> RuneStart (s ! 3)"
      using cont [of lo hi 1] cont [of "0x80" "0xBF" 2] cont [of "0x80" "0xBF" 3] by auto
    then show ?thesis using four lead by (auto simp: inR_def upt_rec numeral_eq_Suc)
  qed
qed

lemma byteAt_append: "i < length a \<Longrightarrow> byteAt (a @ b) i = byteAt a i"
  by (simp add: byteAt_def nth_append)

lemma decodeRune_width_cases: "snd (decodeRune s) = 1 \<or> snd (decodeRune s) = 2 \<or> snd (decodeRune s) = 3 \<or> snd (decodeRune s) = 4"
  by (simp add: decodeRune_def Let_def)

lemma decodeRune_cong:
  assumes "goodRune s" "byteAt t 0 = byteAt s 0" "2 \<le> snd (decodeRune s) \<Longrightarrow> byteAt t 1 = byteAt s 1"
    and "3 \<le> snd (decodeRune s) \<Longrightarrow> byteAt t 2 = byteAt s 2" "4 \<le> snd (decodeRune s) \<Longrightarrow> byteAt t 3 = byteAt s 3"
  shows "decodeRune t = decodeRune s"
proof -
  let ?x = "byteAt s 0" and ?y = "byteAt s 1" and ?z = "byteAt s 2" and ?w = "byteAt s 3"
  let ?two = "inR 0xC2 0xDF ?x \<and> inR 0x80 0xBF ?y"
  let ?three = "inR 0xE0 0xEF ?x \<and> inR (if ?x = 0xE0 then 0xA0 else 0x80) (if ?x = 0xED then 0x9F else 0xBF) ?y \<and> inR 0x80 0xBF ?z"
  let ?four = "inR 0xF0 0xF4 ?x \<and> inR (if ?x = 0xF0 then 0x90 else 0x80) (if ?x = 0xF4 then 0x8F else 0xBF) ?y
    \<and> inR 0x80 0xBF ?z \<and> inR 0x80 0xBF ?w"
  consider "?x < 0x80" | "\<not> ?x < 0x80" "?two" | "\<not> ?x < 0x80" "\<not> ?two" "?three"
    | "\<not> ?x < 0x80" "\<not> ?two" "\<not> ?three" "?four"
    | "\<not> ?x < 0x80" "\<not> ?two" "\<not> ?three" "\<not> ?four" by blast
  then show ?thesis
  proof cases
    case 1
    then show ?thesis using assms(2) by (simp add: decodeRune_def Let_def)
  next
    case 2
    then have "snd (decodeRune s) = 2" unfolding decodeRune_def Let_def by simp
    then show ?thesis using assms(2,3) 2 unfolding decodeRune_def Let_def by simp
  next
    case 3
    then have "snd (decodeRune s) = 3" unfolding decodeRune_def Let_def by (simp only: if_False if_True simp_thms snd_conv)
    then have e: "byteAt t 1 = ?y" "byteAt t 2 = ?z" using assms(3,4) by simp_all
    show ?thesis using 3 unfolding decodeRune_def Let_def assms(2) e by (simp only: if_False if_True simp_thms)
  next
    case 4
    then have "snd (decodeRune s) = 4" unfolding decodeRune_def Let_def by (simp only: if_False if_True simp_thms snd_conv)
    then have e: "byteAt t 1 = ?y" "byteAt t 2 = ?z" "byteAt t 3 = ?w" using assms(3,4,5) by simp_all
    show ?thesis using 4 unfolding decodeRune_def Let_def assms(2) e by (simp only: if_False if_True simp_thms)
  next
    case 5
    then have "decodeRune s = (runeError, 1)" unfolding decodeRune_def Let_def by (simp only: if_False simp_thms)
    then show ?thesis using assms(1) by (simp add: goodRune_def)
  qed
qed

lemma decodeRune_local:
  assumes "goodRune (a @ b)" "snd (decodeRune (a @ b)) \<le> length a" "a \<noteq> []"
  shows "decodeRune a = decodeRune (a @ b)"
  using assms by (intro decodeRune_cong) (simp_all add: byteAt_append)

lemma validUTF8_rec: "validUTF8 s \<longleftrightarrow> s = [] \<or> goodRune s \<and> validUTF8 (drop (snd (decodeRune s)) s)"
proof (cases "s = []")
  case False
  have "fst (decodeRune s) = runeError \<and> length (take (snd (decodeRune s)) s) = 1 \<longleftrightarrow> \<not> goodRune s"
  proof
    assume a: "fst (decodeRune s) = runeError \<and> length (take (snd (decodeRune s)) s) = 1"
    show "\<not> goodRune s"
    proof
      assume g: "goodRune s"
      then have "snd (decodeRune s) = 1" using goodRune_shape [OF g False] a by (simp add: min_def split: if_splits)
      then show False using g a by (simp add: goodRune_def prod_eq_iff)
    qed
  next
    assume "\<not> goodRune s"
    then show "fst (decodeRune s) = runeError \<and> length (take (snd (decodeRune s)) s) = 1"
      using False by (cases s) (simp_all add: goodRune_def)
  qed
  then show ?thesis
    using False unfolding validUTF8_def by (subst runes.simps) (auto simp: Let_def)
qed (simp add: validUTF8_def)

lemma validUTF8_Nil [simp]: "validUTF8 []"
  by (simp add: validUTF8_def)

lemma validUTF8_split:
  assumes "validUTF8 (a @ b)" "b = [] \<or> RuneStart (hd b)"
  shows "validUTF8 a \<and> validUTF8 b"
  using assms(1)
proof (induction "length a" arbitrary: a rule: less_induct)
  case less
  let ?w = "snd (decodeRune (a @ b))"
  show ?case
  proof (cases "a = []")
    case False
    then have v: "goodRune (a @ b)" "validUTF8 (drop ?w (a @ b))" using less(2) by (simp_all add: validUTF8_rec [of "a @ b"])
    have shape: "?w \<le> length (a @ b)" "list_all (\<lambda>i. \<not> RuneStart ((a @ b) ! i)) [1..<?w]"
      using goodRune_shape [OF v(1)] False by auto
    have w: "?w \<le> length a"
    proof (rule ccontr)
      assume "\<not> ?w \<le> length a"
      moreover have "0 < length a" using False by simp
      ultimately have "\<not> RuneStart ((a @ b) ! length a)" "b \<noteq> []"
        using shape by (auto simp: list_all_iff Suc_le_eq)
      then show False using assms(2) by (simp add: nth_append hd_conv_nth)
    qed
    have pos: "1 \<le> ?w" by (rule decodeRune_width)
    have "validUTF8 (drop ?w a) \<and> validUTF8 b"
      using v(2) w pos False by (intro less(1)) auto
    moreover have "decodeRune a = decodeRune (a @ b)" by (rule decodeRune_local [OF v(1) w False])
    ultimately show ?thesis
      using v(1) by (simp add: validUTF8_rec [of a] goodRune_def)
  qed (use less in simp)
qed

lemma validUTF8_hd: "validUTF8 s \<Longrightarrow> s \<noteq> [] \<Longrightarrow> RuneStart (hd s)"
  using goodRune_shape [of s] by (simp add: validUTF8_rec [of s] hd_conv_nth)

lemma validUTF8_after_ascii:
  assumes "validUTF8 (a @ c # b)" "of_char c < (128 :: nat)"
  shows "validUTF8 (a @ [c]) \<and> validUTF8 b"
proof -
  have "validUTF8 (c # b)"
    using validUTF8_split [of a "c # b"] assms by (simp add: RuneStart_def)
  then have b: "validUTF8 b"
    using assms(2) by (simp add: validUTF8_rec [of "c # b"] decodeRune_def byteAt_def Let_def)
  then show ?thesis
    using validUTF8_split [of "a @ [c]" b] validUTF8_hd [OF b] assms(1) by auto
qed

lemma validUTF8_start_near:
  "validUTF8 s \<Longrightarrow> i < length s \<Longrightarrow> \<exists>j. j \<le> i \<and> i \<le> j + 3 \<and> RuneStart (s ! j)"
proof (induction "length s" arbitrary: s i rule: less_induct)
  case less
  let ?w = "snd (decodeRune s)"
  have ne: "s \<noteq> []" using less(3) by auto
  have v: "goodRune s" "validUTF8 (drop ?w s)" using less(2) ne by (simp_all add: validUTF8_rec [of s])
  note shape = goodRune_shape [OF v(1) ne]
  show ?case
  proof (cases "i < ?w")
    case True
    then show ?thesis using shape by (intro exI [of _ 0]) auto
  next
    case False
    have "\<exists>j. j \<le> i - ?w \<and> i - ?w \<le> j + 3 \<and> RuneStart (drop ?w s ! j)"
      using less(1) [of "drop ?w s" "i - ?w"] v(2) False less(3) shape decodeRune_width [of s] by simp
    then obtain j where j: "j \<le> i - ?w" "i - ?w \<le> j + 3" "RuneStart (drop ?w s ! j)" by blast
    then show ?thesis using False shape by (intro exI [of _ "?w + j"]) auto
  qed
qed

section \<open>Chunks\<close>

lemma runeCut_ge: "j \<le> n \<Longrightarrow> RuneStart (s ! j) \<Longrightarrow> j \<le> runeCut s n"
  by (induction n) (auto simp: le_Suc_eq)

lemma runeCut_start: "0 < runeCut s n \<Longrightarrow> RuneStart (s ! runeCut s n)"
  by (induction n) auto

text \<open>A cut falls before a rune: at a start found by going back, or after a space or a line feed.\<close>

lemma cutPoint_cases:
  "cutPoint s mx = runeCut s (nat mx)
   \<or> 0 < cutPoint s mx \<and> cutPoint s mx \<le> length s \<and> of_char (s ! (cutPoint s mx - 1)) < (128 :: nat)"
  by (auto simp: cutPoint_def Let_def dest!: breakAfter_le split: option.split)

lemma firstChunk_valid:
  assumes "validUTF8 s" "4 \<le> mx"
  shows "validUTF8 (firstChunk s mx) \<and> validUTF8 (drop (length (firstChunk s mx)) s)"
proof (cases "int (length s) \<le> mx")
  case False
  let ?n = "nat mx"
  let ?c = "cutPoint s mx"
  have n: "?n < length s" "4 \<le> ?n" using False assms(2) by auto
  obtain j where j: "j \<le> ?n" "?n \<le> j + 3" "RuneStart (s ! j)"
    using validUTF8_start_near [OF assms(1) n(1)] by blast
  have cut: "0 < runeCut s ?n" "runeCut s ?n < length s"
    using runeCut_ge [OF j(1,3)] j n runeCut_le [of s ?n] by auto
  have start: "RuneStart (hd (drop (runeCut s ?n) s))"
    using runeCut_start [OF cut(1)] cut(2) by (simp add: hd_drop_conv_nth)
  have pos: "0 < ?c" using cutPoint_cases [of s mx] cut by auto
  then have chunk: "firstChunk s mx = take ?c s" using False assms(2) by (simp add: firstChunk_def Let_def)
  have "validUTF8 (take ?c s) \<and> validUTF8 (drop ?c s)"
    using cutPoint_cases [of s mx]
  proof
    assume "?c = runeCut s ?n"
    then show ?thesis using validUTF8_split [of "take ?c s" "drop ?c s"] assms(1) start by simp
  next
    assume c: "0 < ?c \<and> ?c \<le> length s \<and> of_char (s ! (?c - 1)) < (128 :: nat)"
    then obtain i where i: "?c = Suc i" by (cases ?c) auto
    then have s: "s = take i s @ s ! i # drop ?c s" "take ?c s = take i s @ [s ! i]"
      using c by (simp_all add: id_take_nth_drop take_Suc_conv_app_nth)
    have "validUTF8 (take i s @ s ! i # drop ?c s)" using assms(1) s(1) by simp
    then show ?thesis using validUTF8_after_ascii [of "take i s" "s ! i" "drop ?c s"] c i s(2) by simp
  qed
  moreover have "drop (length (firstChunk s mx)) s = drop ?c s"
    unfolding chunk using cutPoint_le [of s mx] n by simp
  ultimately show ?thesis unfolding chunk by simp
qed (use assms in \<open>simp add: firstChunk_def\<close>)

lemma splitTextChunks_whole: "mx \<le> 0 \<or> int (length s) \<le> mx \<Longrightarrow> splitTextChunks s mx = [s]"
  by (subst splitTextChunks.simps) simp

lemma splitTextChunks_step:
  assumes "\<not> (mx \<le> 0 \<or> int (length s) \<le> mx)"
  shows "splitTextChunks s mx = firstChunk s mx # (let rest = drop (length (firstChunk s mx)) s in
    if rest = [] then [] else splitTextChunks rest mx)"
  using assms splitTextChunks_whole [of mx "drop (length (firstChunk s mx)) s"]
  by (subst splitTextChunks.simps) (simp add: Let_def)

lemma concat_splitTextChunks: "concat (splitTextChunks s mx) = s"
proof (induction s mx rule: splitTextChunks.induct)
  case (1 s mx)
  show ?case
  proof (cases "mx \<le> 0 \<or> int (length s) \<le> mx")
    case False
    let ?rest = "drop (length (firstChunk s mx)) s"
    have "?rest = [] \<or> concat (splitTextChunks ?rest mx) = ?rest"
      using 1 [OF False refl refl] splitTextChunks_whole [of mx ?rest] by fastforce
    then show ?thesis
      using firstChunk_prefix [of s mx] unfolding splitTextChunks_step [OF False] by (auto simp: Let_def)
  qed (simp add: splitTextChunks_whole)
qed

lemma splitTextChunks_all:
  assumes step: "\<And>s. Q s \<Longrightarrow> \<not> int (length s) \<le> mx \<Longrightarrow>
      P (firstChunk s mx) \<and> Q (drop (length (firstChunk s mx)) s)"
    and whole: "\<And>s. Q s \<Longrightarrow> s \<noteq> [] \<Longrightarrow> int (length s) \<le> mx \<Longrightarrow> P s"
    and pos: "0 < mx"
  shows "Q s \<Longrightarrow> s \<noteq> [] \<Longrightarrow> list_all P (splitTextChunks s mx)"
proof (induction "length s" arbitrary: s rule: less_induct)
  case less
  show ?case
  proof (cases "int (length s) \<le> mx")
    case True
    then show ?thesis using whole [OF less(2,3)] by (simp add: splitTextChunks_whole)
  next
    case False
    then have n: "\<not> (mx \<le> 0 \<or> int (length s) \<le> mx)" using pos by simp
    let ?rest = "drop (length (firstChunk s mx)) s"
    have "length ?rest < length s" using firstChunk_shrinks [OF less(3), of mx] by simp
    then have "?rest \<noteq> [] \<Longrightarrow> list_all P (splitTextChunks ?rest mx)"
      using less(1) step [OF less(2) False] by blast
    then show ?thesis
      using step [OF less(2) False] unfolding splitTextChunks_step [OF n] by (simp add: Let_def)
  qed
qed

text \<open>Cutting a text loses nothing: the chunks concatenate to the text, and a text that is short enough, or a
  bound that is not positive, gives one chunk.  Otherwise no chunk is empty or longer than the bound, and when
  the text is valid UTF-8 and the bound has room for a rune, every chunk is valid UTF-8.\<close>

theorem split_chunks:
  "concat (splitTextChunks s mx) = s
   \<and> (if mx \<le> 0 \<or> int (length s) \<le> mx then splitTextChunks s mx = [s]
      else list_all (\<lambda>c. 0 < length c \<and> int (length c) \<le> mx) (splitTextChunks s mx))
   \<and> (if validUTF8 s \<and> 4 \<le> mx then list_all validUTF8 (splitTextChunks s mx) else True)"
proof -
  have bounded: "list_all (\<lambda>c. 0 < length c \<and> int (length c) \<le> mx) (splitTextChunks s mx)"
    if "0 < mx" "\<not> int (length s) \<le> mx"
  proof (rule splitTextChunks_all [where Q = "\<lambda>_. True"])
    show "s \<noteq> []" using that by auto
  next
    fix t :: bytes
    assume t: "\<not> int (length t) \<le> mx"
    then have "t \<noteq> []" using that by auto
    then show "(0 < length (firstChunk t mx) \<and> int (length (firstChunk t mx)) \<le> mx) \<and> True"
      using firstChunk_le [OF that(1), of t] by simp
  qed (use that in auto)
  have valid: "list_all validUTF8 (splitTextChunks s mx)" if "validUTF8 s" "4 \<le> mx"
  proof (cases "s = []")
    case False
    then show ?thesis
      using firstChunk_valid [OF _ that(2)] that by (intro splitTextChunks_all [where Q = validUTF8]) auto
  qed (use that splitTextChunks_whole [of mx "[]"] in simp)
  show ?thesis
    using bounded valid splitTextChunks_whole [of mx s] by (simp add: concat_splitTextChunks)
qed

section \<open>Parts\<close>

text \<open>The body of the first part, which carries the subject.\<close>

definition headBody :: "bytes \<Rightarrow> bytes \<Rightarrow> bytes" where
  "headBody subject chunk =
     (if subject = [] then chunk else if chunk = [] then subject else ''**'' @ subject @ ''**'' @ [CHR 0x0A] @ chunk)"

text \<open>What a bare content weighs: JSON writes a byte as six at most, an edit repeats the body, and 1024 bytes are room
  for the rest.\<close>

definition plainWeight :: "(MessageEventContent \<Rightarrow> bool \<Rightarrow> nat option) \<Rightarrow> bool \<Rightarrow> bool" where
  "plainWeight marshal forEdit \<longleftrightarrow> (\<forall>content. ecFormat content = [] \<longrightarrow> ecFormattedBody content = []
     \<longrightarrow> ecPreviews content = [] \<longrightarrow> measuredSize marshal content forEdit \<le> 12 * int (length (ecBody content)) + 1024)"

lemma buildTextContent_body: "ecBody (buildTextContent ty subject chunk ps first) = (if first then headBody subject chunk else chunk)"
  by (simp add: buildTextContent_def headBody_def Let_def)

lemma shedOverhead_simps [simp]:
  "ecBody (shedOverhead content level) = ecBody content"
  "1 \<le> level \<Longrightarrow> ecFormat (shedOverhead content level) = []"
  "1 \<le> level \<Longrightarrow> ecFormattedBody (shedOverhead content level) = []"
  "2 \<le> level \<Longrightarrow> ecPreviews (shedOverhead content level) = []"
  by (simp_all add: shedOverhead_def Let_def)

lemma length_truncateBytes: "0 < mx \<Longrightarrow> int (length (truncateBytes s mx)) \<le> mx"
  using runeCut_le [of s "nat mx"] by (auto simp: truncateBytes_def min_def)

lemma fitLoop_body:
  "ecBody (snd (fitLoop m ty subject s ps first e level limit)) =
     (let chunk = fst (fitLoop m ty subject s ps first e level limit) in if first then headBody subject chunk else chunk)"
proof (induction m ty subject s ps first e level limit rule: fitLoop.induct)
  case (1 m ty subject s ps first e level limit)
  show ?case
    using 1 [OF refl refl refl] by (subst (1 2) fitLoop.simps) (auto simp: Let_def buildTextContent_body)
qed

lemma fitLoop_fits:
  assumes "plainWeight m e" "length subject \<le> 2048"
  shows "(2 \<le> level \<longrightarrow> 1 \<le> limit \<and> limit \<le> maxTextContentBytes) \<Longrightarrow>
    measuredSize m (snd (fitLoop m ty subject s ps first e level limit)) e \<le> maxTextContentBytes"
  using assms
proof (induction m ty subject s ps first e level limit rule: fitLoop.induct)
  case (1 m ty subject s ps first e level limit)
  define content where "content = shedOverhead (buildTextContent ty subject (firstChunk s limit) ps first) level"
  define sz where "sz = measuredSize m content e"
  have light: "sz \<le> 12 * (2053 + limit) + 1024" if "2 \<le> level"
  proof -
    have "ecFormat content = []" "ecFormattedBody content = []" "ecPreviews content = []"
      using that by (simp_all add: content_def)
    then have "sz \<le> 12 * int (length (ecBody content)) + 1024"
      using 1(4) unfolding plainWeight_def sz_def by blast
    moreover have "int (length (ecBody content)) \<le> 2053 + limit"
      using firstChunk_le [of limit s] 1(3,5) that by (auto simp: content_def buildTextContent_body headBody_def)
    ultimately show ?thesis using mult_left_mono [of "int (length (ecBody content))" "2053 + limit" 12] by linarith
  qed
  consider "sz \<le> maxTextContentBytes" | "\<not> sz \<le> maxTextContentBytes" "limit \<le> 512"
    | "\<not> sz \<le> maxTextContentBytes" "\<not> limit \<le> 512" by blast
  then show ?case
  proof cases
    case 1
    then show ?thesis by (subst fitLoop.simps) (simp add: Let_def sz_def content_def)
  next
    case 2
    then have level: "\<not> maxShedLevel \<le> level"
      using light by (auto simp: maxShedLevel_def maxTextContentBytes_def)
    have "measuredSize m (snd (fitLoop m ty subject s ps first e (level + 1) maxTextContentBytes)) e \<le> maxTextContentBytes"
      using 1(1) [OF refl refl refl] 2 level 1(4,5)
      by (simp add: sz_def content_def Let_def maxTextContentBytes_def)
    then show ?thesis
      using 2 level by (subst fitLoop.simps) (simp add: Let_def sz_def content_def)
  next
    case 3
    have "1 \<le> nextLimit limit sz \<and> nextLimit limit sz \<le> maxTextContentBytes" if "2 \<le> level"
    proof -
      have l: "513 \<le> limit" "limit \<le> maxTextContentBytes" using 3 1(3) that by auto
      have sz: "0 < sz" "sz \<le> 505660" using light [OF that] l 3 by (auto simp: maxTextContentBytes_def)
      have "40 = (513 * 40000) div (505660 :: int)" by simp
      also have "\<dots> \<le> (limit * 40000) div 505660" using l by (intro zdiv_mono1) auto
      also have "\<dots> \<le> (limit * 40000) div sz" using l sz by (intro zdiv_mono2) auto
      finally have "40 \<le> limit * maxTextContentBytes div sz" by (simp add: maxTextContentBytes_def)
      then show ?thesis
        using l nextLimit_less [of limit sz] by (auto simp: nextLimit_def Let_def)
    qed
    then have "measuredSize m (snd (fitLoop m ty subject s ps first e level (nextLimit limit sz))) e \<le> maxTextContentBytes"
      using 1(2) [OF refl refl refl] 3 1(4,5) by (simp add: sz_def content_def Let_def)
    then show ?thesis
      using 3 by (subst fitLoop.simps) (simp add: Let_def sz_def content_def)
  qed
qed

text \<open>One run of the loop: the new parts carry the rest of the text.\<close>

definition partsOf :: "(ConvertedMessagePart \<Rightarrow> bool) \<Rightarrow> bytes \<Rightarrow> bytes \<Rightarrow> nat \<Rightarrow> ConvertedMessagePart list \<Rightarrow> bool" where
  "partsOf fits subject s k new \<longleftrightarrow> (\<exists>chunks. concat chunks = s \<and> chunks \<noteq> []
     \<and> map (ecBody \<circ> cpContent) new = (if k = 0 then headBody subject (hd chunks) # tl chunks else chunks)
     \<and> map cpID new = map textPartID [k..<k + length new] \<and> list_all fits new)"

lemma partsLoop_parts:
  assumes "\<And>s first. fits (snd (fitPart m ty subject s ps first e))"
  shows "\<exists>new. partsLoop m ty subject ps e s parts = parts @ new
    \<and> partsOf (fits \<circ> cpContent) subject s (length parts) new"
proof (induction "length s" arbitrary: s parts rule: less_induct)
  case less
  let ?k = "length parts"
  define fit where "fit = fitPart m ty subject s ps (parts = []) e"
  define part where "part = \<lparr>cpID = textPartID ?k, cpContent = snd fit\<rparr>"
  let ?rest = "drop (length (fst fit)) s"
  have id: "(if parts = [] then [] else ''text'' @ pad3 ?k) = textPartID ?k" by (simp add: textPartID_def)
  have step: "partsLoop m ty subject ps e s parts =
      (if ?rest = [] then parts @ [part] else partsLoop m ty subject ps e ?rest (parts @ [part]))"
    by (subst partsLoop.simps) (simp add: Let_def fit_def part_def id)
  have body: "ecBody (cpContent part) = (if ?k = 0 then headBody subject (fst fit) else fst fit)"
    unfolding part_def fit_def fitPart_def by (simp add: fitLoop_body Let_def)
  have fits: "(fits \<circ> cpContent) part" using assms by (simp add: part_def fit_def)
  have s: "fst fit @ ?rest = s" unfolding fit_def by (rule fitPart_prefix)
  show ?case
  proof (cases "?rest = []")
    case True
    then have "partsOf (fits \<circ> cpContent) subject s ?k [part]"
      using s body fits unfolding partsOf_def by (intro exI [of _ "[fst fit]"]) (simp add: part_def)
    then show ?thesis using True step by simp
  next
    case False
    then have "s \<noteq> []" by auto
    then have "length ?rest < length s" using fitPart_shrinks [of s m ty subject ps "parts = []" e] by (simp add: fit_def)
    from less [OF this, of "parts @ [part]"]
    obtain new chunks where new: "partsLoop m ty subject ps e ?rest (parts @ [part]) = parts @ part # new"
        "concat chunks = ?rest" "chunks \<noteq> []" "map (ecBody \<circ> cpContent) new = chunks"
        "map cpID new = map textPartID [Suc ?k..<Suc ?k + length new]" "list_all (fits \<circ> cpContent) new"
      by (auto simp: partsOf_def)
    have ids: "map textPartID [?k..<?k + length (part # new)] = textPartID ?k # map textPartID [Suc ?k..<Suc ?k + length new]"
      by (simp add: upt_conv_Cons del: upt_Suc)
    have "partsOf (fits \<circ> cpContent) subject s ?k (part # new)"
      unfolding partsOf_def
    proof (intro exI [of _ "fst fit # chunks"] conjI)
      show "concat (fst fit # chunks) = s" using s new(2) by simp
      show "map (ecBody \<circ> cpContent) (part # new) =
          (if ?k = 0 then headBody subject (hd (fst fit # chunks)) # tl (fst fit # chunks) else fst fit # chunks)"
        using body new(4) by simp
      show "map cpID (part # new) = map textPartID [?k..<?k + length (part # new)]"
        unfolding ids using new(5) by (simp add: part_def)
      show "list_all (fits \<circ> cpContent) (part # new)" using fits new(6) by simp
    qed simp
    then show ?thesis using False step new(1) by auto
  qed
qed


definition sampleMarshal :: "MessageEventContent \<Rightarrow> bool \<Rightarrow> nat option" where
  "sampleMarshal content forEdit = Some (6 * (length (ecBody content) + length (ecFormattedBody content)) + 100)"


section \<open>Part identifiers\<close>

lemma digitsVal_zeros: "digitsVal 0 (replicate k (CHR ''0'') @ ds) = digitsVal 0 ds"
  by (induction k) (simp_all add: digitVal_def)

lemma pad3_hd: "hd (pad3 n) \<noteq> CHR ''-'' \<and> hd (pad3 n) \<noteq> CHR ''+'' \<and> pad3 n \<noteq> []"
proof (cases "3 - length (natDigits n)")
  case 0
  then show ?thesis using natDigits_hd [of n] by (simp add: pad3_def)
qed (simp add: pad3_def)

lemma Atoi_pad3:
  assumes "int n \<le> maxInt64"
  shows "Atoi (pad3 n) = (int n, None)"
proof -
  have "digitsVal 0 (pad3 n) = Some n" by (simp add: pad3_def digitsVal_zeros digitsVal_natDigits)
  then show ?thesis using pad3_hd [of n] assms by (simp add: Atoi_def Let_def minInt64_def)
qed

lemma textPartIndex_textPartID: "int n \<le> maxInt64 \<Longrightarrow> textPartIndex (textPartID n) = int n"
  using TrimPrefix_append [of "''text''" "pad3 n"] by (auto simp: textPartIndex_def textPartID_def Atoi_pad3 simp del: TrimPrefix_append)

lemma isTextPartID_textPartID [simp]: "isTextPartID (textPartID n)"
  by (simp add: isTextPartID_def textPartID_def)

text \<open>C23: An edit rewrites the text of a message and nothing else.  When the stored text parts are those of a message
  split before, in any order and among any attachments, the n-th of them gets the n-th new part, parts that
  are missing are added with the next numbers, and those that are left over are redacted.\<close>

theorem edit_maps_parts:
  assumes "distinct existing" "set (filter isTextPartID existing) = set (map textPartID [0..<k])" "int k \<le> maxInt64"
    and "n = length (buildTextParts marshal ''m.text'' [] s [] True)"
  shows "let ed = convertEdit marshal existing s in
    map fst (edModified ed) = map textPartID [0..<min k n]
    \<and> map (cpID \<circ> snd) (edModified ed) @ map cpID (edAdded ed) = map textPartID [0..<n]
    \<and> edDeleted ed = map textPartID [n..<k]"
proof -
  let ?parts = "buildTextParts marshal ''m.text'' [] s [] True"
  let ?stored = "sort_key textPartIndex (filter isTextPartID existing)"
  have num: "textPartIndex (textPartID i) = int i" if "i < k" for i
    using that assms(3) by (intro textPartIndex_textPartID) simp
  have inv: "x = textPartID (nat (textPartIndex x))" if "x \<in> set ?stored" for x
  proof -
    have "x \<in> textPartID ` {0..<k}" using that assms(2) by (metis set_map set_sort set_upt)
    then show ?thesis using num by auto
  qed
  have "map textPartIndex ?stored = map int [0..<k]"
  proof (rule sorted_set_unique)
    show "distinct (map textPartIndex ?stored)"
      using inv assms(1) by (auto simp: distinct_map inj_on_def) (metis (full_types))
    have "textPartIndex ` (textPartID ` {0..<k}) = int ` {0..<k}" using num by (force simp: image_image)
    then show "set (map textPartIndex ?stored) = set (map int [0..<k])" using assms(2) by auto
    show "sorted (map textPartIndex ?stored)" by (rule sorted_sort_key)
    show "sorted (map int [0..<k])" by (simp add: sorted_map sorted_wrt_mono_rel [OF _ sorted_upt])
  qed (simp add: distinct_map)
  then have "map (textPartID \<circ> nat) (map textPartIndex ?stored) = map textPartID [0..<k]"
    by (simp add: comp_def)
  moreover have "map (textPartID \<circ> nat) (map textPartIndex ?stored) = ?stored"
    unfolding map_map by (rule map_idI) (use inv in simp)
  ultimately have stored: "?stored = map textPartID [0..<k]" by simp
  have "\<exists>new. ?parts = new \<and> partsOf ((\<lambda>_. True) \<circ> cpContent) (truncateBytes [] maxSubjectBytes) s 0 new"
    unfolding buildTextParts_def using partsLoop_parts [where fits = "\<lambda>_. True" and parts = "[]"] by simp
  then have ids: "map cpID ?parts = map textPartID [0..<n]"
    by (auto simp: partsOf_def assms(4))
  have len: "length ?parts = n" using assms(4) by simp
  have "map (cpID \<circ> snd) (zip ?stored ?parts) = map cpID (take k ?parts)"
    using stored len by (simp add: map_snd_zip_take min_def flip: map_map)
  then have "map (cpID \<circ> snd) (zip ?stored ?parts) @ map cpID (drop (length ?stored) ?parts) = map textPartID [0..<n]"
    using stored ids by (metis append_take_drop_id diff_zero length_map length_upt map_append)
  then show ?thesis
    using stored len by (simp add: convertEdit_def Let_def map_fst_zip_take drop_map take_map)
qed

theorem edit_maps_parts_witness:
  "let ed = convertEdit sampleMarshal [''att0'', ''text002'', [], ''text001''] ''new'';
       n = length (buildTextParts sampleMarshal ''m.text'' [] ''new'' [] True) in
    map fst (edModified ed) = map textPartID [0..<min 3 n]
    \<and> map (cpID \<circ> snd) (edModified ed) @ map cpID (edAdded ed) = map textPartID [0..<n]
    \<and> edDeleted ed = map textPartID [n..<3]"
proof -
  have ids: "map textPartID [0..<3] = [[], ''text001'', ''text002'']"
    by code_simp
  have "distinct [''att0'', ''text002'', [], ''text001'']"
       "set (filter isTextPartID [''att0'', ''text002'', [], ''text001'']) = set (map textPartID [0..<3])" "int 3 \<le> maxInt64"
    unfolding ids by (auto simp: isTextPartID_def maxInt64_def)
  from edit_maps_parts [OF this refl, of sampleMarshal "''new''"] show ?thesis unfolding Let_def .
qed

text \<open>The numbers have three digits, and from the thousandth part on their order as strings is another one.\<close>

lemma part_order_lexical:
  "textPartID 2 < textPartID 10 \<and> textPartID 1000 < textPartID 999"
  by code_simp

end
