(* ===== verification/ReorderBuffer.thy ===== *)
theory ReorderBuffer
  imports Prelude "HOL-Library.Multiset"
begin

text \<open>
  The buffer that puts live messages into the order of their time stamps, and the gate that keeps them back
  until the history has been imported: \<open>messageBuffer\<close>, \<open>flushPendingPortalMsgs\<close> and
  \<open>onForwardBackfillDone\<close> of \<open>client.go\<close>, \<open>setCloudSyncDone\<close> of \<open>sync_controller.go\<close>.

  These run in goroutines of their own, and each of them is a step of the relation below; what a flush hands
  on is a batch that is worked off message by message.  \<open>srt\<close> is \<open>sort.Slice\<close>, which leaves the order of equal
  time stamps open.  A message is anything with a time stamp; what becomes of one that is handed on is
  \<open>handleMessage\<close>'s decision, of which only one outcome matters here: without a portal, and while the sync
  runs, it is kept in \<open>pendingPortalMsgs\<close>.  That takes two steps, since the flag is read long before.
\<close>

section \<open>State\<close>

record 'm gate =
  entries :: "'m list"
  timerArmed :: bool
  spawned :: nat
  syncDone :: bool
  pendingBackfills :: int
  watching :: bool
  batches :: "'m list list"
  holding :: "'m list"
  heldMsgs :: "'m list"
  handled :: "'m list"
  discarded :: "'m list"
  arrived :: "'m list"

definition newGate :: "'m gate" where
  "newGate = \<lparr>entries = [], timerArmed = False, spawned = 0, syncDone = False, pendingBackfills = 0, watching = False,
     batches = [], holding = [], heldMsgs = [], handled = [], discarded = [], arrived = []\<rparr>"

definition messageBufferMaxSize :: nat where "messageBufferMaxSize = 50"

section \<open>Operations\<close>

definition bufferAdd :: "'m \<Rightarrow> 'm gate \<Rightarrow> 'm gate" where
  "bufferAdd m g =
     (let es = entries g @ [m]; g' = g\<lparr>entries := es, arrived := arrived g @ [m]\<rparr> in
      if \<not> syncDone g then g'
      else if messageBufferMaxSize \<le> length es then g'\<lparr>timerArmed := False, spawned := spawned g + 1\<rparr>
      else g'\<lparr>timerArmed := True\<rparr>)"

definition bufferFlush :: "('m list \<Rightarrow> 'm list) \<Rightarrow> 'm gate \<Rightarrow> 'm gate" where
  "bufferFlush srt g =
     (if entries g = [] then g
      else g\<lparr>entries := [], timerArmed := False, batches := batches g @ [srt (entries g)]\<rparr>)"

definition bufferStop :: "'m gate \<Rightarrow> 'm gate" where
  "bufferStop g = g\<lparr>timerArmed := False, entries := [], discarded := discarded g @ entries g\<rparr>"

definition flushPendingPortalMsgs :: "('m list \<Rightarrow> 'm list) \<Rightarrow> 'm gate \<Rightarrow> 'm gate" where
  "flushPendingPortalMsgs srt g =
     (if heldMsgs g = [] then g
      else g\<lparr>heldMsgs := [], batches := batches g @ [srt (heldMsgs g)]\<rparr>)"

definition flushAll :: "('m list \<Rightarrow> 'm list) \<Rightarrow> 'm gate \<Rightarrow> 'm gate" where
  "flushAll srt g = flushPendingPortalMsgs srt (bufferFlush srt g)"

definition onForwardBackfillDone :: "('m list \<Rightarrow> 'm list) \<Rightarrow> 'm gate \<Rightarrow> 'm gate" where
  "onForwardBackfillDone srt g =
     (let g' = g\<lparr>pendingBackfills := pendingBackfills g - 1\<rparr> in
      if pendingBackfills g' = 0 then flushAll srt g' else g')"

definition setCloudSyncDone :: "('m list \<Rightarrow> 'm list) \<Rightarrow> 'm gate \<Rightarrow> 'm gate" where
  "setCloudSyncDone srt g =
     (let g' = g\<lparr>syncDone := True\<rparr> in
      if pendingBackfills g' \<le> 0 then flushAll srt g' else g'\<lparr>watching := True\<rparr>)"

section \<open>Steps\<close>

text \<open>\<open>Hand\<close> takes the next message of some batch; \<open>Keep\<close> is the case that it has read \<open>cloudSyncDone\<close> as false and
  found no portal.  The watcher of \<open>setCloudSyncDone\<close> ends when the counter is down or fires after five minutes
  without progress; a deletion from Matrix flushes, too.\<close>

inductive gate_step :: "('m list \<Rightarrow> 'm list) \<Rightarrow> 'm gate \<Rightarrow> 'm gate \<Rightarrow> bool" for srt :: "'m list \<Rightarrow> 'm list" where
  Arrive: "gate_step srt g (bufferAdd m g)"
| Quiet: "timerArmed g \<Longrightarrow> gate_step srt g (bufferFlush srt (g\<lparr>timerArmed := False\<rparr>))"
| Background: "0 < spawned g \<Longrightarrow> gate_step srt g (bufferFlush srt (g\<lparr>spawned := spawned g - 1\<rparr>))"
| Queued: "\<not> syncDone g \<Longrightarrow> 0 \<le> n \<Longrightarrow> gate_step srt g (g\<lparr>pendingBackfills := n\<rparr>)"
| SyncDone: "gate_step srt g (setCloudSyncDone srt g)"
| BackfillDone: "gate_step srt g (onForwardBackfillDone srt g)"
| WatchEnds: "watching g \<Longrightarrow> pendingBackfills g \<le> 0 \<Longrightarrow> gate_step srt g (g\<lparr>watching := False\<rparr>)"
| WatchFires: "watching g \<Longrightarrow> gate_step srt g (flushAll srt (g\<lparr>watching := False\<rparr>))"
| MatrixDelete: "gate_step srt g (flushAll srt g)"
| Hand: "batches g = xs @ (m # b) # ys \<Longrightarrow> gate_step srt g (g\<lparr>batches := xs @ b # ys, handled := handled g @ [m]\<rparr>)"
| Keep: "batches g = xs @ (m # b) # ys \<Longrightarrow> \<not> syncDone g
    \<Longrightarrow> gate_step srt g (g\<lparr>batches := xs @ b # ys, holding := holding g @ [m]\<rparr>)"
| Kept: "holding g = xs @ m # ys \<Longrightarrow> gate_step srt g (g\<lparr>holding := xs @ ys, heldMsgs := heldMsgs g @ [m]\<rparr>)"
| Stop: "gate_step srt g (bufferStop g)"

inductive gate_reach :: "('m list \<Rightarrow> 'm list) \<Rightarrow> 'm gate \<Rightarrow> bool" for srt :: "'m list \<Rightarrow> 'm list" where
  Start: "gate_reach srt newGate"
| Step: "gate_reach srt g \<Longrightarrow> gate_step srt g g' \<Longrightarrow> gate_reach srt g'"

section \<open>Nothing is lost\<close>

definition inside :: "'m gate \<Rightarrow> 'm multiset" where
  "inside g = mset (entries g) + mset (concat (batches g)) + mset (holding g) + mset (heldMsgs g)
     + mset (handled g) + mset (discarded g)"

definition balanced :: "('m \<Rightarrow> 'k::linorder) \<Rightarrow> 'm gate \<Rightarrow> bool" where
  "balanced stamp g \<longleftrightarrow> inside g = mset (arrived g) \<and> list_all (\<lambda>b. sorted (map stamp b)) (batches g)"

text \<open>The contract of \<open>sort.Slice\<close>.\<close>

locale slice_sort =
  fixes stamp :: "'m \<Rightarrow> 'k::linorder" and srt :: "'m list \<Rightarrow> 'm list"
  assumes same: "mset (srt xs) = mset xs"
    and ordered: "sorted (map stamp (srt xs))"
begin

lemma inside_flush: "inside (bufferFlush srt g) = inside g" "inside (flushPendingPortalMsgs srt g) = inside g"
  by (simp_all add: inside_def bufferFlush_def flushPendingPortalMsgs_def same)

lemma inside_flushAll: "inside (flushAll srt g) = inside g"
  by (simp add: flushAll_def inside_flush)

lemma balanced_flush: "balanced stamp g \<Longrightarrow> balanced stamp (bufferFlush srt g)" "balanced stamp g \<Longrightarrow> balanced stamp (flushPendingPortalMsgs srt g)"
  unfolding balanced_def inside_flush by (simp_all add: bufferFlush_def flushPendingPortalMsgs_def ordered)

lemma balanced_flushAll: "balanced stamp g \<Longrightarrow> balanced stamp (flushAll srt g)"
  by (simp add: flushAll_def balanced_flush)

lemma balanced_update [simp]:
  "balanced stamp (g\<lparr>timerArmed := a\<rparr>) = balanced stamp g" "balanced stamp (g\<lparr>spawned := n\<rparr>) = balanced stamp g"
  "balanced stamp (g\<lparr>pendingBackfills := i\<rparr>) = balanced stamp g" "balanced stamp (g\<lparr>watching := a\<rparr>) = balanced stamp g"
  "balanced stamp (g\<lparr>syncDone := a\<rparr>) = balanced stamp g"
  by (simp_all add: balanced_def inside_def)

lemma balanced_step: "gate_step srt g g' \<Longrightarrow> balanced stamp g \<Longrightarrow> balanced stamp g'"
proof (induction rule: gate_step.induct)
  case (Arrive g m)
  then show ?case by (simp add: bufferAdd_def Let_def balanced_def inside_def)
next
  case (Stop g)
  then show ?case by (simp add: bufferStop_def balanced_def inside_def ac_simps)
next
  case (Hand g xs m b ys)
  then show ?case by (simp add: balanced_def inside_def ac_simps)
next
  case (Keep g xs m b ys)
  then show ?case by (simp add: balanced_def inside_def ac_simps)
next
  case (Kept g xs m ys)
  then show ?case by (simp add: balanced_def inside_def ac_simps)
qed (simp_all add: onForwardBackfillDone_def setCloudSyncDone_def Let_def balanced_flush balanced_flushAll)

lemma balanced_reach: "gate_reach srt g \<Longrightarrow> balanced stamp g"
  by (induction rule: gate_reach.induct) (simp add: newGate_def balanced_def inside_def, rule balanced_step)

end

interpretation stable: slice_sort stamp "sort_key stamp" for stamp :: "'m \<Rightarrow> 'k::linorder"
  by unfold_locales simp_all

section \<open>Nothing is stuck\<close>

text \<open>After the sync a message in the buffer has something that will flush it.\<close>

definition released :: "'m gate \<Rightarrow> bool" where
  "released g = (if syncDone g \<and> 0 < length (entries g)
     then timerArmed g \<or> 0 < spawned g \<or> (watching g \<and> 0 < pendingBackfills g) else True)"

lemma entries_flush [simp]:
  "entries (bufferFlush srt g) = []" "entries (flushPendingPortalMsgs srt g) = entries g" "entries (flushAll srt g) = []"
  by (simp_all add: bufferFlush_def flushPendingPortalMsgs_def flushAll_def)

lemma released_empty [simp]: "entries g = [] \<Longrightarrow> released g"
  by (simp add: released_def)

lemma released_step: "gate_step srt g g' \<Longrightarrow> released g \<Longrightarrow> released g'"
proof (induction rule: gate_step.induct)
  case (BackfillDone g)
  then show ?case
    by (cases "pendingBackfills g = 1") (auto simp: onForwardBackfillDone_def released_def Let_def split: if_splits)
next
  case (SyncDone g)
  then show ?case by (cases "pendingBackfills g \<le> 0") (simp_all add: setCloudSyncDone_def released_def Let_def)
qed (auto simp: bufferAdd_def bufferStop_def released_def Let_def split: if_splits)

lemma released_reach: "gate_reach srt g \<Longrightarrow> released g"
  by (induction rule: gate_reach.induct) (simp add: newGate_def, rule released_step)

text \<open>C19: The gate loses no message and repeats none.  Whatever way arrivals, timers, flushes, the end of the sync and
  the hand-over of batches interleave, every message that arrived is at one place exactly: in the buffer, in a
  batch, held back, handed on, or discarded by a disconnect; and every batch is in the order of the time stamps.\<close>

theorem buffer_loses_nothing:
  assumes "slice_sort stamp srt" "gate_reach srt g"
  shows "mset (entries g) + mset (concat (batches g)) + mset (holding g) + mset (heldMsgs g)
      + mset (handled g) + mset (discarded g) = mset (arrived g)
    \<and> list_all (\<lambda>b. sorted (map stamp b)) (batches g)"
  using slice_sort.balanced_reach [OF assms] by (simp add: balanced_def inside_def)

definition sampleRun :: "nat gate" where
  "sampleRun = flushAll (sort_key (\<lambda>n. n)) (bufferAdd 3 (bufferAdd 7 newGate))"

lemma sampleRun_reach: "gate_reach (sort_key (\<lambda>n. n)) sampleRun"
  unfolding sampleRun_def
  by (intro gate_reach.Step [OF _ gate_step.MatrixDelete] gate_reach.Step [OF _ gate_step.Arrive] gate_reach.Start)

theorem buffer_loses_nothing_witness:
  "mset (entries sampleRun) + mset (concat (batches sampleRun)) + mset (holding sampleRun) + mset (heldMsgs sampleRun)
      + mset (handled sampleRun) + mset (discarded sampleRun) = mset (arrived sampleRun)
    \<and> list_all (\<lambda>b. sorted (map (\<lambda>n. n) b)) (batches sampleRun)"
  by (rule buffer_loses_nothing [OF stable.slice_sort_axioms sampleRun_reach])

text \<open>C18: No message stays in the buffer.  Once the sync is over, whenever the buffer holds a message the quiet timer
  is armed, or a flush is about to run, or initial backfills are outstanding and their watcher is alive.\<close>

theorem buffer_never_stuck:
  assumes "gate_reach srt g" "syncDone g" "0 < length (entries g)"
  shows "timerArmed g \<or> 0 < spawned g \<or> (watching g \<and> 0 < pendingBackfills g)"
  using released_reach [OF assms(1)] assms(2,3) by (simp add: released_def)

definition sampleLate :: "nat gate" where
  "sampleLate = bufferAdd 5 (setCloudSyncDone (sort_key (\<lambda>n. n)) newGate)"

theorem buffer_never_stuck_witness:
  "timerArmed sampleLate \<or> 0 < spawned sampleLate \<or> (watching sampleLate \<and> 0 < pendingBackfills sampleLate)"
proof (rule buffer_never_stuck)
  show "gate_reach (sort_key (\<lambda>n. n)) sampleLate"
    unfolding sampleLate_def
    by (intro gate_reach.Step [OF _ gate_step.Arrive] gate_reach.Step [OF _ gate_step.SyncDone] gate_reach.Start)
  show "syncDone sampleLate" "0 < length (entries sampleLate)"
    by (simp_all add: sampleLate_def bufferAdd_def setCloudSyncDone_def flushAll_def bufferFlush_def
        flushPendingPortalMsgs_def newGate_def Let_def messageBufferMaxSize_def)
qed

section \<open>Two races\<close>

lemmas gate_ops = bufferAdd_def setCloudSyncDone_def flushAll_def bufferFlush_def flushPendingPortalMsgs_def
  newGate_def Let_def messageBufferMaxSize_def

text \<open>The buffer does not wait for the initial backfills: one message after the end of the sync arms the timer, and the
  flush hands on the ones from before although a backfill is outstanding.\<close>

lemma flushes_before_backfill:
  "\<exists>g. gate_reach (sort_key (\<lambda>n. n)) g \<and> pendingBackfills g = 1 \<and> arrived g = [4, 9 :: nat] \<and> batches g = [[4, 9]]"
proof -
  let ?f = "sort_key (\<lambda>n :: nat. n)"
  let ?g = "bufferAdd 9 (setCloudSyncDone ?f ((bufferAdd 4 newGate)\<lparr>pendingBackfills := 1\<rparr>))"
  have "gate_reach ?f ?g"
    by (intro gate_reach.Step [OF _ gate_step.Arrive] gate_reach.Step [OF _ gate_step.SyncDone]
        gate_reach.Step [OF _ gate_step.Queued] gate_reach.Start) (simp_all add: gate_ops)
  then have "gate_reach ?f (bufferFlush ?f (?g\<lparr>timerArmed := False\<rparr>))"
    by (rule gate_reach.Step [OF _ gate_step.Quiet]) (simp add: gate_ops)
  then show ?thesis
    by (intro exI [of _ "bufferFlush ?f (?g\<lparr>timerArmed := False\<rparr>)"] conjI) (simp_all add: gate_ops)
qed

text \<open>A message that has read the flag just before the sync ends is appended to \<open>pendingPortalMsgs\<close> just after the
  flush, and then nothing is left that would take it out.\<close>

lemma held_for_good:
  "\<exists>g. gate_reach (sort_key (\<lambda>n. n)) g \<and> syncDone g \<and> heldMsgs g = [4 :: nat] \<and> handled g = [] \<and> concat (batches g) = []
     \<and> holding g = [] \<and> \<not> timerArmed g \<and> spawned g = 0 \<and> \<not> watching g \<and> pendingBackfills g = 0"
proof -
  let ?f = "sort_key (\<lambda>n :: nat. n)"
  let ?g = "flushAll ?f (bufferAdd 4 newGate)"
  let ?h = "?g\<lparr>batches := [[]], holding := [4]\<rparr>"
  let ?k = "(setCloudSyncDone ?f ?h)\<lparr>holding := [], heldMsgs := [4]\<rparr>"
  have "gate_reach ?f ?g"
    by (intro gate_reach.Step [OF _ gate_step.MatrixDelete] gate_reach.Step [OF _ gate_step.Arrive] gate_reach.Start)
  moreover have "gate_step ?f ?g ?h"
    using gate_step.Keep [of ?g "[]" 4 "[]" "[]" ?f] by (simp add: gate_ops)
  moreover have "gate_step ?f (setCloudSyncDone ?f ?h) ?k"
    using gate_step.Kept [of "setCloudSyncDone ?f ?h" "[]" 4 "[]" ?f] by (simp add: gate_ops)
  ultimately have "gate_reach ?f ?k" by (meson gate_reach.Step gate_step.SyncDone)
  then show ?thesis by (intro exI [of _ ?k] conjI) (simp_all add: gate_ops)
qed

end
