(* ===== verification/Reactions.thy ===== *)
theory Reactions
  imports CloudSync
begin

text \<open>
  The helpers of \<open>pkg/connector/client.go\<close> and \<open>chatdb.go\<close> that name the target of a reaction or a reply, convert
  reactions to emoji and to the text an SMS carries, and convert MIME types.
\<close>

section \<open>Targets\<close>

text \<open>\<open>fmt.Sscanf\<close> with one \<open>%d\<close> after a literal prefix: the number is stored even when what follows it differs
  from the rest of the format.\<close>

definition parseBalloonPart :: "bytes \<Rightarrow> bytes \<Rightarrow> int" where
  "parseBalloonPart s format =
     (case Index format ''%d'' of
        Some i \<Rightarrow> if HasPrefix s (take i format) then sscanfInt (drop i s) else 0
      | None \<Rightarrow> 0)"

definition extractTapbackTarget :: "bytes \<Rightarrow> bytes \<times> 64 word" where
  "extractTapbackTarget messageID =
     (case Index messageID ''_att'' of
        Some idx \<Rightarrow>
          if 0 < idx then (take idx messageID, word_of_int (parseBalloonPart (drop (idx + 4) messageID) ''%d'') + 1)
          else (messageID, 0)
      | None \<Rightarrow> (messageID, 0))"

text \<open>Go's \<open>int\<close> wraps around.\<close>

definition intAdd :: "int \<Rightarrow> int \<Rightarrow> int" where
  "intAdd a b = sint (word_of_int (a + b) :: 64 word)"

definition extractReplyInfo :: "bytes option \<Rightarrow> (bytes \<times> bytes) option" where
  "extractReplyInfo replyTo =
     map_option (\<lambda>guid.
       case Index guid ''_att'' of
         Some idx \<Rightarrow>
           if 0 < idx then (take idx guid, Itoa (intAdd (parseBalloonPart (drop (idx + 4) guid) ''%d'') 1) @ '':0:0'')
           else (guid, ''0:0:0'')
       | None \<Rightarrow> (guid, ''0:0:0'')) replyTo"

text \<open>The part of a message an attachment is, and the targets that name it.  \<open>known\<close> is bridgev2's
  \<open>GetFirstPartByID\<close>: whether a message of that identifier is stored.\<close>

definition attachmentID :: "bytes \<Rightarrow> int \<Rightarrow> bytes" where
  "attachmentID guid i = guid @ ''_att'' @ Itoa i"

definition resolveTapbackTargetID :: "(bytes \<Rightarrow> bool) \<Rightarrow> bytes \<Rightarrow> int \<Rightarrow> bytes" where
  "resolveTapbackTargetID known targetGUID bp =
     (if 1 \<le> bp \<and> known (attachmentID targetGUID (bp - 1)) then attachmentID targetGUID (bp - 1) else targetGUID)"

definition chatDBReplyTarget :: "bytes \<Rightarrow> int \<Rightarrow> bytes" where
  "chatDBReplyTarget replyGUID replyPart =
     (if 1 \<le> replyPart then attachmentID replyGUID (replyPart - 1) else replyGUID)"

section \<open>Emoji\<close>

definition utf8 :: "nat list \<Rightarrow> bytes" where
  "utf8 rs = concat (map encodeRune rs)"

definition tapbackTypeToEmoji :: "32 word option \<Rightarrow> bytes option \<Rightarrow> bytes" where
  "tapbackTypeToEmoji tapbackType tapbackEmoji =
     (case tapbackType of None \<Rightarrow> utf8 [0x2764, 0xFE0F]
      | Some t \<Rightarrow>
          if t = 0 then utf8 [0x2764, 0xFE0F]
          else if t = 1 then utf8 [0x1F44D]
          else if t = 2 then utf8 [0x1F44E]
          else if t = 3 then utf8 [0x1F602]
          else if t = 4 then utf8 [0x203C, 0xFE0F]
          else if t = 5 then utf8 [0x2753]
          else if t = 6 then (case tapbackEmoji of Some e \<Rightarrow> e | None \<Rightarrow> utf8 [0x1F44D])
          else utf8 [0x2764, 0xFE0F])"

definition emojiToTapbackType :: "bytes \<Rightarrow> 32 word \<times> bytes option" where
  "emojiToTapbackType emoji =
     (if emoji = utf8 [0x2764, 0xFE0F] \<or> emoji = utf8 [0x2665, 0xFE0F] then (0, None)
      else if emoji = utf8 [0x1F44D] then (1, None)
      else if emoji = utf8 [0x1F44E] then (2, None)
      else if emoji = utf8 [0x1F602] then (3, None)
      else if emoji = utf8 [0x2757] \<or> emoji = utf8 [0x203C, 0xFE0F] then (4, None)
      else if emoji = utf8 [0x2753] then (5, None)
      else (6, Some emoji))"

section \<open>Reactions as SMS\<close>

definition quoted :: "bytes \<Rightarrow> bytes" where
  "quoted body = '' '' @ utf8 [0x201C] @ body @ utf8 [0x201D]"

definition formatSMSReactionTextWithBody :: "32 word \<Rightarrow> bytes option \<Rightarrow> bytes \<Rightarrow> bool \<Rightarrow> bytes" where
  "formatSMSReactionTextWithBody tapbackType customEmoji body isRemove =
     (if isRemove then
        (if tapbackType = 0 then ''Removed a heart from''
         else if tapbackType = 1 then ''Removed a like from''
         else if tapbackType = 2 then ''Removed a dislike from''
         else if tapbackType = 3 then ''Removed a laugh from''
         else if tapbackType = 4 then ''Removed an exclamation from''
         else if tapbackType = 5 then ''Removed a question mark from''
         else if tapbackType = 6 then
           (case customEmoji of Some e \<Rightarrow> ''Removed a '' @ e @ '' from'' | None \<Rightarrow> ''Removed a like from'')
         else ''Removed a heart from'') @ quoted body
      else if tapbackType = 6 \<and> customEmoji \<noteq> None then ''Reacted '' @ the customEmoji @ '' to'' @ quoted body
      else
        (if tapbackType = 0 then ''Loved''
         else if tapbackType = 1 then ''Liked''
         else if tapbackType = 2 then ''Disliked''
         else if tapbackType = 3 then ''Laughed at''
         else if tapbackType = 4 then ''Emphasized''
         else if tapbackType = 5 then ''Questioned''
         else if tapbackType = 6 then ''Liked''
         else ''Loved'') @ quoted body)"

definition formatSMSReactionText :: "32 word \<Rightarrow> bytes option \<Rightarrow> bool \<Rightarrow> bytes" where
  "formatSMSReactionText tapbackType customEmoji isRemove =
     formatSMSReactionTextWithBody tapbackType customEmoji [] isRemove"

section \<open>MIME types\<close>

definition mimeToUTI :: "bytes \<Rightarrow> bytes" where
  "mimeToUTI mime =
     (if mime = ''image/jpeg'' then ''public.jpeg''
      else if mime = ''image/png'' then ''public.png''
      else if mime = ''image/gif'' then ''com.compuserve.gif''
      else if mime = ''image/heic'' then ''public.heic''
      else if mime = ''video/mp4'' then ''public.mpeg-4''
      else if mime = ''video/quicktime'' then ''com.apple.quicktime-movie''
      else if mime = ''audio/mpeg'' \<or> mime = ''audio/mp3'' then ''public.mp3''
      else if mime = ''audio/aac'' \<or> mime = ''audio/mp4'' then ''public.aac-audio''
      else if mime = ''audio/x-caf'' then ''com.apple.coreaudio-format''
      else if mime = ''text/vcard'' \<or> mime = ''text/x-vcard'' \<or> mime = ''text/directory'' then ''public.vcard''
      else if HasPrefix mime ''image/'' then ''public.image''
      else if HasPrefix mime ''video/'' then ''public.movie''
      else if HasPrefix mime ''audio/'' then ''public.audio''
      else ''public.data'')"

definition utiToMIME :: "bytes \<Rightarrow> bytes" where
  "utiToMIME uti =
     (if uti = ''public.jpeg'' then ''image/jpeg''
      else if uti = ''public.png'' then ''image/png''
      else if uti = ''com.compuserve.gif'' then ''image/gif''
      else if uti = ''public.tiff'' then ''image/tiff''
      else if uti = ''public.heic'' then ''image/heic''
      else if uti = ''public.heif'' then ''image/heif''
      else if uti = ''public.webp'' then ''image/webp''
      else if uti = ''public.mpeg-4'' then ''video/mp4''
      else if uti = ''com.apple.quicktime-movie'' then ''video/quicktime''
      else if uti = ''public.mp3'' then ''audio/mpeg''
      else if uti = ''public.aac-audio'' then ''audio/aac''
      else if uti = ''com.apple.coreaudio-format'' then ''audio/x-caf''
      else if uti = ''public.vcard'' then ''text/vcard''
      else [])"

definition mimeToMsgType :: "bytes \<Rightarrow> bytes" where
  "mimeToMsgType mime =
     (if HasPrefix mime ''image/'' then ''m.image''
      else if HasPrefix mime ''video/'' then ''m.video''
      else if HasPrefix mime ''audio/'' then ''m.audio''
      else ''m.file'')"

definition looksLikeImage :: "bytes \<Rightarrow> bool" where
  "looksLikeImage bs =
     (if length bs < 8 then False
      else if take 3 bs = map char_of [0xFF, 0xD8, 0xFF :: nat] then True
      else if take 4 bs = map char_of [0x89, 0x50, 0x4E, 0x47 :: nat] then True
      else if take 4 bs = ''GIF8'' then True
      else if take 4 bs = map char_of [0x49, 0x49, 0x2A, 0x00 :: nat] \<or> take 4 bs = map char_of [0x4D, 0x4D, 0x00, 0x2A :: nat] then True
      else False)"

definition detectImageMIME :: "bytes \<Rightarrow> bytes" where
  "detectImageMIME bs =
     (if length bs < 8 then []
      else if take 3 bs = map char_of [0xFF, 0xD8, 0xFF :: nat] then ''image/jpeg''
      else if take 4 bs = map char_of [0x89, 0x50, 0x4E, 0x47 :: nat] then ''image/png''
      else if take 4 bs = ''GIF8'' then ''image/gif''
      else if take 4 bs = map char_of [0x49, 0x49, 0x2A, 0x00 :: nat] \<or> take 4 bs = map char_of [0x4D, 0x4D, 0x00, 0x2A :: nat] then ''image/tiff''
      else [])"

end
