(* ===== verification/LiveMessages.thy ===== *)
theory LiveMessages
  imports MessageIngest Reactions
begin

text \<open>
  Messages from the push service, \<open>client.go\<close>: whether a message is new, which conversation it belongs to, whether it
  may bring a deleted conversation back, and the events it becomes (\<open>handleMessage\<close>); reactions, edits, unsends, and
  the deletions that come from the user's other devices.  The store is there (\<open>cloudStore\<close> is set).

  A handler is a function of the state and of a script of failing statements.  \<open>now\<close> is the clock of the whole call;
  what bridgev2 answers to lookups does not change during it, since it works off the queued events later.
\<close>

section \<open>State\<close>

text \<open>The fields of the records of the bindings that the handlers read.\<close>

record WrappedAttachment =
  waMimeType :: bytes
  waData :: bytes

record WrappedMessage =
  wmUuid :: bytes
  wmSender :: "bytes option"
  wmText :: "bytes option"
  wmParticipants :: "bytes list"
  wmGroupName :: "bytes option"
  wmTimestampMs :: "64 word"
  wmIsSms :: bool
  wmIsTapback :: bool
  wmTapbackType :: "32 word option"
  wmTapbackTargetUuid :: "bytes option"
  wmTapbackTargetPart :: "64 word option"
  wmTapbackEmoji :: "bytes option"
  wmTapbackRemove :: bool
  wmIsEdit :: bool
  wmEditTargetUuid :: "bytes option"
  wmEditNewText :: "bytes option"
  wmUnsendTargetUuid :: "bytes option"
  wmAttachments :: "WrappedAttachment list"
  wmSenderGuid :: "bytes option"
  wmDeleteChatParticipants :: "bytes list"
  wmDeleteChatGroupId :: "bytes option"
  wmDeleteChatGuid :: "bytes option"
  wmDeleteMessageUuids :: "bytes list"
  wmIsStoredMessage :: bool
  wmStickerData :: "bytes option"
  wmStickerMime :: "bytes option"

text \<open>What is queued for bridgev2, and the updates of rosters that are started; \<open>FaceTimeCheck\<close> is the call of \<open>maybeNotifyIncomingFaceTimeInvite\<close>.\<close>

datatype remote_event =
    MessageEvent PortalKey bool EventSender time_ms bytes "WrappedAttachment option"
  | StickerEvent PortalKey EventSender time_ms bytes bytes bytes bytes
  | ReactionEvent bool PortalKey EventSender time_ms bytes bytes
  | EditEvent PortalKey EventSender time_ms bytes bytes bytes
  | RemoveEvent PortalKey EventSender time_ms bytes
  | ChatDeleteEvent PortalKey
  | FaceTimeCheck PortalKey bool bool

record live_state =
  lsClient :: client_state
  lsBuffered :: "WrappedMessage list"
  lsHeld :: "WrappedMessage list"
  lsSyncDone :: bool
  lsUnsends :: "(bytes \<times> time_ms) list"
  lsSmsEchoes :: "(bytes \<times> time_ms) list"
  lsOutbound :: "(bytes \<times> time_ms) list"
  lsAliases :: "(bytes \<times> bytes) list"
  lsEvents :: "remote_event list"
  lsRosterTasks :: "(bytes \<times> bytes list) list"

text \<open>What the handlers ask bridgev2 beside \<open>genv\<close>: the rooms of the stored parts of a message identifier, and whether
  an identifier with that prefix and a suffix is stored; the configuration and the sort of \<open>sort.Slice\<close>.\<close>

record live_env =
  leGenv :: genv
  leRooms :: "bytes \<Rightarrow> PortalKey list"
  leSuffixed :: "bytes \<Rightarrow> bool"
  leStartup :: time_ms
  leUseCloudKit :: bool
  leSort :: "WrappedMessage list \<Rightarrow> WrappedMessage list"

definition emit :: "remote_event list \<Rightarrow> live_state \<Rightarrow> live_state" where
  "emit evs st = st\<lparr>lsEvents := lsEvents st @ evs\<rparr>"

definition stamp :: "WrappedMessage \<Rightarrow> time_ms" where
  "stamp msg = sint (wmTimestampMs msg)"

definition senderOf :: "live_env \<Rightarrow> WrappedMessage \<Rightarrow> EventSender" where
  "senderOf env msg = makeEventSender (imenv.truncate (leGenv env)) (wmSender msg)"

section \<open>Recent unsends and echoes\<close>

definition fiveMinutes :: time_ms where
  "fiveMinutes = 5 * 60 * 1000"

definition track :: "time_ms \<Rightarrow> bytes \<Rightarrow> (bytes \<times> time_ms) list \<Rightarrow> (bytes \<times> time_ms) list" where
  "track now uuid m = filter (\<lambda>(_, t). \<not> fiveMinutes < now - t) (AList.update uuid now m)"

definition recent :: "time_ms \<Rightarrow> bytes \<Rightarrow> (bytes \<times> time_ms) list \<Rightarrow> bool" where
  "recent now uuid m = (case map_of m uuid of Some t \<Rightarrow> now - t < fiveMinutes | None \<Rightarrow> False)"

definition trackUnsend :: "time_ms \<Rightarrow> bytes \<Rightarrow> live_state \<Rightarrow> live_state" where
  "trackUnsend now uuid st = st\<lparr>lsUnsends := track now uuid (lsUnsends st)\<rparr>"

definition wasUnsent :: "time_ms \<Rightarrow> bytes \<Rightarrow> live_state \<Rightarrow> bool" where
  "wasUnsent now uuid st = recent now uuid (lsUnsends st)"

definition trackSmsReactionEcho :: "time_ms \<Rightarrow> bytes \<Rightarrow> live_state \<Rightarrow> live_state" where
  "trackSmsReactionEcho now uuid st =
     (if uuid = [] then st else st\<lparr>lsSmsEchoes := track now (ToUpper uuid) (lsSmsEchoes st)\<rparr>)"

definition wasSmsReactionEcho :: "time_ms \<Rightarrow> bytes \<Rightarrow> live_state \<Rightarrow> bool \<times> live_state" where
  "wasSmsReactionEcho now uuid st =
     (if uuid = [] then (False, st)
      else (recent now (ToUpper uuid) (lsSmsEchoes st), st\<lparr>lsSmsEchoes := AList.delete (ToUpper uuid) (lsSmsEchoes st)\<rparr>))"

definition trackOutboundUnsend :: "time_ms \<Rightarrow> bytes \<Rightarrow> live_state \<Rightarrow> live_state" where
  "trackOutboundUnsend now uuid st = st\<lparr>lsOutbound := track now uuid (lsOutbound st)\<rparr>"

definition wasOutboundUnsend :: "time_ms \<Rightarrow> bytes \<Rightarrow> live_state \<Rightarrow> bool \<times> live_state" where
  "wasOutboundUnsend now uuid st =
     (recent now uuid (lsOutbound st), st\<lparr>lsOutbound := AList.delete uuid (lsOutbound st)\<rparr>)"

section \<open>The conversation of a message\<close>

definition resolvePortalByTargetMessage :: "live_env \<Rightarrow> bytes \<Rightarrow> PortalKey option" where
  "resolvePortalByTargetMessage env targetUUID =
     (if targetUUID = [] then None
      else case leRooms env (makeMessageID targetUUID) of [] \<Rightarrow> None | room # _ \<Rightarrow> Some room)"

definition portalFor :: "live_env \<Rightarrow> bytes \<Rightarrow> WrappedMessage \<Rightarrow> live_state \<Rightarrow> (PortalKey \<times> live_state) db" where
  "portalFor env l msg st =
     dbBind (makePortalKey (leGenv env) l (wmParticipants msg) (wmGroupName msg) (wmSender msg) (wmSenderGuid msg)
               (wmIsSms msg) (groups (lsClient st))) (\<lambda>(key, effs, gs).
       dbReturn (key, st\<lparr>lsClient := (lsClient st)\<lparr>groups := gs, effects := effects (lsClient st) @ effs\<rparr>\<rparr>))"

text \<open>The room of the target when it is known, else the room of the sender and the participants.\<close>

definition targetPortal :: "live_env \<Rightarrow> bytes \<Rightarrow> bytes \<Rightarrow> WrappedMessage \<Rightarrow> live_state \<Rightarrow> (PortalKey \<times> live_state) db" where
  "targetPortal env l targetGUID msg st =
     (case resolvePortalByTargetMessage env targetGUID of
        Some key \<Rightarrow> if pk_ID key = [] then portalFor env l msg st else dbReturn (key, st)
      | None \<Rightarrow> portalFor env l msg st)"

definition isComputedDMPortalID :: "bytes \<Rightarrow> bool" where
  "isComputedDMPortalID portalID = (\<not> HasPrefix portalID ''gid:'' \<and> \<not> Contains portalID '','')"

text \<open>\<open>strings.EqualFold\<close>: the upper case of a rune brings the members of its orbit together, but for the two Turkish
  letters, which fold to themselves alone.\<close>

definition foldKey :: "nat \<Rightarrow> nat" where
  "foldKey r = (if r = 0x130 \<or> r = 0x131 then r else toLowerRune (toUpperRune r))"

definition EqualFold :: "bytes \<Rightarrow> bytes \<Rightarrow> bool" where
  "EqualFold s t = (map (foldKey \<circ> fst) (runes s) = map (foldKey \<circ> fst) (runes t))"

definition guidCandidates :: "bytes option \<Rightarrow> group_state \<Rightarrow> bytes list" where
  "guidCandidates senderGuid st =
     (case senderGuid of
        None \<Rightarrow> []
      | Some g \<Rightarrow>
          if g = [] then []
          else let matches = map fst (filter (\<lambda>(_, guid). EqualFold guid g) (imGroupGuids st)) in
            (''gid:'' @ ToLower g) # (if length matches = 1 then matches else []))"

definition resolveSMSGroupRedirectPortal :: "genv \<Rightarrow> WrappedMessage \<Rightarrow> group_state \<Rightarrow> PortalKey option \<times> group_state" where
  "resolveSMSGroupRedirectPortal c msg st =
     (if wmParticipants msg \<noteq> [] \<or> \<not> nonEmpty (wmSender msg) then (None, st)
      else let byGuid = guidCandidates (wmSenderGuid msg) st;
               normalized = normalizeIdentifierForPortalID (the (wmSender msg));
               st' = (if normalized \<noteq> [] then ensureGroupPortalIndex c st else st);
               portals = (if normalized \<noteq> [] then portalsOf st' normalized else []);
               candidates = remdups (filter (\<lambda>p. p \<noteq> []) (byGuid @ (if length portals = 1 then portals else []))) in
        (case candidates of
           [portalID] \<Rightarrow> (if ie_portalExists c portalID then Some (keyOf c portalID) else None, st')
         | _ \<Rightarrow> (None, st')))"

definition rememberAliasPortal :: "bytes \<Rightarrow> bytes \<Rightarrow> live_state \<Rightarrow> live_state" where
  "rememberAliasPortal alias portalID st =
     (if alias = [] \<or> portalID = [] \<or> normalizeIdentifierForPortalID alias = [] then st
      else st\<lparr>lsAliases := AList.update (normalizeIdentifierForPortalID alias) portalID (lsAliases st)\<rparr>)"

section \<open>handleMessage: what has been bridged before\<close>

text \<open>A message identifier of the same room, or any identifier that continues the UUID.\<close>

definition alreadyBridged :: "live_env \<Rightarrow> bytes \<Rightarrow> WrappedMessage \<Rightarrow> live_state \<Rightarrow> (bool \<times> live_state) db" where
  "alreadyBridged env l msg st =
     (if wmUuid msg = [] then dbReturn (False, st)
      else dbBind (portalFor env l msg st) (\<lambda>(key, st').
        dbReturn ((case leRooms env (makeMessageID (wmUuid msg)) of
             room # _ \<Rightarrow> pk_ID room = pk_ID key \<or> leSuffixed env (makeMessageID (wmUuid msg))
           | [] \<Rightarrow> leSuffixed env (makeMessageID (wmUuid msg))), st')))"

section \<open>handleMessage: routing\<close>

definition smsRedirect :: "live_env \<Rightarrow> WrappedMessage \<Rightarrow> PortalKey \<Rightarrow> live_state \<Rightarrow> PortalKey \<times> live_state" where
  "smsRedirect env msg key st =
     (if wmIsSms msg \<and> isComputedDMPortalID (pk_ID key)
      then case resolveSMSGroupRedirectPortal (leGenv env) msg (groups (lsClient st)) of
        (found, gs) \<Rightarrow> ((case found of Some groupKey \<Rightarrow> groupKey | None \<Rightarrow> key), st\<lparr>lsClient := (lsClient st)\<lparr>groups := gs\<rparr>\<rparr>)
      else (key, st))"

definition learnAlias :: "WrappedMessage \<Rightarrow> PortalKey \<Rightarrow> live_state \<Rightarrow> live_state" where
  "learnAlias msg key st =
     (if nonEmpty (wmSender msg) \<and> \<not> isGroupPortalID (pk_ID key) \<and> pk_ID key \<noteq> ''unknown''
      then rememberAliasPortal (the (wmSender msg)) (pk_ID key) st else st)"

text \<open>\<open>persistGroupParticipantsIfChanged\<close> works in a goroutine.\<close>

definition startRosterSync :: "WrappedMessage \<Rightarrow> PortalKey \<Rightarrow> live_state \<Rightarrow> live_state" where
  "startRosterSync msg key st =
     (if wmIsStoredMessage msg then st
      else st\<lparr>lsRosterTasks := lsRosterTasks st @ [(pk_ID key, wmParticipants msg)]\<rparr>)"

definition routeMessage :: "live_env \<Rightarrow> bytes \<Rightarrow> WrappedMessage \<Rightarrow> live_state
    \<Rightarrow> ((PortalKey \<times> EventSender) option \<times> live_state) db" where
  "routeMessage env l msg st =
     dbBind (portalFor env l msg st) (\<lambda>(key, st1).
       let st2 = learnAlias msg key (startRosterSync msg key st1) in
       if pk_ID key = ''unknown'' then dbReturn (None, st2)
       else case smsRedirect env msg key st2 of
         (key', st3) \<Rightarrow> dbReturn (Some (key', canonicalizeDMSender (pk_ID key) (senderOf env msg)), st3))"

text \<open>The service of the portal, in the cache and, when it changed, in bridgev2's metadata.\<close>

definition trackService :: "bytes \<Rightarrow> bool \<Rightarrow> group_state \<Rightarrow> group_state" where
  "trackService portalID isSms gs =
     (case updatePortalSMS portalID isSms gs of
        (changed, gs') \<Rightarrow>
          (case map_of (portalMeta gs') portalID of
             Some meta \<Rightarrow> if changed \<and> IsSms meta \<noteq> isSms
               then gs'\<lparr>portalMeta := AList.update portalID (meta\<lparr>IsSms := isSms\<rparr>) (portalMeta gs')\<rparr> else gs'
           | None \<Rightarrow> gs'))"

section \<open>handleMessage: deleted conversations\<close>

definition noInfo :: softDeletedPortalInfo where
  "noInfo = \<lparr>NewestTS = 0, InfoDeleted = False\<rparr>"

definition loadSoftDeletedInfo :: "bytes \<Rightarrow> bytes \<Rightarrow> softDeletedPortalInfo option \<Rightarrow> softDeletedPortalInfo db" where
  "loadSoftDeletedInfo l portalID loaded =
     (case loaded of Some info \<Rightarrow> dbReturn info | None \<Rightarrow> orElse noInfo (getSoftDeletedPortalInfo l portalID))"

definition staleFor :: "softDeletedPortalInfo \<Rightarrow> time_ms \<Rightarrow> bool" where
  "staleFor info msgTS = (0 < NewestTS info \<and> msgTS \<le> NewestTS info)"

definition reviveDeletedPortalShell :: "bytes \<Rightarrow> time_ms \<Rightarrow> bytes \<Rightarrow> live_state \<Rightarrow> (bool \<times> live_state) db" where
  "reviveDeletedPortalShell l now portalID st =
     dbBind (dbTry (undeleteCloudChatByPortalID l now portalID)) (\<lambda>r.
       dbReturn (case r of
         Inl _ \<Rightarrow> (False, st)
       | Inr _ \<Rightarrow> (True, st\<lparr>lsClient := (lsClient st)\<lparr>recentlyDeletedPortals :=
                      AList.delete portalID (recentlyDeletedPortals (lsClient st))\<rparr>\<rparr>)))"

definition reviveAndAllow :: "(live_state \<Rightarrow> live_state db) \<Rightarrow> bytes \<Rightarrow> time_ms \<Rightarrow> bytes \<Rightarrow> softDeletedPortalInfo
    \<Rightarrow> live_state \<Rightarrow> (bool \<times> live_state) db" where
  "reviveAndAllow flush l now portalID info st =
     dbBind (if InfoDeleted info then reviveDeletedPortalShell l now portalID st else dbReturn (True, st)) (\<lambda>(revived, st1).
     dbBind (flush st1) (\<lambda>st2. dbReturn (revived, st2)))"

text \<open>What the first test leaves: \<open>None\<close> when the message is dropped, else whether the portal counts as deleted, whether
  a portal may be created, and the information about the deleted conversation when it was loaded.\<close>

type_synonym gate_result = "(bool \<times> bool \<times> softDeletedPortalInfo option) option"

definition deletedPortalGate :: "(live_state \<Rightarrow> live_state db) \<Rightarrow> live_env \<Rightarrow> bytes \<Rightarrow> time_ms \<Rightarrow> bytes \<Rightarrow> time_ms \<Rightarrow> bool
    \<Rightarrow> live_state \<Rightarrow> (gate_result \<times> live_state) db" where
  "deletedPortalGate flush env l now portalID msgTS missingPortal st =
     (case map_of (recentlyDeletedPortals (lsClient st)) portalID of
        None \<Rightarrow> dbReturn (Some (False, lsSyncDone st, None), st)
      | Some entry \<Rightarrow>
          if \<not> lsSyncDone st then dbReturn (Some (True, False, None), st)
          else if \<not> missingPortal then dbReturn (Some (True, False, None), st)
          else dbBind (loadSoftDeletedInfo l portalID None) (\<lambda>info.
            let suppressBefore = (if deletedAt entry \<le> 0 then leStartup env else deletedAt entry) in
            if InfoDeleted info \<and> staleFor info msgTS then dbReturn (None, st)
            else if \<not> InfoDeleted info \<and> 0 < suppressBefore \<and> msgTS < suppressBefore then dbReturn (None, st)
            else dbBind (reviveAndAllow flush l now portalID info st) (\<lambda>(revived, st').
              dbReturn (Some (\<not> revived, True, Some info), st'))))"

definition knownEcho :: "bytes \<Rightarrow> bytes \<Rightarrow> bool \<Rightarrow> bool \<Rightarrow> bool \<Rightarrow> bool db" where
  "knownEcho l uuid isDeletedPortal createPortal missingPortal =
     dbBind (orElse False (hasMessageUUID l uuid)) (\<lambda>known.
       dbReturn (known \<and> (isDeletedPortal \<or> createPortal \<and> missingPortal)))"

text \<open>The second test, for conversations deleted in an earlier session: whether the message passes.\<close>

definition softDeletedGate :: "(live_state \<Rightarrow> live_state db) \<Rightarrow> bytes \<Rightarrow> time_ms \<Rightarrow> bytes \<Rightarrow> time_ms
    \<Rightarrow> softDeletedPortalInfo option \<Rightarrow> live_state \<Rightarrow> (bool \<times> live_state) db" where
  "softDeletedGate flush l now portalID msgTS loaded st =
     dbBind (loadSoftDeletedInfo l portalID loaded) (\<lambda>info.
       if \<not> InfoDeleted info then dbReturn (True, st)
       else if staleFor info msgTS then dbReturn (False, st)
       else dbBind (reviveAndAllow flush l now portalID info st) (\<lambda>(_, st'). dbReturn (True, st')))"

datatype verdict = Dropped | Held | Admitted bool

definition holdMessage :: "WrappedMessage \<Rightarrow> live_state \<Rightarrow> live_state" where
  "holdMessage msg st = st\<lparr>lsHeld := lsHeld st @ [msg]\<rparr>"

definition decideMessage :: "(live_state \<Rightarrow> live_state db) \<Rightarrow> bytes \<Rightarrow> time_ms \<Rightarrow> WrappedMessage \<Rightarrow> bytes \<Rightarrow> bool
    \<Rightarrow> bool \<times> bool \<times> softDeletedPortalInfo option \<Rightarrow> live_state \<Rightarrow> (verdict \<times> live_state) db" where
  "decideMessage flush l now msg portalID missingPortal gate st =
     (case gate of (isDeletedPortal, createPortal, loaded) \<Rightarrow>
        dbBind (knownEcho l (wmUuid msg) isDeletedPortal createPortal missingPortal) (\<lambda>echo.
        if echo then dbReturn (Dropped, st)
        else dbBind (if createPortal \<and> missingPortal \<and> \<not> isDeletedPortal
                     then softDeletedGate flush l now portalID (stamp msg) loaded st else dbReturn (True, st))
          (\<lambda>(passes, st').
            if \<not> passes then dbReturn (Dropped, st')
            else if \<not> createPortal \<and> missingPortal then dbReturn (Held, holdMessage msg st')
            else dbReturn (Admitted createPortal, st'))))"

definition admitMessage :: "(live_state \<Rightarrow> live_state db) \<Rightarrow> live_env \<Rightarrow> bytes \<Rightarrow> time_ms \<Rightarrow> WrappedMessage \<Rightarrow> bytes
    \<Rightarrow> live_state \<Rightarrow> (verdict \<times> live_state) db" where
  "admitMessage flush env l now msg portalID st =
     (let missingPortal = (\<not> ie_portalExists (leGenv env) portalID) in
      dbBind (deletedPortalGate flush env l now portalID (stamp msg) missingPortal st) (\<lambda>(gate, st').
        case gate of
          None \<Rightarrow> dbReturn (Dropped, st')
        | Some g \<Rightarrow> decideMessage flush l now msg portalID missingPortal g st'))"

section \<open>handleMessage: events\<close>

text \<open>\<open>strings.TrimRight(s, "\ufffc \n")\<close>; of its result only the emptiness is used.\<close>

definition trimRightObject :: "bytes \<Rightarrow> bytes" where
  "trimRightObject s = concat (map snd (rev (dropWhile (\<lambda>(r, _). r = 0xFFFC \<or> r = 0x20 \<or> r = 0x0A) (rev (runes s)))))"

definition hasText :: "WrappedMessage \<Rightarrow> bool" where
  "hasText msg = (case wmText msg of None \<Rightarrow> False | Some t \<Rightarrow> t \<noteq> [] \<and> trimRightObject t \<noteq> [])"

definition bridgedAttachments :: "WrappedMessage \<Rightarrow> WrappedAttachment list" where
  "bridgedAttachments msg =
     filter (\<lambda>att. \<not> (waMimeType att = ''x-richlink/meta'' \<or> waMimeType att = ''x-richlink/image'')) (wmAttachments msg)"

definition attEventID :: "WrappedMessage \<Rightarrow> nat \<Rightarrow> bytes" where
  "attEventID msg attIndex =
     (if 0 < attIndex \<or> hasText msg then attachmentID (wmUuid msg) (int attIndex) else wmUuid msg)"

definition messageEvents :: "PortalKey \<Rightarrow> bool \<Rightarrow> EventSender \<Rightarrow> WrappedMessage \<Rightarrow> remote_event list" where
  "messageEvents key createPortal sender msg =
     (if hasText msg then [MessageEvent key createPortal sender (stamp msg) (makeMessageID (wmUuid msg)) None] else [])
     @ map (\<lambda>(i, att). MessageEvent key createPortal sender (stamp msg) (makeMessageID (attEventID msg i)) (Some att))
         (enumerate 0 (bridgedAttachments msg))"

definition deliverMessage :: "bytes \<Rightarrow> time_ms \<Rightarrow> PortalKey \<Rightarrow> bool \<Rightarrow> EventSender \<Rightarrow> WrappedMessage \<Rightarrow> live_state
    \<Rightarrow> live_state db" where
  "deliverMessage l now key createPortal sender msg st =
     dbBind (dbTry (persistMessageUUID l now (wmUuid msg) (pk_ID key) (stamp msg) (es_IsFromMe sender))) (\<lambda>_.
       dbReturn (emit (FaceTimeCheck key (es_IsFromMe sender) createPortal # messageEvents key createPortal sender msg) st))"

section \<open>handleMessage\<close>

definition handleMessageWith :: "(live_state \<Rightarrow> live_state db) \<Rightarrow> live_env \<Rightarrow> bytes \<Rightarrow> time_ms \<Rightarrow> WrappedMessage
    \<Rightarrow> live_state \<Rightarrow> live_state db" where
  "handleMessageWith flush env l now msg st =
     (if wasUnsent now (wmUuid msg) st then dbReturn st
      else case wasSmsReactionEcho now (wmUuid msg) st of
        (True, st0) \<Rightarrow> dbReturn st0
      | (False, st0) \<Rightarrow>
          dbBind (alreadyBridged env l msg st0) (\<lambda>(known, st1).
          if known then dbReturn st1
          else dbBind (routeMessage env l msg st1) (\<lambda>(route, st2).
            case route of
              None \<Rightarrow> dbReturn st2
            | Some (key, sender) \<Rightarrow>
                let st3 = st2\<lparr>lsClient := (lsClient st2)\<lparr>groups :=
                            trackService (pk_ID key) (wmIsSms msg) (groups (lsClient st2))\<rparr>\<rparr> in
                dbBind (admitMessage flush env l now msg (pk_ID key) st3) (\<lambda>(v, st4).
                  case v of
                    Dropped \<Rightarrow> dbReturn st4
                  | Held \<Rightarrow> dbReturn st4
                  | Admitted createPortal \<Rightarrow> deliverMessage l now key createPortal sender msg st4))))"

section \<open>Reactions and edits\<close>

definition storedTapbackType :: "WrappedMessage \<Rightarrow> 32 word" where
  "storedTapbackType msg =
     (case wmTapbackType msg of
        None \<Rightarrow> 2000
      | Some t \<Rightarrow> if wmTapbackRemove msg then t + 2000 + 1000 else t + 2000)"

definition tapbackEvent :: "live_env \<Rightarrow> WrappedMessage \<Rightarrow> PortalKey \<Rightarrow> remote_event" where
  "tapbackEvent env msg key =
     (let targetGUID = coalesce (wmTapbackTargetUuid msg) []; sender = canonicalizeDMSender (pk_ID key) (senderOf env msg);
          sticker = coalesce (wmStickerData msg) [] in
      if wmTapbackType msg = Some 7 \<and> sticker \<noteq> []
      then StickerEvent key sender (stamp msg) (makeMessageID (wmUuid msg)) targetGUID sticker
             (if nonEmpty (wmStickerMime msg) then the (wmStickerMime msg) else ''image/png'')
      else ReactionEvent (wmTapbackRemove msg) key sender (stamp msg)
             (resolveTapbackTargetID (\<lambda>i. leRooms env i \<noteq> []) targetGUID
                (case wmTapbackTargetPart msg of Some p \<Rightarrow> sint p | None \<Rightarrow> 0))
             (tapbackTypeToEmoji (wmTapbackType msg) (wmTapbackEmoji msg)))"

definition handleTapback :: "live_env \<Rightarrow> bytes \<Rightarrow> time_ms \<Rightarrow> WrappedMessage \<Rightarrow> live_state \<Rightarrow> live_state db" where
  "handleTapback env l now msg st =
     (if wmIsStoredMessage msg then dbReturn st
      else dbBind (if wmUuid msg \<noteq> [] then orElse False (hasMessageUUID l (wmUuid msg)) else dbReturn False) (\<lambda>known.
      if known then dbReturn st
      else dbBind (targetPortal env l (coalesce (wmTapbackTargetUuid msg) []) msg st) (\<lambda>(key, st1).
      dbBind (if wmUuid msg \<noteq> []
              then orElse () (persistTapbackUUID l now (wmUuid msg) (pk_ID key) (stamp msg)
                                (es_IsFromMe (senderOf env msg)) (unat (storedTapbackType msg)))
              else dbReturn ()) (\<lambda>_.
      dbReturn (emit [tapbackEvent env msg key] st1)))))"

definition handleEdit :: "live_env \<Rightarrow> bytes \<Rightarrow> WrappedMessage \<Rightarrow> live_state \<Rightarrow> live_state db" where
  "handleEdit env l msg st =
     dbBind (targetPortal env l (coalesce (wmEditTargetUuid msg) []) msg st) (\<lambda>(key, st1).
       dbReturn (emit [EditEvent key (canonicalizeDMSender (pk_ID key) (senderOf env msg)) (stamp msg)
         (makeMessageID (wmUuid msg)) (makeMessageID (coalesce (wmEditTargetUuid msg) [])) (coalesce (wmEditNewText msg) [])] st1))"

definition dispatchBuffered :: "(live_state \<Rightarrow> live_state db) \<Rightarrow> live_env \<Rightarrow> bytes \<Rightarrow> time_ms \<Rightarrow> WrappedMessage
    \<Rightarrow> live_state \<Rightarrow> live_state db" where
  "dispatchBuffered flush env l now msg st =
     (if wmIsTapback msg then handleTapback env l now msg st
      else if wmIsEdit msg then handleEdit env l msg st
      else handleMessageWith flush env l now msg st)"

text \<open>A message that revives a conversation flushes both queues, and what it flushes may do the same.  The fuel is the
  depth of that nesting; two is enough.\<close>

fun flushBoth :: "nat \<Rightarrow> live_env \<Rightarrow> bytes \<Rightarrow> time_ms \<Rightarrow> live_state \<Rightarrow> live_state db" where
  "flushBoth 0 env l now st = dbReturn st"
| "flushBoth (Suc n) env l now st =
     dbBind (dbFold (dispatchBuffered (flushBoth n env l now) env l now) (leSort env (lsBuffered st)) (st\<lparr>lsBuffered := []\<rparr>)) (\<lambda>st1.
     dbFold (handleMessageWith (flushBoth n env l now) env l now) (leSort env (lsHeld st1)) (st1\<lparr>lsHeld := []\<rparr>))"

definition handleMessage :: "live_env \<Rightarrow> bytes \<Rightarrow> time_ms \<Rightarrow> WrappedMessage \<Rightarrow> live_state \<Rightarrow> live_state db" where
  "handleMessage env l now = handleMessageWith (flushBoth 2 env l now) env l now"

section \<open>Unsends and deletions\<close>

definition handleUnsend :: "live_env \<Rightarrow> bytes \<Rightarrow> time_ms \<Rightarrow> WrappedMessage \<Rightarrow> live_state \<Rightarrow> live_state db" where
  "handleUnsend env l now msg st =
     (let targetGUID = coalesce (wmUnsendTargetUuid msg) [] in
      case wasOutboundUnsend now targetGUID st of
        (True, st0) \<Rightarrow> dbReturn st0
      | (False, st0) \<Rightarrow>
          dbBind (targetPortal env l targetGUID msg (trackUnsend now targetGUID st0)) (\<lambda>(key, st1).
          dbBind (dbTry (softDeleteMessageByGUID l now targetGUID)) (\<lambda>r.
            dbReturn (case r of
              Inl _ \<Rightarrow> st1
            | Inr _ \<Rightarrow> emit [RemoveEvent key (canonicalizeDMSender (pk_ID key) (senderOf env msg)) (stamp msg)
                              (makeMessageID targetGUID)] st1))))"

definition deleteOne :: "live_env \<Rightarrow> bytes \<Rightarrow> time_ms \<Rightarrow> WrappedMessage \<Rightarrow> bytes \<Rightarrow> live_state \<Rightarrow> live_state db" where
  "deleteOne env l now msg targetUUID st =
     dbBind (dbTry (softDeleteMessageByGUID l now targetUUID)) (\<lambda>r.
       dbReturn (case r of
         Inl _ \<Rightarrow> st
       | Inr _ \<Rightarrow> (case resolvePortalByTargetMessage env targetUUID of
             Some key \<Rightarrow> if pk_ID key = [] then st
               else emit [RemoveEvent key (senderOf env msg) (stamp msg) (makeMessageID targetUUID)] st
           | None \<Rightarrow> st)))"

definition handleMessageDelete :: "live_env \<Rightarrow> bytes \<Rightarrow> time_ms \<Rightarrow> WrappedMessage \<Rightarrow> live_state \<Rightarrow> live_state db" where
  "handleMessageDelete env l now msg st = dbFold (deleteOne env l now msg) (wmDeleteMessageUuids msg) st"

definition deletedChatID :: "bytes \<Rightarrow> bytes option \<Rightarrow> bytes db" where
  "deletedChatID l chatID = (if nonEmpty chatID then orElse [] (getChatPortalID l (the chatID)) else dbReturn [])"

definition deletedGidPortal :: "genv \<Rightarrow> bytes \<Rightarrow> bytes \<Rightarrow> bytes list \<Rightarrow> group_state \<Rightarrow> (bytes \<times> group_state) db" where
  "deletedGidPortal c l groupId members gs =
     (let gidID = ''gid:'' @ ToLower groupId;
          stale = (case map_of (gidAliases gs) gidID of Some a \<Rightarrow> guidCacheMatchIsStale c gs a members | None \<Rightarrow> False);
          gs' = (if stale then gs\<lparr>gidAliases := AList.delete gidID (gidAliases gs)\<rparr> else gs) in
      case map_of (gidAliases gs') gidID of
        Some aliasedID \<Rightarrow> dbReturn (aliasedID, gs')
      | None \<Rightarrow> if ie_portalExists c gidID then dbReturn (gidID, gs')
                else resolveExistingGroupByGid c l gidID groupId members gs')"

definition makeDeletePortalKey :: "live_env \<Rightarrow> bytes \<Rightarrow> WrappedMessage \<Rightarrow> live_state \<Rightarrow> (PortalKey \<times> live_state) db" where
  "makeDeletePortalKey env l msg st =
     (let c = leGenv env; members = wmDeleteChatParticipants msg;
          parsed = ParseIdentifier (coalesce (wmDeleteChatGuid msg) []) in
      dbBind (deletedChatID l (wmDeleteChatGuid msg)) (\<lambda>byGuid.
      if byGuid \<noteq> [] then dbReturn (keyOf c byGuid, st)
      else dbBind (deletedChatID l (wmDeleteChatGroupId msg)) (\<lambda>byGroup.
      if byGroup \<noteq> [] then dbReturn (keyOf c byGroup, st)
      else if nonEmpty (wmDeleteChatGuid msg) \<and> LocalID parsed \<noteq> [] \<and> \<not> IsGroup parsed
        then dbReturn (keyOf c (identifierToPortalID parsed), st)
      else if nonEmpty (wmDeleteChatGroupId msg) \<and> 1 < length members
        then dbBind (deletedGidPortal c l (the (wmDeleteChatGroupId msg)) members (groups (lsClient st))) (\<lambda>(portalID, gs).
          dbReturn (keyOf c portalID, st\<lparr>lsClient := (lsClient st)\<lparr>groups := gs\<rparr>\<rparr>))
      else if length members = 1 then dbReturn (keyOf c (addIdentifierPrefix (hd members)), st)
      else if 1 < length members
        then dbReturn (keyOf c (Join (sort (ie_handle c # map addIdentifierPrefix members)) '',''), st)
      else portalFor env l msg st)))"

definition handleChatDelete :: "live_env \<Rightarrow> bytes \<Rightarrow> time_ms \<Rightarrow> WrappedMessage \<Rightarrow> live_state \<Rightarrow> live_state db" where
  "handleChatDelete env l now msg st =
     (if wmDeleteMessageUuids msg \<noteq> [] then handleMessageDelete env l now msg st
      else if \<not> leUseCloudKit env then dbReturn st
      else dbBind (makeDeletePortalKey env l msg st) (\<lambda>(key, st1).
        let portalID = pk_ID key in
        dbBind (trackDeletedChat l now portalID (lsClient st1)) (\<lambda>w.
        dbBind (orElse () (clearRestoreOverride l portalID)) (\<lambda>_.
        dbBind (dbTry (deleteLocalChatByPortalID l now portalID)) (\<lambda>r.
          let st2 = st1\<lparr>lsClient := w\<rparr> in
          dbReturn (case r of
            Inl _ \<Rightarrow> st2
          | Inr _ \<Rightarrow> if ie_portalExists (leGenv env) portalID then emit [ChatDeleteEvent key] st2 else st2))))))"

end
