(* ===== verification/LiveNesting.thy ===== *)
theory LiveNesting
  imports LiveMessages ReorderBuffer GroupSpec MessageIngestSpec
begin

text \<open>
  A live message that revives a conversation flushes both queues, and a flushed message may do the same.  Two levels
  are all there can be: the first flush empties the buffer, the second the held messages, and after the end
  of the sync nothing is put back.
\<close>

section \<open>Runs that agree\<close>

definition yields :: "('a \<Rightarrow> bool) \<Rightarrow> 'a db \<Rightarrow> bool" where
  "yields P m \<longleftrightarrow> (\<forall>x v y. m x = (Inr v, y) \<longrightarrow> P v)"

definition agree :: "('a \<Rightarrow> bool) \<Rightarrow> 'a db \<Rightarrow> 'a db \<Rightarrow> bool" where
  "agree P m m' \<longleftrightarrow> m = m' \<and> yields P m"

named_theorems agree_intros

lemma agree_return [agree_intros]: "P v \<Longrightarrow> agree P (dbReturn v) (dbReturn v)"
  by (simp add: agree_def yields_def dbReturn_def)

lemma agree_same: "agree (\<lambda>_. True) m m"
  by (simp add: agree_def yields_def)

lemma agree_weaken: "agree P m m' \<Longrightarrow> (\<And>v. P v \<Longrightarrow> Q v) \<Longrightarrow> agree Q m m'"
  by (auto simp: agree_def yields_def)

lemma agree_bind:
  assumes "agree P m m'" "\<And>v. P v \<Longrightarrow> agree Q (k v) (k' v)"
  shows "agree Q (dbBind m k) (dbBind m' k')"
proof -
  have m: "m' = m" using assms(1) by (simp add: agree_def)
  have y: "P v" if "m x = (Inr v, z)" for x v z
    using assms(1) that unfolding agree_def yields_def by blast
  have k: "k v z = k' v z" if "m x = (Inr v, z)" for x v z
    using assms(2) [OF y [OF that]] by (simp add: agree_def)
  have "dbBind m k = dbBind m' k'"
    unfolding dbBind_def m by (rule ext) (auto split: prod.split sum.split dest: k)
  moreover have "Q w" if run: "dbBind m k x = (Inr w, z)" for x w z
  proof -
    obtain v u where "m x = (Inr v, u)" "k v u = (Inr w, z)" using dbBind_ok [OF run] by blast
    then show ?thesis using assms(2) [OF y] unfolding agree_def yields_def by blast
  qed
  then have "yields Q (dbBind m k)" by (auto simp: yields_def)
  ultimately show ?thesis by (simp add: agree_def)
qed

lemma agree_fold: "(\<And>x a. P a \<Longrightarrow> agree P (f x a) (g x a)) \<Longrightarrow> P a \<Longrightarrow> agree P (dbFold f xs a) (dbFold g xs a)"
  by (induction xs arbitrary: a) (auto intro: agree_bind agree_return)

section \<open>The queues\<close>

definition queues :: "live_state \<Rightarrow> WrappedMessage list \<times> WrappedMessage list \<times> bool" where
  "queues st = (lsBuffered st, lsHeld st, lsSyncDone st)"

lemma queues_update [simp]:
  "queues (st\<lparr>lsClient := w\<rparr>) = queues st" "queues (st\<lparr>lsSmsEchoes := m\<rparr>) = queues st"
  "queues (st\<lparr>lsAliases := as\<rparr>) = queues st" "queues (st\<lparr>lsRosterTasks := ts\<rparr>) = queues st" "queues (emit evs st) = queues st"
  by (simp_all add: queues_def emit_def)

lemma queues_steps [simp]:
  "queues (snd (wasSmsReactionEcho now uuid st)) = queues st"
  "queues (rememberAliasPortal a p st) = queues st"
  "queues (learnAlias msg key st) = queues st"
  "queues (startRosterSync msg key st) = queues st"
  "queues (snd (smsRedirect env msg key st)) = queues st"
  by (simp_all add: wasSmsReactionEcho_def rememberAliasPortal_def learnAlias_def startRosterSync_def smsRedirect_def
      split: prod.split)

lemma events_steps [simp]:
  "lsEvents (snd (wasSmsReactionEcho now uuid st)) = lsEvents st"
  "lsEvents (rememberAliasPortal a p st) = lsEvents st"
  "lsEvents (learnAlias msg key st) = lsEvents st"
  "lsEvents (startRosterSync msg key st) = lsEvents st"
  "lsEvents (snd (smsRedirect env msg key st)) = lsEvents st"
  by (simp_all add: wasSmsReactionEcho_def rememberAliasPortal_def learnAlias_def startRosterSync_def smsRedirect_def
      split: prod.split)

text \<open>Neither the queues nor the events change.\<close>

definition sameQueues :: "live_state \<Rightarrow> 'a \<times> live_state \<Rightarrow> bool" where
  "sameQueues st r \<longleftrightarrow> queues (snd r) = queues st \<and> lsEvents (snd r) = lsEvents st"

lemma portalFor_queues: "agree (sameQueues st) (portalFor env l msg st) (portalFor env l msg st)"
  unfolding portalFor_def by (rule agree_bind [OF agree_same]) (auto intro!: agree_return simp: sameQueues_def)

lemma targetPortal_queues: "agree (sameQueues st) (targetPortal env l t msg st) (targetPortal env l t msg st)"
  unfolding targetPortal_def
  by (auto intro!: agree_return portalFor_queues simp: sameQueues_def split: option.split)

lemma alreadyBridged_queues: "agree (sameQueues st) (alreadyBridged env l msg st) (alreadyBridged env l msg st)"
  unfolding alreadyBridged_def
  by (auto intro!: agree_return agree_bind [OF portalFor_queues] simp: sameQueues_def)

lemma routeMessage_queues: "agree (sameQueues st) (routeMessage env l msg st) (routeMessage env l msg st)"
  unfolding routeMessage_def
proof (rule agree_bind [OF portalFor_queues])
  fix r :: "PortalKey \<times> live_state"
  assume q: "sameQueues st r"
  obtain key st1 where r: "r = (key, st1)" by (cases r)
  define st2 where "st2 = learnAlias msg key (startRosterSync msg key st1)"
  obtain key' st3 where s: "smsRedirect env msg key st2 = (key', st3)" by fastforce
  have "sameQueues st (x, st2)" "sameQueues st (y, st3)" for x :: unit and y :: unit
    using q queues_steps(5) [of env msg key st2] events_steps(5) [of env msg key st2] unfolding s
    by (simp_all add: sameQueues_def r st2_def)
  then show "agree (sameQueues st)
      (case r of (key, st1) \<Rightarrow> let st2 = learnAlias msg key (startRosterSync msg key st1) in
        if pk_ID key = ''unknown'' then dbReturn (None, st2)
        else case smsRedirect env msg key st2 of
          (key', st3) \<Rightarrow> dbReturn (Some (key', canonicalizeDMSender (pk_ID key) (senderOf env msg)), st3))
      (case r of (key, st1) \<Rightarrow> let st2 = learnAlias msg key (startRosterSync msg key st1) in
        if pk_ID key = ''unknown'' then dbReturn (None, st2)
        else case smsRedirect env msg key st2 of
          (key', st3) \<Rightarrow> dbReturn (Some (key', canonicalizeDMSender (pk_ID key) (senderOf env msg)), st3))"
    unfolding r prod.case Let_def st2_def [symmetric] s by (simp add: agree_return sameQueues_def)
qed

section \<open>Handlers under two flushes\<close>

text \<open>A property of the queues that holding a message keeps while the sync runs.\<close>

definition queueLaw :: "(live_state \<Rightarrow> bool) \<Rightarrow> bool" where
  "queueLaw J \<longleftrightarrow> (\<forall>st st'. queues st = queues st' \<longrightarrow> J st = J st')
     \<and> (\<forall>st m. J st \<longrightarrow> \<not> lsSyncDone st \<longrightarrow> J (holdMessage m st))"

definition kept :: "(live_state \<Rightarrow> bool) \<Rightarrow> bool \<Rightarrow> live_state \<Rightarrow> bool" where
  "kept J d st \<longleftrightarrow> J st \<and> lsSyncDone st = d"

definition flushes :: "(live_state \<Rightarrow> bool) \<Rightarrow> (live_state \<Rightarrow> live_state db) \<Rightarrow> (live_state \<Rightarrow> live_state db) \<Rightarrow> bool" where
  "flushes J f g \<longleftrightarrow> (\<forall>st. kept J True st \<longrightarrow> agree (kept J True) (f st) (g st))"

lemma kept_queues: "queueLaw J \<Longrightarrow> queues st = queues st' \<Longrightarrow> kept J d st = kept J d st'"
  unfolding queueLaw_def kept_def queues_def by blast

lemma kept_of: "queueLaw J \<Longrightarrow> kept J d st \<Longrightarrow> queues st' = queues st \<Longrightarrow> kept J d st'"
  using kept_queues [of J st' st d] by simp

lemma kept_hold:
  assumes "queueLaw J" "kept J False st"
  shows "kept J False (holdMessage m st)"
proof -
  have "J (holdMessage m st)" using assms unfolding queueLaw_def kept_def by blast
  moreover have "lsSyncDone (holdMessage m st) = lsSyncDone st" by (simp add: holdMessage_def)
  ultimately show ?thesis using assms(2) by (simp add: kept_def)
qed

lemma reviveShell_queues: "agree (sameQueues st) (reviveDeletedPortalShell l now p st) (reviveDeletedPortalShell l now p st)"
  unfolding reviveDeletedPortalShell_def
  by (rule agree_bind [OF agree_same]) (auto intro!: agree_return simp: sameQueues_def split: sum.split)

lemma revive_agree:
  assumes "queueLaw J" "flushes J f g" "kept J True st"
  shows "agree (\<lambda>r. kept J True (snd r)) (reviveAndAllow f l now p info st) (reviveAndAllow g l now p info st)"
  unfolding reviveAndAllow_def
proof (rule agree_bind [where P = "\<lambda>r. kept J True (snd r)"])
  have "agree (sameQueues st) (if InfoDeleted info then reviveDeletedPortalShell l now p st else dbReturn (True, st))
      (if InfoDeleted info then reviveDeletedPortalShell l now p st else dbReturn (True, st))"
    by (simp add: reviveShell_queues agree_return sameQueues_def)
  then show "agree (\<lambda>r. kept J True (snd r)) (if InfoDeleted info then reviveDeletedPortalShell l now p st else dbReturn (True, st))
      (if InfoDeleted info then reviveDeletedPortalShell l now p st else dbReturn (True, st))"
    by (rule agree_weaken) (auto simp: sameQueues_def intro: kept_of [OF assms(1,3)])
next
  fix r :: "bool \<times> live_state"
  assume "kept J True (snd r)"
  then show "agree (\<lambda>r. kept J True (snd r)) (case r of (revived, st1) \<Rightarrow> dbBind (f st1) (\<lambda>st2. dbReturn (revived, st2)))
      (case r of (revived, st1) \<Rightarrow> dbBind (g st1) (\<lambda>st2. dbReturn (revived, st2)))"
  proof (cases r)
    case (Pair revived st1)
    then have "agree (kept J True) (f st1) (g st1)"
      using assms(2) \<open>kept J True (snd r)\<close> by (simp add: flushes_def)
    then show ?thesis
      unfolding Pair prod.case by (rule agree_bind) (simp add: agree_return)
  qed
qed

definition gateKept :: "(live_state \<Rightarrow> bool) \<Rightarrow> bool \<Rightarrow> bool \<Rightarrow> gate_result \<times> live_state \<Rightarrow> bool" where
  "gateKept J d missingPortal r \<longleftrightarrow> kept J d (snd r) \<and> (case fst r of None \<Rightarrow> True
     | Some (_, createPortal, _) \<Rightarrow> (createPortal \<longrightarrow> d) \<and> (\<not> createPortal \<and> missingPortal \<longrightarrow> \<not> d))"

lemma gate_agree:
  assumes "queueLaw J" "flushes J f g" "kept J d st"
  shows "agree (gateKept J d missing) (deletedPortalGate f env l now p ts missing st) (deletedPortalGate g env l now p ts missing st)"
proof (cases "map_of (recentlyDeletedPortals (lsClient st)) p")
  case None
  then show ?thesis
    using assms(3) by (auto simp: deletedPortalGate_def gateKept_def kept_def intro!: agree_return)
next
  case (Some entry)
  show ?thesis
  proof (cases "d \<and> missing")
    case False
    then show ?thesis
      using assms(3) Some by (auto simp: deletedPortalGate_def gateKept_def kept_def intro!: agree_return)
  next
    case True
    then have k: "kept J True st" using assms(3) by simp
    have "agree (gateKept J d missing) (dbBind (reviveAndAllow f l now p info st) (\<lambda>(revived, st'). dbReturn (Some (\<not> revived, True, Some info), st')))
        (dbBind (reviveAndAllow g l now p info st) (\<lambda>(revived, st'). dbReturn (Some (\<not> revived, True, Some info), st')))" for info
      by (rule agree_bind [OF revive_agree [OF assms(1,2) k]]) (use True in \<open>auto intro!: agree_return simp: gateKept_def\<close>)
    then show ?thesis
      using True k Some
      by (auto simp: deletedPortalGate_def Let_def gateKept_def kept_def intro!: agree_bind [OF agree_same] agree_return)
  qed
qed

lemma softGate_agree:
  assumes "queueLaw J" "flushes J f g" "kept J True st"
  shows "agree (\<lambda>r. kept J True (snd r)) (softDeletedGate f l now p ts loaded st) (softDeletedGate g l now p ts loaded st)"
  unfolding softDeletedGate_def
  by (rule agree_bind [OF agree_same])
    (use assms(3) in \<open>auto intro!: agree_return agree_bind [OF revive_agree [OF assms]]\<close>)

lemma decide_agree:
  assumes "queueLaw J" "flushes J f g" "kept J d st"
    and "createPortal \<Longrightarrow> d" "\<not> createPortal \<Longrightarrow> missing \<Longrightarrow> \<not> d"
  shows "agree (\<lambda>r. kept J d (snd r)) (decideMessage f l now msg p missing (isDel, createPortal, loaded) st)
    (decideMessage g l now msg p missing (isDel, createPortal, loaded) st)"
  unfolding decideMessage_def prod.case
proof (rule agree_bind [OF agree_same])
  fix echo
  let ?soft = "\<lambda>f. if createPortal \<and> missing \<and> \<not> isDel then softDeletedGate f l now p (stamp msg) loaded st else dbReturn (True, st)"
  let ?rest = "\<lambda>(passes, st'). if \<not> passes then dbReturn (Dropped, st')
       else if \<not> createPortal \<and> missing then dbReturn (Held, holdMessage msg st') else dbReturn (Admitted createPortal, st')"
  have soft: "agree (\<lambda>r. kept J d (snd r)) (?soft f) (?soft g)"
  proof (cases "createPortal \<and> missing \<and> \<not> isDel")
    case True
    then show ?thesis using softGate_agree [OF assms(1,2)] assms(3,4) by simp
  next
    case False
    then show ?thesis by (simp only: if_False) (simp add: agree_return assms(3))
  qed
  have "agree (\<lambda>r. kept J d (snd r)) (?rest r) (?rest r)" if "kept J d (snd r)" for r
    using that kept_hold [OF assms(1)] assms(5) by (cases r; cases d) (auto intro!: agree_return)
  with soft have "agree (\<lambda>r. kept J d (snd r)) (dbBind (?soft f) ?rest) (dbBind (?soft g) ?rest)"
    by (rule agree_bind)
  then show "agree (\<lambda>r. kept J d (snd r)) (if echo then dbReturn (Dropped, st) else dbBind (?soft f) ?rest)
      (if echo then dbReturn (Dropped, st) else dbBind (?soft g) ?rest)"
    using assms(3) by (cases echo) (simp_all add: agree_return)
qed

lemma admit_agree:
  assumes "queueLaw J" "flushes J f g" "kept J d st"
  shows "agree (\<lambda>r. kept J d (snd r)) (admitMessage f env l now msg p st) (admitMessage g env l now msg p st)"
  unfolding admitMessage_def Let_def
proof (rule agree_bind [OF gate_agree [OF assms]])
  let ?missing = "\<not> ie_portalExists (leGenv env) p"
  let ?next = "\<lambda>f (gate, st'). case gate of None \<Rightarrow> dbReturn (Dropped, st') | Some g \<Rightarrow> decideMessage f l now msg p ?missing g st'"
  fix r :: "gate_result \<times> live_state"
  assume r: "gateKept J d ?missing r"
  obtain gate st1 where e: "r = (gate, st1)" by (cases r)
  have k: "kept J d st1" using r by (simp add: gateKept_def e)
  show "agree (\<lambda>r. kept J d (snd r)) (?next f r) (?next g r)"
  proof (cases gate)
    case None
    then show ?thesis by (simp add: e agree_return k)
  next
    case (Some v)
    obtain isDel create loaded where v: "v = (isDel, create, loaded)" by (cases v)
    have "create \<Longrightarrow> d" "\<not> create \<Longrightarrow> ?missing \<Longrightarrow> \<not> d" using r by (auto simp: gateKept_def e Some v)
    then show ?thesis
      unfolding e Some v prod.case option.case by (rule decide_agree [OF assms(1,2) k])
  qed
qed

lemma agree_sameQueues: "queueLaw J \<Longrightarrow> kept J d st \<Longrightarrow> agree (sameQueues st) m m' \<Longrightarrow> agree (\<lambda>r. kept J d (snd r)) m m'"
  by (erule agree_weaken) (auto simp: sameQueues_def intro: kept_of)

lemma kept_changed:
  assumes "queueLaw J" "kept J d st"
  shows "kept J d (st\<lparr>lsClient := w\<rparr>)" "kept J d (emit evs st)" "kept J d (snd (wasSmsReactionEcho now uuid st))"
  by (rule kept_of [OF assms], simp)+

lemma message_agree:
  assumes "queueLaw J" "flushes J f g" "kept J d st"
  shows "agree (kept J d) (handleMessageWith f env l now msg st) (handleMessageWith g env l now msg st)"
proof -
  obtain echo st0 where e: "wasSmsReactionEcho now (wmUuid msg) st = (echo, st0)" by fastforce
  have k0: "kept J d st0" using kept_changed(3) [OF assms(1,3), of now "wmUuid msg"] by (simp add: e)
  let ?after = "\<lambda>key sender (v, st4). case v of Dropped \<Rightarrow> dbReturn st4 | Held \<Rightarrow> dbReturn st4
      | Admitted createPortal \<Rightarrow> deliverMessage l now key createPortal sender msg st4"
  let ?routed = "\<lambda>f (route, st2). case route of None \<Rightarrow> dbReturn st2 | Some (key, sender) \<Rightarrow>
      let st3 = st2\<lparr>lsClient := (lsClient st2)\<lparr>groups := trackService (pk_ID key) (wmIsSms msg) (groups (lsClient st2))\<rparr>\<rparr> in
      dbBind (admitMessage f env l now msg (pk_ID key) st3) (?after key sender)"
  let ?known = "\<lambda>f (known, st1). if known then dbReturn st1 else dbBind (routeMessage env l msg st1) (?routed f)"
  have deliver: "agree (kept J d) (deliverMessage l now key c sender msg st4) (deliverMessage l now key c sender msg st4)"
    if "kept J d st4" for key c sender st4
    unfolding deliverMessage_def
    by (rule agree_bind [OF agree_same]) (rule agree_return, rule kept_changed(2) [OF assms(1) that])
  have after: "agree (kept J d) (?after key sender r) (?after key sender r)" if "kept J d (snd r)" for key sender r
    using that deliver by (cases r; cases "fst r") (simp_all add: agree_return)
  have routed: "agree (kept J d) (?routed f r) (?routed g r)" if "kept J d (snd r)" for r
  proof (cases r)
    case (Pair route st2)
    show ?thesis
    proof (cases route)
      case None
      then show ?thesis using that by (simp add: Pair agree_return)
    next
      case (Some ks)
      obtain key sender where ks: "ks = (key, sender)" by (cases ks)
      have k: "kept J d st2" using that by (simp add: Pair)
      show ?thesis
        unfolding Pair prod.case Some option.case ks Let_def
        by (rule agree_bind [OF admit_agree [OF assms(1,2) kept_changed(1) [OF assms(1) k]] after])
    qed
  qed
  have known: "agree (kept J d) (?known f r) (?known g r)" if "kept J d (snd r)" for r
  proof (cases r)
    case (Pair bridged st1)
    then have k: "kept J d st1" using that by simp
    have "agree (kept J d) (dbBind (routeMessage env l msg st1) (?routed f)) (dbBind (routeMessage env l msg st1) (?routed g))"
      by (rule agree_bind [OF agree_sameQueues [OF assms(1) k routeMessage_queues] routed])
    then show ?thesis using k by (cases bridged) (simp_all only: Pair prod.case if_True if_False agree_return)
  qed
  have "agree (kept J d) (dbBind (alreadyBridged env l msg st0) (?known f)) (dbBind (alreadyBridged env l msg st0) (?known g))"
    by (rule agree_bind [OF agree_sameQueues [OF assms(1) k0 alreadyBridged_queues] known])
  then show ?thesis
    unfolding handleMessageWith_def e prod.case
    using assms(3) k0 by (cases "wasUnsent now (wmUuid msg) st"; cases echo) (simp_all add: agree_return)
qed

lemma tapback_kept:
  assumes "queueLaw J" "kept J d st"
  shows "agree (kept J d) (handleTapback env l now msg st) (handleTapback env l now msg st)"
proof -
  let ?ask = "if wmUuid msg \<noteq> [] then orElse False (hasMessageUUID l (wmUuid msg)) else dbReturn False"
  let ?save = "\<lambda>key. if wmUuid msg \<noteq> []
              then orElse () (persistTapbackUUID l now (wmUuid msg) (pk_ID key) (stamp msg)
                                (es_IsFromMe (senderOf env msg)) (unat (storedTapbackType msg)))
              else dbReturn ()"
  let ?go = "\<lambda>(key, st1). dbBind (?save key) (\<lambda>_. dbReturn (emit [tapbackEvent env msg key] st1))"
  have go: "agree (kept J d) (?go r) (?go r)" if "kept J d (snd r)" for r
    using kept_changed(2) [OF assms(1) that]
    by (cases r) (simp only: prod.case snd_conv agree_bind [OF agree_same] agree_return)
  have "agree (kept J d) (dbBind (targetPortal env l (coalesce (wmTapbackTargetUuid msg) []) msg st) ?go)
      (dbBind (targetPortal env l (coalesce (wmTapbackTargetUuid msg) []) msg st) ?go)"
    by (rule agree_bind [OF agree_sameQueues [OF assms targetPortal_queues] go])
  then have "agree (kept J d) (dbBind ?ask (\<lambda>known. if known then dbReturn st else
        dbBind (targetPortal env l (coalesce (wmTapbackTargetUuid msg) []) msg st) ?go))
      (dbBind ?ask (\<lambda>known. if known then dbReturn st else
        dbBind (targetPortal env l (coalesce (wmTapbackTargetUuid msg) []) msg st) ?go))"
    by (intro agree_bind [OF agree_same]) (simp add: agree_return assms(2))
  then show ?thesis
    unfolding handleTapback_def using assms(2) by (cases "wmIsStoredMessage msg") (simp_all only: if_True if_False agree_return)
qed

lemma edit_kept:
  assumes "queueLaw J" "kept J d st"
  shows "agree (kept J d) (handleEdit env l msg st) (handleEdit env l msg st)"
  unfolding handleEdit_def
  by (rule agree_bind [OF agree_sameQueues [OF assms targetPortal_queues]])
    (auto intro!: agree_return kept_changed(2) assms(1))

lemma dispatch_agree:
  assumes "queueLaw J" "flushes J f g" "kept J d st"
  shows "agree (kept J d) (dispatchBuffered f env l now msg st) (dispatchBuffered g env l now msg st)"
  using message_agree [OF assms] tapback_kept [OF assms(1,3)] edit_kept [OF assms(1,3)] by (simp add: dispatchBuffered_def)

section \<open>The depth of flushes\<close>

definition drained :: "nat \<Rightarrow> live_state \<Rightarrow> bool" where
  "drained n st \<longleftrightarrow> (lsSyncDone st \<longrightarrow> (n < 2 \<longrightarrow> lsBuffered st = []) \<and> (n < 1 \<longrightarrow> lsHeld st = []))"

lemma drained_law: "queueLaw (drained n)"
  by (auto simp: queueLaw_def drained_def queues_def holdMessage_def)

lemma flushBoth_agree:
  assumes "leSort env [] = []" "flushes (drained n) (flushBoth n env l now) (flushBoth (n + k) env l now)"
    and "kept (drained (Suc n)) d st"
  shows "agree (kept (drained (Suc n)) d) (flushBoth (Suc n) env l now st) (flushBoth (Suc n + k) env l now st)"
proof -
  let ?f = "flushBoth n env l now"
  let ?g = "flushBoth (n + k) env l now"
  note law = drained_law [of n]
  have msgs: "agree (kept (drained n) d) (dbFold (handleMessageWith ?f env l now) ms st1)
      (dbFold (handleMessageWith ?g env l now) ms st1)" if "kept (drained n) d st1" for ms st1
    by (rule agree_fold [OF message_agree [OF law assms(2)] that])
  have held: "kept (drained n) d (st1\<lparr>lsHeld := []\<rparr>)" if "kept (drained n) d st1" for st1
    using that by (simp add: kept_def drained_def)
  have first: "agree (\<lambda>st1. kept (drained n) d (st1\<lparr>lsHeld := []\<rparr>))
      (dbFold (dispatchBuffered ?f env l now) (leSort env (lsBuffered st)) (st\<lparr>lsBuffered := []\<rparr>))
      (dbFold (dispatchBuffered ?g env l now) (leSort env (lsBuffered st)) (st\<lparr>lsBuffered := []\<rparr>))"
  proof (cases "n = 0 \<and> d")
    case True
    then have "lsBuffered st = []" using assms(3) by (simp add: kept_def drained_def)
    then show ?thesis using assms(1,3) True by (auto simp: kept_def drained_def intro!: agree_return)
  next
    case False
    then have k: "kept (drained n) d (st\<lparr>lsBuffered := []\<rparr>)" using assms(3) by (auto simp: kept_def drained_def)
    show ?thesis
      by (rule agree_weaken [OF agree_fold [OF dispatch_agree [OF law assms(2)] k] held])
  qed
  have "agree (kept (drained n) d) (flushBoth (Suc n) env l now st) (flushBoth (Suc (n + k)) env l now st)"
    unfolding flushBoth.simps by (rule agree_bind [OF first msgs])
  then show ?thesis
    unfolding add_Suc by (rule agree_weaken) (auto simp: kept_def drained_def)
qed

lemma flushBoth_idle:
  assumes "leSort env [] = []" "lsBuffered st = []" "lsHeld st = []"
  shows "flushBoth k env l now st = dbReturn st"
proof -
  have e: "st\<lparr>lsBuffered := [], lsHeld := []\<rparr> = st" using assms by (cases st) simp
  show ?thesis by (cases k) (simp_all add: assms e dbBind_def dbReturn_def)
qed

lemma flushes_depth:
  assumes "leSort env [] = []"
  shows "flushes (drained n) (flushBoth n env l now) (flushBoth (n + k) env l now)"
proof (induction n)
  case 0
  have "flushBoth k env l now st = dbReturn st" if "kept (drained 0) True st" for st
    using that by (intro flushBoth_idle [OF assms]) (simp_all add: kept_def drained_def)
  then show ?case by (simp add: flushes_def agree_return)
next
  case (Suc n)
  then show ?case unfolding flushes_def by (intro allI impI flushBoth_agree [OF assms]) (simp_all add: flushes_def)
qed

text \<open>C17: The nesting of flushes ends at depth two: whatever is queued, however many of the flushed messages revive a
  conversation and flush again, and whatever statements fail, more fuel changes no result of a flush, and so
  none of a message.\<close>

theorem flush_depth:
  assumes "slice_sort wmTimestampMs (leSort env)"
  shows "flushBoth (2 + k) env l now st = flushBoth 2 env l now st
    \<and> handleMessageWith (flushBoth (2 + k) env l now) env l now msg st = handleMessage env l now msg st"
proof -
  have "mset (leSort env []) = {#}" using slice_sort.same [OF assms, of "[]"] by simp
  then have srt: "leSort env [] = []" by simp
  have "flushBoth (2 + k) env l now st' = flushBoth 2 env l now st'" for st'
  proof -
    have "kept (drained (Suc 1)) (lsSyncDone st') st'" by (simp add: kept_def drained_def)
    then show ?thesis
      using flushBoth_agree [OF srt flushes_depth [OF srt]] unfolding agree_def by (metis Suc_1)
  qed
  then have "flushBoth (2 + k) env l now = flushBoth 2 env l now" by (rule ext)
  then show ?thesis by (simp add: handleMessage_def)
qed

section \<open>A sample\<close>

definition sampleLiveEnv :: live_env where
  "sampleLiveEnv = \<lparr>leGenv = sampleGroupEnv, leRooms = (\<lambda>_. []), leSuffixed = (\<lambda>_. False), leStartup = 1, leUseCloudKit = True,
     leSort = sort_key wmTimestampMs\<rparr>"

definition sampleText :: WrappedMessage where
  "sampleText = \<lparr>wmUuid = ''7A-1'', wmSender = Some ''mailto:a@x.org'', wmText = Some ''hi'', wmParticipants = [], wmGroupName = None,
     wmTimestampMs = 50, wmIsSms = False, wmIsTapback = False, wmTapbackType = None, wmTapbackTargetUuid = None,
     wmTapbackTargetPart = None, wmTapbackEmoji = None, wmTapbackRemove = False, wmIsEdit = False, wmEditTargetUuid = None,
     wmEditNewText = None, wmUnsendTargetUuid = Some ''6F-2'', wmAttachments = [\<lparr>waMimeType = ''image/png'', waData = []\<rparr>],
     wmSenderGuid = None, wmDeleteChatParticipants = [], wmDeleteChatGroupId = None, wmDeleteChatGuid = None,
     wmDeleteMessageUuids = [''6F-2'', ''6F-3''], wmIsStoredMessage = False, wmStickerData = None, wmStickerMime = None\<rparr>"

definition sampleLive :: live_state where
  "sampleLive = \<lparr>lsClient = sampleClient, lsBuffered = [sampleText\<lparr>wmUuid := ''7A-2''\<rparr>], lsHeld = [], lsSyncDone = True,
     lsUnsends = [], lsSmsEchoes = [], lsOutbound = [], lsAliases = [], lsEvents = [], lsRosterTasks = []\<rparr>"

lemma sample_sort: "slice_sort wmTimestampMs (leSort sampleLiveEnv)"
  by (simp add: sampleLiveEnv_def stable.slice_sort_axioms)

theorem flush_depth_witness:
  "flushBoth (2 + 5) sampleLiveEnv ''login'' 9 sampleLive = flushBoth 2 sampleLiveEnv ''login'' 9 sampleLive
    \<and> handleMessageWith (flushBoth (2 + 5) sampleLiveEnv ''login'' 9) sampleLiveEnv ''login'' 9 sampleText sampleLive
      = handleMessage sampleLiveEnv ''login'' 9 sampleText sampleLive"
  by (rule flush_depth [OF sample_sort])

end
