(* ===== verification/ReactionsSpec.thy ===== *)
theory ReactionsSpec
  imports Reactions
begin

text \<open>
  What the names of reactions and replies guarantee: an identifier built for a part is taken apart again, emoji and
  SMS texts keep the kind of reaction apart.
\<close>

section \<open>Targets\<close>

text \<open>A GUID in which \<open>_att\<close> does not begin; the UUIDs of the protocol have no underscore.\<close>

definition plainGUID :: "bytes \<Rightarrow> bool" where
  "plainGUID guid = (if guid = [] then False else CHR ''_'' \<notin> set guid)"

lemma Index_att: "CHR ''_'' \<notin> set guid \<Longrightarrow> Index (guid @ ''_att'' @ t) ''_att'' = Some (length guid)"
proof (induction guid)
  case Nil
  then show ?case by (simp add: HasPrefix_def)
next
  case (Cons c guid)
  have "\<not> HasPrefix (c # guid @ ''_att'' @ t) ''_att''" using Cons.prems by (auto simp: HasPrefix_def)
  then show ?case using Cons by simp
qed

lemma Index_no_att: "CHR ''_'' \<notin> set guid \<Longrightarrow> Index guid ''_att'' = None"
proof (induction guid)
  case (Cons c guid)
  have "\<not> HasPrefix (c # guid) ''_att''" using Cons.prems by (auto simp: HasPrefix_def)
  then show ?case using Cons by simp
qed simp

lemma parseBalloonPart_plain: "parseBalloonPart s ''%d'' = sscanfInt s"
  by (simp add: parseBalloonPart_def HasPrefix_def)

lemma sscanf_Itoa_append:
  assumes "0 \<le> i" "i \<le> maxInt64" "rest = [] \<or> digitVal (hd rest) = None"
  shows "sscanfInt (Itoa i @ rest) = i"
proof -
  let ?ds = "natDigits (nat i)"
  have d: "\<exists>v. digitVal c = Some v" if "c \<in> set ?ds" for c
    using natDigits_digits [of "nat i"] that by auto
  have tw: "takeWhile (\<lambda>c. \<exists>v. digitVal c = Some v) (?ds @ rest) = ?ds"
    using d assms(3) by (subst takeWhile_append2) (auto simp: takeWhile_eq_Nil_iff)
  obtain c cs where ds: "?ds = c # cs" by (cases "?ds") auto
  with d have c: "\<exists>v. digitVal c = Some v" by simp
  have sp: "\<not> spaceChar c" using c by (auto simp: spaceChar_def isSpace_def digitVal_def split: if_splits)
  have sg: "c \<noteq> CHR ''-''" "c \<noteq> CHR ''+''" using c digit_not_sign [of c] by auto
  have it: "Itoa i = ?ds" using assms(1) by (simp add: Itoa_def)
  have dw: "dropWhile (\<lambda>c. spaceChar c \<and> of_char c \<noteq> (10 :: nat)) (?ds @ rest) = ?ds @ rest"
    using sp ds by simp
  have nn: "?ds @ rest \<noteq> []" "hd (?ds @ rest) = c" using ds by simp_all
  have bd: "\<not> maxInt64 < int (nat i)" "\<not> int (nat i) < minInt64" using assms by (simp_all add: minInt64_def)
  show ?thesis
    unfolding sscanfInt_def it dw Let_def nn(2)
    using sg bd assms(1) by (simp add: tw digitsVal_natDigits del: takeWhile_append1)
qed

text \<open>C29: The target of a reaction survives the way to Matrix and back.  The identifier under which part \<open>n\<close> of a message
  is bridged is taken apart into the message and that part, for a reaction as for a reply, and the
  reaction that names the part resolves to that identifier when it is stored, and to the whole message when it is
  not, as it is when the message was bridged under its bare UUID.\<close>

theorem target_roundtrip:
  assumes "plainGUID guid" "0 \<le> n" "n < maxInt64"
  shows "extractTapbackTarget (attachmentID guid n) = (guid, word_of_int (n + 1))
    \<and> extractReplyInfo (Some (attachmentID guid n)) = Some (guid, Itoa (n + 1) @ '':0:0'')
    \<and> resolveTapbackTargetID known guid (n + 1) = (if known (attachmentID guid n) then attachmentID guid n else guid)
    \<and> chatDBReplyTarget guid (parseBalloonPart (Itoa (n + 1) @ '':0:0'') ''%d:'') = attachmentID guid n
    \<and> extractTapbackTarget guid = (guid, 0) \<and> resolveTapbackTargetID known guid 0 = guid"
proof -
  have guid: "guid \<noteq> []" "CHR ''_'' \<notin> set guid" using assms(1) by (auto simp: plainGUID_def split: if_splits)
  have idx: "Index (attachmentID guid n) ''_att'' = Some (length guid)"
    unfolding attachmentID_def by (rule Index_att [OF guid(2)])
  have num: "sscanfInt (Itoa n) = n" using sscanf_Itoa_append [of n "[]"] assms by simp
  have rest: "drop (length guid + 4) (attachmentID guid n) = Itoa n" "take (length guid) (attachmentID guid n) = guid"
    by (simp_all add: attachmentID_def)
  have colon: "Index ''%d:'' ''%d'' = Some 0" by (simp add: HasPrefix_def)
  have part: "parseBalloonPart (Itoa (n + 1) @ '':0:0'') ''%d:'' = n + 1"
    using assms sscanf_Itoa_append [of "n + 1" "'':0:0''"] by (simp add: parseBalloonPart_def colon digitVal_def)
  have wrap: "intAdd n 1 = n + 1"
    using assms by (simp add: intAdd_def maxInt64_def sint_sbintrunc' signed_take_bit_int_eq_self del: of_int_add)
  show ?thesis
    using guid assms
    by (simp add: extractTapbackTarget_def extractReplyInfo_def idx rest num wrap part parseBalloonPart_plain
        resolveTapbackTargetID_def chatDBReplyTarget_def Index_no_att)
qed

text \<open>The parts of a real UUID.\<close>

definition sampleGUID :: bytes where
  "sampleGUID = ''7D2C1E9A-0B3F-4C55-9D1E-2A6B8C4F0E11''"

theorem target_roundtrip_witness:
  "extractTapbackTarget (attachmentID sampleGUID 2) = (sampleGUID, word_of_int (2 + 1))
    \<and> extractReplyInfo (Some (attachmentID sampleGUID 2)) = Some (sampleGUID, Itoa (2 + 1) @ '':0:0'')
    \<and> resolveTapbackTargetID (\<lambda>_. False) sampleGUID (2 + 1)
        = (if (\<lambda>_. False) (attachmentID sampleGUID 2) then attachmentID sampleGUID 2 else sampleGUID)
    \<and> chatDBReplyTarget sampleGUID (parseBalloonPart (Itoa (2 + 1) @ '':0:0'') ''%d:'') = attachmentID sampleGUID 2
    \<and> extractTapbackTarget sampleGUID = (sampleGUID, 0) \<and> resolveTapbackTargetID (\<lambda>_. False) sampleGUID 0 = sampleGUID"
  by (rule target_roundtrip) (simp_all add: sampleGUID_def plainGUID_def maxInt64_def)

section \<open>Emoji\<close>

lemma utf8_emoji:
  "utf8 [0x2764, 0xFE0F] = map char_of [0xE2, 0x9D, 0xA4, 0xEF, 0xB8, 0x8F :: nat]"
  "utf8 [0x2665, 0xFE0F] = map char_of [0xE2, 0x99, 0xA5, 0xEF, 0xB8, 0x8F :: nat]"
  "utf8 [0x1F44D] = map char_of [0xF0, 0x9F, 0x91, 0x8D :: nat]"
  "utf8 [0x1F44E] = map char_of [0xF0, 0x9F, 0x91, 0x8E :: nat]"
  "utf8 [0x1F602] = map char_of [0xF0, 0x9F, 0x98, 0x82 :: nat]"
  "utf8 [0x203C, 0xFE0F] = map char_of [0xE2, 0x80, 0xBC, 0xEF, 0xB8, 0x8F :: nat]"
  "utf8 [0x2757] = map char_of [0xE2, 0x9D, 0x97 :: nat]"
  "utf8 [0x2753] = map char_of [0xE2, 0x9D, 0x93 :: nat]"
  by (simp_all add: utf8_def encodeRune_def Let_def)

text \<open>A Matrix reaction comes back as it was sent, but for the second spellings of the heart and of the exclamation
  mark, and a type with or without its own emoji is recovered from the emoji it is shown as.\<close>

theorem reaction_roundtrip:
  "(case emojiToTapbackType e of (t, custom) \<Rightarrow> tapbackTypeToEmoji (Some t) custom)
     = (if e = utf8 [0x2665, 0xFE0F] then utf8 [0x2764, 0xFE0F]
        else if e = utf8 [0x2757] then utf8 [0x203C, 0xFE0F] else e)
   \<and> list_all (\<lambda>t. emojiToTapbackType (tapbackTypeToEmoji (Some t) None) = (t, None)) [0, 1, 2, 3, 4, 5]"
proof
  show "(case emojiToTapbackType e of (t, custom) \<Rightarrow> tapbackTypeToEmoji (Some t) custom)
     = (if e = utf8 [0x2665, 0xFE0F] then utf8 [0x2764, 0xFE0F]
        else if e = utf8 [0x2757] then utf8 [0x203C, 0xFE0F] else e)"
    by (simp add: emojiToTapbackType_def tapbackTypeToEmoji_def utf8_emoji)
qed (simp add: emojiToTapbackType_def tapbackTypeToEmoji_def utf8_emoji)

end
