(* ===== verification/LiveSpec.thy ===== *)
theory LiveSpec
  imports LiveNesting ReactionsSpec CloudPortalSpec
begin

text \<open>
  What the handlers of live messages guarantee: which messages bring a deleted conversation back, that nothing is removed
  from Matrix before its text is gone from the store, that a held message leaves no trace, that a reaction is
  delivered once, and that the events of one message have identifiers of their own.
\<close>

section \<open>Identifiers of events\<close>

fun eventID :: "remote_event \<Rightarrow> bytes" where
  "eventID (MessageEvent _ _ _ _ i _) = i"
| "eventID _ = []"

lemma attachmentID_inj: "attachmentID guid i = attachmentID guid j \<longleftrightarrow> i = j"
  by (simp add: attachmentID_def Itoa_inj)

lemma attachmentID_neq: "attachmentID guid i \<noteq> guid"
  by (simp add: attachmentID_def)

lemma attEventID_inj: "attEventID msg i = attEventID msg j \<Longrightarrow> i = j"
  using attachmentID_neq [of "wmUuid msg" "int i"] attachmentID_neq [of "wmUuid msg" "int j"]
    attachmentID_neq [symmetric, of "wmUuid msg" "int i"] attachmentID_neq [symmetric, of "wmUuid msg" "int j"]
  by (auto simp: attEventID_def attachmentID_inj split: if_splits)

lemma attEventID_text: "hasText msg \<Longrightarrow> attEventID msg i \<noteq> wmUuid msg"
  using attachmentID_neq by (simp add: attEventID_def)

lemma messageEvents_ids:
  "map eventID (messageEvents key c sender msg)
     = (if hasText msg then [wmUuid msg] else []) @ map (attEventID msg) [0..<length (bridgedAttachments msg)]"
proof -
  have "map eventID (map (\<lambda>(i, att). MessageEvent key c sender (stamp msg) (makeMessageID (attEventID msg i)) (Some att)) (enumerate n xs))
      = map (attEventID msg) [n..<n + length xs]" for n and xs :: "WrappedAttachment list"
  proof (induction xs arbitrary: n)
    case (Cons a xs)
    have "[n..<n + length (a # xs)] = n # [Suc n..<Suc n + length xs]" by (simp add: upt_conv_Cons del: upt_Suc)
    then show ?case using Cons [of "Suc n"] by (simp only: enumerate_simps list.map prod.case eventID.simps makeMessageID_def)
  qed simp
  from this [of 0] show ?thesis by (simp add: messageEvents_def makeMessageID_def)
qed

text \<open>The events of one message are distinct and lead back to it: there is one for the text, when there is any, and
  one for every attachment that is not part of a link preview; their identifiers differ; and a reaction or a
  reply to any of them names the UUID of the message.\<close>

theorem message_ids:
  assumes "plainGUID (wmUuid msg)" "int (length (wmAttachments msg)) < maxInt64"
  shows "distinct (map eventID (messageEvents key createPortal sender msg))
    \<and> list_all (\<lambda>ev. fst (extractTapbackTarget (eventID ev)) = wmUuid msg) (messageEvents key createPortal sender msg)
    \<and> length (messageEvents key createPortal sender msg) = (if hasText msg then 1 else 0) + length (bridgedAttachments msg)"
proof (intro conjI)
  have "distinct (map (attEventID msg) [0..<length (bridgedAttachments msg)])"
    unfolding distinct_map by (auto intro: inj_onI dest: attEventID_inj)
  then show "distinct (map eventID (messageEvents key createPortal sender msg))"
    unfolding messageEvents_ids using attEventID_text by force
  have uuid: "CHR ''_'' \<notin> set (wmUuid msg)" using assms(1) by (auto simp: plainGUID_def split: if_splits)
  have id: "fst (extractTapbackTarget (attachmentID (wmUuid msg) i)) = wmUuid msg" for i
    using assms(1) Index_att [OF uuid]
    by (simp add: extractTapbackTarget_def attachmentID_def plainGUID_def split: if_splits)
  have "fst (extractTapbackTarget (wmUuid msg)) = wmUuid msg"
    using Index_no_att [OF uuid] by (simp add: extractTapbackTarget_def)
  with id have "list_all (\<lambda>i. fst (extractTapbackTarget i) = wmUuid msg) (map eventID (messageEvents key createPortal sender msg))"
    unfolding messageEvents_ids by (auto simp: list_all_iff attEventID_def)
  then show "list_all (\<lambda>ev. fst (extractTapbackTarget (eventID ev)) = wmUuid msg) (messageEvents key createPortal sender msg)"
    by (simp add: list.pred_map comp_def)
  have "length (map eventID (messageEvents key createPortal sender msg)) = (if hasText msg then 1 else 0) + length (bridgedAttachments msg)"
    unfolding messageEvents_ids by simp
  then show "length (messageEvents key createPortal sender msg) = (if hasText msg then 1 else 0) + length (bridgedAttachments msg)"
    by simp
qed

theorem message_ids_witness:
  "distinct (map eventID (messageEvents (keyOf sampleGroupEnv ''mailto:a@x.org'') True (senderOf sampleLiveEnv sampleText) sampleText))"
  using message_ids [of sampleText "keyOf sampleGroupEnv ''mailto:a@x.org''" True "senderOf sampleLiveEnv sampleText"]
  by (simp add: sampleText_def plainGUID_def maxInt64_def)

section \<open>Deleted conversations\<close>

lemma orElse_Nil [simp]: "orElse d (sqlQuery q) (s, []) = (Inr (q s), s, [])"
  by (simp add: orElse_def dbCatch_def)

lemma hasMessageUUID_Nil: "hasMessageUUID l uuid (s, []) = (Inr (list_ex (guidHit l uuid) (messages s)), s, [])"
  by (simp add: hasMessageUUID_def countWhere_pos)

lemma knownEcho_Nil:
  "knownEcho l uuid isDel create missing (s, []) = (Inr (list_ex (guidHit l uuid) (messages s) \<and> (isDel \<or> create \<and> missing)), s, [])"
  by (simp add: knownEcho_def orElse_def dbCatch_def dbBind_def hasMessageUUID_Nil dbReturn_def)

definition revivedChats :: "bytes \<Rightarrow> time_ms \<Rightarrow> bytes \<Rightarrow> store \<Rightarrow> store" where
  "revivedChats l now p s = s\<lparr>chats := updateWhere (\<lambda>r. ofPortal l p r \<and> cDeleted r)
     (\<lambda>r. r\<lparr>cDeleted := False, cUpdated := Some now, cFwdDone := False\<rparr>) (chats s)\<rparr>"

lemma undeleteChat_Nil: "undeleteCloudChatByPortalID l now p (s, []) = (Inr (), revivedChats l now p s, [])"
  by (simp add: undeleteCloudChatByPortalID_def revivedChats_def)

lemma revived_messages [simp]: "messages (revivedChats l now p s) = messages s"
  by (simp add: revivedChats_def)

lemma revived_again: "revivedChats l now p (revivedChats l now p s) = revivedChats l now p s"
  by (simp add: revivedChats_def updateWhere_def ofPortal_def)

lemma revived_live: "countWhere (\<lambda>r. ofPortal l p r \<and> cDeleted r) (chats (revivedChats l now p s)) = 0"
  unfolding revivedChats_def by (simp del: updateWhere_def) (rule countWhere_update_0, simp)

definition forget :: "bytes \<Rightarrow> live_state \<Rightarrow> live_state" where
  "forget p st = st\<lparr>lsClient := (lsClient st)\<lparr>recentlyDeletedPortals := AList.delete p (recentlyDeletedPortals (lsClient st))\<rparr>\<rparr>"

lemma forget_simps [simp]: "lsBuffered (forget p st) = lsBuffered st" "lsHeld (forget p st) = lsHeld st"
  by (simp_all add: forget_def)

lemma revive_Nil:
  assumes "leSort env [] = []" "lsBuffered st = []" "lsHeld st = []" "InfoDeleted info"
  shows "reviveAndAllow (flushBoth n env l now) l now p info st (s, []) = (Inr (True, forget p st), revivedChats l now p s, [])"
proof -
  have idle: "flushBoth n env l now (forget p st) = dbReturn (forget p st)" by (rule flushBoth_idle [OF assms(1)]) (simp_all add: assms)
  show ?thesis
    by (simp add: reviveAndAllow_def reviveDeletedPortalShell_def assms(4) dbBind_def dbTry_def undeleteChat_Nil dbReturn_def
        forget_def [symmetric] idle)
qed


definition sampleDeletedChat :: store where
  "sampleDeletedChat = noRows\<lparr>chats := [(emptyChat ''login'' ''c1'' ''mailto:a@x.org'' 30)\<lparr>cDeleted := True, cUpdated := Some 40\<rparr>]\<rparr>"

lemma sample_info: "getSoftDeletedPortalInfo ''login'' ''mailto:a@x.org'' (sampleDeletedChat, []) =
    (Inr \<lparr>NewestTS = 40, InfoDeleted = True\<rparr>, sampleDeletedChat, [])"
  by (simp add: getSoftDeletedPortalInfo_def sampleDeletedChat_def noRows_def ofPortal_def emptyChat_def countWhere_def maxOr0_def Let_def)


section \<open>Removals\<close>

text \<open>The text of a message is gone: a row for it exists, and every such row is deleted and holds no content.\<close>

definition erased :: "bytes \<Rightarrow> bytes \<Rightarrow> store \<Rightarrow> bool" where
  "erased l guid s \<longleftrightarrow> list_ex (guidHit l guid) (messages s)
     \<and> list_all (\<lambda>r. mDeleted r \<and> mScrubbed r \<and> mText r = None \<and> mSubject r = None \<and> mTapbackEmoji r = None)
         (filter (guidHit l guid) (messages s))"

text \<open>A conversation is gone: it has no live chat row and no live message.\<close>

definition gone :: "bytes \<Rightarrow> bytes \<Rightarrow> store \<Rightarrow> bool" where
  "gone l p s \<longleftrightarrow> list_all (\<lambda>r. \<not> (ofPortal l p r \<and> \<not> cDeleted r)) (chats s)
     \<and> list_all (\<lambda>r. \<not> (mLogin r = l \<and> mPortal r = Some p \<and> \<not> mDeleted r)) (messages s)"

fun covered :: "bytes \<Rightarrow> store \<Rightarrow> remote_event \<Rightarrow> bool" where
  "covered l s (RemoveEvent _ _ _ target) = erased l target s"
| "covered l s (ChatDeleteEvent key) = gone l (pk_ID key) s"
| "covered l s _ = True"

lemma softDelete_erases:
  assumes "softDeleteMessageByGUID l now guid (s, fs) = (Inr x, s', fs')"
  shows "erased l guid s'" "erased l g s \<Longrightarrow> erased l g s'"
proof -
  let ?ms = "deletedRows l now guid (messages s)"
  let ?ok = "\<lambda>r. mDeleted r \<and> mScrubbed r \<and> mText r = None \<and> mSubject r = None \<and> mTapbackEmoji r = None"
  have s': "s' = s\<lparr>messages := ?ms\<rparr>" by (rule softDelete_result [OF assms])
  have ok: "?ok r" if "r \<in> set ?ms" "guidHit l guid r" for r
    using deletedRows_sealed [of l guid now "messages s"] that unfolding list_all_iff by blast
  then show "erased l guid s'"
    using deletedRows_hit [of l guid now "messages s"] by (simp add: erased_def s' list_all_iff)
  have rows: "r \<in> set (messages s) \<or> guidHit l guid r" if "r \<in> set ?ms" for r
    using that by (auto simp: deletedRows_def guidHit_def emptyMessage_def set_updateWhere sealRow_def split: if_splits)
  have keep: "list_ex (guidHit l g) ?ms" if ex: "list_ex (guidHit l g) (messages s)"
  proof -
    obtain r where r: "r \<in> set (messages s)" "guidHit l g r" using ex by (auto simp: list_ex_iff)
    then have "(if guidHit l guid r then sealRow r else r) \<in> set ?ms \<or> r \<in> set ?ms"
      by (auto simp: deletedRows_def set_updateWhere)
    then show ?thesis using r(2) sealRow_seals(2) [of l g r] by (auto simp: list_ex_iff split: if_splits)
  qed
  show "erased l g s'" if "erased l g s"
    using that ok rows keep by (auto simp: erased_def s' list_all_iff)
qed

text \<open>A success has run all the statements, so it is the success of a run without failures.\<close>

definition plain :: "'a db \<Rightarrow> bool" where
  "plain m \<longleftrightarrow> (\<forall>s fs x s' fs'. m (s, fs) = (Inr x, s', fs') \<longrightarrow> m (s, []) = (Inr x, s', []))"

lemma plain_return: "plain (dbReturn x)"
  by (simp add: plain_def dbReturn_def)

lemma plain_stmt: "plain (sqlStmt f)"
  unfolding plain_def by (auto dest!: sqlStmt_Inr)

lemma plain_bind:
  assumes "plain m" "\<And>x. plain (k x)"
  shows "plain (dbBind m k)"
  unfolding plain_def
proof (intro allI impI)
  fix s fs y s' fs'
  assume "dbBind m k (s, fs) = (Inr y, s', fs')"
  then obtain x s1 fs1 where 1: "m (s, fs) = (Inr x, s1, fs1)" and 2: "k x (s1, fs1) = (Inr y, s', fs')"
    by (auto dest: dbBind_ok)
  have "m (s, []) = (Inr x, s1, [])" using assms(1) 1 unfolding plain_def by blast
  moreover have "k x (s1, []) = (Inr y, s', [])" using assms(2) 2 unfolding plain_def by blast
  ultimately show "dbBind m k (s, []) = (Inr y, s', [])" by (simp add: dbBind_def)
qed

lemma plain_wrap: "plain m \<Longrightarrow> plain (wrapErr msg m)"
  unfolding plain_def by (auto simp: wrapErr_Inr)

lemma plain_deleteLocalChat: "plain (deleteLocalChatByPortalID l now p)"
  unfolding deleteLocalChatByPortalID_def dbThen_def chatStmt_def messageStmt_def sqlExec_def
  by (simp add: plain_bind plain_wrap plain_stmt plain_return)

lemma all_updated: "(\<And>r. P (if Q r then f r else r)) \<Longrightarrow> list_all P (updateWhere Q f rs)"
  by (simp only: updateWhere_def list.pred_map comp_def) (simp only: list_all_iff ball_triv, blast)

lemma deleteLocalChat_gone:
  assumes "deleteLocalChatByPortalID l now p (s, fs) = (Inr x, s', fs')"
  shows "gone l p s'"
proof -
  have run: "deleteLocalChatByPortalID l now p (s, []) = (Inr x, s', [])"
    using plain_deleteLocalChat assms unfolding plain_def by blast
  show ?thesis
    using run unfolding deleteLocalChat_Nil gone_def
    by (auto intro!: all_updated simp: chatOf_def messageOf_def kill_fields)
qed

text \<open>The events a run adds are covered by the tables it leaves.\<close>

definition coversNew :: "bytes \<Rightarrow> live_state \<Rightarrow> (err + live_state) \<times> store \<times> script \<Rightarrow> bool" where
  "coversNew l st r = (case r of
      (Inr st', s', _) \<Rightarrow> take (length (lsEvents st)) (lsEvents st') = lsEvents st
         \<and> list_all (covered l s') (drop (length (lsEvents st)) (lsEvents st'))
    | (Inl _, _) \<Rightarrow> True)"

lemma covers_none: "lsEvents st' = lsEvents st \<Longrightarrow> coversNew l st (Inr st', s', fs')"
  by (simp add: coversNew_def)

lemma covers_one: "covered l s' ev \<Longrightarrow> lsEvents st' = lsEvents st \<Longrightarrow> coversNew l st (Inr (emit [ev] st'), s', fs')"
  by (simp add: coversNew_def emit_def)

lemma targetPortal_events:
  assumes "targetPortal env l t msg st y = (Inr (key, st'), y')"
  shows "lsEvents st' = lsEvents st"
  using assms unfolding targetPortal_def portalFor_def
  by (auto simp: dbReturn_def dest!: dbBind_ok split: option.splits if_splits)

lemma unsend_covers: "coversNew l st (handleUnsend env l now msg st (s, fs))"
proof -
  let ?t = "coalesce (wmUnsendTargetUuid msg) []"
  obtain echo st0 where e: "wasOutboundUnsend now ?t st = (echo, st0)" by fastforce
  then have ev0: "lsEvents st0 = lsEvents st" by (auto simp: wasOutboundUnsend_def)
  show ?thesis
  proof (cases echo)
    case True
    then show ?thesis by (simp add: handleUnsend_def Let_def e dbReturn_def covers_none ev0)
  next
    case False
    obtain r1 s1 fs1 where t: "targetPortal env l ?t msg (trackUnsend now ?t st0) (s, fs) = (r1, s1, fs1)"
      by (cases "targetPortal env l ?t msg (trackUnsend now ?t st0) (s, fs)") auto
    show ?thesis
    proof (cases r1)
      case (Inl err)
      then show ?thesis by (simp add: handleUnsend_def Let_def e False dbBind_def t coversNew_def)
    next
      case (Inr v)
      obtain key st1 where v: "v = (key, st1)" by (cases v)
      have ev1: "lsEvents st1 = lsEvents st"
        using targetPortal_events [OF t [unfolded Inr v]] ev0 by (simp add: trackUnsend_def)
      obtain r2 s2 fs2 where d: "softDeleteMessageByGUID l now ?t (s1, fs1) = (r2, s2, fs2)"
        by (cases "softDeleteMessageByGUID l now ?t (s1, fs1)") auto
      show ?thesis
      proof (cases r2)
        case (Inl err)
        then show ?thesis
          by (simp add: handleUnsend_def Let_def e False dbBind_def t Inr v dbTry_def d dbReturn_def covers_none ev1)
      next
        case r2: (Inr x)
        have "erased l ?t s2" using softDelete_erases(1) [OF d [unfolded r2]] .
        then show ?thesis
          by (simp add: handleUnsend_def Let_def e False dbBind_def t Inr v dbTry_def d r2 dbReturn_def makeMessageID_def
              covers_one ev1)
      qed
    qed
  qed
qed

text \<open>A later deletion of another message does not undo an earlier one.\<close>

lemma deleteOne_step:
  assumes "list_all (covered l s) evs"
    and "list_all (\<lambda>ev. case ev of ChatDeleteEvent _ \<Rightarrow> False | _ \<Rightarrow> True) evs"
    and "deleteOne env l now msg t st (s, fs) = (r, s', fs')"
  obtains st' new where "r = Inr st'" "lsEvents st' = lsEvents st @ new" "list_all (covered l s') (evs @ new)"
    "list_all (\<lambda>ev. case ev of ChatDeleteEvent _ \<Rightarrow> False | _ \<Rightarrow> True) (evs @ new)"
proof -
  obtain r1 s1 fs1 where d: "softDeleteMessageByGUID l now t (s, fs) = (r1, s1, fs1)"
    by (cases "softDeleteMessageByGUID l now t (s, fs)") auto
  show thesis
  proof (cases r1)
    case (Inl err)
    then have "s1 = s" using d unfolding softDeleteMessageByGUID_def Let_def by (blast dest: sqlTx_error)
    then show thesis
      using assms Inl d by (intro that [of st "[]"]) (auto simp: deleteOne_def dbBind_def dbTry_def dbReturn_def)
  next
    case (Inr x)
    note er = softDelete_erases [OF d [unfolded Inr]]
    have old: "covered l s1 ev" if "covered l s ev" "case ev of ChatDeleteEvent _ \<Rightarrow> False | _ \<Rightarrow> True" for ev
      using that er(2) by (cases ev) auto
    have all: "list_all (covered l s1) evs" using assms(1,2) old by (auto simp: list_all_iff)
    let ?ev = "\<lambda>key. RemoveEvent key (senderOf env msg) (stamp msg) (makeMessageID t)"
    show thesis
    proof (cases "\<exists>key. resolvePortalByTargetMessage env t = Some key \<and> pk_ID key \<noteq> []")
      case True
      then obtain key where k: "resolvePortalByTargetMessage env t = Some key" "pk_ID key \<noteq> []" by blast
      then show thesis
        using assms(2,3) Inr d all er(1)
        by (intro that [of "emit [?ev key] st" "[?ev key]"]) (auto simp: deleteOne_def dbBind_def dbTry_def dbReturn_def emit_def makeMessageID_def)
    next
      case False
      then show thesis
        using assms(2,3) Inr d all
        by (intro that [of st "[]"]) (auto simp: deleteOne_def dbBind_def dbTry_def dbReturn_def split: option.splits)
    qed
  qed
qed

lemma deletes_cover:
  assumes "list_all (covered l s) evs" "list_all (\<lambda>ev. case ev of ChatDeleteEvent _ \<Rightarrow> False | _ \<Rightarrow> True) evs"
  shows "\<exists>st' s' fs' new. dbFold (deleteOne env l now msg) ts st (s, fs) = (Inr st', s', fs')
    \<and> lsEvents st' = lsEvents st @ new \<and> list_all (covered l s') (evs @ new)"
  using assms
proof (induction ts arbitrary: st s fs evs)
  case Nil
  then show ?case by (auto simp: dbReturn_def)
next
  case (Cons t ts)
  obtain r s1 fs1 where d: "deleteOne env l now msg t st (s, fs) = (r, s1, fs1)"
    by (cases "deleteOne env l now msg t st (s, fs)") auto
  obtain st1 new where 1: "r = Inr st1" "lsEvents st1 = lsEvents st @ new" "list_all (covered l s1) (evs @ new)"
    "list_all (\<lambda>ev. case ev of ChatDeleteEvent _ \<Rightarrow> False | _ \<Rightarrow> True) (evs @ new)"
    by (rule deleteOne_step [OF Cons.prems d])
  obtain st' s' fs' new' where "dbFold (deleteOne env l now msg) ts st1 (s1, fs1) = (Inr st', s', fs')"
    "lsEvents st' = lsEvents st1 @ new'" "list_all (covered l s') ((evs @ new) @ new')"
    using Cons.IH [OF 1(3,4)] by blast
  then show ?case
    using 1(1,2) d by (intro exI [of _ st'] exI [of _ s'] exI [of _ fs'] exI [of _ "new @ new'"]) (simp add: dbBind_def)
qed

lemma messageDelete_covers: "coversNew l st (handleMessageDelete env l now msg st (s, fs))"
  using deletes_cover [of l s "[]" env now msg "wmDeleteMessageUuids msg" st fs]
  by (auto simp: handleMessageDelete_def coversNew_def)

lemma deleteKey_events:
  assumes "makeDeletePortalKey env l msg st y = (Inr (key, st'), y')"
  shows "lsEvents st' = lsEvents st"
  using assms unfolding makeDeletePortalKey_def portalFor_def Let_def
  by (auto simp: dbReturn_def dest!: dbBind_ok split: if_splits)

lemma chatDelete_covers: "coversNew l st (handleChatDelete env l now msg st (s, fs))"
proof -
  obtain r1 s1 fs1 where k: "makeDeletePortalKey env l msg st (s, fs) = (r1, s1, fs1)"
    by (cases "makeDeletePortalKey env l msg st (s, fs)") auto
  have body: "coversNew l st (handleChatDelete env l now msg st (s, fs))"
    if "wmDeleteMessageUuids msg = []" "leUseCloudKit env"
  proof (cases r1)
    case (Inl err)
    then show ?thesis using that k by (simp add: handleChatDelete_def dbBind_def coversNew_def)
  next
    case (Inr v)
    obtain key st1 where v: "v = (key, st1)" by (cases v)
    have ev1: "lsEvents st1 = lsEvents st" using deleteKey_events [OF k [unfolded Inr v]] .
    obtain r2 s2 fs2 where w: "trackDeletedChat l now (pk_ID key) (lsClient st1) (s1, fs1) = (r2, s2, fs2)"
      by (cases "trackDeletedChat l now (pk_ID key) (lsClient st1) (s1, fs1)") auto
    obtain r3 s3 fs3 where o: "orElse () (clearRestoreOverride l (pk_ID key)) (s2, fs2) = (r3, s3, fs3)"
      by (cases "orElse () (clearRestoreOverride l (pk_ID key)) (s2, fs2)") auto
    obtain r4 s4 fs4 where d: "deleteLocalChatByPortalID l now (pk_ID key) (s3, fs3) = (r4, s4, fs4)"
      by (cases "deleteLocalChatByPortalID l now (pk_ID key) (s3, fs3)") auto
    note run = handleChatDelete_def Let_def dbBind_def k Inr v w o dbTry_def d dbReturn_def
    show ?thesis
    proof (cases r2)
      case (Inl err2)
      then show ?thesis using that by (simp add: run coversNew_def)
    next
      case r2: (Inr w1)
      show ?thesis
      proof (cases r3)
        case (Inl err3)
        then show ?thesis using that by (simp add: run r2 coversNew_def)
      next
        case r3: (Inr u)
        show ?thesis
        proof (cases r4)
          case (Inl err4)
          then show ?thesis using that by (simp add: run r2 r3 covers_none ev1)
        next
          case r4: (Inr x)
          have "gone l (pk_ID key) s4" using deleteLocalChat_gone [OF d [unfolded r4]] .
          then show ?thesis using that by (simp add: run r2 r3 r4 covers_none covers_one ev1)
        qed
      qed
    qed
  qed
  show ?thesis
    using body messageDelete_covers
    by (cases "wmDeleteMessageUuids msg = []"; cases "leUseCloudKit env")
      (simp_all add: handleChatDelete_def dbReturn_def covers_none)
qed


section \<open>Held messages\<close>

lemma reads_orElse: "reads m \<Longrightarrow> reads (orElse d m)"
  unfolding orElse_def by (intro reads_catch reads_return)

lemma reads_fail: "reads (dbFail e)"
  by (simp add: reads_def dbFail_def)

lemma reads_byStoredRoster: "reads (byStoredRoster c l g ps)"
  unfolding byStoredRoster_def findPortalIDsByParticipants_def
  by (intro reads_bind reads_try reads_query) (auto split: sum.split option.split intro: reads_fail)

lemma reads_resolveGid: "reads (resolveExistingGroupByGid c l g sg ps st)"
  unfolding resolveExistingGroupByGid_def Let_def
  by (auto split: prod.split option.split intro!: reads_return reads_bind reads_byStoredRoster)

lemma reads_portalKey: "reads (makePortalKey c l ps gname sender sg sms st)"
  unfolding makePortalKey_def groupPortal_def gidPortal_def Let_def
  by (auto split: prod.split option.split intro!: reads_return reads_bind reads_resolveGid)

lemma reads_portalFor: "reads (portalFor env l msg st)"
  unfolding portalFor_def by (auto intro!: reads_bind reads_portalKey reads_return)

lemma reads_alreadyBridged: "reads (alreadyBridged env l msg st)"
  unfolding alreadyBridged_def by (auto intro!: reads_bind reads_portalFor reads_return)

lemma reads_route: "reads (routeMessage env l msg st)"
  unfolding routeMessage_def Let_def by (auto split: prod.split intro!: reads_bind reads_portalFor reads_return)

lemma reads_echo: "reads (knownEcho l uuid d c m)"
  unfolding knownEcho_def hasMessageUUID_def by (intro reads_bind reads_orElse reads_query reads_return)

lemma admit_syncing:
  assumes "\<not> lsSyncDone st"
  obtains r fs' where "admitMessage f env l now msg p st (s, fs) = (r, s, fs')"
    "case r of Inr (v, st') \<Rightarrow> (if v = Held then st' = holdMessage msg st else st' = st) | Inl _ \<Rightarrow> True"
proof -
  let ?missing = "\<not> ie_portalExists (leGenv env) p"
  have gate: "\<exists>g. deletedPortalGate f env l now p (stamp msg) ?missing st = dbReturn (Some (g, False, None), st)"
    using assms by (auto simp: deletedPortalGate_def split: option.split)
  then obtain g where g: "deletedPortalGate f env l now p (stamp msg) ?missing st = dbReturn (Some (g, False, None), st)" ..
  obtain r fs1 where e: "knownEcho l (wmUuid msg) g False ?missing (s, fs) = (r, s, fs1)"
    using readsD [OF reads_echo] by blast
  show thesis
  proof (cases r)
    case (Inl err)
    then show thesis
      using that [of "Inl err" fs1] by (simp add: admitMessage_def Let_def g decideMessage_def dbBind_def dbReturn_def e)
  next
    case (Inr echo)
    then show thesis
      using that [of "Inr (if echo then Dropped else if ?missing then Held else Admitted False,
          if echo \<or> \<not> ?missing then st else holdMessage msg st)" fs1]
      by (cases echo) (simp_all add: admitMessage_def Let_def g decideMessage_def dbBind_def dbReturn_def e)
  qed
qed

lemma agree_run: "agree (sameQueues st) m m \<Longrightarrow> m x = (Inr (v, st'), y)
    \<Longrightarrow> lsHeld st' = lsHeld st \<and> lsEvents st' = lsEvents st \<and> lsSyncDone st' = lsSyncDone st"
  unfolding agree_def yields_def sameQueues_def queues_def by fastforce

definition traceless :: "live_state \<Rightarrow> WrappedMessage \<Rightarrow> store \<Rightarrow> (err + live_state) \<times> store \<times> script \<Rightarrow> bool" where
  "traceless st msg s r = (case r of
       (Inl _, _) \<Rightarrow> True
     | (Inr st', s', _) \<Rightarrow> if lsHeld st' = lsHeld st then True
         else lsHeld st' = lsHeld st @ [msg] \<and> s' = s \<and> lsEvents st' = lsEvents st)"

lemma traceless_same: "lsHeld st' = lsHeld st \<Longrightarrow> traceless st msg s (Inr st', s', fs')"
  by (simp add: traceless_def)

lemma decided_traceless:
  assumes "lsHeld st3 = lsHeld st" "lsEvents st3 = lsEvents st" "\<not> lsSyncDone st3"
  shows "traceless st msg s (dbBind (admitMessage flush env l now msg p st3) (\<lambda>(v, st4). case v of
      Dropped \<Rightarrow> dbReturn st4 | Held \<Rightarrow> dbReturn st4
    | Admitted createPortal \<Rightarrow> deliverMessage l now key createPortal sender msg st4) (s, fs))"
proof -
  obtain r fs' where 1: "admitMessage flush env l now msg p st3 (s, fs) = (r, s, fs')"
    "case r of Inr (v, st') \<Rightarrow> (if v = Held then st' = holdMessage msg st3 else st' = st3) | Inl _ \<Rightarrow> True"
    by (rule admit_syncing [OF assms(3)])
  show ?thesis
  proof (cases r)
    case (Inl err)
    then show ?thesis by (simp add: dbBind_def 1(1) traceless_def)
  next
    case (Inr vst)
    obtain v st4 where vst: "vst = (v, st4)" by (cases vst)
    have 4: "if v = Held then st4 = holdMessage msg st3 else st4 = st3" using 1(2) by (simp add: Inr vst)
    show ?thesis
      using 4 assms by (cases v) (auto simp: dbBind_def 1(1) Inr vst traceless_def dbReturn_def holdMessage_def deliverMessage_def
          dbTry_def emit_def split: prod.split)
  qed
qed

lemma routed_traceless:
  assumes "lsHeld st1 = lsHeld st" "lsEvents st1 = lsEvents st" "\<not> lsSyncDone st1"
  shows "traceless st msg s (dbBind (routeMessage env l msg st1) (\<lambda>(route, st2). case route of
      None \<Rightarrow> dbReturn st2
    | Some (key, sender) \<Rightarrow>
        let st3 = st2\<lparr>lsClient := (lsClient st2)\<lparr>groups := trackService (pk_ID key) (wmIsSms msg) (groups (lsClient st2))\<rparr>\<rparr> in
        dbBind (admitMessage flush env l now msg (pk_ID key) st3) (\<lambda>(v, st4). case v of
          Dropped \<Rightarrow> dbReturn st4 | Held \<Rightarrow> dbReturn st4
        | Admitted createPortal \<Rightarrow> deliverMessage l now key createPortal sender msg st4)) (s, fs))"
proof -
  obtain r fs' where 2: "routeMessage env l msg st1 (s, fs) = (r, s, fs')" using readsD [OF reads_route] by blast
  show ?thesis
  proof (cases r)
    case (Inl err)
    then show ?thesis by (simp add: dbBind_def 2 traceless_def)
  next
    case (Inr v)
    obtain route st2 where v: "v = (route, st2)" by (cases v)
    note s2 = agree_run [OF routeMessage_queues 2 [unfolded Inr v]]
    show ?thesis
    proof (cases route)
      case None
      then show ?thesis using s2 assms by (simp add: dbBind_def 2 Inr v dbReturn_def traceless_same)
    next
      case (Some ks)
      obtain key sender where "ks = (key, sender)" by (cases ks)
      then show ?thesis
        using decided_traceless [of "st2\<lparr>lsClient := (lsClient st2)\<lparr>groups := trackService (pk_ID key) (wmIsSms msg) (groups (lsClient st2))\<rparr>\<rparr>" st]
          s2 assms by (simp add: dbBind_def [of "routeMessage env l msg st1"] 2 Inr v Some Let_def)
    qed
  qed
qed


section \<open>Reactions\<close>

lemma insertIgnore_hit: "list_ex (guidHit l uuid) (insertIgnore messageKey ((emptyMessage l uuid ts now)\<lparr>mPortal := p, mFromMe := b, mTapback := k\<rparr>) ms)"
proof -
  let ?new = "(emptyMessage l uuid ts now)\<lparr>mPortal := p, mFromMe := b, mTapback := k\<rparr>"
  have new: "messageKey ?new = (l, uuid)" "guidHit l uuid ?new" by (simp_all add: messageKey_def emptyMessage_def guidHit_def)
  show ?thesis
  proof (cases "list_ex (\<lambda>r. messageKey r = messageKey ?new) ms")
    case True
    then obtain r where "r \<in> set ms" "messageKey r = (l, uuid)" by (auto simp: list_ex_iff new)
    then show ?thesis using True by (auto simp: insertIgnore_def upsertRow_def list_ex_iff guidHit_def messageKey_def)
  next
    case False
    then show ?thesis using new by (simp add: insertIgnore_def upsertRow_def)
  qed
qed

text \<open>C22: A reaction is delivered once: when the same reaction arrives again, at any later time, in any later state of the
  bridge and whatever bridgev2 knows by then, it is skipped and nothing is written.\<close>

theorem tapback_once:
  "if wmUuid msg = [] then True else
     case handleTapback env l now msg st (s, []) of
       (Inl _, _) \<Rightarrow> True
     | (Inr _, s', _) \<Rightarrow> handleTapback env' l later msg st' (s', []) = (Inr st', s', [])"
proof (cases "wmUuid msg = [] \<or> wmIsStoredMessage msg")
  case True
  then show ?thesis by (auto simp: handleTapback_def dbReturn_def)
next
  case False
  have known: "orElse False (hasMessageUUID l (wmUuid msg)) (t, []) = (Inr (list_ex (guidHit l (wmUuid msg)) (messages t)), t, [])" for t
    by (simp add: orElse_def dbCatch_def hasMessageUUID_Nil)
  have skip: "handleTapback env' l later msg st' (t, []) = (Inr st', t, [])" if "list_ex (guidHit l (wmUuid msg)) (messages t)" for t
    using False that by (simp add: handleTapback_def dbBind_def known dbReturn_def)
  show ?thesis
  proof (cases "list_ex (guidHit l (wmUuid msg)) (messages s)")
    case True
    then show ?thesis using False skip by (simp add: handleTapback_def dbBind_def known dbReturn_def)
  next
    case new: False
    have "reads (targetPortal env l g msg st)" for g
      unfolding targetPortal_def by (auto split: option.split intro: reads_return reads_portalFor)
    then obtain r where t: "targetPortal env l (coalesce (wmTapbackTargetUuid msg) []) msg st (s, []) = (r, s, [])"
      using readsD by (metis (no_types, lifting))
    show ?thesis
    proof (cases r)
      case (Inl err)
      then show ?thesis using False new by (simp add: handleTapback_def dbBind_def known t)
    next
      case (Inr v)
      obtain key st1 where v: "v = (key, st1)" by (cases v)
      let ?row = "(emptyMessage l (wmUuid msg) (stamp msg) now)\<lparr>mPortal := Some (pk_ID key),
          mFromMe := es_IsFromMe (senderOf env msg), mTapback := Some (unat (storedTapbackType msg))\<rparr>"
      let ?s = "s\<lparr>messages := insertIgnore messageKey ?row (messages s)\<rparr>"
      have p: "orElse () (persistTapbackUUID l now (wmUuid msg) (pk_ID key) (stamp msg) (es_IsFromMe (senderOf env msg))
          (unat (storedTapbackType msg))) (s, []) = (Inr (), ?s, [])"
        by (simp add: persistTapbackUUID_def orElse_def dbCatch_def)
      have "handleTapback env l now msg st (s, []) = (Inr (emit [tapbackEvent env msg key] st1), ?s, [])"
        using False new by (simp add: handleTapback_def dbBind_def known t Inr v p dbReturn_def)
      moreover have "list_ex (guidHit l (wmUuid msg)) (messages ?s)" by (simp add: insertIgnore_hit)
      ultimately show ?thesis using False skip [of ?s] by simp
    qed
  qed
qed

section \<open>Three flaws\<close>

text \<open>The test for identifiers with a suffix does not look at the room, so it drops what the test before it lets
  through: a UUID that a carrier has used before for a message with attachments in another conversation.\<close>

lemma suffix_ignores_room:
  assumes "wmUuid msg \<noteq> []" "leSuffixed env (makeMessageID (wmUuid msg))"
    and "alreadyBridged env l msg st (s, fs) = (Inr (known, st'), y)"
  shows "known"
  using assms unfolding alreadyBridged_def by (auto simp: dbReturn_def dest!: dbBind_ok split: list.splits)

text \<open>A conversation without a soft-deleted row is revived without being forgotten by the list of deleted portals.\<close>

lemma revived_but_listed:
  assumes "leSort env [] = []" "lsSyncDone st" "\<not> ie_portalExists (leGenv env) p" "lsBuffered st = []" "lsHeld st = []"
    and "map_of (recentlyDeletedPortals (lsClient st)) p = Some entry" "deletedAt entry \<le> stamp msg" "0 < deletedAt entry"
    and "getSoftDeletedPortalInfo l p (s, []) = (Inr info, s, [])" "\<not> InfoDeleted info"
    and "\<not> list_ex (guidHit l (wmUuid msg)) (messages s)"
  shows "admitMessage (flushBoth n env l now) env l now msg p st (s, []) = (Inr (Admitted True, st), s, [])"
proof -
  have "reviveAndAllow (flushBoth n env l now) l now p info st (s, []) = (Inr (True, st), s, [])"
    using assms(10) flushBoth_idle [OF assms(1,4,5), of n l now] by (simp add: reviveAndAllow_def dbBind_def dbReturn_def)
  then show ?thesis
    using assms(2,3,6-11)
    by (simp add: admitMessage_def Let_def deletedPortalGate_def decideMessage_def loadSoftDeletedInfo_def orElse_def dbCatch_def
        dbBind_def knownEcho_Nil dbReturn_def softDeletedGate_def)
qed

text \<open>The update of a roster moves the tail of a deleted conversation to the time of the update, so when that goroutine is
  faster than the handler, the new message itself is taken for a replay.\<close>

lemma roster_moves_tail:
  assumes "list_ex (ofPortal l p) (chats s)" "0 \<le> now"
  shows "now \<le> NewestTS (projr (outcome (getSoftDeletedPortalInfo l p (finalStore (updateChatParticipants l now p ps (s, [])), []))))"
proof -
  let ?change = "\<lambda>r. r\<lparr>cParticipants := Some (marshalStrings ps), cUpdated := Some now\<rparr>"
  let ?cs = "updateWhere (ofPortal l p) ?change (chats s)"
  obtain r where r: "r \<in> set (chats s)" "ofPortal l p r" using assms(1) by (auto simp: list_ex_iff)
  have "countWhere (ofPortal l p) (chats s) \<noteq> 0" using r by (auto simp: countWhere_0)
  then have st: "finalStore (updateChatParticipants l now p ps (s, [])) = s\<lparr>chats := ?cs\<rparr>"
    by (simp add: updateChatParticipants_def dbBind_def Let_def dbReturn_def)
  have "?change r \<in> set ?cs" "ofPortal l p (?change r)" using r by (auto simp: set_updateWhere ofPortal_def)
  then have "now \<in> set (map the (filter (\<lambda>u. u \<noteq> None) (map cUpdated (filter (ofPortal l p) ?cs))))"
    by (force simp: image_iff)
  moreover have "x \<le> maxOr0 xs" if "x \<in> set xs" for x :: time_ms and xs using that by (auto simp: maxOr0_def)
  ultimately have "now \<le> maxOr0 (map the (filter (\<lambda>u. u \<noteq> None) (map cUpdated (filter (ofPortal l p) ?cs))))" by blast
  then show ?thesis unfolding st by (simp add: getSoftDeletedPortalInfo_def Let_def)
qed

end
