(* ===== verification/OpusOgg.thy ===== *)
theory OpusOgg
  imports GoNumbers
begin

unbundle bit_operations_syntax

text \<open>
  Voice messages in OGG pages, \<open>pkg/connector/audioconvert.go\<close>: writing the pages with their segment tables and check
  sums, and reading the packets back.  A Go \<open>panic\<close> is a value of its own beside the error: what reaches these
  functions comes from the sender of a message.
\<close>

section \<open>Outcomes and numbers\<close>

datatype 'a outcome = Done 'a | Failed bytes | Panicked bytes

text \<open>Fixed-width numbers in little-endian order; the big-endian order is the reverse.\<close>

fun leBytes :: "nat \<Rightarrow> nat \<Rightarrow> bytes" where
  "leBytes 0 n = []"
| "leBytes (Suc k) n = char_of n # leBytes k (n div 256)"

fun leNat :: "bytes \<Rightarrow> nat" where
  "leNat [] = 0"
| "leNat (c # cs) = of_char c + 256 * leNat cs"

definition beBytes :: "nat \<Rightarrow> nat \<Rightarrow> bytes" where
  "beBytes k n = rev (leBytes k n)"

definition beNat :: "bytes \<Rightarrow> nat" where
  "beNat bs = leNat (rev bs)"

text \<open>A Go \<open>int\<close> or \<open>int64\<close>: the value modulo \<open>2 ^ 64\<close>, and the bits of one.\<close>

definition int64 :: "int \<Rightarrow> int" where
  "int64 i = sint (word_of_int i :: 64 word)"

definition bits64 :: "int \<Rightarrow> nat" where
  "bits64 i = unat (word_of_int i :: 64 word)"

text \<open>The error of \<open>io.ReadFull\<close> on a reader that holds too little.\<close>

definition eofError :: "bytes \<Rightarrow> bytes" where
  "eofError r = (if r = [] then ''EOF'' else ''unexpected EOF'')"

lemma length_leBytes [simp]: "length (leBytes k n) = k"
  by (induction k arbitrary: n) auto

lemma leNat_leBytes: "leNat (leBytes k n) = n mod 256 ^ k"
proof (induction k arbitrary: n)
  case (Suc k)
  have "n mod 256 + 256 * (n div 256 mod 256 ^ k) = n mod (256 * 256 ^ k)"
    by (simp add: mod_mult2_eq)
  then show ?case by (simp add: Suc)
qed simp

lemma length_beBytes [simp]: "length (beBytes k n) = k"
  by (simp add: beBytes_def)

lemma beNat_beBytes: "beNat (beBytes k n) = n mod 256 ^ k"
  by (simp add: beNat_def beBytes_def leNat_leBytes)

lemma bits64_less: "bits64 i < 2 ^ 64"
  using unsigned_less [where w = "word_of_int i :: 64 word"] by (simp add: bits64_def)

lemma int64_bits64: "int64 (int (bits64 i)) = int64 i"
  by (simp add: int64_def bits64_def)

lemma int64_id: "minInt64 \<le> i \<Longrightarrow> i \<le> maxInt64 \<Longrightarrow> int64 i = i"
  by (simp add: int64_def minInt64_def maxInt64_def signed_of_int signed_take_bit_int_eq_self)

lemma int64_range: "minInt64 \<le> int64 i \<and> int64 i \<le> maxInt64"
  using sint_range_size [of "word_of_int i :: 64 word"] by (simp add: int64_def minInt64_def maxInt64_def word_size)

section \<open>The check sum\<close>

text \<open>One round of the inner loop of \<open>oggCRCTable\<close>: a shift, and the polynomial when a bit falls out.\<close>

definition crcRound :: "32 word \<Rightarrow> 32 word" where
  "crcRound r = (if r AND 0x80000000 \<noteq> 0 then push_bit 1 r XOR 0x04C11DB7 else push_bit 1 r)"

definition oggCRCTable :: "32 word list" where
  "oggCRCTable = map (\<lambda>i. (crcRound ^^ 8) (push_bit 24 (of_nat i))) [0..<256]"

definition oggCRC :: "bytes \<Rightarrow> 32 word" where
  "oggCRC bs = fold (\<lambda>b crc. push_bit 8 crc XOR
     oggCRCTable ! unat ((ucast (drop_bit 24 crc) :: 8 word) XOR of_char b)) bs 0"

section \<open>Packets\<close>

text \<open>The number of 48 kHz samples of a packet, from its first byte (RFC 6716).\<close>

definition samplesOf :: "nat \<Rightarrow> nat" where
  "samplesOf config =
     (if config < 12 then [480, 960, 1920, 2880] ! (config mod 4)
      else if config < 16 then [480, 960] ! (config mod 2)
      else [120, 240, 480, 960] ! ((config - 16) mod 4))"

definition opusPacketFrames :: "bytes \<Rightarrow> nat" where
  "opusPacketFrames packet =
     (case packet of
        [] \<Rightarrow> 960
      | toc # rest \<Rightarrow>
          let samplesPerFrame = samplesOf (of_char toc div 8); code = (of_char toc mod 4 :: nat) in
          if code = 0 then samplesPerFrame
          else if code = 1 \<or> code = 2 then samplesPerFrame * 2
          else (case rest of
                  b # _ \<Rightarrow> let n = of_char b mod 64 in if 0 < n then samplesPerFrame * n else samplesPerFrame
                | [] \<Rightarrow> samplesPerFrame))"

record oggOpusInfo =
  Channels :: nat
  PreSkip :: nat
  OpusHead :: bytes
  Packets :: "bytes list"
  GranulePos :: int

section \<open>Writing pages\<close>

text \<open>The segments of a packet: full ones, and a last one that is not full.\<close>

fun lacing :: "nat \<Rightarrow> bytes" where
  "lacing remaining = (if 255 \<le> remaining then char_of (255 :: nat) # lacing (remaining - 255) else [char_of remaining])"

declare lacing.simps [simp del]

definition segmentTable :: "bytes list \<Rightarrow> bytes" where
  "segmentTable packets = concat (map (\<lambda>pkt. lacing (length pkt)) packets)"

text \<open>The header with a given check sum, and the page.  The number of segments is one byte.\<close>

definition pageHeader :: "nat \<Rightarrow> nat \<Rightarrow> int \<Rightarrow> nat \<Rightarrow> nat \<Rightarrow> bytes list \<Rightarrow> bytes" where
  "pageHeader serial seq granule flags checksum packets =
     ''OggS'' @ [char_of (0 :: nat), char_of flags] @ leBytes 8 (bits64 granule) @ leBytes 4 serial @ leBytes 4 seq
       @ leBytes 4 checksum @ [char_of (length (segmentTable packets))] @ segmentTable packets"

definition writeOGGPage :: "nat \<Rightarrow> nat \<Rightarrow> int \<Rightarrow> nat \<Rightarrow> bytes list \<Rightarrow> bytes" where
  "writeOGGPage serial seq granule flags packets =
     (let payload = concat packets;
          checksum = oggCRC (pageHeader serial seq granule flags 0 packets @ payload) in
      pageHeader serial seq granule flags (unat checksum) packets @ payload)"

definition buildOpusTags :: bytes where
  "buildOpusTags = (let vendor = ''corten-matrix'' in
     ''OpusTags'' @ leBytes 4 (length vendor) @ vendor @ leBytes 4 0)"

definition oggSerial :: nat where "oggSerial = 0x4F707573"
definition maxPagePayload :: nat where "maxPagePayload = 48000"
definition maxSegments :: nat where "maxSegments = 255"

text \<open>The loop over the packets: \<open>i\<close> of them are done, \<open>pagePackets\<close> wait for the page with number \<open>seq\<close>, and \<open>granule\<close>
  is the position after the last of them.  A packet that does not fit sends the page off first.\<close>

fun audioPages :: "oggOpusInfo \<Rightarrow> nat \<Rightarrow> bytes list \<Rightarrow> nat \<Rightarrow> nat \<Rightarrow> bytes list \<Rightarrow> nat \<Rightarrow> nat \<Rightarrow> int \<Rightarrow> bytes" where
  "audioPages info fpp [] i seq pagePackets pageSize pageSegs granule =
     (if pagePackets \<noteq> [] then writeOGGPage oggSerial seq (GranulePos info) 4 pagePackets else [])"
| "audioPages info fpp (pkt # pkts) i seq pagePackets pageSize pageSegs granule =
     (let pktSegs = length pkt div 255 + 1;
          next = int64 (int64 (int (PreSkip info)) + int64 (int64 (int (i + 1)) * int64 (int fpp)));
          granule' = (if GranulePos info < next then GranulePos info else next) in
      if (maxPagePayload < pageSize + length pkt \<or> maxSegments < pageSegs + pktSegs) \<and> pagePackets \<noteq> [] then
        writeOGGPage oggSerial seq granule 0 pagePackets
          @ audioPages info fpp pkts (i + 1) (seq + 1) [pkt] (length pkt) pktSegs granule'
      else audioPages info fpp pkts (i + 1) seq (pagePackets @ [pkt]) (pageSize + length pkt) (pageSegs + pktSegs) granule')"

text \<open>\<open>info.Packets[0]\<close> is read before anything looks at the length.\<close>

definition writeOGGOpus :: "oggOpusInfo \<Rightarrow> bytes outcome" where
  "writeOGGOpus info =
     (case Packets info of
        [] \<Rightarrow> Panicked ''index out of range [0] with length 0''
      | first # _ \<Rightarrow> Done (writeOGGPage oggSerial 0 0 2 [OpusHead info] @ writeOGGPage oggSerial 1 0 0 [buildOpusTags]
          @ audioPages info (opusPacketFrames first) (Packets info) 0 2 [] 0 0 0))"

section \<open>Reading pages\<close>

text \<open>The segments of one page: \<open>current\<close> is the packet that is being assembled; a segment that is not full ends it.\<close>

fun readSegments :: "bytes \<Rightarrow> bytes \<Rightarrow> bytes list \<Rightarrow> bytes \<Rightarrow> bytes + bytes list \<times> bytes \<times> bytes" where
  "readSegments [] r packets current = Inr (packets, current, r)"
| "readSegments (segSize # segs) r packets current =
     (if length r < of_char segSize then Inl (eofError r)
      else let current' = current @ take (of_char segSize) r; r' = drop (of_char segSize) r in
        if of_char segSize < (255 :: nat) then readSegments segs r' (packets @ [current']) []
        else readSegments segs r' packets current')"

lemma readSegments_le: "readSegments segs r ps cur = Inr (ps', cur', r') \<Longrightarrow> length r' \<le> length r"
  by (induction segs r ps cur rule: readSegments.induct) (fastforce simp: Let_def split: if_splits)+

function readPages :: "bytes \<Rightarrow> bytes list \<Rightarrow> bytes \<Rightarrow> int \<Rightarrow> bytes + bytes list \<times> int" where
  "readPages r packets current lastGranule =
     (if length r < 4 then Inr (if current \<noteq> [] then packets @ [current] else packets, lastGranule)
      else if take 4 r \<noteq> ''OggS'' then Inl ''invalid OGG page sync''
      else if length (drop 4 r) < 22 then Inl (''truncated OGG page header: '' @ eofError (drop 4 r))
      else let granule = int64 (int (leNat (take 8 (drop 2 (drop 4 r)))));
               lastGranule' = (if 0 < granule then granule else lastGranule) in
        case drop 26 r of
          [] \<Rightarrow> Inl ''EOF''
        | nSeg # r2 \<Rightarrow>
            if length r2 < of_char nSeg then Inl (eofError r2)
            else (case readSegments (take (of_char nSeg) r2) (drop (of_char nSeg) r2) packets current of
                    Inl e \<Rightarrow> Inl e
                  | Inr (packets', current', r3) \<Rightarrow> readPages r3 packets' current' lastGranule'))"
  by pat_completeness auto
termination
proof (relation "measure (\<lambda>(r, _, _, _). length r)")
  fix r :: bytes and ps cur lg nSeg r2 p ps' q cur' r3
  assume "\<not> length r < 4" "drop 26 r = nSeg # r2"
    and "readSegments (take (of_char nSeg) r2) (drop (of_char nSeg) r2) ps cur = Inr p" "(ps', q) = p" "(cur', r3) = q"
  then have "length r3 \<le> length (drop (of_char nSeg) r2)" "length r2 < length r"
    by (auto dest!: readSegments_le dest: arg_cong [where f = length])
  then show "((r3, ps', cur', x), r, ps, cur, lg) \<in> measure (\<lambda>(r, _, _, _). length r)" for x
    by simp
qed simp

declare readPages.simps [simp del]

definition readOGGPackets :: "bytes \<Rightarrow> bytes + bytes list \<times> int" where
  "readOGGPackets bs = readPages bs [] [] 0"

definition parseOGGOpus :: "bytes \<Rightarrow> oggOpusInfo outcome" where
  "parseOGGOpus bs =
     (case readOGGPackets bs of
        Inl e \<Rightarrow> Failed e
      | Inr (packets, granule) \<Rightarrow>
          if length packets < 3 then Failed (''OGG stream too short: '' @ Itoa (int (length packets)) @ '' packets'')
          else let head = packets ! 0 in
            if length head < 19 \<or> take 8 head \<noteq> ''OpusHead'' then Failed ''not an OGG Opus stream''
            else Done \<lparr>Channels = of_char (head ! 9), PreSkip = leNat (take 2 (drop 10 head)), OpusHead = head,
                   Packets = drop 2 packets, GranulePos = granule\<rparr>)"

end
