(* ===== verification/OpusCrc.thy ===== *)
theory OpusCrc
  imports OpusOgg
begin

unbundle bit_operations_syntax

text \<open>
  The check sum of the OGG pages: the table of
  \<open>oggCRC\<close> computes the cyclic redundancy check bit by bit.
\<close>

section \<open>The check sum is the bitwise one\<close>

text \<open>The reference: the message is fed in bit by bit, the most significant first.\<close>

definition crcBit :: "bool \<Rightarrow> 32 word \<Rightarrow> 32 word" where
  "crcBit b crc = (if bit crc 31 \<noteq> b then push_bit 1 crc XOR 0x04C11DB7 else push_bit 1 crc)"

definition bitsOf :: "char \<Rightarrow> bool list" where
  "bitsOf c = map (\<lambda>i. bit (of_char c :: 8 word) i) [7, 6, 5, 4, 3, 2, 1, 0]"

lemma length_bitsOf [simp]: "length (bitsOf c) = 8"
  by (simp add: bitsOf_def)

lemma crcRound_bit: "crcRound r = push_bit 1 r XOR (if bit r 31 then 0x04C11DB7 else 0)"
proof -
  have "(0x80000000 :: 32 word) = push_bit 31 1" by simp
  then show ?thesis by (simp add: crcRound_def bit_iff_and_push_bit_not_eq_0)
qed

lemma crcRound_xor: "crcRound (x XOR y) = crcRound x XOR crcRound y"
  by (simp add: crcRound_bit bit_simps push_bit_xor xor.assoc xor.left_commute)

lemma crcRounds_xor: "(crcRound ^^ k) (x XOR y) = (crcRound ^^ k) x XOR (crcRound ^^ k) y"
  by (induction k) (simp_all add: crcRound_xor)

lemma crcRounds_low: "(\<forall>i. 32 - k \<le> i \<longrightarrow> \<not> bit x i) \<Longrightarrow> k \<le> 32 \<Longrightarrow> (crcRound ^^ k) x = push_bit k x"
proof (induction k)
  case (Suc k)
  then have "(crcRound ^^ k) x = push_bit k x" by simp
  then have "(crcRound ^^ Suc k) x = crcRound (push_bit k x)" by simp
  also have "\<dots> = push_bit 1 (push_bit k x)"
    using Suc.prems unfolding crcRound_bit by (simp add: bit_push_bit_iff)
  finally show ?case by (simp add: push_bit_push_bit del: push_bit_Suc)
qed simp

lemma crcBit_round: "crcBit b crc = crcRound (crc XOR (if b then push_bit 31 1 else 0))"
proof (cases b)
  case True
  have "crcRound (push_bit 31 1) = 0x04C11DB7" by code_simp
  then have "crcRound (crc XOR (if b then push_bit 31 1 else 0)) = crcRound crc XOR 0x04C11DB7"
    using True by (simp only: if_True crcRound_xor)
  then show ?thesis using True by (simp add: crcBit_def crcRound_bit xor.assoc)
qed (simp add: crcBit_def crcRound_bit)

text \<open>A bit that goes in later may as well be there from the start, further down.\<close>

lemma crcRound_delay: "k < 31 \<Longrightarrow> crcRound (x XOR (if b then push_bit k 1 else 0)) = crcRound x XOR (if b then push_bit (Suc k) 1 else 0)"
proof (cases b)
  case True
  assume "k < 31"
  then have "\<not> bit (push_bit k 1 :: 32 word) 31" by (simp only: bit_push_bit_iff bit_1_iff) simp
  then have "crcRound (push_bit k 1) = push_bit 1 (push_bit k 1)"
    by (simp only: crcRound_bit if_False xor.right_neutral)
  then show ?thesis using True by (simp only: if_True crcRound_xor push_bit_push_bit plus_1_eq_Suc)
qed simp

fun laidOut :: "nat \<Rightarrow> bool list \<Rightarrow> 32 word" where
  "laidOut k [] = 0"
| "laidOut k (b # bs) = (if b then push_bit k 1 else 0) XOR laidOut (k - 1) bs"

lemma crcRound_laidOut: "length bs \<le> Suc k \<Longrightarrow> k < 31 \<Longrightarrow> crcRound (x XOR laidOut k bs) = crcRound x XOR laidOut (Suc k) bs"
proof (induction bs arbitrary: k x)
  case (Cons b bs)
  let ?b = "\<lambda>k. if b then push_bit k (1 :: 32 word) else 0"
  have "crcRound (x XOR laidOut k (b # bs)) = crcRound ((x XOR ?b k) XOR laidOut (k - 1) bs)"
    by (simp add: xor.assoc)
  also have "\<dots> = crcRound (x XOR ?b k) XOR laidOut k bs"
  proof (cases k)
    case 0
    then have "bs = []" using Cons.prems by simp
    then show ?thesis by simp
  next
    case (Suc j)
    then show ?thesis using Cons.IH [of j "x XOR ?b k"] Cons.prems by simp
  qed
  finally show ?case using crcRound_delay [of k x b] Cons.prems by (simp add: xor.assoc)
qed simp

lemma crcBits: "length bs \<le> 31 \<Longrightarrow> fold crcBit bs crc = (crcRound ^^ length bs) (crc XOR laidOut 31 bs)"
proof (induction bs arbitrary: crc)
  case (Cons b bs)
  have "crcBit b crc XOR laidOut 31 bs = crcRound ((crc XOR (if b then push_bit 31 1 else 0)) XOR laidOut 30 bs)"
    using Cons.prems crcRound_laidOut [of bs 30 "crc XOR (if b then push_bit 31 1 else 0)"] unfolding crcBit_round
    by (simp del: push_bit_of_1 push_bit_numeral)
  then show ?case using Cons by (simp add: funpow_swap1 xor.assoc)
qed simp

lemma laidOut_byte: "laidOut 31 (bitsOf c) = push_bit 24 (ucast (of_char c :: 8 word))"
proof (rule bit_word_eqI)
  fix n assume "n < LENGTH(32)"
  have one: "bit (if b then push_bit k (1 :: 32 word) else 0) n \<longleftrightarrow> b \<and> n = k" if "k < 32" for b k
    using that by (cases b; simp only: if_True if_False bit_push_bit_iff bit_1_iff) auto
  consider "n < 24" | "n = 24" | "n = 25" | "n = 26" | "n = 27" | "n = 28" | "n = 29" | "n = 30" | "n = 31"
    using \<open>n < LENGTH(32)\<close> by fastforce
  then show "bit (laidOut 31 (bitsOf c)) n \<longleftrightarrow> bit (push_bit 24 (ucast (of_char c :: 8 word)) :: 32 word) n"
    by cases (simp_all only: bitsOf_def list.map laidOut.simps bit_xor_iff one; simp add: bit_simps)+
qed

lemma crcTable: "oggCRCTable ! unat h = (crcRound ^^ 8) (push_bit 24 (ucast (h :: 8 word)))"
proof -
  have "unat h < 256" using unsigned_less [where w = h and 'a = nat] by simp
  moreover have "(of_nat (unat h) :: 32 word) = ucast h" by simp
  ultimately show ?thesis by (simp add: oggCRCTable_def del: upt_rec_numeral funpow.simps)
qed

lemma crcByte: "push_bit 8 crc XOR oggCRCTable ! unat ((ucast (drop_bit 24 crc) :: 8 word) XOR c)
    = (crcRound ^^ 8) (crc XOR push_bit 24 (ucast c))"
proof -
  let ?h = "(ucast (drop_bit 24 crc) :: 8 word) XOR c"
  have split: "crc XOR push_bit 24 (ucast c) = (crc AND mask 24) XOR push_bit 24 (ucast ?h)"
    by (rule bit_word_eqI) (auto simp: bit_simps)
  have "(crcRound ^^ 8) (crc AND mask 24) = push_bit 8 (crc AND mask 24)"
    by (rule crcRounds_low) (auto simp: bit_simps)
  also have "\<dots> = push_bit 8 crc" by (rule bit_word_eqI) (auto simp: bit_simps)
  finally show ?thesis unfolding split crcRounds_xor crcTable by simp
qed

text \<open>C16: The check sum of a page, which is computed with a table of 256 entries, is the bit-by-bit cyclic redundancy check
  of the OGG format: the message goes in bit by bit, most significant first, and the polynomial is subtracted whenever a
  set bit leaves the register.\<close>

theorem crc_bitwise: "oggCRC bs = fold crcBit (concat (map bitsOf bs)) 0"
proof -
  have "fold crcBit (bitsOf c) crc = push_bit 8 crc XOR oggCRCTable ! unat ((ucast (drop_bit 24 crc) :: 8 word) XOR of_char c)" for c crc
    unfolding crcByte using crcBits [of "bitsOf c" crc] laidOut_byte [of c] by simp
  then have "fold (\<lambda>b crc. push_bit 8 crc XOR oggCRCTable ! unat ((ucast (drop_bit 24 crc) :: 8 word) XOR of_char b)) bs crc
      = fold crcBit (concat (map bitsOf bs)) crc" for crc
    by (induction bs arbitrary: crc) (simp_all add: fold_append)
  then show ?thesis by (simp add: oggCRC_def)
qed

end
