(* ===== verification/OpusCaf.thy ===== *)
theory OpusCaf
  imports OpusOgg "HOL-Library.Signed_Division"
begin

text \<open>
  Voice messages in Apple's container, \<open>pkg/connector/audioconvert.go\<close>: writing the chunks of a CAF file, reading them
  back, and the two conversions between the containers.  The sizes of a file are signed 64-bit numbers that its sender
  chooses, so the allocations and the slice expressions are modelled with their run-time checks.
\<close>

section \<open>Run-time checks\<close>

text \<open>\<open>make\<close> of \<open>n\<close> elements of a width: Go's heap addresses have 48 bits.\<close>

definition makeChecked :: "nat \<Rightarrow> int \<Rightarrow> bool" where
  "makeChecked width n = (0 \<le> n \<and> n * int width \<le> 2 ^ 48)"

section \<open>Writing\<close>

definition cafWriteChunk :: "bytes \<Rightarrow> bytes \<Rightarrow> bytes" where
  "cafWriteChunk chunkType content = chunkType @ beBytes 8 (bits64 (int (length content))) @ content"

text \<open>Seven bits per byte, the most significant first, and the top bit on all but the last.\<close>

fun vlqAbove :: "nat \<Rightarrow> bytes \<Rightarrow> bytes" where
  "vlqAbove value acc = (if value = 0 then acc else vlqAbove (value div 128) (char_of (value mod 128 + 128) # acc))"

declare vlqAbove.simps [simp del]

definition cafVLQ :: "int \<Rightarrow> bytes" where
  "cafVLQ value =
     (if value \<le> 0 then [char_of (0 :: nat)]
      else vlqAbove (nat value div 128) [char_of (nat value mod 128)])"

text \<open>The bits of the floating-point number 48000.\<close>

definition sampleRateBits :: nat where "sampleRateBits = 0x40E7700000000000"

definition cafDesc :: "oggOpusInfo \<Rightarrow> nat \<Rightarrow> bytes" where
  "cafDesc info framesPerPacket =
     beBytes 8 sampleRateBits @ ''opus'' @ beBytes 4 0 @ beBytes 4 0 @ beBytes 4 framesPerPacket
       @ beBytes 4 (Channels info) @ beBytes 4 0"

definition cafPakt :: "oggOpusInfo \<Rightarrow> int \<Rightarrow> bytes" where
  "cafPakt info validFrames =
     beBytes 8 (length (Packets info)) @ beBytes 8 (bits64 validFrames) @ beBytes 4 (PreSkip info) @ beBytes 4 0
       @ concat (map (\<lambda>pkt. cafVLQ (int (length pkt))) (Packets info))"

definition writeCAFOpus :: "oggOpusInfo \<Rightarrow> bytes outcome" where
  "writeCAFOpus info =
     (case Packets info of
        [] \<Rightarrow> Failed ''no audio packets''
      | first # _ \<Rightarrow>
          let framesPerPacket = opusPacketFrames first;
              frames = int64 (GranulePos info - int (PreSkip info));
              validFrames = (if frames \<le> 0 then int64 (int (length (Packets info)) * int framesPerPacket) else frames) in
          Done (''caff'' @ beBytes 2 1 @ beBytes 2 0
            @ cafWriteChunk ''desc'' (cafDesc info framesPerPacket)
            @ cafWriteChunk ''magc'' (OpusHead info)
            @ cafWriteChunk ''pakt'' (cafPakt info validFrames)
            @ cafWriteChunk ''data'' (beBytes 4 0 @ concat (Packets info))))"

section \<open>Reading the chunks\<close>

text \<open>The variables of the loop; an empty \<open>cfHead\<close> is the \<open>nil\<close> slice, but \<open>vlqData\<close> is set even when it is empty.\<close>

record caf_state =
  cfHead :: bytes
  cfChannels :: nat
  cfPreSkip :: nat
  cfBytesPer :: nat
  cfFramesPer :: nat
  cfValid :: int
  cfPriming :: int
  cfNum :: int
  cfVlq :: "bytes option"
  cfAudio :: bytes

definition newCaf :: caf_state where
  "newCaf = \<lparr>cfHead = [], cfChannels = 0, cfPreSkip = 0, cfBytesPer = 0, cfFramesPer = 0, cfValid = 0, cfPriming = 0,
     cfNum = 0, cfVlq = None, cfAudio = []\<rparr>"

text \<open>The message of the third error quotes the format; nobody reads it.\<close>

definition readDesc :: "int \<Rightarrow> bytes \<Rightarrow> caf_state \<Rightarrow> (caf_state \<times> bytes) outcome" where
  "readDesc chunkSize r st =
     (if chunkSize < 32 then Failed ''CAF desc chunk too small''
      else if length r < 32 then Failed (eofError r)
      else if take 4 (drop 8 r) \<noteq> ''opus'' then Failed ''CAF format is not opus''
      else Done (st\<lparr>cfBytesPer := beNat (take 4 (drop 16 r)), cfFramesPer := beNat (take 4 (drop 20 r)),
                  cfChannels := beNat (take 4 (drop 24 r))\<rparr>, drop (nat (chunkSize - 32)) (drop 32 r)))"

definition readMagc :: "int \<Rightarrow> bytes \<Rightarrow> caf_state \<Rightarrow> (caf_state \<times> bytes) outcome" where
  "readMagc chunkSize r st =
     (if \<not> makeChecked 1 chunkSize then Panicked ''makeslice: len out of range''
      else if int (length r) < chunkSize then Failed (eofError r)
      else let cookie = take (nat chunkSize) r; r' = drop (nat chunkSize) r in
        if 12 \<le> length cookie \<and> take 8 cookie = ''OpusHead'' then
          Done (st\<lparr>cfHead := cookie, cfPreSkip := leNat (take 2 (drop 10 cookie)),
                  cfChannels := (if 0 < (of_char (cookie ! 9) :: nat) then of_char (cookie ! 9) else cfChannels st)\<rparr>, r')
        else Done (st, r'))"

definition readPakt :: "int \<Rightarrow> bytes \<Rightarrow> caf_state \<Rightarrow> (caf_state \<times> bytes) outcome" where
  "readPakt chunkSize r st =
     (if chunkSize < 24 then Failed ''CAF pakt chunk too small''
      else if length r < 24 then Failed (eofError r)
      else let r' = drop 24 r; remaining = chunkSize - 24 in
        if \<not> makeChecked 1 remaining then Panicked ''makeslice: len out of range''
        else if int (length r') < remaining then Failed (eofError r')
        else Done (st\<lparr>cfNum := int64 (int (beNat (take 8 r))), cfValid := int64 (int (beNat (take 8 (drop 8 r)))),
                    cfPriming := sint (of_nat (beNat (take 4 (drop 16 r))) :: 32 word),
                    cfVlq := Some (take (nat remaining) r')\<rparr>, drop (nat remaining) r'))"

definition readData :: "int \<Rightarrow> bytes \<Rightarrow> caf_state \<Rightarrow> (caf_state \<times> bytes) outcome" where
  "readData chunkSize r st =
     (let skipEdits = (\<lambda>audioData. if 4 \<le> length audioData then drop 4 audioData else audioData) in
      if chunkSize = - 1 then Done (st\<lparr>cfAudio := skipEdits r\<rparr>, [])
      else if \<not> makeChecked 1 chunkSize then Panicked ''makeslice: len out of range''
      else if int (length r) < chunkSize then Failed (eofError r)
      else Done (st\<lparr>cfAudio := skipEdits (take (nat chunkSize) r)\<rparr>, drop (nat chunkSize) r))"

definition readChunk :: "bytes \<Rightarrow> int \<Rightarrow> bytes \<Rightarrow> caf_state \<Rightarrow> (caf_state \<times> bytes) outcome" where
  "readChunk chunkType chunkSize r st =
     (if chunkType = ''desc'' then readDesc chunkSize r st
      else if chunkType = ''magc'' then readMagc chunkSize r st
      else if chunkType = ''pakt'' then readPakt chunkSize r st
      else if chunkType = ''data'' then readData chunkSize r st
      else Done (st, drop (nat chunkSize) r))"

lemma readChunk_le: "readChunk chunkType chunkSize r st = Done (st', r') \<Longrightarrow> length r' \<le> length r"
  by (auto simp: readChunk_def readDesc_def readMagc_def readPakt_def readData_def Let_def split: if_splits)

text \<open>The loop ends, without an error, where no complete chunk header is left.\<close>

function readChunks :: "bytes \<Rightarrow> caf_state \<Rightarrow> caf_state outcome" where
  "readChunks r st =
     (if length r < 12 then Done st
      else case readChunk (take 4 r) (int64 (int (beNat (take 8 (drop 4 r))))) (drop 12 r) st of
             Done (st', r') \<Rightarrow> readChunks r' st'
           | Failed e \<Rightarrow> Failed e
           | Panicked p \<Rightarrow> Panicked p)"
  by pat_completeness auto
termination
proof (relation "measure (\<lambda>(r, _). length r)")
  fix r st p st' r'
  assume "\<not> length r < 12" and "readChunk (take 4 r) (int64 (int (beNat (take 8 (drop 4 r))))) (drop 12 r) st = Done p" "(st', r') = p"
  then have "length r' \<le> length (drop 12 r)" using readChunk_le by metis
  then show "((r', st'), r, st) \<in> measure (\<lambda>(r, _). length r)"
    using \<open>\<not> length r < 12\<close> by simp
qed simp

declare readChunks.simps [simp del]

section \<open>Cutting the audio data\<close>

text \<open>One quantity; the shifts drop what does not fit into 64 bits.\<close>

fun readVLQ :: "64 word \<Rightarrow> bytes \<Rightarrow> 64 word \<times> bytes" where
  "readVLQ val [] = (val, [])"
| "readVLQ val (b # bs) =
     (let val' = push_bit 7 val OR of_nat (of_char b mod 128) in
      if (of_char b :: nat) < 128 then (val', bs) else readVLQ val' bs)"

fun skipVLQ :: "bytes \<Rightarrow> bytes" where
  "skipVLQ [] = []"
| "skipVLQ (b # bs) = (if (of_char b :: nat) < 128 then bs else skipVLQ bs)"

fun decodeSizes :: "nat \<Rightarrow> bool \<Rightarrow> bytes \<Rightarrow> int list" where
  "decodeSizes 0 hasFrameSize bs = []"
| "decodeSizes (Suc n) hasFrameSize bs =
     (if bs = [] then []
      else case readVLQ 0 bs of (val, bs') \<Rightarrow>
        sint val # decodeSizes n hasFrameSize (if hasFrameSize then skipVLQ bs' else bs'))"

definition decodeCAFPacketSizes :: "bytes \<Rightarrow> int \<Rightarrow> bool \<Rightarrow> int list outcome" where
  "decodeCAFPacketSizes bs n hasFrameSize =
     (if \<not> makeChecked 8 n then Panicked ''makeslice: cap out of range'' else Done (decodeSizes (nat n) hasFrameSize bs))"

text \<open>\<open>audioData[offset:offset+size]\<close> for one size after the other, until one reaches beyond the end.\<close>

fun cutPackets :: "bytes \<Rightarrow> int \<Rightarrow> int list \<Rightarrow> bytes list outcome" where
  "cutPackets audioData offset [] = Done []"
| "cutPackets audioData offset (sz # szs) =
     (let end = int64 (offset + sz) in
      if int (length audioData) < end then Done []
      else if end < offset then Panicked ''slice bounds out of range''
      else (case cutPackets audioData end szs of
              Done pkts \<Rightarrow> Done (take (nat (end - offset)) (drop (nat offset) audioData) # pkts)
            | Failed e \<Rightarrow> Failed e
            | Panicked p \<Rightarrow> Panicked p))"

definition buildOpusHead :: "nat \<Rightarrow> nat \<Rightarrow> bytes" where
  "buildOpusHead channels preSkip =
     ''OpusHead'' @ [char_of (1 :: nat), char_of channels] @ leBytes 2 preSkip @ leBytes 4 48000 @ leBytes 3 0"

definition packetSizes :: "caf_state \<Rightarrow> int list outcome" where
  "packetSizes st =
     (if 0 < cfBytesPer st then
        (if \<not> makeChecked 8 (cfNum st) then Panicked ''makeslice: len out of range''
         else Done (replicate (nat (cfNum st)) (int (cfBytesPer st))))
      else case cfVlq st of
          Some vlqData \<Rightarrow> decodeCAFPacketSizes vlqData (cfNum st) (cfFramesPer st = 0)
        | None \<Rightarrow> Failed ''no packet table in CAF'')"

text \<open>What follows the loop.\<close>

definition assembleCAF :: "caf_state \<Rightarrow> oggOpusInfo outcome" where
  "assembleCAF st =
     (let channels = (if cfChannels st = 0 then 1 else cfChannels st);
          head = (if cfHead st = [] then buildOpusHead channels (cfPreSkip st) else cfHead st);
          framesPerPacket = (if cfFramesPer st = 0 then 960 else cfFramesPer st) in
      case packetSizes st of
        Failed e \<Rightarrow> Failed e
      | Panicked p \<Rightarrow> Panicked p
      | Done sizes \<Rightarrow>
          (case cutPackets (cfAudio st) 0 sizes of
             Failed e \<Rightarrow> Failed e
           | Panicked p \<Rightarrow> Panicked p
           | Done packets \<Rightarrow>
               let frames = int64 (cfValid st + cfPriming st);
                   granulePos = (if frames \<le> 0 then int64 (int (length packets) * int framesPerPacket) else frames) in
               Done \<lparr>Channels = channels, PreSkip = cfPreSkip st, OpusHead = head, Packets = packets,
                 GranulePos = granulePos\<rparr>))"

definition parseCAFOpus :: "bytes \<Rightarrow> oggOpusInfo outcome" where
  "parseCAFOpus bs =
     (if length bs < 8 then Failed ''CAF too short''
      else if take 4 bs \<noteq> ''caff'' then Failed ''not a CAF file''
      else case readChunks (drop 8 bs) newCaf of
             Done st \<Rightarrow> assembleCAF st
           | Failed e \<Rightarrow> Failed e
           | Panicked p \<Rightarrow> Panicked p)"

section \<open>Conversions\<close>

text \<open>\<open>filepath.Ext\<close>: from the last dot of the last path element.\<close>

definition Ext :: "bytes \<Rightarrow> bytes" where
  "Ext path =
     (let lastElem = takeWhile (\<lambda>c. c \<noteq> CHR ''/'') (rev path);
          after = takeWhile (\<lambda>c. c \<noteq> CHR ''.'') lastElem in
      if length after < length lastElem then CHR ''.'' # rev after else [])"

definition withExt :: "bytes \<Rightarrow> bytes \<Rightarrow> bytes" where
  "withExt fileName extension = TrimSuffix fileName (Ext fileName) @ extension"

definition convertAudioForIMessage :: "bytes \<Rightarrow> bytes \<Rightarrow> bytes \<Rightarrow> (bytes \<times> bytes \<times> bytes) outcome" where
  "convertAudioForIMessage content mimeType fileName =
     (if mimeType \<noteq> ''audio/ogg'' \<and> \<not> HasPrefix mimeType ''audio/ogg;'' then Done (content, mimeType, fileName)
      else case parseOGGOpus content of
          Panicked p \<Rightarrow> Panicked p
        | Failed _ \<Rightarrow> Done (content, mimeType, fileName)
        | Done info \<Rightarrow>
            (case writeCAFOpus info of
               Panicked p \<Rightarrow> Panicked p
             | Failed _ \<Rightarrow> Done (content, mimeType, fileName)
             | Done cafData \<Rightarrow> Done (cafData, ''audio/x-caf'', withExt fileName ''.caf'')))"

definition convertAudioForMatrix :: "bytes \<Rightarrow> bytes \<Rightarrow> bytes \<Rightarrow> (bytes \<times> bytes \<times> bytes \<times> int) outcome" where
  "convertAudioForMatrix content mimeType fileName =
     (if mimeType \<noteq> ''audio/x-caf'' \<and> \<not> HasSuffix (ToLower fileName) ''.caf'' then Done (content, mimeType, fileName, 0)
      else case parseCAFOpus content of
          Panicked p \<Rightarrow> Panicked p
        | Failed _ \<Rightarrow> Done (content, mimeType, fileName, 0)
        | Done info \<Rightarrow>
            (case writeOGGOpus info of
               Panicked p \<Rightarrow> Panicked p
             | Failed _ \<Rightarrow> Done (content, mimeType, fileName, 0)
             | Done oggData \<Rightarrow>
                 Done (oggData, ''audio/ogg'', withExt fileName ''.ogg'', int64 (GranulePos info * 1000) sdiv 48000)))"

end
