(* ===== verification/OpusSpec.thy ===== *)
theory OpusSpec
  imports OpusCaf
begin

text \<open>
  Voice messages survive both containers: what is written is read back, page by page and chunk by chunk.
\<close>

section \<open>Pages\<close>

lemma of_char_255 [simp]: "(of_char (char_of (255 :: nat)) :: nat) = 255"
  by simp

lemma readSegments_lacing:
  "length p = n \<Longrightarrow> readSegments (lacing n @ segs) (p @ r) ps cur = readSegments segs r (ps @ [cur @ p]) []"
proof (induction n arbitrary: p cur rule: lacing.induct)
  case (1 n)
  show ?case
  proof (cases "255 \<le> n")
    case True
    then have "readSegments (lacing n @ segs) (p @ r) ps cur
        = readSegments (lacing (n - 255) @ segs) (drop 255 p @ r) ps (cur @ take 255 p)"
      using "1.prems" by (subst lacing.simps) (simp add: Let_def)
    also have "\<dots> = readSegments segs r (ps @ [(cur @ take 255 p) @ drop 255 p]) []"
      using True "1.prems" by (intro "1.IH") auto
    finally show ?thesis by simp
  next
    case False
    then show ?thesis using "1.prems" by (subst lacing.simps) (simp add: Let_def)
  qed
qed

lemma readSegments_table:
  "readSegments (segmentTable pkts) (concat pkts @ r) ps [] = Inr (ps @ pkts, [], r)"
proof (induction pkts arbitrary: ps)
  case (Cons p pkts)
  have "readSegments (segmentTable (p # pkts)) (concat (p # pkts) @ r) ps []
      = readSegments (segmentTable pkts) (concat pkts @ r) (ps @ [p]) []"
    using readSegments_lacing [of p "length p" "segmentTable pkts" "concat pkts @ r" ps "[]"]
    by (simp add: segmentTable_def)
  then show ?case using Cons by simp
qed (simp add: segmentTable_def)

lemma length_lacing: "length (lacing n) = n div 255 + 1"
proof (induction n rule: lacing.induct)
  case (1 n)
  show ?case
  proof (cases "255 \<le> n")
    case True
    then have "n div 255 = (n - 255) div 255 + 1" by (simp add: le_div_geq)
    then show ?thesis using 1 True by (subst lacing.simps) simp
  qed (subst lacing.simps, simp)
qed

lemma length_segmentTable: "length (segmentTable pkts) = sum_list (map (\<lambda>p. length p div 255 + 1) pkts)"
  by (induction pkts) (simp_all add: segmentTable_def length_lacing)

lemma granule_back: "minInt64 \<le> g \<Longrightarrow> g \<le> maxInt64 \<Longrightarrow> int64 (int (leNat (leBytes 8 (bits64 g)))) = g"
  using bits64_less [of g] by (simp add: leNat_leBytes int64_bits64 int64_id)

lemma readPages_page:
  assumes "length (segmentTable pkts) \<le> 255" "minInt64 \<le> g" "g \<le> maxInt64"
  shows "readPages (writeOGGPage serial seq g flags pkts @ r) ps [] lg = readPages r (ps @ pkts) [] (if 0 < g then g else lg)"
proof -
  obtain k where page: "writeOGGPage serial seq g flags pkts = pageHeader serial seq g flags k pkts @ concat pkts"
    by (simp add: writeOGGPage_def Let_def)
  define tl where "tl = leBytes 4 serial @ leBytes 4 seq @ leBytes 4 k"
  let ?n = "char_of (length (segmentTable pkts)) :: char"
  have all: "writeOGGPage serial seq g flags pkts @ r
      = ''OggS'' @ [char_of (0 :: nat), char_of flags] @ leBytes 8 (bits64 g) @ tl @ [?n] @ segmentTable pkts @ concat pkts @ r"
    by (simp add: page pageHeader_def tl_def)
  have tl: "length tl = 12" by (simp add: tl_def)
  have n: "(of_char ?n :: nat) = length (segmentTable pkts)" using assms(1) by simp
  have d26: "drop 26 (''OggS'' @ [char_of (0 :: nat), char_of flags] @ leBytes 8 (bits64 g) @ tl @ ?n # segmentTable pkts @ concat pkts @ r)
      = ?n # segmentTable pkts @ concat pkts @ r"
    using tl by simp
  show ?thesis
    unfolding all using tl n d26 readSegments_table [of pkts r ps]
    by (subst readPages.simps) (simp add: Let_def granule_back assms)
qed

section \<open>Streams\<close>

text \<open>A packet that fits into one page has at most 255 segments.\<close>

definition fitsPage :: "bytes \<Rightarrow> bool" where
  "fitsPage pkt = (length pkt div 255 + 1 \<le> 255)"

lemma fitsPage_less: "fitsPage pkt \<longleftrightarrow> length pkt < 65025"
  by (simp add: fitsPage_def) linarith

lemma audioPages_read:
  assumes "pp @ pkts \<noteq> []" "segs = length (segmentTable pp)" "segs \<le> 255" "list_all fitsPage pkts"
    and "minInt64 \<le> gr" "gr \<le> maxInt64" "0 < GranulePos info" "GranulePos info \<le> maxInt64"
  shows "readPages (audioPages info fpp pkts i seq pp sz segs gr) ps [] lg = Inr (ps @ pp @ pkts, GranulePos info)"
  using assms
proof (induction pkts arbitrary: i seq pp sz segs gr ps lg)
  case Nil
  have "readPages (writeOGGPage oggSerial seq (GranulePos info) 4 pp @ []) ps [] lg
      = readPages [] (ps @ pp) [] (GranulePos info)"
    using Nil by (subst readPages_page) (auto simp: minInt64_def)
  then show ?case using Nil by (simp add: readPages.simps [of "[]"])
next
  case (Cons p pkts)
  define next' where "next' = int64 (int64 (int (PreSkip info)) + int64 (int64 (int (i + 1)) * int64 (int fpp)))"
  define gr' where "gr' = (if GranulePos info < next' then GranulePos info else next')"
  have gr': "minInt64 \<le> gr'" "gr' \<le> maxInt64"
    using int64_range [of "int64 (int (PreSkip info)) + int64 (int64 (int (i + 1)) * int64 (int fpp))"] Cons.prems(7,8)
    by (auto simp: gr'_def next'_def minInt64_def)
  have p: "fitsPage p" "length (segmentTable [p]) = length p div 255 + 1"
    using Cons.prems(4) by (simp_all add: length_segmentTable)
  let ?flush = "(maxPagePayload < sz + length p \<or> maxSegments < segs + (length p div 255 + 1)) \<and> pp \<noteq> []"
  have step: "audioPages info fpp (p # pkts) i seq pp sz segs gr = (if ?flush
      then writeOGGPage oggSerial seq gr 0 pp @ audioPages info fpp pkts (i + 1) (seq + 1) [p] (length p) (length p div 255 + 1) gr'
      else audioPages info fpp pkts (i + 1) seq (pp @ [p]) (sz + length p) (segs + (length p div 255 + 1)) gr')"
    by (simp only: audioPages.simps Let_def gr'_def next'_def)
  show ?case
  proof (cases ?flush)
    case True
    let ?rest = "audioPages info fpp pkts (i + 1) (seq + 1) [p] (length p) (length p div 255 + 1) gr'"
    have "readPages ?rest (ps @ pp) [] lg' = Inr ((ps @ pp) @ [p] @ pkts, GranulePos info)" for lg'
      using Cons.prems p gr' by (intro Cons.IH) (auto simp: fitsPage_def)
    then have "readPages (writeOGGPage oggSerial seq gr 0 pp @ ?rest) ps [] lg = Inr ((ps @ pp) @ [p] @ pkts, GranulePos info)"
      using Cons.prems(2,3,5,6) by (simp add: readPages_page)
    then show ?thesis using True unfolding step by simp
  next
    case False
    have segs: "segs + (length p div 255 + 1) = length (segmentTable (pp @ [p]))"
      using Cons.prems(2) by (simp add: length_segmentTable)
    have "segs + (length p div 255 + 1) \<le> 255"
      using False p(1) Cons.prems(2) by (cases "pp = []") (auto simp: maxSegments_def fitsPage_def segmentTable_def)
    then have "readPages (audioPages info fpp pkts (i + 1) seq (pp @ [p]) (sz + length p) (segs + (length p div 255 + 1)) gr') ps [] lg
        = Inr (ps @ (pp @ [p]) @ pkts, GranulePos info)"
      using Cons.prems gr' segs by (intro Cons.IH) auto
    then show ?thesis using False unfolding step by auto
  qed
qed

text \<open>What \<open>parseOGGOpus\<close> hands out: the header packet agrees with the fields read from it.\<close>

definition opusStream :: "oggOpusInfo \<Rightarrow> bool" where
  "opusStream info \<longleftrightarrow> 19 \<le> length (OpusHead info) \<and> take 8 (OpusHead info) = ''OpusHead''
     \<and> Channels info = of_char (OpusHead info ! 9) \<and> PreSkip info = leNat (take 2 (drop 10 (OpusHead info)))
     \<and> Packets info \<noteq> []"

lemma parse_stream: "parseOGGOpus bs = Done info \<Longrightarrow> opusStream info"
  by (auto simp: parseOGGOpus_def opusStream_def Let_def split: sum.splits prod.splits if_splits)

lemma readPages_granule: "readPages r ps cur lg = Inr (ps', g) \<Longrightarrow> 0 \<le> lg \<Longrightarrow> lg \<le> maxInt64 \<Longrightarrow> 0 \<le> g \<and> g \<le> maxInt64"
proof (induction r ps cur lg rule: readPages.induct)
  case (1 r ps cur lg)
  let ?lg = "if 0 < int64 (int (leNat (take 8 (drop 2 (drop 4 r))))) then int64 (int (leNat (take 8 (drop 2 (drop 4 r))))) else lg"
  have lg: "0 \<le> ?lg" "?lg \<le> maxInt64" using 1(3,4) int64_range by auto
  show ?case
    using 1(2-4) lg 1(1) by (subst (asm) readPages.simps) (auto simp: Let_def split: if_splits list.splits sum.splits)
qed

lemma parse_granule: "parseOGGOpus bs = Done info \<Longrightarrow> 0 \<le> GranulePos info \<and> GranulePos info \<le> maxInt64"
  by (auto simp: parseOGGOpus_def readOGGPackets_def Let_def maxInt64_def dest!: readPages_granule
      split: sum.splits prod.splits if_splits)

lemma tags_fit: "fitsPage buildOpusTags"
  by (simp add: fitsPage_def buildOpusTags_def)

lemma oggStream_back:
  assumes "opusStream (info\<lparr>Channels := c\<rparr>)" "list_all fitsPage (OpusHead info # Packets info)"
    and "0 < GranulePos info" "GranulePos info \<le> maxInt64"
  shows "\<exists>bs. writeOGGOpus info = Done bs \<and> parseOGGOpus bs = Done (info\<lparr>Channels := c\<rparr>)"
proof -
  obtain first rest where pkts: "Packets info = first # rest" using assms(1) by (cases "Packets info") (auto simp: opusStream_def)
  let ?audio = "audioPages info (opusPacketFrames first) (Packets info) 0 2 [] 0 0 0"
  let ?bs = "writeOGGPage oggSerial 0 0 2 [OpusHead info] @ writeOGGPage oggSerial 1 0 0 [buildOpusTags] @ ?audio"
  have "readOGGPackets ?bs = readPages ?audio [OpusHead info, buildOpusTags] [] 0"
    using assms(2) tags_fit unfolding readOGGPackets_def
    by (simp add: readPages_page length_segmentTable fitsPage_def minInt64_def maxInt64_def)
  also have "\<dots> = Inr ([OpusHead info, buildOpusTags] @ [] @ Packets info, GranulePos info)"
    using assms pkts by (intro audioPages_read) (auto simp: segmentTable_def minInt64_def maxInt64_def)
  finally have "parseOGGOpus ?bs = Done (info\<lparr>Channels := c\<rparr>)"
    using assms(1) pkts by (cases info) (auto simp: parseOGGOpus_def opusStream_def Let_def)
  moreover have "writeOGGOpus info = Done ?bs" using pkts by (simp add: writeOGGOpus_def)
  ultimately show ?thesis by blast
qed

section \<open>Quantities\<close>

lemma shift_or: "m < 128 \<Longrightarrow> push_bit 7 a OR of_nat m = a * 128 + (of_nat m :: 64 word)"
proof -
  assume "m < 128"
  then have "of_nat m = take_bit 7 (of_nat m :: 64 word)"
    by (simp add: of_nat_take_bit [symmetric] take_bit_nat_eq_self)
  then have "\<not> bit (push_bit 7 a) n \<or> \<not> bit (of_nat m :: 64 word) n" for n
    by (metis bit_push_bit_iff bit_take_bit_iff linorder_not_less)
  then have "push_bit 7 a + of_nat m = push_bit 7 a OR of_nat m" by (intro disjunctive_add) blast
  then show ?thesis by (simp add: push_bit_eq_mult)
qed

lemma readVLQ_above: "readVLQ 0 (vlqAbove n acc @ r) = readVLQ (of_nat n) (acc @ r)"
proof (induction n acc rule: vlqAbove.induct)
  case (1 n acc)
  show ?case
  proof (cases "n = 0")
    case False
    have "(of_nat (n div 128) * 128 + of_nat (n mod 128) :: 64 word) = of_nat (n div 128 * 128 + n mod 128)"
      by (simp only: of_nat_add of_nat_mult of_nat_numeral)
    moreover have "(n mod 128 + 128) mod 256 = n mod 128 + 128" by simp
    ultimately show ?thesis
      using False 1 by (subst vlqAbove.simps) (simp add: Let_def shift_or)
  qed (simp add: vlqAbove.simps)
qed

lemma readVLQ_back: "0 \<le> n \<Longrightarrow> readVLQ 0 (cafVLQ n @ r) = (of_int n, r)"
proof -
  assume "0 \<le> n"
  moreover have "(of_nat (nat n div 128) * 128 + of_nat (nat n mod 128) :: 64 word) = of_nat (nat n div 128 * 128 + nat n mod 128)"
    by (simp only: of_nat_add of_nat_mult of_nat_numeral)
  moreover have "nat n mod 128 < 256" by (rule order.strict_trans [OF mod_less_divisor]) simp_all
  ultimately show ?thesis
    by (cases "n = 0") (simp_all add: cafVLQ_def readVLQ_above Let_def shift_or)
qed

lemma vlqAbove_nonempty: "acc \<noteq> [] \<Longrightarrow> vlqAbove n acc \<noteq> []"
  by (induction n acc rule: vlqAbove.induct) (subst vlqAbove.simps, simp)

lemma cafVLQ_nonempty [simp]: "cafVLQ n \<noteq> []"
  by (simp add: cafVLQ_def vlqAbove_nonempty)

text \<open>A packet table is read back exactly, and whatever follows it is left alone.\<close>

lemma packet_table:
  assumes "list_all (\<lambda>n. 0 \<le> n \<and> n \<le> maxInt64) sizes" "length sizes < 2 ^ 45"
  shows "decodeCAFPacketSizes (concat (map cafVLQ sizes) @ rest) (int (length sizes)) False = Done sizes"
proof -
  have "decodeSizes (length sizes) False (concat (map cafVLQ sizes) @ rest) = sizes"
    using assms(1)
  proof (induction sizes)
    case (Cons n sizes)
    then have "sint (of_int n :: 64 word) = n" using int64_id [of n] by (simp add: int64_def minInt64_def)
    then show ?case using Cons by (simp add: readVLQ_back)
  qed simp
  then show ?thesis using assms(2) by (simp add: decodeCAFPacketSizes_def makeChecked_def)
qed

section \<open>Chunks\<close>

lemma readChunks_chunk:
  assumes "length chunkType = 4" "int (length content) \<le> maxInt64"
    and "readChunk chunkType (int (length content)) (content @ r) st = Done (st', r)"
  shows "readChunks (cafWriteChunk chunkType content @ r) st = readChunks r st'"
proof -
  have "int64 (int (beNat (beBytes 8 (bits64 (int (length content)))))) = int (length content)"
    using assms(2) bits64_less [of "int (length content)"]
    by (simp add: beNat_beBytes int64_bits64 int64_id minInt64_def)
  then show ?thesis
    using assms(1,3) by (subst readChunks.simps) (simp add: cafWriteChunk_def)
qed

lemma cutPackets_back:
  assumes "int (length (pre @ concat pkts @ post)) \<le> maxInt64"
  shows "cutPackets (pre @ concat pkts @ post) (int (length pre)) (map (\<lambda>p. int (length p)) pkts) = Done pkts"
  using assms
proof (induction pkts arbitrary: pre)
  case (Cons p pkts)
  have "int64 (int (length pre) + int (length p)) = int (length (pre @ p))"
    using Cons.prems by (simp add: int64_id minInt64_def)
  moreover have "cutPackets ((pre @ p) @ concat pkts @ post) (int (length (pre @ p))) (map (\<lambda>p. int (length p)) pkts) = Done pkts"
    using Cons.prems by (intro Cons.IH) simp
  ultimately show ?case by (simp add: Let_def nat_int_add)
qed simp

lemma samplesOf_bounds: "120 \<le> samplesOf k \<and> samplesOf k \<le> 2880"
proof -
  have "samplesOf k \<in> set [480, 960, 1920, 2880] \<union> set [480, 960] \<union> set [120, 240, 480, 960]"
    unfolding samplesOf_def using nth_mem [of "k mod 4" "[480, 960, 1920, 2880 :: nat]"]
      nth_mem [of "k mod 2" "[480, 960 :: nat]"] nth_mem [of "(k - 16) mod 4" "[120, 240, 480, 960 :: nat]"]
    by (simp del: set_simps)
  then show ?thesis by auto
qed

lemma samples_times: "0 < n \<Longrightarrow> n < 64 \<Longrightarrow> 120 \<le> samplesOf k * n \<and> samplesOf k * n \<le> 181440"
  using samplesOf_bounds [of k] mult_le_mono [of "samplesOf k" 2880 n 63] mult_le_mono [of 120 "samplesOf k" 1 n] by auto

lemma opusPacketFrames_bounds: "120 \<le> opusPacketFrames pkt \<and> opusPacketFrames pkt \<le> 181440"
  using samples_times [of 1] samples_times [of 2] samples_times [of "of_char b mod 64" for b :: char]
  by (auto simp: opusPacketFrames_def Let_def split: list.split)

lemma leNat_less: "leNat bs < 256 ^ length bs"
proof (induction bs)
  case (Cons c bs)
  have "of_char c + 256 * leNat bs < 256 * (leNat bs + 1)" using nat_of_char_less_256 [of c] by simp
  also have "\<dots> \<le> 256 * 256 ^ length bs" using Cons by (intro mult_le_mono) auto
  finally show ?case by simp
qed simp

lemma stream_preSkip: "opusStream info \<Longrightarrow> PreSkip info < 65536"
  using leNat_less [of "take 2 (drop 10 (OpusHead info))"] by (auto simp: opusStream_def min_def split: if_splits)

lemma leNat_append: "leNat (xs @ ys) = leNat xs + 256 ^ length xs * leNat ys"
  by (induction xs) (simp_all add: distrib_left mult.assoc)

lemma int64_negative: "2 ^ 63 \<le> n \<Longrightarrow> n < 2 ^ 64 \<Longrightarrow> int64 n < 0"
proof -
  assume n: "2 ^ 63 \<le> n" "n < 2 ^ 64"
  have "(n + 2 ^ 63) mod 2 ^ 64 = (n + 2 ^ 63 - 2 ^ 64) mod 2 ^ 64"
    using mod_add_self2 [of "n + 2 ^ 63 - 2 ^ 64" "2 ^ 64"] by (simp add: add.commute)
  also have "\<dots> = n + 2 ^ 63 - 2 ^ 64" using n by (intro mod_pos_pos_trivial) auto
  finally show ?thesis using n by (simp add: int64_def int_word_sint)
qed

lemma stream_channels: "opusStream info \<Longrightarrow> Channels info < 256"
  by (simp add: opusStream_def)

text \<open>The state after the four chunks.\<close>

definition cafRead :: "oggOpusInfo \<Rightarrow> nat \<Rightarrow> int \<Rightarrow> caf_state" where
  "cafRead info fpp validFrames =
     \<lparr>cfHead = OpusHead info, cfChannels = Channels info, cfPreSkip = PreSkip info, cfBytesPer = 0, cfFramesPer = fpp,
      cfValid = validFrames, cfPriming = int (PreSkip info), cfNum = int (length (Packets info)),
      cfVlq = Some (concat (map (\<lambda>p. cafVLQ (int (length p))) (Packets info))), cfAudio = concat (Packets info)\<rparr>"

lemma be4: "n < 2 ^ 32 \<Longrightarrow> beNat (beBytes 4 n) = n"
  by (simp add: beNat_beBytes)

lemma desc_read:
  assumes "fpp < 2 ^ 32" "Channels info < 2 ^ 32"
  shows "readChunk ''desc'' (int (length (cafDesc info fpp))) (cafDesc info fpp @ r) newCaf
    = Done (newCaf\<lparr>cfFramesPer := fpp, cfChannels := Channels info\<rparr>, r)"
  using assms by (simp add: readChunk_def readDesc_def cafDesc_def be4 newCaf_def)

lemma magc_read:
  assumes "opusStream info" "int (length (OpusHead info)) \<le> 2 ^ 48" "cfChannels st = Channels info"
  shows "readChunk ''magc'' (int (length (OpusHead info))) (OpusHead info @ r) st
    = Done (st\<lparr>cfHead := OpusHead info, cfPreSkip := PreSkip info, cfChannels := Channels info\<rparr>, r)"
  using assms by (simp add: readChunk_def readMagc_def makeChecked_def opusStream_def Let_def)

lemma pakt_read:
  assumes "length (Packets info) < 2 ^ 45" "int (length (cafPakt info valid)) \<le> 2 ^ 48" "PreSkip info < 65536"
    and "minInt64 \<le> valid" "valid \<le> maxInt64"
  shows "readChunk ''pakt'' (int (length (cafPakt info valid))) (cafPakt info valid @ r) st
    = Done (st\<lparr>cfNum := int (length (Packets info)), cfValid := valid, cfPriming := int (PreSkip info),
        cfVlq := Some (concat (map (\<lambda>p. cafVLQ (int (length p))) (Packets info)))\<rparr>, r)"
proof -
  let ?vlq = "concat (map (\<lambda>p. cafVLQ (int (length p))) (Packets info))"
  have n: "int64 (int (beNat (beBytes 8 (length (Packets info))))) = int (length (Packets info))"
    using assms(1) by (simp add: beNat_beBytes int64_id minInt64_def maxInt64_def)
  have v: "int64 (int (beNat (beBytes 8 (bits64 valid)))) = valid"
    using assms(4,5) bits64_less [of valid] by (simp add: beNat_beBytes int64_bits64 int64_id)
  have p: "sint (of_nat (beNat (beBytes 4 (PreSkip info))) :: 32 word) = int (PreSkip info)"
    using assms(3) by (simp add: be4 signed_of_nat signed_take_bit_int_eq_self)
  show ?thesis
    using assms(2) n v p by (simp add: readChunk_def readPakt_def cafPakt_def makeChecked_def)
qed

lemma data_read:
  assumes "int (length (concat pkts)) + 4 \<le> 2 ^ 48"
  shows "readChunk ''data'' (int (length (beBytes 4 0 @ concat pkts))) ((beBytes 4 0 @ concat pkts) @ r) st
    = Done (st\<lparr>cfAudio := concat pkts\<rparr>, r)"
  using assms by (simp add: readChunk_def readData_def makeChecked_def Let_def)

section \<open>Files\<close>

definition validFramesOf :: "oggOpusInfo \<Rightarrow> int" where
  "validFramesOf info = (if GranulePos info \<le> int (PreSkip info)
     then int (length (Packets info)) * int (opusPacketFrames (Packets info ! 0)) else GranulePos info - int (PreSkip info))"

text \<open>What reading a written file gives: at least one channel, and a granule position derived from the number of packets
  when the stream had none beyond the samples to skip.\<close>

definition asReadBack :: "oggOpusInfo \<Rightarrow> oggOpusInfo" where
  "asReadBack info = info\<lparr>Channels := max 1 (Channels info), GranulePos := validFramesOf info + int (PreSkip info)\<rparr>"

definition cafPrefix :: "oggOpusInfo \<Rightarrow> bytes" where
  "cafPrefix info = ''caff'' @ beBytes 2 1 @ beBytes 2 0
     @ cafWriteChunk ''desc'' (cafDesc info (opusPacketFrames (Packets info ! 0)))
     @ cafWriteChunk ''magc'' (OpusHead info) @ cafWriteChunk ''pakt'' (cafPakt info (validFramesOf info))"

definition cafFile :: "oggOpusInfo \<Rightarrow> bytes" where
  "cafFile info = cafPrefix info @ cafWriteChunk ''data'' (beBytes 4 0 @ concat (Packets info))"

lemmas cafFile_defs = cafFile_def cafPrefix_def

lemma frames_bound:
  assumes "length (Packets info) < 2 ^ 45"
  shows "minInt64 \<le> int (length (Packets info)) * int (opusPacketFrames (Packets info ! 0))
    \<and> int (length (Packets info)) * int (opusPacketFrames (Packets info ! 0)) \<le> maxInt64 - 65536"
proof
  have "0 \<le> int (length (Packets info)) * int (opusPacketFrames (Packets info ! 0))" by simp
  then show "minInt64 \<le> int (length (Packets info)) * int (opusPacketFrames (Packets info ! 0))"
    unfolding minInt64_def by linarith
  have "int (length (Packets info)) * int (opusPacketFrames (Packets info ! 0)) \<le> 2 ^ 45 * 181440"
    using opusPacketFrames_bounds [of "Packets info ! 0"] assms by (intro mult_mono) auto
  then show "int (length (Packets info)) * int (opusPacketFrames (Packets info ! 0)) \<le> maxInt64 - 65536"
    by (simp add: maxInt64_def)
qed

lemma writeCAF_file:
  assumes "Packets info \<noteq> []" "length (Packets info) < 2 ^ 45" "PreSkip info < 65536" "0 \<le> GranulePos info" "GranulePos info \<le> maxInt64"
  shows "writeCAFOpus info = Done (cafFile info)"
proof -
  obtain first rest where pkts: "Packets info = first # rest" using assms(1) by (cases "Packets info") auto
  have "int64 (GranulePos info - int (PreSkip info)) = GranulePos info - int (PreSkip info)"
    using assms by (intro int64_id) (auto simp: minInt64_def)
  moreover have "int64 (int (length (Packets info)) * int (opusPacketFrames first))
      = int (length (Packets info)) * int (opusPacketFrames first)"
    using frames_bound [OF assms(2)] unfolding pkts nth_Cons_0 by (intro int64_id) simp_all
  ultimately show ?thesis
    using pkts by (simp add: writeCAFOpus_def cafFile_defs validFramesOf_def Let_def)
qed

lemma vlq_count: "length ls \<le> length (concat (map cafVLQ ls))"
proof (induction ls)
  case (Cons n ls)
  have "1 \<le> length (cafVLQ n)" by (simp add: Suc_le_eq)
  then show ?case using Cons by simp
qed simp

lemma file_bounds:
  assumes "length (cafFile info) < 2 ^ 45"
  shows "length (Packets info) < 2 ^ 45" "length (cafPakt info (validFramesOf info)) < 2 ^ 45"
    "length (OpusHead info) < 2 ^ 45" "length (concat (Packets info)) + 4 < 2 ^ 45"
proof -
  have "length (Packets info) \<le> length (cafPakt info (validFramesOf info))"
    using vlq_count [of "map (\<lambda>p. int (length p)) (Packets info)"] by (simp add: cafPakt_def comp_def)
  then show "length (Packets info) < 2 ^ 45" "length (cafPakt info (validFramesOf info)) < 2 ^ 45"
    "length (OpusHead info) < 2 ^ 45" "length (concat (Packets info)) + 4 < 2 ^ 45"
    using assms by (simp_all add: cafFile_defs cafWriteChunk_def)
qed

lemma prefix_read:
  assumes "opusStream info" "length (cafFile info) < 2 ^ 45" "0 \<le> GranulePos info" "GranulePos info \<le> maxInt64"
  shows "readChunks (drop 8 (cafPrefix info @ r)) newCaf
    = readChunks r ((cafRead info (opusPacketFrames (Packets info ! 0)) (validFramesOf info))\<lparr>cfAudio := []\<rparr>)"
proof -
  let ?fpp = "opusPacketFrames (Packets info ! 0)" and ?vf = "validFramesOf info"
  note b = file_bounds [OF assms(2)]
  note sk = stream_preSkip [OF assms(1)] and ch = stream_channels [OF assms(1)] and fpp = opusPacketFrames_bounds [of "Packets info ! 0"]
  have vf: "minInt64 \<le> ?vf" "?vf \<le> maxInt64"
    using frames_bound [OF b(1)] assms(3,4) sk by (auto simp: validFramesOf_def minInt64_def)
  let ?st1 = "newCaf\<lparr>cfFramesPer := ?fpp, cfChannels := Channels info\<rparr>"
  let ?st2 = "?st1\<lparr>cfHead := OpusHead info, cfPreSkip := PreSkip info, cfChannels := Channels info\<rparr>"
  let ?st3 = "?st2\<lparr>cfNum := int (length (Packets info)), cfValid := ?vf, cfPriming := int (PreSkip info),
        cfVlq := Some (concat (map (\<lambda>p. cafVLQ (int (length p))) (Packets info)))\<rparr>"
  have "drop 8 (cafPrefix info @ r) = cafWriteChunk ''desc'' (cafDesc info ?fpp) @ cafWriteChunk ''magc'' (OpusHead info)
      @ cafWriteChunk ''pakt'' (cafPakt info ?vf) @ r"
    by (simp add: cafPrefix_def)
  then have "readChunks (drop 8 (cafPrefix info @ r)) newCaf = readChunks (cafWriteChunk ''magc'' (OpusHead info)
      @ cafWriteChunk ''pakt'' (cafPakt info ?vf) @ r) ?st1"
    using fpp ch desc_read [of ?fpp info]
    by (simp only:) (rule readChunks_chunk, simp_all add: maxInt64_def cafDesc_def)
  also have "\<dots> = readChunks (cafWriteChunk ''pakt'' (cafPakt info ?vf) @ r) ?st2"
    using b(3) assms(1) by (intro readChunks_chunk magc_read) (simp_all add: maxInt64_def)
  also have "\<dots> = readChunks r ?st3"
    using b(1,2) sk vf by (intro readChunks_chunk pakt_read) (simp_all add: maxInt64_def)
  finally show ?thesis by (simp add: cafRead_def newCaf_def)
qed

lemma file_read:
  assumes "opusStream info" "length (cafFile info) < 2 ^ 45" "0 \<le> GranulePos info" "GranulePos info \<le> maxInt64"
  shows "readChunks (drop 8 (cafFile info)) newCaf = Done (cafRead info (opusPacketFrames (Packets info ! 0)) (validFramesOf info))"
proof -
  let ?st = "cafRead info (opusPacketFrames (Packets info ! 0)) (validFramesOf info)"
  let ?d = "cafWriteChunk ''data'' (beBytes 4 0 @ concat (Packets info))"
  have "readChunks (drop 8 (cafFile info)) newCaf = readChunks (?d @ []) (?st\<lparr>cfAudio := []\<rparr>)"
    using prefix_read [OF assms, of ?d] by (simp add: cafFile_def)
  also have "\<dots> = readChunks [] (?st\<lparr>cfAudio := [], cfAudio := concat (Packets info)\<rparr>)"
    using file_bounds(4) [OF assms(2)] by (intro readChunks_chunk data_read) (simp_all add: maxInt64_def)
  finally show ?thesis by (simp add: readChunks.simps [of "[]"] cafRead_def)
qed

lemma asReadBack_granule:
  assumes "opusStream info" "length (cafFile info) < 2 ^ 45" "GranulePos info \<le> maxInt64"
  shows "0 < GranulePos (asReadBack info)" "GranulePos (asReadBack info) \<le> maxInt64"
proof -
  have "0 < int (length (Packets info)) * int (opusPacketFrames (Packets info ! 0))"
    using opusPacketFrames_bounds [of "Packets info ! 0"] assms(1) by (simp add: opusStream_def)
  then show "0 < GranulePos (asReadBack info)" by (simp add: asReadBack_def validFramesOf_def)
  show "GranulePos (asReadBack info) \<le> maxInt64"
    using frames_bound [OF file_bounds(1) [OF assms(2)]] stream_preSkip [OF assms(1)] assms(3)
    by (simp add: asReadBack_def validFramesOf_def)
qed

lemma packetSizes_read:
  assumes "length (cafFile info) < 2 ^ 45"
  shows "packetSizes ((cafRead info (opusPacketFrames (Packets info ! 0)) vf)\<lparr>cfAudio := audio\<rparr>)
    = Done (map (\<lambda>p. int (length p)) (Packets info))"
proof -
  note b = file_bounds [OF assms]
  have "length p \<le> length (concat (Packets info))" if "p \<in> set (Packets info)" for p
    using member_le_sum_list [of "length p" "map length (Packets info)"] that by (simp add: length_concat)
  then have "list_all (\<lambda>n. 0 \<le> n \<and> n \<le> maxInt64) (map (\<lambda>p. int (length p)) (Packets info))"
    using b(4) by (force simp: list_all_iff maxInt64_def)
  from packet_table [OF this, of "[]"] b(1) opusPacketFrames_bounds [of "Packets info ! 0"]
  show ?thesis by (simp add: packetSizes_def cafRead_def comp_def)
qed

lemma caf_back:
  assumes "opusStream info" "length (cafFile info) < 2 ^ 45" "0 \<le> GranulePos info" "GranulePos info \<le> maxInt64"
  shows "parseCAFOpus (cafFile info) = Done (asReadBack info)"
proof -
  let ?st = "cafRead info (opusPacketFrames (Packets info ! 0)) (validFramesOf info)"
  have "packetSizes ?st = Done (map (\<lambda>p. int (length p)) (Packets info))"
    using packetSizes_read [OF assms(2), where vf = "validFramesOf info" and audio = "cfAudio ?st"] by simp
  moreover have "cutPackets (concat (Packets info)) 0 (map (\<lambda>p. int (length p)) (Packets info)) = Done (Packets info)"
    using cutPackets_back [of "[]" "Packets info" "[]"] file_bounds(4) [OF assms(2)] by (simp add: maxInt64_def)
  moreover have "0 < validFramesOf info + int (PreSkip info)" "validFramesOf info + int (PreSkip info) \<le> maxInt64"
    using asReadBack_granule [OF assms(1,2,4)] by (simp_all add: asReadBack_def)
  moreover have "OpusHead info \<noteq> []" using assms(1) by (auto simp: opusStream_def)
  ultimately have "assembleCAF ?st = Done (asReadBack info)"
    by (simp add: assembleCAF_def cafRead_def Let_def int64_id minInt64_def asReadBack_def)
  then show ?thesis
    using file_read [OF assms] by (simp add: parseCAFOpus_def cafFile_defs)
qed

text \<open>Without the data chunk there are no packets, and the first of them is looked at all the same.\<close>

lemma prefix_panics:
  assumes "opusStream info" "length (cafFile info) < 2 ^ 45" "0 \<le> GranulePos info" "GranulePos info \<le> maxInt64"
    and "Packets info ! 0 \<noteq> []"
  shows "convertAudioForMatrix (cafPrefix info) ''audio/x-caf'' name = Panicked ''index out of range [0] with length 0''"
proof -
  let ?st = "(cafRead info (opusPacketFrames (Packets info ! 0)) (validFramesOf info))\<lparr>cfAudio := []\<rparr>"
  have "readChunks (drop 8 (cafPrefix info)) newCaf = Done ?st"
    using prefix_read [OF assms(1-4), of "[]"] by (simp add: readChunks.simps [of "[]"])
  then have p: "parseCAFOpus (cafPrefix info) = assembleCAF ?st" by (simp add: parseCAFOpus_def cafPrefix_def)
  obtain first rest where pkts: "Packets info = first # rest" using assms(1) by (cases "Packets info") (auto simp: opusStream_def)
  have "0 < int64 (int (length first))"
    using assms(5) file_bounds(4) [OF assms(2)] pkts by (simp add: int64_id minInt64_def maxInt64_def)
  then have "cutPackets [] 0 (map (\<lambda>p. int (length p)) (Packets info)) = Done []" by (simp add: pkts)
  then obtain info' where "assembleCAF ?st = Done info'" "Packets info' = []"
    using packetSizes_read [OF assms(2)] by (simp add: assembleCAF_def Let_def)
  then show ?thesis by (simp add: convertAudioForMatrix_def p writeOGGOpus_def)
qed

text \<open>Nor is the sign of a size looked at before a slice of that size is made.\<close>

lemma negative_size_panics:
  assumes "length version = 4" "length sz = 8" "128 \<le> (of_char (hd sz) :: nat)"
  shows "convertAudioForMatrix (''caff'' @ version @ ''magc'' @ sz @ rest) ''audio/x-caf'' name
    = Panicked ''makeslice: len out of range''"
proof -
  obtain c cs where sz: "sz = c # cs" "length cs = 7" using assms(2) by (cases sz) auto
  have "beNat sz = leNat (rev cs) + 256 ^ 7 * of_char c" using sz(2) by (simp add: beNat_def sz(1) leNat_append)
  moreover have "beNat sz < 256 ^ 8" using leNat_less [of "rev sz"] assms(2) by (simp add: beNat_def)
  ultimately have "int64 (int (beNat sz)) < 0" using assms(3) sz(1) by (intro int64_negative) simp_all
  then have "readChunks (''magc'' @ sz @ rest) newCaf = Panicked ''makeslice: len out of range''"
    using assms(2) by (subst readChunks.simps) (simp add: readChunk_def readMagc_def makeChecked_def)
  then show ?thesis using assms(1) by (simp add: convertAudioForMatrix_def parseCAFOpus_def)
qed

section \<open>The properties\<close>

definition tinyStream :: oggOpusInfo where
  "tinyStream = \<lparr>Channels = 1, PreSkip = 312, OpusHead = ''OpusHead'' @ [CHR 0x01, CHR 0x01, CHR 0x38, CHR 0x01, CHR 0x80, CHR 0xBB, CHR 0x00, CHR 0x00, CHR 0x00, CHR 0x00, CHR 0x00],
     Packets = [''h'' @ replicate 3 (CHR ''x''), [], ''hello''], GranulePos = 3000\<rparr>"

lemma tiny_1: "opusStream tinyStream"
  by (simp add: opusStream_def tinyStream_def)
lemma tiny_2: "list_all fitsPage (OpusHead tinyStream # Packets tinyStream)"
  by (simp add: fitsPage_def tinyStream_def)
lemma tiny_3: "length (cafFile tinyStream) < 200"
  by (simp add: cafFile_defs tinyStream_def cafWriteChunk_def cafDesc_def cafPakt_def cafVLQ_def vlqAbove.simps)
lemmas tiny_checks = tiny_1 tiny_2 tiny_3

text \<open>A CAF file that is written is read back: the header packet and every audio packet come out byte for byte in their
  order, also empty ones, and so does the granule position, unless it lay within the samples to skip and is computed anew
  from the packets.\<close>

theorem caf_roundtrip:
  assumes "opusStream info" "length (cafFile info) < 2 ^ 45" "0 \<le> GranulePos info" "GranulePos info \<le> maxInt64"
  shows "writeCAFOpus info = Done (cafFile info) \<and> parseCAFOpus (cafFile info) = Done (asReadBack info)
    \<and> Packets (asReadBack info) = Packets info \<and> OpusHead (asReadBack info) = OpusHead info
    \<and> GranulePos (asReadBack info) = (if GranulePos info \<le> int (PreSkip info)
        then int (length (Packets info)) * int (opusPacketFrames (Packets info ! 0)) + int (PreSkip info) else GranulePos info)"
proof -
  have "Packets info \<noteq> []" using assms(1) by (simp add: opusStream_def)
  then show ?thesis
    using caf_back [OF assms] writeCAF_file [of info] file_bounds(1) [OF assms(2)] stream_preSkip [OF assms(1)] assms(3,4)
    by (simp add: asReadBack_def validFramesOf_def)
qed

theorem caf_roundtrip_witness: "parseCAFOpus (cafFile tinyStream) = Done tinyStream"
proof -
  have "0 \<le> GranulePos tinyStream" "GranulePos tinyStream \<le> maxInt64" by (simp_all add: tinyStream_def maxInt64_def)
  then have "parseCAFOpus (cafFile tinyStream) = Done (asReadBack tinyStream)"
    using caf_roundtrip [OF tiny_checks(1)] tiny_checks(3) by fastforce
  moreover have "asReadBack tinyStream = tinyStream" by (simp add: asReadBack_def validFramesOf_def tinyStream_def)
  ultimately show ?thesis by simp
qed

text \<open>C15: A voice message survives both conversions: whatever stream of packets that each fit into a page is recorded in an
  OGG file, the CAF file made from it for iMessage, converted back for Matrix, is an OGG file that holds the same header
  and the same packets.\<close>

theorem voice_roundtrip:
  assumes "parseOGGOpus content = Done info" "list_all fitsPage (OpusHead info # Packets info)"
    and "length (cafFile info) < 2 ^ 45"
  shows "\<exists>caf ogg duration info'. convertAudioForIMessage content ''audio/ogg'' name = Done (caf, ''audio/x-caf'', withExt name ''.caf'')
    \<and> convertAudioForMatrix caf ''audio/x-caf'' name' = Done (ogg, ''audio/ogg'', withExt name' ''.ogg'', duration)
    \<and> parseOGGOpus ogg = Done info' \<and> OpusHead info' = OpusHead info \<and> Packets info' = Packets info
    \<and> (if int (PreSkip info) < GranulePos info then GranulePos info' = GranulePos info else True)"
proof -
  note st = parse_stream [OF assms(1)] and g = parse_granule [OF assms(1)]
  let ?again = "asReadBack info"
  have head: "Packets info \<noteq> []" using st by (simp add: opusStream_def)
  have w: "writeCAFOpus info = Done (cafFile info)"
    using writeCAF_file [OF head file_bounds(1) [OF assms(3)] stream_preSkip [OF st]] g by simp
  have p: "parseCAFOpus (cafFile info) = Done ?again" by (rule caf_back) (use st assms(3) g in auto)
  have "0 < GranulePos ?again" "GranulePos ?again \<le> maxInt64" by (rule asReadBack_granule [OF st assms(3)], use g in simp)+
  moreover have "opusStream (?again\<lparr>Channels := Channels info\<rparr>)" "list_all fitsPage (OpusHead ?again # Packets ?again)"
    using st assms(2) by (simp_all add: asReadBack_def opusStream_def)
  ultimately obtain ogg where o: "writeOGGOpus ?again = Done ogg" "parseOGGOpus ogg = Done (?again\<lparr>Channels := Channels info\<rparr>)"
    using oggStream_back [where info = ?again and c = "Channels info"] by blast
  have "convertAudioForIMessage content ''audio/ogg'' name = Done (cafFile info, ''audio/x-caf'', withExt name ''.caf'')"
    by (simp add: convertAudioForIMessage_def assms(1) w)
  moreover have "convertAudioForMatrix (cafFile info) ''audio/x-caf'' name'
      = Done (ogg, ''audio/ogg'', withExt name' ''.ogg'', int64 (GranulePos ?again * 1000) sdiv 48000)"
    by (simp add: convertAudioForMatrix_def p o(1))
  ultimately show ?thesis using o(2) by (auto simp: asReadBack_def validFramesOf_def)
qed

definition tinyFile :: bytes where
  "tinyFile = (case writeOGGOpus tinyStream of Done bs \<Rightarrow> bs | _ \<Rightarrow> [])"

theorem voice_roundtrip_witness:
  "\<exists>caf ogg duration info'. convertAudioForIMessage tinyFile ''audio/ogg'' ''a.ogg'' = Done (caf, ''audio/x-caf'', withExt ''a.ogg'' ''.caf'')
    \<and> convertAudioForMatrix caf ''audio/x-caf'' ''a.caf'' = Done (ogg, ''audio/ogg'', withExt ''a.caf'' ''.ogg'', duration)
    \<and> parseOGGOpus ogg = Done info' \<and> Packets info' = Packets tinyStream"
proof -
  have "tinyStream\<lparr>Channels := 1\<rparr> = tinyStream" "0 < GranulePos tinyStream" "GranulePos tinyStream \<le> maxInt64"
    by (simp_all add: tinyStream_def maxInt64_def)
  then have "parseOGGOpus tinyFile = Done tinyStream"
    using oggStream_back [where info = tinyStream and c = 1] tiny_checks(1,2) by (auto simp: tinyFile_def)
  from voice_roundtrip [OF this tiny_checks(2)] tiny_checks(3) show ?thesis by fastforce
qed

text \<open>C39: A voice message that ends before its data chunk brings the conversion down: for every file that is cut there, and
  whose first packet is not empty, the conversion for Matrix panics instead of handing on the original.\<close>

theorem cut_file_panics:
  assumes "opusStream info" "length (cafFile info) < 2 ^ 45" "0 \<le> GranulePos info" "GranulePos info \<le> maxInt64"
    and "Packets info ! 0 \<noteq> []"
  shows "convertAudioForMatrix (cafPrefix info) ''audio/x-caf'' name = Panicked ''index out of range [0] with length 0''
    \<and> convertAudioForMatrix (cafFile info) ''audio/x-caf'' name \<noteq> Panicked ''index out of range [0] with length 0''"
proof
  show "convertAudioForMatrix (cafPrefix info) ''audio/x-caf'' name = Panicked ''index out of range [0] with length 0''"
    by (rule prefix_panics [OF assms])
  have "Packets (asReadBack info) \<noteq> []" using assms(1) by (simp add: asReadBack_def opusStream_def)
  then show "convertAudioForMatrix (cafFile info) ''audio/x-caf'' name \<noteq> Panicked ''index out of range [0] with length 0''"
    using caf_back [OF assms(1-4)] by (simp add: convertAudioForMatrix_def writeOGGOpus_def split: list.split)
qed

theorem cut_file_panics_witness:
  "convertAudioForMatrix (cafPrefix tinyStream) ''audio/x-caf'' ''voice.caf'' = Panicked ''index out of range [0] with length 0''"
proof -
  have "0 \<le> GranulePos tinyStream" "GranulePos tinyStream \<le> maxInt64" "Packets tinyStream ! 0 \<noteq> []"
    by (simp_all add: tinyStream_def maxInt64_def)
  then show ?thesis using cut_file_panics [OF tiny_checks(1)] tiny_checks(3) by fastforce
qed

end
