(* ===== verification/VCard.thy ===== *)
theory VCard
  imports Contacts TextParts
begin

text \<open>
  vCards: the parser of \<open>pkg/connector/cloud_contacts.go\<close>, and the notice that \<open>client.go\<close> makes of a shared contact.
\<close>

section \<open>Library functions\<close>

text \<open>\<open>strings.ReplaceAll\<close> for a string that is not empty, and \<open>strings.TrimRight\<close> for one byte.\<close>

function ReplaceAll :: "bytes \<Rightarrow> bytes \<Rightarrow> bytes \<Rightarrow> bytes" where
  "ReplaceAll s old new =
     (if s = [] \<or> old = [] then s
      else if HasPrefix s old then new @ ReplaceAll (drop (length old) s) old new
      else hd s # ReplaceAll (tl s) old new)"
  by pat_completeness auto
termination by (relation "measure (\<lambda>(s, _, _). length s)") auto

declare ReplaceAll.simps [simp del]

definition trimRightByte :: "bytes \<Rightarrow> char \<Rightarrow> bytes" where
  "trimRightByte s c = rev (dropWhile (\<lambda>x. x = c) (rev s))"

text \<open>\<open>base64.StdEncoding\<close>: line ends are skipped, and the padding is needed.\<close>

definition base64Digit :: "char \<Rightarrow> nat option" where
  "base64Digit c = (let b = of_char c :: nat in
     if 65 \<le> b \<and> b \<le> 90 then Some (b - 65)
     else if 97 \<le> b \<and> b \<le> 122 then Some (b - 71)
     else if 48 \<le> b \<and> b \<le> 57 then Some (b + 4)
     else if b = 43 then Some 62 else if b = 47 then Some 63 else None)"

fun base64Quads :: "bytes \<Rightarrow> bytes option" where
  "base64Quads [] = Some []"
| "base64Quads (a # b # c # d # rest) =
     (case (base64Digit a, base64Digit b) of
        (Some x, Some y) \<Rightarrow>
          if c = CHR ''='' then (if d = CHR ''='' \<and> rest = [] then Some [char_of (x * 4 + y div 16)] else None)
          else (case base64Digit c of
                  None \<Rightarrow> None
                | Some z \<Rightarrow>
                    if d = CHR ''='' then (if rest = [] then Some [char_of (x * 4 + y div 16), char_of (y mod 16 * 16 + z div 4)] else None)
                    else (case (base64Digit d, base64Quads rest) of
                            (Some w, Some bs) \<Rightarrow>
                              Some (char_of (x * 4 + y div 16) # char_of (y mod 16 * 16 + z div 4) # char_of (z mod 4 * 64 + w) # bs)
                          | _ \<Rightarrow> None))
      | _ \<Rightarrow> None)"
| "base64Quads _ = None"

definition base64Decode :: "bytes \<Rightarrow> bytes option" where
  "base64Decode s = base64Quads (filter (\<lambda>c. c \<noteq> CHR 0x0D \<and> c \<noteq> CHR 0x0A) s)"

section \<open>cloud_contacts.go\<close>

definition decodeVCardValue :: "bytes \<Rightarrow> bytes" where
  "decodeVCardValue s =
     (let s1 = ReplaceAll s [CHR 0x5C, CHR ''n''] [CHR 0x0A];
          s2 = ReplaceAll s1 [CHR 0x5C, CHR ''N''] [CHR 0x0A];
          s3 = ReplaceAll s2 [CHR 0x5C, CHR '',''] '','';
          s4 = ReplaceAll s3 [CHR 0x5C, CHR '';''] '';'';
          s5 = ReplaceAll s4 [CHR 0x5C, CHR 0x5C] [CHR 0x5C] in
      TrimSpace s5)"

text \<open>The photo, or the address to fetch it from.\<close>

definition extractVCardPhoto :: "bytes \<Rightarrow> bytes \<Rightarrow> bytes option \<times> bytes" where
  "extractVCardPhoto nameWithParams value =
     (let params = ToUpper nameWithParams;
          decoded = (\<lambda>v. (base64Decode v, [])) in
      if \<not> Contains params ''ENCODING=B'' \<and> \<not> Contains params ''ENCODING=BASE64'' then
        (if HasPrefix value ''data:'' then
           (case Index value '','' of Some idx \<Rightarrow> decoded (drop (idx + 1) value) | None \<Rightarrow> (None, []))
         else if HasPrefix value ''http'' then (None, value)
         else if length value < 100 then (None, [])
         else decoded value)
      else decoded value)"

definition emptyContact :: Contact where
  "emptyContact = \<lparr>FirstName = [], LastName = [], Nickname = [], Avatar = None, AvatarURL = [], Phones = [], Emails = [],
     UserGUID = [], PrimaryIdentifier = []\<rparr>"

text \<open>The name of a property without its parameters and without its group.\<close>

definition propName :: "bytes \<Rightarrow> bytes" where
  "propName nameWithParams =
     (let name = (case Index nameWithParams '';'' of Some i \<Rightarrow> take i nameWithParams | None \<Rightarrow> nameWithParams);
          bare = (case Index name ''.'' of Some i \<Rightarrow> drop (i + 1) name | None \<Rightarrow> name) in
      ToUpper bare)"

definition vcardProperty :: "bytes \<Rightarrow> bytes \<Rightarrow> Contact \<Rightarrow> Contact" where
  "vcardProperty nameWithParams value contact =
     (let name = propName nameWithParams in
      if name = ''N'' then
        (case Split value (CHR '';'') of
           ln # fn # _ \<Rightarrow> contact\<lparr>LastName := decodeVCardValue ln, FirstName := decodeVCardValue fn\<rparr>
         | [ln] \<Rightarrow> contact\<lparr>LastName := decodeVCardValue ln\<rparr>
         | [] \<Rightarrow> contact)
      else if name = ''FN'' then
        (if FirstName contact = [] \<and> LastName contact = [] then
           let fn = decodeVCardValue value in
           (case Index fn '' '' of
              Some i \<Rightarrow> contact\<lparr>FirstName := take i fn, LastName := drop (i + 1) fn\<rparr>
            | None \<Rightarrow> contact\<lparr>FirstName := fn\<rparr>)
         else contact)
      else if name = ''NICKNAME'' then contact\<lparr>Nickname := decodeVCardValue value\<rparr>
      else if name = ''TEL'' then
        (let phone = TrimSpace (TrimPrefix (decodeVCardValue value) ''tel:'') in
         if phone \<noteq> [] then contact\<lparr>Phones := Phones contact @ [phone]\<rparr> else contact)
      else if name = ''EMAIL'' then
        (let email = TrimSpace (decodeVCardValue value) in
         if email \<noteq> [] then contact\<lparr>Emails := Emails contact @ [email]\<rparr> else contact)
      else if name = ''PHOTO'' then
        (case extractVCardPhoto nameWithParams value of
           (Some photo, _) \<Rightarrow> contact\<lparr>Avatar := Some photo\<rparr>
         | (None, url) \<Rightarrow> if url \<noteq> [] then contact\<lparr>AvatarURL := url\<rparr> else contact)
      else contact)"

definition vcardLine :: "bytes \<Rightarrow> Contact \<Rightarrow> Contact" where
  "vcardLine line contact =
     (let line = trimRightByte line (CHR 0x0D) in
      if line = [] then contact
      else case Index line '':'' of
          None \<Rightarrow> contact
        | Some colonIdx \<Rightarrow> vcardProperty (take colonIdx line) (drop (colonIdx + 1) line) contact)"

definition unfoldLines :: "bytes \<Rightarrow> bytes" where
  "unfoldLines vcardData =
     (let s1 = ReplaceAll vcardData [CHR 0x0D, CHR 0x0A, CHR '' ''] [];
          s2 = ReplaceAll s1 [CHR 0x0D, CHR 0x0A, CHR 0x09] [];
          s3 = ReplaceAll s2 [CHR 0x0A, CHR '' ''] [] in
      ReplaceAll s3 [CHR 0x0A, CHR 0x09] [])"

definition parseVCard :: "bytes \<Rightarrow> Contact" where
  "parseVCard vcardData = fold vcardLine (Split (unfoldLines vcardData) (CHR 0x0A)) emptyContact"

section \<open>client.go: the notice\<close>

definition noticeOf :: "bytes list \<Rightarrow> bytes list \<Rightarrow> MessageEventContent" where
  "noticeOf bodyLines htmlLines =
     \<lparr>ecMsgType = ''m.notice'', ecBody = Join bodyLines [CHR 0x0A], ecFormat = ''org.matrix.custom.html'',
      ecFormattedBody = Join htmlLines ''<br/>'', ecPreviews = []\<rparr>"

text \<open>At most three values of a kind, cut and without the empty ones.\<close>

definition detailLines :: "bytes list \<Rightarrow> bytes list" where
  "detailLines values = filter (\<lambda>v. v \<noteq> []) (map (\<lambda>v. truncateBytes (TrimSpace v) maxSubjectBytes) (take 3 values))"

function dropLines :: "(MessageEventContent \<Rightarrow> bool \<Rightarrow> nat option) \<Rightarrow> bytes list \<Rightarrow> bytes list \<Rightarrow> MessageEventContent" where
  "dropLines marshal bodyLines htmlLines =
     (let content = noticeOf bodyLines htmlLines in
      if 1 < length bodyLines \<and> maxTextContentBytes < measuredSize marshal content False
      then dropLines marshal (butlast bodyLines) (butlast htmlLines) else content)"
  by pat_completeness auto
termination by (relation "measure (\<lambda>(_, bodyLines, _). length bodyLines)") auto

declare dropLines.simps [simp del]

definition makeVCardPreviewContent :: "(MessageEventContent \<Rightarrow> bool \<Rightarrow> nat option) \<Rightarrow> bytes \<Rightarrow> MessageEventContent option" where
  "makeVCardPreviewContent marshal content =
     (let contact = parseVCard content;
          name = truncateBytes (TrimSpace (Contact_Name (Some contact))) maxSubjectBytes in
      if name = [] \<and> Phones contact = [] \<and> Emails contact = [] then None
      else let names = (if name \<noteq> [] then [name] else []);
               details = map (\<lambda>v. (''Phone: '', v)) (detailLines (Phones contact))
                 @ map (\<lambda>v. (''Email: '', v)) (detailLines (Emails contact)) in
        Some (dropLines marshal
          ([''Shared contact''] @ names @ map (\<lambda>(k, v). k @ v) details)
          ([''<strong>Shared contact</strong>''] @ map EscapeString names @ map (\<lambda>(k, v). k @ EscapeString v) details)))"

end
