(* ===== verification/VCardSpec.thy ===== *)
theory VCardSpec
  imports VCard
begin

text \<open>
  The notice for a shared contact fits into an event whatever the card holds, and what the escapes of a card lose.
\<close>

lemma dropLines_prefix:
  "\<exists>n. dropLines marshal bs hs = noticeOf (take n bs) (take (n + length hs - length bs) hs)
     \<and> (1 \<le> n \<or> bs = []) \<and> (measuredSize marshal (dropLines marshal bs hs) False \<le> maxTextContentBytes \<or> length (take n bs) \<le> 1)"
  if "length hs = length bs"
  using that
proof (induction marshal bs hs rule: dropLines.induct)
  case (1 marshal bs hs)
  show ?case
  proof (cases "1 < length bs \<and> maxTextContentBytes < measuredSize marshal (noticeOf bs hs) False")
    case True
    have len: "length (butlast hs) = length (butlast bs)" using 1(2) by simp
    then obtain n where n: "dropLines marshal (butlast bs) (butlast hs) = noticeOf (take n (butlast bs)) (take n (butlast hs))"
      "1 \<le> n" "measuredSize marshal (dropLines marshal (butlast bs) (butlast hs)) False \<le> maxTextContentBytes
        \<or> length (take n (butlast bs)) \<le> 1"
      using 1(1) [OF refl True len] True by (auto simp: butlast_conv_take)
    have step: "dropLines marshal bs hs = dropLines marshal (butlast bs) (butlast hs)"
      using True by (subst dropLines.simps) (simp add: Let_def)
    have "take n (butlast bs) = take (min n (length bs - 1)) bs" "take n (butlast hs) = take (min n (length bs - 1)) hs"
      using 1(2) by (simp_all add: butlast_conv_take min.commute)
    moreover have "1 \<le> min n (length bs - 1)" using n(2) True by linarith
    ultimately show ?thesis using n 1(2) unfolding step by (intro exI [of _ "min n (length bs - 1)"]) simp
  next
    case False
    have "dropLines marshal bs hs = noticeOf bs hs"
      by (simp only: dropLines.simps [of marshal bs hs] Let_def False if_False)
    then show ?thesis using False 1(2) by (intro exI [of _ "length bs"]) (auto simp: Suc_le_eq)
  qed
qed

text \<open>Whatever a shared contact holds, its notice fits into an event, as long as the bare header does: details are dropped
  from the end until it fits, and the header always stays.\<close>

theorem vcard_notice_fits:
  assumes "measuredSize marshal (noticeOf [''Shared contact''] [''<strong>Shared contact</strong>'']) False \<le> maxTextContentBytes"
    and "makeVCardPreviewContent marshal content = Some notice"
  shows "measuredSize marshal notice False \<le> maxTextContentBytes \<and> HasPrefix (ecBody notice) ''Shared contact''
    \<and> HasPrefix (ecFormattedBody notice) ''<strong>Shared contact</strong>''"
proof -
  obtain bs hs where n: "notice = dropLines marshal (''Shared contact'' # bs) (''<strong>Shared contact</strong>'' # hs)"
    "length hs = length bs"
    using assms(2) by (auto simp: makeVCardPreviewContent_def Let_def split: if_splits)
  obtain k where k: "notice = noticeOf (take k (''Shared contact'' # bs)) (take k (''<strong>Shared contact</strong>'' # hs))" "1 \<le> k"
    "measuredSize marshal notice False \<le> maxTextContentBytes \<or> length (take k (''Shared contact'' # bs)) \<le> 1"
    using dropLines_prefix [of "''<strong>Shared contact</strong>'' # hs" "''Shared contact'' # bs" marshal] n by auto
  obtain j where j: "k = Suc j" using k(2) by (cases k) auto
  have "measuredSize marshal notice False \<le> maxTextContentBytes"
  proof (cases "length (take j bs) = 0")
    case True
    then have "take j bs = []" "take j hs = []" using n(2) by (cases j; simp)+
    then show ?thesis using k(1) assms(1) j by (metis take_Suc_Cons)
  next
    case False
    then have "1 < length (take k (''Shared contact'' # bs))" using j by simp
    then show ?thesis using k(3) by linarith
  qed
  moreover have "HasPrefix (Join (x # xs) sep) x" for x xs and sep :: bytes by (cases xs) simp_all
  ultimately show ?thesis by (simp add: k(1) j noticeOf_def)
qed

lemma ReplaceAll_Cons: "ReplaceAll (c # s) (d # old) new = (if c = d \<and> HasPrefix s old
    then new @ ReplaceAll (drop (length old) s) (d # old) new else c # ReplaceAll s (d # old) new)"
  by (subst ReplaceAll.simps) simp

lemma ReplaceAll_Nil: "ReplaceAll [] old new = []"
  by (subst ReplaceAll.simps) simp

lemmas vcard_eval = id_eval parseVCard_def unfoldLines_def vcardLine_def vcardProperty_def propName_def trimRightByte_def
  decodeVCardValue_def emptyContact_def ReplaceAll_Cons ReplaceAll_Nil HasPrefix_def

theorem vcard_notice_fits_witness:
  "\<exists>notice. makeVCardPreviewContent (\<lambda>c _. Some (30000 + 11000 * (length (ecBody c) div 16))) (''FN:Jo'' @ [CHR 0x0A] @ ''TEL:12'') = Some notice
     \<and> HasPrefix (ecBody notice) ''Shared contact''"
proof -
  let ?m = "\<lambda>c (_ :: bool). Some (30000 + 11000 * (length (ecBody c) div 16))"
  have h: "measuredSize ?m (noticeOf [''Shared contact''] [''<strong>Shared contact</strong>'']) False \<le> maxTextContentBytes"
    by (simp add: measuredSize_def noticeOf_def maxTextContentBytes_def)
  have "Phones (parseVCard (''FN:Jo'' @ [CHR 0x0A] @ ''TEL:12'')) \<noteq> []" by (simp add: vcard_eval)
  then obtain notice where n: "makeVCardPreviewContent ?m (''FN:Jo'' @ [CHR 0x0A] @ ''TEL:12'') = Some notice"
    by (simp add: makeVCardPreviewContent_def Let_def)
  from vcard_notice_fits [OF h n] n show ?thesis by blast
qed

text \<open>An escaped backslash before an \<open>n\<close> is taken for a line break, since the escapes are replaced one kind after the other,
  and an escaped semicolon still separates the parts of a name.\<close>

lemma escaped_backslash_lost:
  "decodeVCardValue [CHR ''a'', CHR 0x5C, CHR 0x5C, CHR ''n''] = [CHR ''a'', CHR 0x5C]"
  "LastName (parseVCard (''N:Le'' @ [CHR 0x5C] @ '';Roy;Jo'')) = [CHR ''L'', CHR ''e'', CHR 0x5C]"
  by (simp_all add: vcard_eval)

end
