(* ===== verification/Attachments.thy ===== *)
theory Attachments
  imports LiveMessages VCard OpusCaf
begin

text \<open>
  The attachments of the history, \<open>client.go\<close>: which failures are tried again, the size limits, the way of one
  attachment from CloudKit to Matrix (\<open>downloadAndUploadAttachment\<close>), the attachments of one message, and the two passes
  that fill the cache beforehand.

  A download runs as a whole; which of several comes first is decided by \<open>aeOrder\<close>.  What CloudKit, the file system, the
  media repository and the codecs answer is part of \<open>att_env\<close>.  \<open>None\<close> for the messages of an attachment is a panic.
\<close>

section \<open>State\<close>

record failedAttachmentEntry =
  faLastError :: bytes
  faRetries :: nat
  faAbandoned :: bool

text \<open>A media event; \<open>mcLocation\<close> is the address or the encrypted file the upload returns.\<close>

record media_content =
  mcType :: bytes
  mcBody :: bytes
  mcMime :: bytes
  mcSize :: int
  mcWidth :: int
  mcHeight :: int
  mcDuration :: int
  mcLocation :: bytes
  mcThumb :: "(bytes \<times> int \<times> int \<times> int) option"

datatype part_content = TextContent MessageEventContent | MediaContent media_content

record BackfillReaction =
  brSender :: EventSender
  brEmoji :: bytes
  brTimestamp :: time_ms
  brTargetPart :: "bytes option"

record BackfillMessage =
  bfSender :: EventSender
  bfID :: bytes
  bfTimestamp :: time_ms
  bfParts :: "(bytes \<times> part_content) list"
  bfReplyTo :: "bytes option"
  bfReactions :: "BackfillReaction list"

record att_state =
  asCache :: "bytes \<rightharpoonup> media_content"
  asFailed :: "bytes \<rightharpoonup> failedAttachmentEntry"
  asDead :: "bytes set"
  asDeadLoaded :: bool

text \<open>A decoded image: its size, its thumbnail and its encoding as JPEG.\<close>

record image =
  imWidth :: int
  imHeight :: int
  imThumb :: "(bytes \<times> int \<times> int) option"
  imJPEG :: "bytes option"

record att_env =
  aeMaxMB :: int
  aeMaxInitial :: int
  aeFree :: "nat option"
  aeTemp :: "bytes option"
  aeFetch :: "bytes \<Rightarrow> bytes + 64 word"
  aeRead :: "bytes \<Rightarrow> bytes + bytes"
  aeTranscoding :: bool
  aeTranscode :: "bytes \<Rightarrow> bytes \<Rightarrow> bytes option"
  aeHEIC :: "bytes \<Rightarrow> bytes \<Rightarrow> bytes \<Rightarrow> (bytes \<times> bytes \<times> bytes) \<times> image option"
  aeGifSize :: "bytes \<Rightarrow> (int \<times> int) option"
  aeDecode :: "bytes \<Rightarrow> (image \<times> bytes) option"
  aeUpload :: "bytes \<Rightarrow> bytes \<Rightarrow> bytes \<Rightarrow> bytes + bytes"
  aeAvid :: "bytes \<Rightarrow> bytes + bytes"
  aeMarshal :: "MessageEventContent \<Rightarrow> bool \<Rightarrow> nat option"
  aeEncode :: "media_content \<Rightarrow> bytes option"
  aeContent :: "bytes \<Rightarrow> media_content option"
  aeRows :: "bytes \<Rightarrow> cloudAttachmentRow list option"
  aeAcquire :: "int \<Rightarrow> bool"
  aeOrder :: "(nat \<times> cloudAttachmentRow) list \<Rightarrow> (nat \<times> cloudAttachmentRow) list"
  aeSort :: "(nat \<times> BackfillMessage) list \<Rightarrow> (nat \<times> BackfillMessage) list"

section \<open>Failures\<close>

definition maxAttachmentRetries :: nat where "maxAttachmentRetries = 3"

definition isUnrecoverableAttachmentError :: "bytes \<Rightarrow> bool" where
  "isUnrecoverableAttachmentError errMsg = Contains errMsg ''ATTACHMENT_UNRECOVERABLE''"

text \<open>Loaded once in a session, also when the query fails.\<close>

definition ensureDeadAttachmentsLoaded :: "bytes \<Rightarrow> att_state \<Rightarrow> att_state db" where
  "ensureDeadAttachmentsLoaded l st =
     (if asDeadLoaded st then dbReturn st
      else dbBind (dbTry (loadDeadAttachments l)) (\<lambda>r.
        dbReturn (case r of
            Inl _ \<Rightarrow> st\<lparr>asDeadLoaded := True\<rparr>
          | Inr names \<Rightarrow> st\<lparr>asDeadLoaded := True, asDead := asDead st \<union> set names\<rparr>)))"

definition isDeadAttachment :: "bytes \<Rightarrow> bytes \<Rightarrow> att_state \<Rightarrow> (bool \<times> att_state) db" where
  "isDeadAttachment l recordName st =
     dbBind (ensureDeadAttachmentsLoaded l st) (\<lambda>st'. dbReturn (recordName \<in> asDead st', st'))"

definition markAttachmentDead :: "bytes \<Rightarrow> time_ms \<Rightarrow> bytes \<Rightarrow> bytes \<Rightarrow> att_state \<Rightarrow> att_state db" where
  "markAttachmentDead l now recordName reason st =
     (if recordName \<in> asDead st then dbReturn st
      else dbThen (saveDeadAttachment l now recordName reason) (dbReturn (st\<lparr>asDead := insert recordName (asDead st)\<rparr>)))"

definition failedEntry :: "bytes \<Rightarrow> failedAttachmentEntry option \<Rightarrow> failedAttachmentEntry" where
  "failedEntry errMsg prev =
     (let retries = (case prev of Some old \<Rightarrow> faRetries old + 1 | None \<Rightarrow> 1) in
      \<lparr>faLastError = errMsg, faRetries = retries,
       faAbandoned = ((case prev of Some old \<Rightarrow> faAbandoned old | None \<Rightarrow> False)
         \<or> isUnrecoverableAttachmentError errMsg \<or> maxAttachmentRetries \<le> retries)\<rparr>)"

definition recordAttachmentFailure :: "bytes \<Rightarrow> time_ms \<Rightarrow> bytes \<Rightarrow> bytes \<Rightarrow> att_state \<Rightarrow> att_state db" where
  "recordAttachmentFailure l now recordName errMsg st =
     (let entry = failedEntry errMsg (asFailed st recordName); store = (\<lambda>st. st\<lparr>asFailed := (asFailed st)(recordName \<mapsto> entry)\<rparr>) in
      if isUnrecoverableAttachmentError errMsg
      then dbBind (markAttachmentDead l now recordName errMsg st) (\<lambda>st'. dbReturn (store st'))
      else dbReturn (store st))"

section \<open>Sizes\<close>

definition defaultMaxAttachmentSizeMB :: int where "defaultMaxAttachmentSizeMB = 100"
definition minFreeDiskBytes :: nat where "minFreeDiskBytes = 6 * 2 ^ 30"
definition attachmentMaxInFlightBytes :: int where "attachmentMaxInFlightBytes = 128 * 2 ^ 20"

definition maxAttachmentBytes :: "att_env \<Rightarrow> int" where
  "maxAttachmentBytes env =
     (let mb = (if aeMaxMB env \<le> 0 then defaultMaxAttachmentSizeMB else aeMaxMB env) in int64 (int64 (mb * 1024) * 1024))"

definition recoverAttachmentSize :: "int \<Rightarrow> int" where
  "recoverAttachmentSize fileSize = (if fileSize < 0 then int64 (fileSize + 2 ^ 32) else fileSize)"

definition clampAttachmentWeight :: "int \<Rightarrow> int" where
  "clampAttachmentWeight fileSize =
     (if fileSize < 1 \<or> attachmentMaxInFlightBytes < fileSize then attachmentMaxInFlightBytes else fileSize)"

section \<open>One attachment: download\<close>

definition downloadAttachmentToTempFile :: "att_env \<Rightarrow> bytes \<Rightarrow> bytes + int" where
  "downloadAttachmentToTempFile env recordName =
     (if (case aeFree env of Some free \<Rightarrow> free < minFreeDiskBytes | None \<Rightarrow> False)
      then Inl (''low disk space ('' @ Itoa (int (the (aeFree env) div 2 ^ 20)) @ '' MiB free < ''
             @ Itoa (int (minFreeDiskBytes div 2 ^ 20)) @ '' MiB floor), deferring attachment'')
      else case aeTemp env of
          Some e \<Rightarrow> Inl (''create temp file: '' @ e)
        | None \<Rightarrow> (case aeFetch env recordName of Inl e \<Rightarrow> Inl e | Inr n \<Rightarrow> Inr (sint n)))"

text \<open>The bytes of the attachment; \<open>Inl None\<close> gives it up without a trace.\<close>

definition fetchAttachment :: "att_env \<Rightarrow> bytes \<Rightarrow> bytes option + bytes" where
  "fetchAttachment env recordName =
     (case downloadAttachmentToTempFile env recordName of
        Inl e \<Rightarrow> Inl (Some e)
      | Inr n \<Rightarrow>
          if n = 0 then Inl (Some ''empty data'')
          else if maxAttachmentBytes env < n then Inl None
          else (case aeRead env recordName of
                  Inl e \<Rightarrow> Inl (Some e)
                | Inr content \<Rightarrow> if content = [] then Inl (Some ''empty data'') else Inr content))"

section \<open>One attachment: conversion\<close>

record media =
  mdData :: bytes
  mdMime :: bytes
  mdName :: bytes
  mdDuration :: int
  mdWidth :: int
  mdHeight :: int
  mdThumb :: "(bytes \<times> int \<times> int) option"

definition newMedia :: "cloudAttachmentRow \<Rightarrow> bytes \<Rightarrow> media" where
  "newMedia att content =
     (let mime = (if atMimeType att = [] then utiToMIME (atUTIType att) else atMimeType att) in
      \<lparr>mdData = content, mdMime = (if mime = [] then ''application/octet-stream'' else mime),
       mdName = (if atFilename att = [] then ''attachment'' else atFilename att), mdDuration = 0, mdWidth = 0, mdHeight = 0,
       mdThumb = None\<rparr>)"

definition voiceStep :: "cloudAttachmentRow \<Rightarrow> media \<Rightarrow> media option" where
  "voiceStep att m =
     (if atUTIType att = ''com.apple.coreaudio-format'' \<or> mdMime m = ''audio/x-caf''
      then (case convertAudioForMatrix (mdData m) (mdMime m) (mdName m) of
              Done (d, mime, name, duration) \<Rightarrow> Some (m\<lparr>mdData := d, mdMime := mime, mdName := name, mdDuration := duration\<rparr>)
            | _ \<Rightarrow> None)
      else Some m)"

definition transcodeStep :: "att_env \<Rightarrow> media \<Rightarrow> media" where
  "transcodeStep env m =
     (if aeTranscoding env \<and> HasPrefix (mdMime m) ''video/'' \<and> mdMime m \<noteq> ''video/mp4''
      then (case aeTranscode env (mdData m) (mdMime m) of
              Some converted \<Rightarrow> m\<lparr>mdData := converted, mdMime := ''video/mp4'', mdName := withExt (mdName m) ''.mp4''\<rparr>
            | None \<Rightarrow> m)
      else m)"

definition measured :: "image \<Rightarrow> media \<Rightarrow> media" where
  "measured img m =
     m\<lparr>mdWidth := imWidth img, mdHeight := imHeight img,
       mdThumb := (if 800 < imWidth img \<or> 800 < imHeight img then imThumb img else None)\<rparr>"

definition imageStep :: "att_env \<Rightarrow> media \<Rightarrow> media" where
  "imageStep env m0 =
     (case aeHEIC env (mdData m0) (mdMime m0) (mdName m0) of
        ((d, mime, name), heicImg) \<Rightarrow>
          let m = m0\<lparr>mdData := d, mdMime := mime, mdName := name\<rparr> in
          (case heicImg of
             Some img \<Rightarrow> measured img m
           | None \<Rightarrow>
               if \<not> (HasPrefix mime ''image/'' \<or> looksLikeImage d) then m
               else if mime = ''image/gif'' then
                 (case aeGifSize env d of Some (w, h) \<Rightarrow> m\<lparr>mdWidth := w, mdHeight := h\<rparr> | None \<Rightarrow> m)
               else (case aeDecode env d of
                       None \<Rightarrow> m
                     | Some (img, fmtName) \<Rightarrow>
                         measured img
                           (if fmtName = ''tiff'' \<and> imJPEG img \<noteq> None
                            then m\<lparr>mdData := the (imJPEG img), mdMime := ''image/jpeg'', mdName := withExt name ''.jpg''\<rparr>
                            else m))))"

definition convertMedia :: "att_env \<Rightarrow> cloudAttachmentRow \<Rightarrow> bytes \<Rightarrow> media option" where
  "convertMedia env att content =
     map_option (\<lambda>m. imageStep env (transcodeStep env m)) (voiceStep att (newMedia att content))"

section \<open>One attachment: upload\<close>

definition uploadThumb :: "att_env \<Rightarrow> (bytes \<times> int \<times> int) option \<Rightarrow> (bytes \<times> int \<times> int \<times> int) option" where
  "uploadThumb env thumb =
     (case thumb of
        None \<Rightarrow> None
      | Some (d, w, h) \<Rightarrow>
          (case aeUpload env d ''thumbnail.jpg'' ''image/jpeg'' of
             Inl _ \<Rightarrow> None | Inr location \<Rightarrow> Some (location, int (length d), w, h)))"

definition uploadMedia :: "att_env \<Rightarrow> media \<Rightarrow> bytes + media_content" where
  "uploadMedia env m =
     (case aeUpload env (mdData m) (mdName m) (mdMime m) of
        Inl e \<Rightarrow> Inl e
      | Inr location \<Rightarrow> Inr
          \<lparr>mcType = mimeToMsgType (mdMime m), mcBody = mdName m, mcMime = mdMime m, mcSize = int (length (mdData m)),
           mcWidth = mdWidth m, mcHeight = mdHeight m, mcDuration = (if 0 < mdDuration m then mdDuration m else 0),
           mcLocation = location, mcThumb = uploadThumb env (mdThumb m)\<rparr>)"

definition filenameBase :: "bytes \<Rightarrow> bytes" where
  "filenameBase name = (case LastIndexByte name (CHR ''.'') of Some i \<Rightarrow> if 0 < i then take i name else [] | None \<Rightarrow> [])"

text \<open>The moving half of a Live Photo.\<close>

definition avidContent :: "att_env \<Rightarrow> bytes \<Rightarrow> bytes \<Rightarrow> media_content option" where
  "avidContent env recordName fileName =
     (case aeAvid env recordName of
        Inl _ \<Rightarrow> None
      | Inr avidData \<Rightarrow>
          if avidData = [] then None
          else let base = filenameBase fileName;
                   name = (if base \<noteq> [] then base @ ''.MOV'' else ''livephoto.MOV'');
                   (d, mime, name') =
                     (if aeTranscoding env then
                        (case aeTranscode env avidData ''video/quicktime'' of
                           Some converted \<Rightarrow> (converted, ''video/mp4'', withExt name ''.mp4'')
                         | None \<Rightarrow> (avidData, ''video/quicktime'', name))
                      else (avidData, ''video/quicktime'', name)) in
            (case aeUpload env d name' mime of
               Inl _ \<Rightarrow> None
             | Inr location \<Rightarrow> Some
                 \<lparr>mcType = mimeToMsgType mime, mcBody = name', mcMime = mime, mcSize = int (length d), mcWidth = 0,
                  mcHeight = 0, mcDuration = 0, mcLocation = location, mcThumb = None\<rparr>))"

section \<open>One attachment\<close>

definition isVCardAttachment :: "bytes \<Rightarrow> bytes \<Rightarrow> bytes \<Rightarrow> bool" where
  "isVCardAttachment mimeType fileName utiType =
     (EqualFoldASCII utiType ''public.vcard'' \<or> EqualFoldASCII mimeType ''text/vcard''
      \<or> EqualFoldASCII mimeType ''text/x-vcard'' \<or> EqualFoldASCII mimeType ''text/directory''
      \<or> HasSuffix (ToLower fileName) ''.vcf'')"

definition attMessageID :: "bytes \<Rightarrow> bool \<Rightarrow> nat \<Rightarrow> bytes" where
  "attMessageID guid withText i = (if 0 < i \<or> withText then attachmentID guid (int i) else guid)"

definition backfillMessage :: "EventSender \<Rightarrow> bytes \<Rightarrow> time_ms \<Rightarrow> (bytes \<times> part_content) list \<Rightarrow> BackfillMessage" where
  "backfillMessage sender msgID ts parts =
     \<lparr>bfSender = sender, bfID = makeMessageID msgID, bfTimestamp = ts, bfParts = parts, bfReplyTo = None, bfReactions = []\<rparr>"

text \<open>What is made of an attachment that is uploaded.\<close>

definition attachmentMessages :: "att_env \<Rightarrow> bytes \<Rightarrow> EventSender \<Rightarrow> time_ms \<Rightarrow> cloudAttachmentRow \<Rightarrow> media \<Rightarrow> media_content
    \<Rightarrow> BackfillMessage list" where
  "attachmentMessages env attID sender ts att m content =
     (let preview = (if isVCardAttachment (mdMime m) (mdName m) (atUTIType att)
                     then makeVCardPreviewContent (aeMarshal env) (mdData m) else None);
          still = backfillMessage sender attID ts
            ((case preview of Some p \<Rightarrow> [([], TextContent p)] | None \<Rightarrow> []) @ [([], MediaContent content)]);
          avid = (if atHasAvid att \<and> \<not> HasPrefix (mdMime m) ''video/''
                  then avidContent env (atRecordName att) (mdName m) else None) in
      still # (case avid of Some c \<Rightarrow> [backfillMessage sender (attID @ ''_avid'') ts [([], MediaContent c)]] | None \<Rightarrow> []))"

definition staleVideo :: "media_content \<Rightarrow> bool" where
  "staleVideo content = (mcMime content = ''video/quicktime'')"

text \<open>The state after a success.\<close>

definition rememberContent :: "att_env \<Rightarrow> bytes \<Rightarrow> time_ms \<Rightarrow> bytes \<Rightarrow> media_content \<Rightarrow> att_state \<Rightarrow> att_state db" where
  "rememberContent env l now recordName content st =
     (let st' = st\<lparr>asCache := (asCache st)(recordName \<mapsto> content), asFailed := (asFailed st)(recordName := None)\<rparr> in
      case aeEncode env content of
        Some json \<Rightarrow> dbThen (saveAttachmentCacheEntry l now recordName json) (dbReturn st')
      | None \<Rightarrow> dbReturn st')"

definition freshAttachment :: "att_env \<Rightarrow> bytes \<Rightarrow> time_ms \<Rightarrow> bytes \<Rightarrow> EventSender \<Rightarrow> time_ms \<Rightarrow> cloudAttachmentRow
    \<Rightarrow> att_state \<Rightarrow> (BackfillMessage list option \<times> att_state) db" where
  "freshAttachment env l now attID sender ts att st =
     (let failed = (\<lambda>e. dbBind (recordAttachmentFailure l now (atRecordName att) e st) (\<lambda>st'. dbReturn (Some [], st'))) in
      case fetchAttachment env (atRecordName att) of
        Inl None \<Rightarrow> dbReturn (Some [], st)
      | Inl (Some e) \<Rightarrow> failed e
      | Inr content \<Rightarrow>
          (case convertMedia env att content of
             None \<Rightarrow> dbReturn (None, st)
           | Some m \<Rightarrow>
               (case uploadMedia env m of
                  Inl e \<Rightarrow> failed e
                | Inr c \<Rightarrow> dbBind (rememberContent env l now (atRecordName att) c st) (\<lambda>st'.
                    dbReturn (Some (attachmentMessages env attID sender ts att m c), st')))))"

definition downloadAndUploadAttachment :: "att_env \<Rightarrow> bytes \<Rightarrow> time_ms \<Rightarrow> bytes \<Rightarrow> EventSender \<Rightarrow> time_ms \<Rightarrow> bool \<Rightarrow> nat
    \<Rightarrow> cloudAttachmentRow \<Rightarrow> att_state \<Rightarrow> (BackfillMessage list option \<times> att_state) db" where
  "downloadAndUploadAttachment env l now guid sender ts withText i att st =
     (let attID = attMessageID guid withText i;
          isLivePhoto = (atHasAvid att \<and> \<not> HasPrefix (atMimeType att) ''video/'') in
      if maxAttachmentBytes env < recoverAttachmentSize (atFileSize att) then dbReturn (Some [], st)
      else dbBind (isDeadAttachment l (atRecordName att) st) (\<lambda>(dead, st1).
        if dead then dbReturn (Some [], st1)
        else case asCache st1 (atRecordName att) of
            Some c \<Rightarrow>
              if isLivePhoto then freshAttachment env l now attID sender ts att st1
              else if staleVideo c then
                freshAttachment env l now attID sender ts att (st1\<lparr>asCache := (asCache st1)(atRecordName att := None)\<rparr>)
              else dbReturn (Some [backfillMessage sender attID ts [([], MediaContent c)]], st1)
          | None \<Rightarrow> freshAttachment env l now attID sender ts att st1))"

section \<open>The attachments of a message\<close>

definition isPluginPayloadAttachment :: "cloudAttachmentRow \<Rightarrow> bool" where
  "isPluginPayloadAttachment att = HasSuffix (atFilename att) ''.pluginPayloadAttachment''"

definition downloadable :: "cloudAttachmentRow list \<Rightarrow> (nat \<times> cloudAttachmentRow) list" where
  "downloadable atts =
     filter (\<lambda>(_, att). atRecordName att \<noteq> [] \<and> \<not> isPluginPayloadAttachment att) (enumerate 0 atts)"

text \<open>One goroutine: nothing without its share of the budget, and a panic is caught.\<close>

definition attachmentTask :: "att_env \<Rightarrow> bytes \<Rightarrow> time_ms \<Rightarrow> bytes \<Rightarrow> EventSender \<Rightarrow> time_ms \<Rightarrow> bool \<Rightarrow> nat \<times> cloudAttachmentRow
    \<Rightarrow> (nat \<times> BackfillMessage) list \<times> att_state \<Rightarrow> ((nat \<times> BackfillMessage) list \<times> att_state) db" where
  "attachmentTask env l now guid sender ts withText ia acc =
     (case (ia, acc) of ((i, att), (results, st)) \<Rightarrow>
        if \<not> aeAcquire env (clampAttachmentWeight (atFileSize att)) then dbReturn (results, st)
        else dbBind (downloadAndUploadAttachment env l now guid sender ts withText i att st) (\<lambda>(r, st').
          dbReturn (results @ (case r of Some ms \<Rightarrow> map (Pair i) ms | None \<Rightarrow> []), st')))"

definition cloudAttachmentsToBackfill :: "att_env \<Rightarrow> bytes \<Rightarrow> time_ms \<Rightarrow> cloudMessageRow \<Rightarrow> EventSender \<Rightarrow> time_ms \<Rightarrow> bool
    \<Rightarrow> att_state \<Rightarrow> (BackfillMessage list option \<times> att_state) db" where
  "cloudAttachmentsToBackfill env l now row sender ts withText st =
     (if AttachmentsJSON row = [] then dbReturn (Some [], st)
      else case aeRows env (AttachmentsJSON row) of
          None \<Rightarrow> dbReturn (Some [], st)
        | Some atts \<Rightarrow>
            (case downloadable atts of
               [] \<Rightarrow> dbReturn (Some [], st)
             | [(i, att)] \<Rightarrow> downloadAndUploadAttachment env l now (GUID row) sender ts withText i att st
             | many \<Rightarrow> dbBind (dbFold (attachmentTask env l now (GUID row) sender ts withText) (aeOrder env many) ([], st))
                 (\<lambda>(results, st'). dbReturn (Some (map snd (aeSort env results)), st'))))"

section \<open>Filling the cache beforehand\<close>

definition loadContentCache :: "att_env \<Rightarrow> (bytes \<Rightarrow> bytes option) \<Rightarrow> (bytes \<rightharpoonup> media_content) \<Rightarrow> bytes \<rightharpoonup> media_content" where
  "loadContentCache env cachedJSON cache = (\<lambda>recordName.
     case cachedJSON recordName of
       None \<Rightarrow> cache recordName
     | Some json \<Rightarrow> (case aeContent env json of
         None \<Rightarrow> cache recordName
       | Some c \<Rightarrow> if staleVideo c then cache recordName else Some c))"

text \<open>The test of the startup pass: a portal that is done only gets what has failed before.\<close>

definition preUploadWanted :: "bytes \<Rightarrow> bool \<Rightarrow> cloudAttachmentRow \<Rightarrow> att_state \<Rightarrow> (bool \<times> att_state) db" where
  "preUploadWanted l portalDone att st =
     (if atRecordName att = [] \<or> isPluginPayloadAttachment att \<or> asCache st (atRecordName att) \<noteq> None then dbReturn (False, st)
      else dbBind (isDeadAttachment l (atRecordName att) st) (\<lambda>(dead, st').
        dbReturn (\<not> dead \<and> (case asFailed st' (atRecordName att) of
            Some fe \<Rightarrow> \<not> (faAbandoned fe \<or> maxAttachmentRetries \<le> faRetries fe)
          | None \<Rightarrow> \<not> portalDone), st')))"

type_synonym pending_upload = "bytes \<times> bool \<times> nat \<times> cloudAttachmentRow"

text \<open>\<open>strings.Trim(s, "\ufffc \n")\<close>\<close>

definition trimObject :: "bytes \<Rightarrow> bytes" where
  "trimObject s = (let junk = (\<lambda>(r, _). r = 0xFFFC \<or> r = 0x20 \<or> r = 0x0A) in
     concat (map snd (rev (dropWhile junk (rev (dropWhile junk (runes s)))))))"

definition bodyText :: "cloudMessageRow \<Rightarrow> bool" where
  "bodyText row = (TrimSpace (trimObject (Text row)) \<noteq> [])"

definition rowAttachments :: "att_env \<Rightarrow> cloudMessageRow \<Rightarrow> pending_upload list" where
  "rowAttachments env row =
     (case aeRows env (AttachmentsJSON row) of
        None \<Rightarrow> [] | Some atts \<Rightarrow> map (\<lambda>(i, att). (GUID row, bodyText row, i, att)) (enumerate 0 atts))"

definition pickStartup :: "att_env \<Rightarrow> bytes \<Rightarrow> bytes set \<Rightarrow> cloudMessageRow \<Rightarrow> pending_upload list \<times> att_state
    \<Rightarrow> (pending_upload list \<times> att_state) db" where
  "pickStartup env l donePortals row acc =
     dbFold (\<lambda>p (pending, st). case p of (guid, withText, i, att) \<Rightarrow>
         dbBind (preUploadWanted l (PortalID row \<in> donePortals) att st) (\<lambda>(wanted, st').
           dbReturn (if wanted then pending @ [p] else pending, st')))
       (rowAttachments env row) acc"

text \<open>The downloads; their messages are thrown away, what counts is the cache.  A panic is caught.\<close>

definition uploadPending :: "att_env \<Rightarrow> bytes \<Rightarrow> time_ms \<Rightarrow> EventSender \<Rightarrow> pending_upload list \<Rightarrow> att_state \<Rightarrow> att_state db" where
  "uploadPending env l now sender pending st =
     dbFold (\<lambda>(guid, withText, i, att) st.
         if \<not> aeAcquire env (clampAttachmentWeight (atFileSize att)) then dbReturn st
         else dbBind (downloadAndUploadAttachment env l now guid sender 0 withText i att st) (\<lambda>(_, st'). dbReturn st'))
       pending st"

text \<open>The startup pass; \<open>order\<close> is the order in which the downloads run.\<close>

definition preUploadCloudAttachments :: "att_env \<Rightarrow> (pending_upload list \<Rightarrow> pending_upload list) \<Rightarrow> bytes \<Rightarrow> time_ms
    \<Rightarrow> EventSender \<Rightarrow> att_state \<Rightarrow> att_state db" where
  "preUploadCloudAttachments env order l now sender st =
     (if aeMaxInitial env < 2 ^ 31 - 1 then dbReturn st
      else dbBind (dbTry (listAllAttachmentMessages l)) (\<lambda>rows. case rows of
        Inl _ \<Rightarrow> dbReturn st
      | Inr rows \<Rightarrow> dbBind (dbTry (loadAttachmentCacheJSON l)) (\<lambda>cached.
          let st1 = (case cached of Inl _ \<Rightarrow> st | Inr json \<Rightarrow> st\<lparr>asCache := loadContentCache env json (asCache st)\<rparr>) in
          dbBind (dbTry (getForwardBackfillDonePortals l)) (\<lambda>don. case don of
            Inl _ \<Rightarrow> dbReturn st1
          | Inr donePortals \<Rightarrow> dbBind (dbFold (pickStartup env l donePortals) rows ([], st1)) (\<lambda>(pending, st2).
              uploadPending env l now sender (order pending) st2)))))"

text \<open>The pass over the rows of one backfill looks only at the cache.\<close>

definition preUploadChunkAttachments :: "att_env \<Rightarrow> (pending_upload list \<Rightarrow> pending_upload list) \<Rightarrow> bytes \<Rightarrow> time_ms
    \<Rightarrow> EventSender \<Rightarrow> cloudMessageRow list \<Rightarrow> att_state \<Rightarrow> att_state db" where
  "preUploadChunkAttachments env order l now sender rows st =
     uploadPending env l now sender (order (filter (\<lambda>(_, _, _, att). atRecordName att \<noteq> [] \<and> asCache st (atRecordName att) = None)
       (concat (map (\<lambda>row. if AttachmentsJSON row = [] then [] else rowAttachments env row) rows)))) st"

end
