(* ===== verification/Backfill.thy ===== *)
theory Backfill
  imports Attachments CloudPaging
begin

text \<open>
  Backfill from the store, \<open>client.go\<close>: the conversion of rows to messages with the reactions to them
  (\<open>cloudRowsToBackfillMessages\<close>), and \<open>FetchMessages\<close> with its forward, backward and recovery branches, its counter of
  pending backfills and the callback that runs after the delivery.  The store is there (\<open>cloudStore\<close> is set).

  A panic passes through \<open>FetchMessages\<close>; its deferred functions run all the same.  The codec of the cursors (JSON and
  base64), bridgev2's lookups and the link previews are part of \<open>backfill_env\<close>.
\<close>

section \<open>State\<close>

datatype backfill_event =
    Queued remote_event
  | ReadReceipt PortalKey EventSender time_ms bytes

record cloudBackfillCursor =
  cuTimestampMS :: time_ms
  cuGUID :: bytes

record AnchorMessage =
  amID :: bytes
  amTimestamp :: time_ms

text \<open>The request; \<open>fpPortal\<close> is the key of \<open>params.Portal\<close>.\<close>

record FetchMessagesParams =
  fpPortal :: "PortalKey option"
  fpThreadRoot :: bytes
  fpForward :: bool
  fpCursor :: bytes
  fpAnchor :: "AnchorMessage option"
  fpCount :: int

text \<open>The captured variables of \<open>CompleteCallback\<close>: the last message and the portal.\<close>

record completion =
  coPortal :: PortalKey
  coLastID :: bytes
  coLastTS :: time_ms

record FetchMessagesResponse =
  frMessages :: "BackfillMessage list"
  frCursor :: bytes
  frHasMore :: bool
  frForward :: bool
  frCallback :: "completion option"

text \<open>What a call gives: a response, an error, or a panic.\<close>

datatype fetch_result = Response FetchMessagesResponse | FetchError err | FetchPanic

text \<open>What \<open>chatdb.go\<close> answers: messages and \<open>HasMore\<close>, never a cursor or a callback.\<close>

datatype chatdb_answer = ChatDBMessages "BackfillMessage list" bool | ChatDBError err | ChatDBPanic

record backfill_env =
  beAtt :: att_env
  beOrder :: "pending_upload list \<Rightarrow> pending_upload list"
  beLoginID :: bytes
  beHandle :: bytes
  beMaxInitial :: int
  beChatDB :: "(FetchMessagesParams \<Rightarrow> chatdb_answer) option"
  beCloudKit :: bool
  beDeleted :: "bytes set"
  beSlot :: bool
  beCancelled :: bool
  bePreviews :: "bytes \<Rightarrow> BeeperLinkPreview option list"
  beKnown :: "bytes \<Rightarrow> bool"
  beReacted :: "bytes \<Rightarrow> bytes \<Rightarrow> bool"
  beEncode :: "cloudBackfillCursor \<Rightarrow> bytes + bytes"
  beDecode :: "bytes \<Rightarrow> bytes + cloudBackfillCursor"

text \<open>\<open>bsReleased\<close> counts the calls of \<open>onForwardBackfillDone\<close>, \<open>bsSlots\<close> the taken places of \<open>forwardBackfillSem\<close>.\<close>

record backfill_state =
  bsAtt :: att_state
  bsEvents :: "backfill_event list"
  bsReleased :: nat
  bsSlots :: nat

section \<open>One row\<close>

definition makeCloudSender :: "backfill_env \<Rightarrow> cloudMessageRow \<Rightarrow> EventSender" where
  "makeCloudSender env row =
     (if IsFromMe row then \<lparr>es_IsFromMe = True, es_SenderLogin = beLoginID env, es_Sender = makeUserID (beHandle env)\<rparr>
      else let normalizedSender = normalizeIdentifierForPortalID (Sender row);
               portalID = TrimSpace (PortalID row);
               fromPortal = (if normalizedSender = [] \<and> portalID \<noteq> [] \<and> \<not> HasPrefix portalID ''gid:'' \<and> \<not> Contains portalID '',''
                             then portalID else normalizedSender);
               sender = (if fromPortal = [] then Sender row else fromPortal) in
        \<lparr>es_IsFromMe = False, es_SenderLogin = [], es_Sender = makeUserID sender\<rparr>)"

definition isCloudReactionRow :: "nat option \<Rightarrow> bool" where
  "isCloudReactionRow tapbackType = (case tapbackType of Some t \<Rightarrow> 2000 \<le> t | None \<Rightarrow> False)"

definition noSender :: "EventSender \<Rightarrow> bool" where
  "noSender sender = (es_Sender sender = [] \<and> \<not> es_IsFromMe sender)"

text \<open>The target of a reaction, \<open>p:N/GUID\<close> or the bare identifier, and the part.\<close>

definition tapbackTarget :: "bytes \<Rightarrow> bytes \<times> int" where
  "tapbackTarget target =
     (case Index target ''/'' of
        Some i \<Rightarrow> (drop (i + 1) target, parseBalloonPart (take i target) ''p:%d'')
      | None \<Rightarrow> (target, 0))"

definition cloudEmoji :: "nat \<Rightarrow> cloudMessageRow \<Rightarrow> bytes" where
  "cloudEmoji idx row = tapbackTypeToEmoji (Some (of_nat idx)) (Some (TapbackEmoji row))"

definition cloudTapbackToBackfill :: "backfill_env \<Rightarrow> cloudMessageRow \<Rightarrow> EventSender \<Rightarrow> time_ms \<Rightarrow> backfill_state \<Rightarrow> backfill_state" where
  "cloudTapbackToBackfill env row sender ts st =
     (let tapbackType = the (TapbackKind row); isRemove = (3000 \<le> tapbackType);
          idx = (if isRemove then tapbackType - 3000 else tapbackType - 2000);
          (targetGUID, bp) = tapbackTarget (TapbackTargetGUID row) in
      if targetGUID = [] then st
      else let targetMsgID = resolveTapbackTargetID (beKnown env) targetGUID bp in
        if \<not> isRemove \<and> beReacted env targetMsgID (es_Sender sender) then st
        else st\<lparr>bsEvents := bsEvents st @ [Queued (ReactionEvent isRemove
               \<lparr>pk_ID = PortalID row, pk_Receiver = beLoginID env\<rparr> sender ts targetMsgID (cloudEmoji idx row))]\<rparr>)"

definition downloadNotice :: MessageEventContent where
  "downloadNotice = \<lparr>ecMsgType = ''m.notice'', ecBody = ''Attachment could not be downloaded from iCloud.'', ecFormat = [],
     ecFormattedBody = [], ecPreviews = []\<rparr>"

definition textMessage :: "backfill_env \<Rightarrow> cloudMessageRow \<Rightarrow> EventSender \<Rightarrow> BackfillMessage" where
  "textMessage env row sender =
     backfillMessage sender (GUID row) (TimestampMS row)
       (map (\<lambda>p. (cpID p, TextContent (cpContent p)))
         (buildTextParts (aeMarshal (beAtt env)) ''m.text'' (Subject row) (trimObject (Text row)) (bePreviews env (Text row)) False))"

definition rowHasText :: "cloudMessageRow \<Rightarrow> bool" where
  "rowHasText row = (bodyText row \<or> TrimSpace (Subject row) \<noteq> [])"

definition addReply :: "cloudMessageRow \<Rightarrow> BackfillMessage list \<Rightarrow> BackfillMessage list" where
  "addReply row ms =
     (if ReplyToGUID row = [] then ms
      else map (\<lambda>m. m\<lparr>bfReplyTo := Some (chatDBReplyTarget (ReplyToGUID row) (parseBalloonPart (ReplyToPart row) ''%d:''))\<rparr>) ms)"

text \<open>Rows that give no message: privacy, a content that is gone, system messages.\<close>

definition skipRow :: "cloudMessageRow \<Rightarrow> bool" where
  "skipRow row =
     (BodyScrubbed row \<and> \<not> isCloudReactionRow (TapbackKind row)
      \<or> HasBody row \<and> \<not> isCloudReactionRow (TapbackKind row) \<and> TrimSpace (Text row) = [] \<and> Subject row = []
          \<and> AttachmentsJSON row = [])"

definition systemRow :: "bytes \<Rightarrow> cloudMessageRow \<Rightarrow> bool" where
  "systemRow groupDisplayName row =
     (\<not> HasBody row \<and> TrimSpace (Text row) = [] \<and> AttachmentsJSON row = [] \<and> TapbackKind row = None
      \<or> Text row \<noteq> [] \<and> groupDisplayName \<noteq> [] \<and> Text row = groupDisplayName \<and> AttachmentsJSON row = [] \<and> TapbackKind row = None)"

definition contentMessages :: "backfill_env \<Rightarrow> cloudMessageRow \<Rightarrow> EventSender \<Rightarrow> BackfillMessage list \<Rightarrow> BackfillMessage list" where
  "contentMessages env row sender attMessages =
     (let ms = (if rowHasText row then [textMessage env row sender] else []) @ attMessages in
      addReply row
        (if ms = [] \<and> AttachmentsJSON row \<noteq> []
         then [backfillMessage sender (GUID row) (TimestampMS row) [([], TextContent downloadNotice)]] else ms))"

definition cloudRowToBackfillMessages :: "backfill_env \<Rightarrow> bytes \<Rightarrow> time_ms \<Rightarrow> bytes \<Rightarrow> cloudMessageRow \<Rightarrow> backfill_state
    \<Rightarrow> (BackfillMessage list option \<times> backfill_state) db" where
  "cloudRowToBackfillMessages env l now groupDisplayName row st =
     (let sender0 = makeCloudSender env row; sender = canonicalizeDMSender (PortalID row) sender0 in
      if skipRow row \<or> noSender sender0 \<or> systemRow groupDisplayName row then dbReturn (Some [], st)
      else if isCloudReactionRow (TapbackKind row)
        then dbReturn (Some [], cloudTapbackToBackfill env row sender (TimestampMS row) st)
      else dbBind (cloudAttachmentsToBackfill (beAtt env) l now row sender (TimestampMS row) (rowHasText row) (bsAtt st))
        (\<lambda>(attMessages, ast). dbReturn (map_option (contentMessages env row sender) attMessages, st\<lparr>bsAtt := ast\<rparr>)))"

section \<open>Many rows\<close>

text \<open>The first pass: the messages so far and the position of the first message of each identifier.  \<open>None\<close> is a panic.\<close>

type_synonym first_pass = "BackfillMessage list \<times> (bytes \<rightharpoonup> nat)"

definition convertRow :: "backfill_env \<Rightarrow> bytes \<Rightarrow> time_ms \<Rightarrow> bytes \<Rightarrow> cloudMessageRow \<Rightarrow> first_pass option \<times> backfill_state
    \<Rightarrow> (first_pass option \<times> backfill_state) db" where
  "convertRow env l now groupDisplayName row acc =
     (case acc of
        (None, st) \<Rightarrow> dbReturn (None, st)
      | (Some (ms, idx), st) \<Rightarrow>
          if isCloudReactionRow (TapbackKind row) then dbReturn (Some (ms, idx), st)
          else dbBind (cloudRowToBackfillMessages env l now groupDisplayName row st) (\<lambda>(r, st').
            dbReturn (map_option (\<lambda>new. (ms @ new, if new = [] then idx else idx(GUID row \<mapsto> length ms))) r, st')))"

definition attachReaction :: "BackfillReaction \<Rightarrow> nat \<Rightarrow> BackfillMessage list \<Rightarrow> BackfillMessage list" where
  "attachReaction reaction i ms = ms[i := (ms ! i)\<lparr>bfReactions := bfReactions (ms ! i) @ [reaction]\<rparr>]"

text \<open>The second pass: a reaction goes to its message when that is in the batch, and is queued otherwise.\<close>

definition resolveTapback :: "backfill_env \<Rightarrow> (bytes \<rightharpoonup> nat) \<Rightarrow> cloudMessageRow \<Rightarrow> BackfillMessage list \<times> backfill_state
    \<Rightarrow> BackfillMessage list \<times> backfill_state" where
  "resolveTapback env messageByGUID row acc =
     (case acc of (ms, st) \<Rightarrow>
        let sender0 = makeCloudSender env row; sender = canonicalizeDMSender (PortalID row) sender0;
            tapbackType = the (TapbackKind row); isRemove = (3000 \<le> tapbackType);
            (targetGUID, bp) = tapbackTarget (TapbackTargetGUID row) in
        if noSender sender0 \<or> targetGUID = [] then (ms, st)
        else case (if isRemove then None else messageByGUID targetGUID) of
            Some i \<Rightarrow> (attachReaction
                \<lparr>brSender = sender, brEmoji = cloudEmoji (tapbackType - 2000) row, brTimestamp = TimestampMS row,
                 brTargetPart = (if 1 \<le> bp then Some (''att'' @ Itoa (bp - 1)) else None)\<rparr> i ms, st)
          | None \<Rightarrow> (ms, cloudTapbackToBackfill env row sender (TimestampMS row) st))"

definition cloudRowsToBackfillMessages :: "backfill_env \<Rightarrow> bytes \<Rightarrow> time_ms \<Rightarrow> bytes \<Rightarrow> cloudMessageRow list \<Rightarrow> backfill_state
    \<Rightarrow> (BackfillMessage list option \<times> backfill_state) db" where
  "cloudRowsToBackfillMessages env l now groupDisplayName rows st =
     dbBind (dbFold (convertRow env l now groupDisplayName) rows (Some ([], Map.empty), st)) (\<lambda>(r, st').
       dbReturn (case r of
           None \<Rightarrow> (None, st')
         | Some (ms, idx) \<Rightarrow>
             (case fold (resolveTapback env idx) (filter (\<lambda>row. isCloudReactionRow (TapbackKind row)) rows) (ms, st') of
                (ms', st'') \<Rightarrow> (Some ms', st''))))"


section \<open>FetchMessages\<close>

definition forwardChunkSize :: nat where "forwardChunkSize = 5000"

definition emptyResponse :: "bool \<Rightarrow> bool \<Rightarrow> fetch_result" where
  "emptyResponse hasMore forward =
     Response \<lparr>frMessages = [], frCursor = [], frHasMore = hasMore, frForward = forward, frCallback = None\<rparr>"

text \<open>The queue worker passes \<open>JSON\<close> in base64; a cursor without an identifier is refused.\<close>

definition decodeCloudBackfillCursor :: "backfill_env \<Rightarrow> bytes \<Rightarrow> bytes + cloudBackfillCursor" where
  "decodeCloudBackfillCursor env c =
     (case beDecode env c of
        Inl e \<Rightarrow> Inl e
      | Inr parsed \<Rightarrow> if cuGUID parsed = [] then Inl ''empty guid in cursor'' else Inr parsed)"

text \<open>The part of \<open>onForwardBackfillDone\<close> that counts; what the last release flushes is in \<open>ReorderBuffer\<close>.\<close>

definition releasePending :: "backfill_state \<Rightarrow> backfill_state" where
  "releasePending st = st\<lparr>bsReleased := bsReleased st + 1\<rparr>"

definition preUploadRows :: "backfill_env \<Rightarrow> bytes \<Rightarrow> time_ms \<Rightarrow> cloudMessageRow list \<Rightarrow> backfill_state \<Rightarrow> backfill_state db" where
  "preUploadRows env l now rows st =
     dbBind (preUploadChunkAttachments (beAtt env) (beOrder env) l now
          \<lparr>es_IsFromMe = True, es_SenderLogin = beLoginID env, es_Sender = makeUserID (beHandle env)\<rparr> rows (bsAtt st))
       (\<lambda>ast. dbReturn (st\<lparr>bsAtt := ast\<rparr>))"

text \<open>The rows of a forward call: the newest ones when there is no message yet, else page after page from the newest
  message.  A failed query ends the call; what was uploaded before it stays.\<close>

type_synonym rows_result = "(err + cloudMessageRow list) \<times> backfill_state"

definition forwardLatest :: "backfill_env \<Rightarrow> bytes \<Rightarrow> time_ms \<Rightarrow> bytes \<Rightarrow> nat \<Rightarrow> backfill_state \<Rightarrow> rows_result db" where
  "forwardLatest env l now portalID count st =
     dbBind (dbTry (listLatestMessages l portalID count)) (\<lambda>r. case r of
         Inl e \<Rightarrow> dbReturn (Inl e, st)
       | Inr rows \<Rightarrow> dbBind (preUploadRows env l now (rev rows) st) (\<lambda>st'. dbReturn (Inr (rev rows), st')))"

function forwardChunks :: "backfill_env \<Rightarrow> bytes \<Rightarrow> time_ms \<Rightarrow> bytes \<Rightarrow> nat \<Rightarrow> time_ms \<Rightarrow> bytes \<Rightarrow> cloudMessageRow list \<Rightarrow> backfill_state
    \<Rightarrow> rows_result db" where
  "forwardChunks env l now portalID remaining ts guid sofar st =
     (if remaining = 0 then dbReturn (Inr sofar, st)
      else let chunkLimit = min forwardChunkSize remaining in
        dbBind (dbTry (listForwardMessages l portalID ts guid chunkLimit)) (\<lambda>r. case r of
            Inl e \<Rightarrow> dbReturn (Inl e, st)
          | Inr rows \<Rightarrow>
              if rows = [] then dbReturn (Inr sofar, st)
              else dbBind (preUploadRows env l now rows st) (\<lambda>st'.
                if length rows < chunkLimit then dbReturn (Inr (sofar @ rows), st')
                else forwardChunks env l now portalID (remaining - length rows) (TimestampMS (last rows)) (GUID (last rows))
                       (sofar @ rows) st')))"
  by pat_completeness auto

termination forwardChunks
  by (relation "measure (\<lambda>(_, _, _, _, remaining, _, _, _, _). remaining)") auto

declare forwardChunks.simps [simp del]

definition forwardRowsOf :: "backfill_env \<Rightarrow> bytes \<Rightarrow> time_ms \<Rightarrow> bytes \<Rightarrow> nat \<Rightarrow> AnchorMessage option \<Rightarrow> backfill_state \<Rightarrow> rows_result db" where
  "forwardRowsOf env l now portalID count anchor st =
     (case anchor of
        None \<Rightarrow> forwardLatest env l now portalID count st
      | Some a \<Rightarrow> forwardChunks env l now portalID count (amTimestamp a) (amID a) [] st)"

text \<open>The forward branch with its place in \<open>forwardBackfillSem\<close>; a response with a callback sets \<open>forwardDone\<close>.\<close>

definition forwardFetch :: "backfill_env \<Rightarrow> bytes \<Rightarrow> time_ms \<Rightarrow> PortalKey \<Rightarrow> bytes \<Rightarrow> nat \<Rightarrow> AnchorMessage option \<Rightarrow> backfill_state
    \<Rightarrow> (fetch_result \<times> backfill_state) db" where
  "forwardFetch env l now portal groupDisplayName count anchor st =
     dbBind (forwardRowsOf env l now (pk_ID portal) count anchor st) (\<lambda>(r, st1). case r of
         Inl e \<Rightarrow> dbReturn (FetchError e, st1)
       | Inr rows \<Rightarrow> dbBind (cloudRowsToBackfillMessages env l now groupDisplayName rows st1) (\<lambda>(ms, st2). case ms of
             None \<Rightarrow> dbReturn (FetchPanic, st2)
           | Some ms \<Rightarrow>
               if ms = [] then dbThen (markForwardBackfillDone l now (pk_ID portal)) (dbReturn (emptyResponse False True, st2))
               else dbReturn (Response \<lparr>frMessages = ms, frCursor = [], frHasMore = False, frForward = True,
                   frCallback = Some \<lparr>coPortal = portal, coLastID = bfID (last ms), coLastTS = bfTimestamp (last ms)\<rparr>\<rparr>, st2)))"

definition withSlot :: "(backfill_state \<Rightarrow> (fetch_result \<times> backfill_state) db) \<Rightarrow> backfill_state \<Rightarrow> (fetch_result \<times> backfill_state) db" where
  "withSlot body st =
     dbBind (body (st\<lparr>bsSlots := bsSlots st + 1\<rparr>)) (\<lambda>(r, st'). dbReturn (r, st'\<lparr>bsSlots := bsSlots st' - 1\<rparr>))"

text \<open>The callback, after the messages are in Matrix.\<close>

definition completeCallback :: "backfill_env \<Rightarrow> bytes \<Rightarrow> time_ms \<Rightarrow> completion \<Rightarrow> backfill_state \<Rightarrow> backfill_state db" where
  "completeCallback env l now co st =
     dbBind (dbTry (getConversationReadByMe l (pk_ID (coPortal co)))) (\<lambda>readByMe.
       dbThen (markForwardBackfillDone l now (pk_ID (coPortal co)))
         (dbReturn (releasePending
           (if readByMe = Inr True
            then st\<lparr>bsEvents := bsEvents st @ [ReadReceipt (coPortal co)
                   \<lparr>es_IsFromMe = True, es_SenderLogin = beLoginID env, es_Sender = makeUserID (beHandle env)\<rparr>
                   (coLastTS co) (coLastID co)]\<rparr>
            else st))))"

section \<open>FetchMessages: backward\<close>

definition backwardStart :: "backfill_env \<Rightarrow> FetchMessagesParams \<Rightarrow> err + cloudBackfillCursor" where
  "backwardStart env params =
     (if fpCursor params \<noteq> []
      then (case decodeCloudBackfillCursor env (fpCursor params) of
              Inl e \<Rightarrow> Inl (''invalid backfill cursor: '' @ e) | Inr c \<Rightarrow> Inr c)
      else Inr (case fpAnchor params of
              Some a \<Rightarrow> \<lparr>cuTimestampMS = amTimestamp a, cuGUID = amID a\<rparr>
            | None \<Rightarrow> \<lparr>cuTimestampMS = 0, cuGUID = []\<rparr>))"

definition messagesResponse :: "bytes \<Rightarrow> bool \<Rightarrow> BackfillMessage list option \<times> backfill_state \<Rightarrow> fetch_result \<times> backfill_state" where
  "messagesResponse nextCursor hasMore r =
     (case r of
        (None, st) \<Rightarrow> (FetchPanic, st)
      | (Some ms, st) \<Rightarrow> (Response \<lparr>frMessages = ms, frCursor = nextCursor, frHasMore = hasMore, frForward = False,
            frCallback = None\<rparr>, st))"

text \<open>Nothing to start from: wait for the forward backfill, or fill a recovered portal.\<close>

definition backwardRecovery :: "backfill_env \<Rightarrow> bytes \<Rightarrow> time_ms \<Rightarrow> bytes \<Rightarrow> bytes \<Rightarrow> nat \<Rightarrow> backfill_state
    \<Rightarrow> (fetch_result \<times> backfill_state) db" where
  "backwardRecovery env l now portalID groupDisplayName count st =
     dbBind (isForwardBackfillDone l portalID) (\<lambda>forwardDone.
     dbBind (dbTry (hasPortalMessages l portalID)) (\<lambda>hasMessages.
       if \<not> forwardDone then
         (if hasMessages \<noteq> Inr True then dbReturn (emptyResponse False False, st)
          else if beCancelled env then dbReturn (FetchError ''context canceled'', st)
          else dbReturn (emptyResponse True False, st))
       else if hasMessages \<noteq> Inr True then dbReturn (emptyResponse False False, st)
       else dbBind (dbTry (listLatestMessages l portalID count)) (\<lambda>r. case r of
           Inl e \<Rightarrow> dbReturn (FetchError e, st)
         | Inr rows \<Rightarrow>
             if rows = [] then dbReturn (emptyResponse False False, st)
             else dbBind (cloudRowsToBackfillMessages env l now groupDisplayName (rev rows) st)
               (\<lambda>ms. dbReturn (messagesResponse [] False ms)))))"

definition backwardPage :: "backfill_env \<Rightarrow> bytes \<Rightarrow> time_ms \<Rightarrow> bytes \<Rightarrow> bytes \<Rightarrow> nat \<Rightarrow> cloudBackfillCursor \<Rightarrow> backfill_state
    \<Rightarrow> (fetch_result \<times> backfill_state) db" where
  "backwardPage env l now portalID groupDisplayName count before st =
     dbBind (dbTry (listBackwardMessages l portalID (cuTimestampMS before) (cuGUID before) (count + 1))) (\<lambda>r. case r of
         Inl e \<Rightarrow> dbReturn (FetchError e, st)
       | Inr rows0 \<Rightarrow>
           let hasMore = (count < length rows0); rows = rev (if hasMore then take count rows0 else rows0) in
           dbBind (cloudRowsToBackfillMessages env l now groupDisplayName rows st) (\<lambda>(ms, st'). dbReturn (
             if ms \<noteq> None \<and> hasMore \<and> rows \<noteq> []
             then (case beEncode env \<lparr>cuTimestampMS = TimestampMS (hd rows), cuGUID = GUID (hd rows)\<rparr> of
                     Inl e \<Rightarrow> (FetchError e, st') | Inr next \<Rightarrow> messagesResponse next hasMore (ms, st'))
             else messagesResponse [] hasMore (ms, st'))))"

definition backwardFetch :: "backfill_env \<Rightarrow> bytes \<Rightarrow> time_ms \<Rightarrow> bytes \<Rightarrow> bytes \<Rightarrow> nat \<Rightarrow> FetchMessagesParams \<Rightarrow> backfill_state
    \<Rightarrow> (fetch_result \<times> backfill_state) db" where
  "backwardFetch env l now portalID groupDisplayName count params st =
     (case backwardStart env params of
        Inl e \<Rightarrow> dbReturn (FetchError e, st)
      | Inr before \<Rightarrow>
          if cuTimestampMS before = 0 \<and> cuGUID before = []
          then backwardRecovery env l now portalID groupDisplayName count st
          else backwardPage env l now portalID groupDisplayName count before st)"

section \<open>FetchMessages: both\<close>

text \<open>A portal that was deleted gets nothing unless it has messages; a failed query lets it pass.\<close>

definition deletedWithoutMessages :: "backfill_env \<Rightarrow> bytes \<Rightarrow> bytes \<Rightarrow> bool db" where
  "deletedWithoutMessages env l portalID =
     (if portalID \<in> beDeleted env
      then dbBind (dbTry (listLatestMessages l portalID 1)) (\<lambda>r. dbReturn (r = Inr []))
      else dbReturn False)"

definition fromChatDB :: "bool \<Rightarrow> chatdb_answer \<Rightarrow> fetch_result" where
  "fromChatDB forward answer =
     (case answer of
        ChatDBMessages ms hasMore \<Rightarrow> Response \<lparr>frMessages = ms, frCursor = [], frHasMore = hasMore, frForward = forward,
          frCallback = None\<rparr>
      | ChatDBError e \<Rightarrow> FetchError e
      | ChatDBPanic \<Rightarrow> FetchPanic)"

definition fetchBody :: "backfill_env \<Rightarrow> bytes \<Rightarrow> time_ms \<Rightarrow> FetchMessagesParams \<Rightarrow> backfill_state
    \<Rightarrow> (fetch_result \<times> backfill_state) db" where
  "fetchBody env l now params st =
     (let empty = emptyResponse False (fpForward params); count = nat (if fpCount params \<le> 0 then 50 else fpCount params) in
      if \<not> fpForward params \<and> beMaxInitial env < 2 ^ 31 - 1 then dbReturn (empty, st)
      else case beChatDB env of Some chatDB \<Rightarrow> dbReturn (fromChatDB (fpForward params) (chatDB params), st) | None \<Rightarrow>
      if \<not> beCloudKit env then dbReturn (empty, st)
      else case fpPortal params of None \<Rightarrow> dbReturn (empty, st) | Some portal \<Rightarrow>
      if fpThreadRoot params \<noteq> [] \<or> pk_ID portal = [] then dbReturn (empty, st)
      else dbBind (deletedWithoutMessages env l (pk_ID portal)) (\<lambda>deleted.
        if deleted then dbReturn (empty, st)
        else dbBind (dbTry (getDisplayNameByPortalID l (pk_ID portal))) (\<lambda>name.
          let groupDisplayName = (case name of Inl _ \<Rightarrow> [] | Inr n \<Rightarrow> n) in
          if \<not> fpForward params then backwardFetch env l now (pk_ID portal) groupDisplayName count params st
          else if \<not> beSlot env then dbReturn (empty, st)
          else withSlot (forwardFetch env l now portal groupDisplayName count (fpAnchor params)) st)))"

definition forwardDone :: "fetch_result \<Rightarrow> bool" where
  "forwardDone r = (case r of Response resp \<Rightarrow> frCallback resp \<noteq> None | _ \<Rightarrow> False)"

text \<open>The deferred release runs on every path that leaves \<open>forwardDone\<close> unset, the one to \<open>chat.db\<close> included.\<close>

definition FetchMessages :: "backfill_env \<Rightarrow> bytes \<Rightarrow> time_ms \<Rightarrow> FetchMessagesParams \<Rightarrow> backfill_state
    \<Rightarrow> (fetch_result \<times> backfill_state) db" where
  "FetchMessages env l now params st =
     dbBind (fetchBody env l now params st) (\<lambda>(r, st').
       dbReturn (r, if fpForward params \<and> \<not> forwardDone r then releasePending st' else st'))"

end
