(* ===== verification/AttachmentsSpec.thy ===== *)
theory AttachmentsSpec
  imports Attachments CloudInv
begin

text \<open>
  What the way of the attachments promises: a limited number of tries, tombstones that outlive a restart, and weights that
  always fit the budget of the downloads.
\<close>

section \<open>Failures\<close>

text \<open>The entry after a list of failures, the oldest first.\<close>

definition failedAfter :: "bytes list \<Rightarrow> failedAttachmentEntry option" where
  "failedAfter es = fold (\<lambda>e prev. Some (failedEntry e prev)) es None"

lemma failedAfter_snoc: "failedAfter (es @ [e]) = Some (failedEntry e (failedAfter es))"
  by (simp add: failedAfter_def)

lemma failedAfter_entry:
  "failedAfter es = (if es = [] then None else Some \<lparr>faLastError = last es, faRetries = length es,
     faAbandoned = (list_ex isUnrecoverableAttachmentError es \<or> 3 \<le> length es)\<rparr>)"
proof (induction es rule: rev_induct)
  case (snoc e es)
  then show ?case by (auto simp: failedAfter_snoc failedEntry_def Let_def maxAttachmentRetries_def)
qed (simp add: failedAfter_def)

definition noFailure :: att_state where
  "noFailure = \<lparr>asCache = Map.empty, asFailed = Map.empty, asDead = {}, asDeadLoaded = False\<rparr>"

fun recordAll :: "bytes \<Rightarrow> time_ms \<Rightarrow> bytes \<Rightarrow> bytes list \<Rightarrow> att_state \<Rightarrow> att_state db" where
  "recordAll l now r [] st = dbReturn st"
| "recordAll l now r (e # es) st = dbBind (recordAttachmentFailure l now r e st) (recordAll l now r es)"

lemma recordAll_run:
  "\<exists>st' s' fs'. recordAll l now r es st (s, fs) = (Inr st', s', fs')
     \<and> asFailed st' r = fold (\<lambda>e prev. Some (failedEntry e prev)) es (asFailed st r) \<and> asCache st' = asCache st
     \<and> (list_ex isUnrecoverableAttachmentError es \<or> asDead st' = asDead st \<and> asDeadLoaded st' = asDeadLoaded st \<and> s' = s)"
proof (induction es arbitrary: st s fs)
  case (Cons e es)
  have one: "\<exists>st1 s1 fs1. recordAttachmentFailure l now r e st (s, fs) = (Inr st1, s1, fs1)
      \<and> asFailed st1 r = Some (failedEntry e (asFailed st r)) \<and> asCache st1 = asCache st
      \<and> (isUnrecoverableAttachmentError e \<or> asDead st1 = asDead st \<and> asDeadLoaded st1 = asDeadLoaded st \<and> s1 = s)"
    by (auto simp: recordAttachmentFailure_def markAttachmentDead_def saveDeadAttachment_def Let_def dbBind_def dbThen_def
        dbReturn_def dbCatch_def split: prod.split sum.split)
  then obtain st1 s1 fs1 where 1: "recordAttachmentFailure l now r e st (s, fs) = (Inr st1, s1, fs1)"
      "asFailed st1 r = Some (failedEntry e (asFailed st r))" "asCache st1 = asCache st"
      "isUnrecoverableAttachmentError e \<or> asDead st1 = asDead st \<and> asDeadLoaded st1 = asDeadLoaded st \<and> s1 = s" by blast
  from Cons.IH [of st1 s1 fs1] show ?case using 1 by (auto simp: dbBind_def)
qed (simp add: dbReturn_def)

text \<open>What a session takes for dead: what it marked itself, and the tombstones of the store unless their query fails.\<close>

definition knownDead :: "bytes \<Rightarrow> att_state \<Rightarrow> store \<Rightarrow> script \<Rightarrow> bytes set" where
  "knownDead l st s fs =
     (if asDeadLoaded st \<or> fs \<noteq> [] \<and> hd fs \<noteq> None then asDead st
      else asDead st \<union> dRecord ` {d \<in> set (deadAtts s). dLogin d = l})"

lemma load_run: "ensureDeadAttachmentsLoaded l st (s, fs) =
    (Inr (st\<lparr>asDead := knownDead l st s fs, asDeadLoaded := True\<rparr>), s, if asDeadLoaded st then fs else tl fs)"
proof (cases "asDeadLoaded st")
  case True
  then show ?thesis by (cases st) (simp add: ensureDeadAttachmentsLoaded_def knownDead_def dbReturn_def)
next
  case False
  have "dbTry (loadDeadAttachments l) (s, fs) = (Inr (if fs \<noteq> [] \<and> hd fs \<noteq> None then Inl (the (hd fs))
      else Inr (map dRecord (filter (\<lambda>d. dLogin d = l) (deadAtts s)))), s, tl fs)"
    by (cases fs; cases "hd fs") (auto simp: dbTry_def loadDeadAttachments_def sqlQuery_def)
  then show ?thesis
    using False by (cases st) (auto simp: ensureDeadAttachmentsLoaded_def knownDead_def dbBind_def dbReturn_def)
qed

lemma dead_run: "isDeadAttachment l r st (s, fs) =
    (Inr (r \<in> knownDead l st s fs, st\<lparr>asDead := knownDead l st s fs, asDeadLoaded := True\<rparr>), s, if asDeadLoaded st then fs else tl fs)"
  by (simp add: isDeadAttachment_def dbBind_def load_run dbReturn_def)

definition sampleAttachment :: "bytes \<Rightarrow> cloudAttachmentRow" where
  "sampleAttachment r = \<lparr>atGUID = ''G'', atMimeType = ''image/png'', atUTIType = ''public.png'', atFilename = ''a.png'',
     atFileSize = 1000, atRecordName = r, atHideAttachment = False, atHasAvid = False\<rparr>"

text \<open>An attachment gets three tries in a session.  After any list of failures the startup pass takes it up again exactly if
  there were fewer than three, none of them was final, and a portal that is done already has seen at least one; an
  attachment with a tombstone is never taken up.\<close>

theorem three_tries:
  assumes "atRecordName att = r" "r \<noteq> []" "\<not> isPluginPayloadAttachment att"
    and "\<not> list_ex (\<lambda>d. dLogin d = l \<and> dRecord d = r) (deadAtts s)"
  shows "case dbBind (recordAll l now r es noFailure) (preUploadWanted l portalDone att) (s, fs) of
      (Inr (wanted, _), _) \<Rightarrow> wanted = (length es < 3 \<and> \<not> list_ex isUnrecoverableAttachmentError es \<and> (es = [] \<longrightarrow> \<not> portalDone))
    | (Inl _, _) \<Rightarrow> False"
proof -
  obtain st s' fs' where run: "recordAll l now r es noFailure (s, fs) = (Inr st, s', fs')"
      "asFailed st r = failedAfter es" "asCache st = Map.empty"
      "list_ex isUnrecoverableAttachmentError es \<or> asDead st = {} \<and> \<not> asDeadLoaded st \<and> s' = s"
    using recordAll_run [of l now r es noFailure s fs] by (auto simp: noFailure_def failedAfter_def)
  have alive: "r \<notin> knownDead l st s' fs'" if "\<not> list_ex isUnrecoverableAttachmentError es"
    using run(4) that assms(4) by (auto simp: knownDead_def list_ex_iff)
  show ?thesis
    using alive assms(1-3) run(2,3)
    by (auto simp: dbBind_def run(1) preUploadWanted_def dead_run dbReturn_def failedAfter_entry maxAttachmentRetries_def)
qed

theorem three_tries_witness:
  "case dbBind (recordAll ''me'' 0 ''R'' [''timeout'', ''timeout''] noFailure)
      (preUploadWanted ''me'' True (sampleAttachment ''R'')) (sampleStore, []) of
      (Inr (wanted, _), _) \<Rightarrow> wanted = (length [''timeout'', ''timeout''] < 3
          \<and> \<not> list_ex isUnrecoverableAttachmentError [''timeout'', ''timeout''] \<and> ([''timeout'', ''timeout''] = [] \<longrightarrow> \<not> True))
    | (Inl _, _) \<Rightarrow> False"
  by (rule three_tries) (simp_all add: sampleAttachment_def isPluginPayloadAttachment_def HasSuffix_def sampleStore_def)

section \<open>Tombstones\<close>

text \<open>An attachment that would be asked for: small enough, not cached, not known to be dead.\<close>

definition attempted :: "att_env \<Rightarrow> bytes \<Rightarrow> cloudAttachmentRow \<Rightarrow> store \<Rightarrow> bool" where
  "attempted env l att s \<longleftrightarrow> recoverAttachmentSize (atFileSize att) \<le> maxAttachmentBytes env
     \<and> \<not> list_ex (\<lambda>d. dLogin d = l \<and> dRecord d = atRecordName att) (deadAtts s)"

lemma upsert_has: "\<exists>r\<in>set (insertIgnore key new rs). key r = key new"
  by (auto simp: insertIgnore_def upsertRow_def list_ex_iff)

lemma final_failure_buries:
  assumes "attempted env l att s" "fetchAttachment env (atRecordName att) = Inl (Some e)" "isUnrecoverableAttachmentError e"
  shows "\<exists>st'. downloadAndUploadAttachment env l now guid sender ts wt i att noFailure (s, []) = (Inr (Some [], st'),
      s\<lparr>deadAtts := insertIgnore deadKey \<lparr>dLogin = l, dRecord = atRecordName att, dReason = e, dFailed = now\<rparr> (deadAtts s)\<rparr>, [])"
proof -
  have alive: "atRecordName att \<notin> knownDead l noFailure s []"
    using assms(1) by (auto simp: attempted_def knownDead_def noFailure_def list_ex_iff)
  show ?thesis
    using assms alive
    by (simp add: downloadAndUploadAttachment_def Let_def attempted_def dbBind_def dead_run noFailure_def freshAttachment_def
        recordAttachmentFailure_def markAttachmentDead_def saveDeadAttachment_def dbCatch_def dbThen_def dbReturn_def)
qed

text \<open>An environment in which the service answers as given.\<close>

definition attEnv :: "(bytes \<Rightarrow> bytes + 64 word) \<Rightarrow> att_env" where
  "attEnv answer = \<lparr>aeMaxMB = 0, aeMaxInitial = 2 ^ 31 - 1, aeFree = None, aeTemp = None, aeFetch = answer,
     aeRead = (\<lambda>_. Inr ''data''), aeTranscoding = False, aeTranscode = (\<lambda>_ _. None),
     aeHEIC = (\<lambda>d mime name. ((d, mime, name), None)), aeGifSize = (\<lambda>_. None), aeDecode = (\<lambda>_. None),
     aeUpload = (\<lambda>_ name _. Inr (''mxc://'' @ name)), aeAvid = (\<lambda>_. Inl ''none''), aeMarshal = (\<lambda>_ _. None),
     aeEncode = (\<lambda>_. None), aeContent = (\<lambda>_. None), aeRows = (\<lambda>r. Some [sampleAttachment r]), aeAcquire = (\<lambda>_. True),
     aeOrder = (\<lambda>xs. xs), aeSort = (\<lambda>xs. xs)\<rparr>"

definition sampleSender :: EventSender where
  "sampleSender = \<lparr>es_IsFromMe = False, es_SenderLogin = [], es_Sender = ''tel:+15550100''\<rparr>"



section \<open>Sizes\<close>

text \<open>CloudKit writes sizes as 32-bit numbers that wrap above 2 GiB: every size below 4 GiB is recovered, so the limit compares
  the true size, and the weight of a download always fits the budget, so that waiting for it ends.\<close>

theorem sizes_recovered:
  "recoverAttachmentSize (sint (w :: 32 word)) = uint w
   \<and> 1 \<le> clampAttachmentWeight n \<and> clampAttachmentWeight n \<le> attachmentMaxInFlightBytes"
proof -
  have r: "- (2 ^ 31) \<le> sint w" "sint w < 2 ^ 31" using sint_range_size [of w] by (simp_all add: word_size)
  have u: "uint w = sint w mod 2 ^ 32" using uint_sint [of w] by (simp add: take_bit_eq_mod)
  have "recoverAttachmentSize (sint w) = uint w"
  proof (cases "sint w < 0")
    case True
    have "uint w = (sint w + 2 ^ 32) mod 2 ^ 32" unfolding u by simp
    also have "\<dots> = sint w + 2 ^ 32" using r True by (intro mod_pos_pos_trivial) simp_all
    finally show ?thesis
      using True r int64_id [of "sint w + 2 ^ 32"] by (simp add: recoverAttachmentSize_def minInt64_def maxInt64_def)
  next
    case False
    then show ?thesis using r unfolding u by (simp add: recoverAttachmentSize_def)
  qed
  then show ?thesis by (auto simp: clampAttachmentWeight_def attachmentMaxInFlightBytes_def)
qed

section \<open>Contact cards\<close>

text \<open>An attachment that is in the cache gives its file only: the preview of a contact card is lost when a pass before the
  conversion has uploaded it.\<close>

lemma cached_without_preview:
  assumes "recoverAttachmentSize (atFileSize att) \<le> maxAttachmentBytes env" "atRecordName att \<notin> knownDead l st s fs"
    and "asCache st (atRecordName att) = Some c" "\<not> staleVideo c" "\<not> atHasAvid att"
  shows "fst (downloadAndUploadAttachment env l now guid sender ts wt i att st (s, fs)) = Inr
    (Some [backfillMessage sender (attMessageID guid wt i) ts [([], MediaContent c)]],
     st\<lparr>asDead := knownDead l st s fs, asDeadLoaded := True\<rparr>)"
  using assms by (simp add: downloadAndUploadAttachment_def Let_def dbBind_def dead_run dbReturn_def)

end
