(* ===== verification/BackfillSpec.thy ===== *)
theory BackfillSpec
  imports Backfill AttachmentsSpec TextPartsSpec "HOL-Library.Multiset"
begin

text \<open>
  What the backfill from the store promises: its counter of pending backfills, its pages, its reactions and the
  shape of its messages.  Nothing here fails for good, so the statements hold for every script of failed statements.
\<close>

section \<open>Runs that always return\<close>

definition sure :: "('a \<Rightarrow> bool) \<Rightarrow> 'a db \<Rightarrow> bool" where
  "sure P m \<longleftrightarrow> (\<forall>x. \<exists>v y. m x = (Inr v, y) \<and> P v)"

named_theorems sure_intros

lemma sure_return [sure_intros]: "P v \<Longrightarrow> sure P (dbReturn v)"
  by (simp add: sure_def dbReturn_def)

lemma sure_bind:
  assumes "sure P m" "\<And>v. P v \<Longrightarrow> sure Q (k v)"
  shows "sure Q (dbBind m k)"
  unfolding sure_def
proof
  fix x
  obtain v y where m: "m x = (Inr v, y)" "P v" using assms(1) unfolding sure_def by blast
  obtain w z where "k v y = (Inr w, z)" "Q w" using assms(2) [OF m(2)] unfolding sure_def by blast
  then show "\<exists>w z. dbBind m k x = (Inr w, z) \<and> Q w" using m(1) by (simp add: dbBind_def)
qed

lemma sure_then: "sure (\<lambda>_. True) m \<Longrightarrow> sure Q k \<Longrightarrow> sure Q (dbThen m k)"
  unfolding dbThen_def by (erule sure_bind)

lemma sure_weaken: "sure P m \<Longrightarrow> (\<And>v. P v \<Longrightarrow> Q v) \<Longrightarrow> sure Q m"
  unfolding sure_def by metis

lemma sure_try: "sure (\<lambda>_. True) (dbTry m)"
  by (simp add: sure_def dbTry_def split: prod.split)

lemma sure_catch: "(\<And>e. sure (\<lambda>_. True) (h e)) \<Longrightarrow> sure (\<lambda>_. True) (dbCatch m h)"
  by (auto simp: sure_def dbCatch_def split: prod.split sum.split)

lemma sure_fold: "(\<And>x a. x \<in> set xs \<Longrightarrow> P a \<Longrightarrow> sure P (f x a)) \<Longrightarrow> P a \<Longrightarrow> sure P (dbFold f xs a)"
  by (induction xs arbitrary: a) (auto intro: sure_bind sure_return)

lemma sure_both: "sure P m \<Longrightarrow> sure Q m \<Longrightarrow> sure (\<lambda>v. P v \<and> Q v) m"
  unfolding sure_def by (metis Inr_inject prod.inject)

lemma sure_run: "sure P m \<Longrightarrow> case m x of (Inr v, _) \<Rightarrow> P v | (Inl _, _) \<Rightarrow> False"
  unfolding sure_def by (metis (mono_tags, lifting) old.prod.case sum.case(2))

lemma sure_any: "sure P m \<Longrightarrow> sure (\<lambda>_. True) m"
  by (erule sure_weaken) simp

lemma sure_store [sure_intros]:
  "sure (\<lambda>_. True) (saveDeadAttachment l now r why)" "sure (\<lambda>_. True) (saveAttachmentCacheEntry l now r json)"
  "sure (\<lambda>_. True) (markForwardBackfillDone l now p)" "sure (\<lambda>_. True) (isForwardBackfillDone l p)"
  unfolding saveDeadAttachment_def saveAttachmentCacheEntry_def markForwardBackfillDone_def isForwardBackfillDone_def
  by (auto intro!: sure_catch sure_return sure_bind [OF sure_try] simp: Let_def)

section \<open>Attachments\<close>

text \<open>Nothing in the way of an attachment fails; what holds for every state holds in particular for the next.\<close>

lemma sure_dead: "sure (\<lambda>_. True) (isDeadAttachment l r st)"
  unfolding isDeadAttachment_def ensureDeadAttachmentsLoaded_def
  by (auto intro!: sure_bind [where P = "\<lambda>_. True"] sure_try sure_return)

lemma sure_record: "sure (\<lambda>_. True) (recordAttachmentFailure l now r e st)"
  unfolding recordAttachmentFailure_def markAttachmentDead_def Let_def
  by (auto intro!: sure_bind [where P = "\<lambda>_. True"] sure_then sure_return sure_store)

lemma sure_remember: "sure (\<lambda>_. True) (rememberContent env l now r c st)"
  unfolding rememberContent_def Let_def by (auto intro!: sure_then sure_return sure_store split: option.split)


text \<open>A message has a part, and it and its reactions have a sender.\<close>

definition goodMessage :: "BackfillMessage \<Rightarrow> bool" where
  "goodMessage m = (bfParts m \<noteq> [] \<and> \<not> noSender (bfSender m) \<and> list_all (\<lambda>r. \<not> noSender (brSender r)) (bfReactions m))"

definition shaped :: "BackfillMessage list option \<times> 's \<Rightarrow> bool" where
  "shaped r = (case fst r of Some ms \<Rightarrow> list_all goodMessage ms | None \<Rightarrow> True)"

lemma good_backfillMessage: "goodMessage (backfillMessage sender i ts parts) \<longleftrightarrow> parts \<noteq> [] \<and> \<not> noSender sender"
  by (simp add: goodMessage_def backfillMessage_def)

lemma good_attachment: "\<not> noSender sender \<Longrightarrow> list_all goodMessage (attachmentMessages env i sender ts att m c)"
  by (simp add: attachmentMessages_def Let_def good_backfillMessage split: option.split)

text \<open>No part of an attachment's messages has an identifier, also not of a contact card, which has two.\<close>

lemma attachment_parts_unnamed: "list_all (\<lambda>m. list_all (\<lambda>p. fst p = []) (bfParts m)) (attachmentMessages env i sender ts att m c)"
  by (simp add: attachmentMessages_def Let_def backfillMessage_def split: option.split)

lemma card_parts_clash:
  assumes "isVCardAttachment (mdMime m) (mdName m) (atUTIType att)" "makeVCardPreviewContent (aeMarshal env) (mdData m) = Some p"
  shows "map fst (bfParts (hd (attachmentMessages env i sender ts att m c))) = [[], []]"
  using assms by (simp add: attachmentMessages_def Let_def backfillMessage_def)

text \<open>The guard against system rows looks at a missing type only, not at the type 0 of ordinary rows.\<close>

lemma rename_with_type_0: "TapbackKind row = Some 0 \<Longrightarrow> \<not> systemRow name row \<and> \<not> isCloudReactionRow (TapbackKind row)"
  by (simp add: systemRow_def isCloudReactionRow_def)

lemma shaped_fresh: "\<not> noSender sender \<Longrightarrow> sure shaped (freshAttachment env l now i sender ts att st)"
  unfolding freshAttachment_def Let_def
  by (auto intro!: sure_bind [OF sure_record] sure_bind [OF sure_remember] sure_return
      simp: shaped_def good_attachment split: sum.split option.split)

lemma shaped_download: "\<not> noSender sender \<Longrightarrow> sure shaped (downloadAndUploadAttachment env l now guid sender ts wt i att st)"
  unfolding downloadAndUploadAttachment_def Let_def
  by (auto intro!: sure_bind [OF sure_dead] sure_return shaped_fresh simp: shaped_def good_backfillMessage split: option.split)

definition shapedResults :: "(nat \<times> BackfillMessage) list \<times> 's \<Rightarrow> bool" where
  "shapedResults r = list_all (\<lambda>(_, m). goodMessage m) (fst r)"

lemma shaped_task:
  assumes "\<not> noSender sender" "shapedResults acc"
  shows "sure shapedResults (attachmentTask env l now guid sender ts wt ia acc)"
proof -
  obtain i att results st where q: "ia = (i, att)" "acc = (results, st)" by (cases ia; cases acc)
  show ?thesis
    unfolding attachmentTask_def q prod.case
    using assms(2) by (auto intro!: sure_return sure_bind [OF shaped_download [OF assms(1)]]
        simp: q shapedResults_def shaped_def list_all_iff split: option.splits)
qed

lemma shaped_sorted:
  assumes "mset (aeSort env results) = mset results" "shapedResults (results, st)"
  shows "shaped (Some (map snd (aeSort env results)), st)"
proof -
  have "set (aeSort env results) = set results" using assms(1) by (rule mset_eq_setD)
  then show ?thesis using assms(2) by (auto simp: shaped_def shapedResults_def list_all_iff)
qed

lemma shaped_attachments:
  assumes "\<not> noSender sender" "\<And>ms. mset (aeSort env ms) = mset ms"
  shows "sure shaped (cloudAttachmentsToBackfill env l now row sender ts wt st)"
proof -
  have many: "sure shaped (dbBind (dbFold (attachmentTask env l now guid sender ts wt) xs ([], st))
      (\<lambda>(results, st'). dbReturn (Some (map snd (aeSort env results)), st')))" for guid xs
    by (rule sure_bind [where P = shapedResults])
      (auto intro!: sure_fold shaped_task assms(1) sure_return shaped_sorted assms(2) simp: shapedResults_def split: prod.split)
  show ?thesis
    unfolding cloudAttachmentsToBackfill_def
    by (auto intro!: sure_return shaped_download assms(1) many simp: shaped_def split: option.split list.split)
qed


section \<open>Messages\<close>

lemma parts_nonempty: "buildTextParts marshal ty subject s previews forEdit \<noteq> []"
  using partsLoop_parts [where fits = "\<lambda>_. True" and parts = "[]" and m = marshal and ty = ty and e = forEdit
      and subject = "truncateBytes subject maxSubjectBytes" and ps = "boundPreviews previews" and s = s]
  by (auto simp: buildTextParts_def partsOf_def split: list.splits)

lemma sender_canonical: "\<not> noSender sender \<Longrightarrow> portalID \<noteq> [] \<Longrightarrow> \<not> noSender (canonicalizeDMSender portalID sender)"
  by (auto simp: canonicalizeDMSender_def noSender_def makeUserID_def)

lemma good_content:
  assumes "\<not> noSender sender" "list_all goodMessage attMessages"
  shows "list_all goodMessage (contentMessages env row sender attMessages)"
  using assms parts_nonempty
  by (auto simp: contentMessages_def Let_def addReply_def good_backfillMessage textMessage_def goodMessage_def backfillMessage_def
      list_all_iff)

lemma shaped_row:
  assumes "PortalID row \<noteq> []" "\<And>ms. mset (aeSort (beAtt env) ms) = mset ms"
  shows "sure shaped (cloudRowToBackfillMessages env l now name row st)"
proof (cases "skipRow row \<or> noSender (makeCloudSender env row) \<or> systemRow name row \<or> isCloudReactionRow (TapbackKind row)")
  case True
  then show ?thesis by (auto simp: cloudRowToBackfillMessages_def Let_def shaped_def intro!: sure_return)
next
  case False
  let ?sender = "canonicalizeDMSender (PortalID row) (makeCloudSender env row)"
  have sender: "\<not> noSender ?sender" using False assms(1) by (intro sender_canonical) auto
  have "sure shaped (dbBind (cloudAttachmentsToBackfill (beAtt env) l now row ?sender (TimestampMS row) (rowHasText row) (bsAtt st))
      (\<lambda>(attMessages, ast). dbReturn (map_option (contentMessages env row ?sender) attMessages, st\<lparr>bsAtt := ast\<rparr>)))"
    by (rule sure_bind [OF shaped_attachments [OF sender assms(2)]])
      (auto intro!: sure_return good_content sender simp: shaped_def split: option.splits)
  then show ?thesis using False by (simp add: cloudRowToBackfillMessages_def Let_def)
qed

text \<open>The first pass, with the positions it remembers.\<close>

definition passed :: "first_pass option \<times> backfill_state \<Rightarrow> bool" where
  "passed r = (case fst r of
     Some (ms, idx) \<Rightarrow> list_all goodMessage ms \<and> (\<forall>i\<in>ran idx. i < length ms) | None \<Rightarrow> True)"

lemma passed_convert:
  assumes "PortalID row \<noteq> []" "\<And>ms. mset (aeSort (beAtt env) ms) = mset ms" "passed acc"
  shows "sure passed (convertRow env l now name row acc)"
proof (cases acc)
  case (Pair r st)
  have "passed (map_option (\<lambda>new. (ms @ new, if new = [] then idx else idx(GUID row \<mapsto> length ms))) r', st')"
    if "shaped (r', st')" "r = Some (ms, idx)" for r' st' ms idx
    using that assms(3) unfolding Pair passed_def shaped_def
    by (auto split: option.splits simp: ran_def neq_Nil_conv dest: less_SucI intro: trans_less_add1)
  then show ?thesis
    unfolding convertRow_def Pair
    by (auto intro!: sure_return sure_bind [OF shaped_row [OF assms(1,2)]] simp: passed_def split: option.split)
      (use assms(3) Pair in \<open>auto simp: passed_def\<close>)
qed

lemma good_attach: "list_all goodMessage ms \<Longrightarrow> \<not> noSender (brSender r) \<Longrightarrow> list_all goodMessage (attachReaction r i ms)"
proof (cases "i < length ms")
  case True
  assume good: "list_all goodMessage ms" "\<not> noSender (brSender r)"
  then have "goodMessage (ms ! i)" using True by (simp add: list_all_length)
  then have "goodMessage ((ms ! i)\<lparr>bfReactions := bfReactions (ms ! i) @ [r]\<rparr>)" using good(2) by (simp add: goodMessage_def)
  then show ?thesis using good(1) set_update_subset_insert [of ms i] unfolding attachReaction_def list_all_iff by blast
qed (simp add: attachReaction_def list_update_beyond)

lemma attach_length [simp]: "length (attachReaction r i ms) = length ms"
  by (simp add: attachReaction_def)

lemma good_resolve:
  assumes "PortalID row \<noteq> []" "list_all goodMessage (fst acc)"
  shows "list_all goodMessage (fst (resolveTapback env idx row acc))"
  using assms by (auto simp: resolveTapback_def Let_def sender_canonical split: prod.split option.split intro!: good_attach)

lemma good_resolves:
  "list_all (\<lambda>row. PortalID row \<noteq> []) rows \<Longrightarrow> list_all goodMessage (fst acc) \<Longrightarrow>
   list_all goodMessage (fst (fold (resolveTapback env idx) rows acc))"
proof (induction rows arbitrary: acc)
  case (Cons row rows)
  then show ?case using good_resolve [of row acc env idx] by simp
qed simp

lemma shaped_rows:
  assumes "list_all (\<lambda>row. PortalID row \<noteq> []) rows" "\<And>ms. mset (aeSort (beAtt env) ms) = mset ms"
  shows "sure shaped (cloudRowsToBackfillMessages env l now name rows st)"
  unfolding cloudRowsToBackfillMessages_def
proof (rule sure_bind [where P = passed])
  show "sure passed (dbFold (convertRow env l now name) rows (Some ([], Map.empty), st))"
    by (rule sure_fold) (use assms in \<open>auto intro!: passed_convert simp: passed_def list_all_iff\<close>)
next
  let ?taps = "filter (\<lambda>row. isCloudReactionRow (TapbackKind row)) rows"
  have taps: "list_all (\<lambda>row. PortalID row \<noteq> []) ?taps" using assms(1) by (simp add: list_all_iff)
  fix r :: "first_pass option \<times> backfill_state"
  assume p: "passed r"
  obtain o1 st' where r: "r = (o1, st')" by (cases r)
  show "sure shaped (case r of (r, st') \<Rightarrow> dbReturn (case r of None \<Rightarrow> (None, st')
      | Some (ms, idx) \<Rightarrow> (case fold (resolveTapback env idx) ?taps (ms, st') of (ms', st'') \<Rightarrow> (Some ms', st''))))"
  proof (cases o1)
    case None
    then show ?thesis by (simp add: r sure_return shaped_def)
  next
    case (Some a)
    obtain ms idx where a: "a = (ms, idx)" by (cases a)
    have "list_all goodMessage (fst (ms, st'))" using p by (simp add: r Some a passed_def)
    from good_resolves [OF taps this, of env idx] show ?thesis
      unfolding r Some a by (auto intro!: sure_return simp: shaped_def split: prod.split)
  qed
qed


text \<open>C14: What backfill delivers is well formed: every message made of the rows of a portal has at least one part and a
  sender, and every reaction on it has one, whatever fails on the way and whatever order the downloads ran in;
  the conversion always returns.\<close>

theorem backfill_messages_typed:
  assumes "list_all (\<lambda>row. PortalID row \<noteq> []) rows" "\<And>ms. mset (aeSort (beAtt env) ms) = mset ms"
  shows "case cloudRowsToBackfillMessages env l now name rows st x of
      (Inr (r, _), _) \<Rightarrow> list_all goodMessage (case r of Some ms \<Rightarrow> ms | None \<Rightarrow> [])
    | (Inl _, _) \<Rightarrow> False"
  using sure_run [OF shaped_rows [OF assms], of l now name st x]
  by (auto simp: shaped_def split: prod.splits sum.splits option.splits)

text \<open>Cursors in a simple code: the time in unary, then the identifier.\<close>

definition sampleEnv :: backfill_env where
  "sampleEnv = \<lparr>beAtt = attEnv (\<lambda>_. Inr 4), beOrder = (\<lambda>xs. xs), beLoginID = ''me'', beHandle = ''tel:+15550111'',
     beMaxInitial = 2 ^ 31 - 1, beChatDB = None, beCloudKit = True, beDeleted = {}, beSlot = True, beCancelled = False,
     bePreviews = (\<lambda>_. []), beKnown = (\<lambda>_. False), beReacted = (\<lambda>_ _. False),
     beEncode = (\<lambda>c. if 0 \<le> cuTimestampMS c then Inr (replicate (nat (cuTimestampMS c)) (CHR ''a'') @ CHR ''b'' # cuGUID c)
       else Inl ''negative''),
     beDecode = (\<lambda>t. Inr \<lparr>cuTimestampMS = int (length (takeWhile (\<lambda>c. c = CHR ''a'') t)),
       cuGUID = tl (dropWhile (\<lambda>c. c = CHR ''a'') t)\<rparr>)\<rparr>"

definition sampleState :: backfill_state where
  "sampleState = \<lparr>bsAtt = noFailure, bsEvents = [], bsReleased = 0, bsSlots = 0\<rparr>"

definition sampleRow :: cloudMessageRow where
  "sampleRow = the (scanMessage (sampleMessage ''A''))"

theorem backfill_messages_typed_witness:
  "case cloudRowsToBackfillMessages sampleEnv ''me'' 10 [] [sampleRow] sampleState (sampleStore, []) of
      (Inr (r, _), _) \<Rightarrow> list_all goodMessage (case r of Some ms \<Rightarrow> ms | None \<Rightarrow> [])
    | (Inl _, _) \<Rightarrow> False"
  by (rule backfill_messages_typed) (simp_all add: sampleRow_def scanMessage_def sample_defs sampleEnv_def attEnv_def)

section \<open>The counter of pending backfills\<close>

definition counts :: "backfill_state \<Rightarrow> backfill_state \<Rightarrow> bool" where
  "counts st st' \<longleftrightarrow> bsReleased st' = bsReleased st \<and> bsSlots st' = bsSlots st"

lemma counts_refl [simp]: "counts st st" "counts st (st\<lparr>bsAtt := a\<rparr>)" "counts st (cloudTapbackToBackfill env row sender ts st)"
  by (simp_all add: counts_def cloudTapbackToBackfill_def Let_def split: prod.split)

lemma counts_trans: "counts a b \<Longrightarrow> counts b c \<Longrightarrow> counts a c"
  by (simp add: counts_def)

lemma total_download: "sure (\<lambda>_. True) (downloadAndUploadAttachment env l now guid sender ts wt i att st)"
  unfolding downloadAndUploadAttachment_def freshAttachment_def Let_def
  by (auto intro!: sure_bind [OF sure_dead] sure_bind [OF sure_record] sure_bind [OF sure_remember] sure_return
      split: option.split sum.split)

lemma total_attachments: "sure (\<lambda>_. True) (cloudAttachmentsToBackfill env l now row sender ts wt st)"
  unfolding cloudAttachmentsToBackfill_def attachmentTask_def
  by (auto intro!: sure_return total_download sure_bind [where P = "\<lambda>_. True"] sure_fold split: option.split list.split prod.split)

lemma total_preUpload: "sure (\<lambda>_. True) (preUploadChunkAttachments env order l now sender rows st)"
  unfolding preUploadChunkAttachments_def uploadPending_def
  by (auto intro!: sure_return sure_fold sure_bind [OF total_download] split: prod.split)

definition countsAs :: "backfill_state \<Rightarrow> 'r \<times> backfill_state \<Rightarrow> bool" where
  "countsAs st r = counts st (snd r)"

lemma countsAs_pair [simp]: "countsAs st (r, st') = counts st st'"
  by (simp add: countsAs_def)

lemma counts_rows: "sure (countsAs st) (cloudRowsToBackfillMessages env l now name rows st)"
proof -
  have row: "sure (countsAs st') (cloudRowToBackfillMessages env l now name row st')" for row st'
    unfolding cloudRowToBackfillMessages_def Let_def
    by (auto intro!: sure_return sure_bind [OF total_attachments] simp: countsAs_def)
  have convert: "sure (countsAs st) (convertRow env l now name row acc)" if "countsAs st acc" for row acc
    using that unfolding convertRow_def
    by (auto intro!: sure_return sure_bind [OF row] simp: countsAs_def split: prod.split option.split dest: counts_trans)
  have resolve: "counts st (snd (fold (resolveTapback env idx) xs acc))" if "counts st (snd acc)" for idx xs acc
    using that
  proof (induction xs arbitrary: acc)
    case (Cons row xs)
    have "counts st (snd (resolveTapback env idx row acc))"
      using Cons.prems by (auto simp: resolveTapback_def Let_def split: prod.split option.split intro: counts_trans)
    then show ?case by (simp add: Cons.IH)
  qed simp
  show ?thesis
    unfolding cloudRowsToBackfillMessages_def
  proof (rule sure_bind [where P = "countsAs st"])
    show "sure (countsAs st) (dbFold (convertRow env l now name) rows (Some ([], Map.empty), st))"
      by (rule sure_fold) (auto intro!: convert simp: countsAs_def)
  next
    let ?taps = "filter (\<lambda>row. isCloudReactionRow (TapbackKind row)) rows"
    fix r :: "first_pass option \<times> backfill_state"
    assume "countsAs st r"
    then show "sure (countsAs st) (case r of (r, st') \<Rightarrow> dbReturn (case r of None \<Rightarrow> (None, st')
        | Some (ms, idx) \<Rightarrow> (case fold (resolveTapback env idx) ?taps (ms, st') of (ms', st'') \<Rightarrow> (Some ms', st''))))"
      using resolve [where xs = ?taps]
      by (auto intro!: sure_return simp: countsAs_def split: prod.split option.split) (metis snd_conv)
  qed
qed

lemma counts_preUpload: "sure (counts st) (preUploadRows env l now rows st)"
  unfolding preUploadRows_def by (auto intro!: sure_bind [OF total_preUpload] sure_return)

lemma counts_chunks: "sure (countsAs st) (forwardChunks env l now p remaining ts guid sofar st)"
proof (induction remaining arbitrary: ts guid sofar st rule: less_induct)
  case (less remaining)
  show ?case
  proof (cases "remaining = 0")
    case True
    then show ?thesis by (subst forwardChunks.simps) (simp add: sure_return countsAs_def)
  next
    case False
    have more: "sure (countsAs st) (forwardChunks env l now p (remaining - length rows) ts' guid' sofar' st')"
      if "rows \<noteq> []" "counts st st'" for rows :: "cloudMessageRow list" and ts' guid' sofar' st'
    proof (rule sure_weaken [OF less.IH])
      show "remaining - length rows < remaining" using that(1) False by (cases rows) auto
      show "countsAs st v" if "countsAs st' v" for v using that \<open>counts st st'\<close> by (simp add: countsAs_def counts_def)
    qed
    have none: "sure (countsAs st) (forwardChunks env l now p 0 ts' guid' sofar' st')" if "counts st st'" for ts' guid' sofar' st'
      using that by (subst forwardChunks.simps) (simp add: sure_return)
    show ?thesis
      by (subst forwardChunks.simps)
        (auto simp: False Let_def intro!: sure_bind [OF sure_try] sure_return sure_bind [OF counts_preUpload] more none split: sum.split)
  qed
qed

lemma counts_forward: "sure (countsAs st) (forwardFetch env l now portal name n anchor st)"
proof -
  have rows: "sure (countsAs st) (forwardRowsOf env l now p n anchor st)" for p
    unfolding forwardRowsOf_def forwardLatest_def
    by (auto intro!: sure_bind [OF sure_try] sure_return sure_bind [OF counts_preUpload] counts_chunks split: option.split sum.split)
  have convert: "sure (countsAs st) (cloudRowsToBackfillMessages env l now name rows st')" if "counts st st'" for rows st'
    using that by (auto intro!: sure_weaken [OF counts_rows] simp: countsAs_def intro: counts_trans)
  show ?thesis
    unfolding forwardFetch_def
    by (rule sure_bind [OF rows])
      (auto intro!: sure_return sure_bind [OF convert] sure_then sure_store split: sum.split option.split)
qed

lemma counts_slot: "sure (countsAs st) (withSlot (forwardFetch env l now portal name n anchor) st)"
  unfolding withSlot_def
  by (rule sure_bind [OF counts_forward]) (auto intro!: sure_return simp: counts_def)

lemma counts_backward: "sure (countsAs st) (backwardFetch env l now p name n params st)"
proof -
  have page: "sure (countsAs st) (backwardPage env l now p name n before st)" for before
    unfolding backwardPage_def Let_def
    by (rule sure_bind [OF sure_try])
      (auto intro!: sure_return sure_bind [OF counts_rows] simp: messagesResponse_def split: sum.split option.split prod.split)
  have recovery: "sure (countsAs st) (backwardRecovery env l now p name n st)"
    unfolding backwardRecovery_def
    by (auto intro!: sure_return sure_bind [OF sure_store(4)] sure_bind [OF sure_try] sure_bind [OF counts_rows]
        simp: messagesResponse_def split: sum.split option.split prod.split)
  show ?thesis
    unfolding backwardFetch_def by (auto intro!: sure_return page recovery split: sum.split)
qed

lemma counts_body: "sure (countsAs st) (fetchBody env l now params st)"
  unfolding fetchBody_def deletedWithoutMessages_def Let_def
  by (auto intro!: sure_return counts_backward counts_slot sure_bind [OF sure_try] sure_bind [where P = "\<lambda>_. True"] split: option.split)

text \<open>Only a forward call asks for the callback.\<close>

definition mayAsk :: "bool \<Rightarrow> fetch_result \<times> backfill_state \<Rightarrow> bool" where
  "mayAsk forward r \<longleftrightarrow> (if forwardDone (fst r) then forward else True)"

lemma mayAsk_simps [simp]:
  "mayAsk True r" "mayAsk forward (emptyResponse again dir, st)" "mayAsk forward (FetchError e, st)" "mayAsk forward (FetchPanic, st)"
  "mayAsk forward (fromChatDB dir a, st)" "mayAsk forward (messagesResponse c again m)"
  by (auto simp: mayAsk_def forwardDone_def emptyResponse_def fromChatDB_def messagesResponse_def
      split: chatdb_answer.split prod.split option.split)

lemma total_rows: "sure (\<lambda>_. True) (cloudRowsToBackfillMessages env l now name rows st)"
  by (rule sure_any [OF counts_rows])

lemma mayAsk_backward: "sure (mayAsk forward) (backwardFetch env l now p name n params st)"
proof -
  have page: "sure (mayAsk forward) (backwardPage env l now p name n before st)" for before
    unfolding backwardPage_def Let_def
    by (auto intro!: sure_return sure_bind [OF sure_try] sure_bind [OF total_rows] split: sum.split option.split)
  have recovery: "sure (mayAsk forward) (backwardRecovery env l now p name n st)"
    unfolding backwardRecovery_def
    by (auto intro!: sure_return sure_bind [OF sure_store(4)] sure_bind [OF sure_try] sure_bind [OF total_rows]
        split: sum.split option.split)
  show ?thesis
    unfolding backwardFetch_def by (auto intro!: sure_return page recovery split: sum.split)
qed

lemma mayAsk_body: "sure (mayAsk (fpForward params)) (fetchBody env l now params st)"
proof (cases "fpForward params")
  case True
  then show ?thesis by (auto intro: sure_weaken [OF counts_body])
next
  case False
  then show ?thesis
    unfolding fetchBody_def deletedWithoutMessages_def Let_def
    by (auto intro!: sure_return mayAsk_backward sure_bind [OF sure_try] sure_bind [where P = "\<lambda>_. True"] split: option.split)
qed

lemma callback_releases:
  "sure (\<lambda>st'. bsReleased st' = bsReleased st + 1 \<and> bsSlots st' = bsSlots st) (completeCallback env l now co st)"
  unfolding completeCallback_def
  by (auto intro!: sure_return sure_bind [OF sure_try] sure_then sure_store simp: releasePending_def)

text \<open>A call as bridgev2 makes it: the callback of a response runs once its messages are delivered.\<close>

definition backfillRound :: "backfill_env \<Rightarrow> bytes \<Rightarrow> time_ms \<Rightarrow> FetchMessagesParams \<Rightarrow> backfill_state \<Rightarrow> backfill_state db" where
  "backfillRound env l now params st =
     dbBind (FetchMessages env l now params st) (\<lambda>(r, st'). case r of
         Response resp \<Rightarrow> (case frCallback resp of Some co \<Rightarrow> completeCallback env l now co st' | None \<Rightarrow> dbReturn st')
       | _ \<Rightarrow> dbReturn st')"

lemma round_releases:
  "sure (\<lambda>st'. bsReleased st' = bsReleased st + (if fpForward params then 1 else 0) \<and> bsSlots st' = bsSlots st)
     (backfillRound env l now params st)"
  unfolding backfillRound_def FetchMessages_def
proof (rule sure_bind [OF sure_bind [OF sure_both [OF counts_body mayAsk_body]]])
  fix v :: "fetch_result \<times> backfill_state"
  assume v: "countsAs st v \<and> mayAsk (fpForward params) v"
  show "sure (\<lambda>(r, st'). bsSlots st' = bsSlots st \<and>
        bsReleased st' + (if forwardDone r then 1 else 0) = bsReleased st + (if fpForward params then 1 else 0))
      (case v of (r, st') \<Rightarrow> dbReturn (r, if fpForward params \<and> \<not> forwardDone r then releasePending st' else st'))"
    using v by (cases v) (auto intro!: sure_return simp: counts_def mayAsk_def releasePending_def split: if_splits)
next
  fix v :: "fetch_result \<times> backfill_state"
  assume "case v of (r, st') \<Rightarrow> bsSlots st' = bsSlots st \<and>
        bsReleased st' + (if forwardDone r then 1 else 0) = bsReleased st + (if fpForward params then 1 else 0)"
  then show "sure (\<lambda>st'. bsReleased st' = bsReleased st + (if fpForward params then 1 else 0) \<and> bsSlots st' = bsSlots st)
      (case v of (Response resp, st') \<Rightarrow> (case frCallback resp of Some co \<Rightarrow> completeCallback env l now co st' | None \<Rightarrow> dbReturn st')
        | (_, st') \<Rightarrow> dbReturn st')"
    by (cases v) (auto intro!: sure_return sure_weaken [OF callback_releases] simp: forwardDone_def
        split: fetch_result.split option.split)
qed

text \<open>C4: A forward call gives back its pending backfill exactly once, and a backward call never does: directly when there is
  nothing to wait for (an early return, an error, a panic, no messages), else in the callback after the delivery.  The
  place among the concurrent backfills is free again in every case.\<close>

theorem backfill_released_once:
  "case backfillRound env l now params st x of
      (Inr st', _) \<Rightarrow> bsReleased st' = bsReleased st + (if fpForward params then 1 else 0) \<and> bsSlots st' = bsSlots st
    | (Inl _, _) \<Rightarrow> False"
  by (rule sure_run [OF round_releases])

section \<open>Reactions\<close>

definition bare :: "BackfillMessage \<Rightarrow> BackfillMessage" where
  "bare m = m\<lparr>bfReactions := []\<rparr>"

definition ordinary :: "cloudMessageRow \<Rightarrow> bool" where
  "ordinary row = (\<not> isCloudReactionRow (TapbackKind row))"

lemma convert_reaction: "\<not> ordinary row \<Longrightarrow> convertRow env l now name row acc = dbReturn acc"
  by (cases acc) (auto simp: convertRow_def ordinary_def split: option.split)

lemma bind_done: "dbBind (dbReturn v) k = k v"
  by (simp add: dbBind_def dbReturn_def)

lemma fold_ordinary:
  "dbFold (convertRow env l now name) rows acc = dbFold (convertRow env l now name) (filter ordinary rows) acc"
proof (induction rows arbitrary: acc)
  case (Cons row rows)
  have "dbFold (convertRow env l now name) rows = dbFold (convertRow env l now name) (filter ordinary rows)"
    using Cons.IH by (rule ext)
  then show ?case by (simp add: convert_reaction bind_done)
qed simp

lemma bare_attach: "map bare (attachReaction r i ms) = map bare ms"
proof (cases "i < length ms")
  case True
  then show ?thesis by (simp add: attachReaction_def map_update bare_def list_update_same_conv)
qed (simp add: attachReaction_def list_update_beyond)

lemma bare_resolve: "map bare (fst (fold (resolveTapback env idx) rows acc)) = map bare (fst acc)"
proof (induction rows arbitrary: acc)
  case (Cons row rows)
  have "map bare (fst (resolveTapback env idx row acc)) = map bare (fst acc)"
    by (auto simp: resolveTapback_def Let_def bare_attach split: prod.split option.split)
  then show ?case by (simp add: Cons.IH)
qed simp

definition sameMessages :: "(err + BackfillMessage list option \<times> backfill_state) \<times> store \<times> script
    \<Rightarrow> (err + BackfillMessage list option \<times> backfill_state) \<times> store \<times> script \<Rightarrow> bool" where
  "sameMessages a b = (snd a = snd b \<and> (case (fst a, fst b) of
     (Inr (ms, _), Inr (ms', _)) \<Rightarrow> map_option (map bare) ms = map_option (map bare) ms' | _ \<Rightarrow> False))"

text \<open>C13: Reactions ride on the messages and never disturb them.  A batch with reactions gives, up to what is attached, the same
  messages in the same order as the batch without them, with the same statements on the store: a reaction neither makes
  a message nor drops, repeats or reorders one.\<close>

theorem reactions_add_no_messages:
  "sameMessages (cloudRowsToBackfillMessages env l now name rows st x)
     (cloudRowsToBackfillMessages env l now name (filter ordinary rows) st x)"
proof -
  let ?first = "dbFold (convertRow env l now name) (filter ordinary rows) (Some ([], Map.empty), st)"
  have none: "filter (\<lambda>row. ordinary row \<and> isCloudReactionRow (TapbackKind row)) rows = []"
    by (simp add: filter_empty_conv ordinary_def)
  obtain r st' y where run: "?first x = (Inr (r, st'), y)"
  proof -
    have "sure (\<lambda>_. True) ?first"
      unfolding convertRow_def cloudRowToBackfillMessages_def Let_def
      by (auto intro!: sure_fold sure_return sure_bind [OF total_attachments] sure_bind [where P = "\<lambda>_. True"]
          split: prod.split option.split)
    then show ?thesis using that unfolding sure_def by (metis prod.exhaust)
  qed
  show ?thesis
  proof (cases r)
    case None
    then show ?thesis
      unfolding cloudRowsToBackfillMessages_def fold_ordinary [of env l now name rows]
        fold_ordinary [of env l now name "filter ordinary rows"]
      by (simp add: run dbBind_def dbReturn_def sameMessages_def)
  next
    case (Some a)
    obtain ms idx where a: "a = (ms, idx)" by (cases a)
    obtain ms' st2 where second: "fold (resolveTapback env idx) (filter (\<lambda>row. isCloudReactionRow (TapbackKind row)) rows) (ms, st') = (ms', st2)"
      by fastforce
    have "map bare ms' = map bare ms"
      using bare_resolve [of env idx "filter (\<lambda>row. isCloudReactionRow (TapbackKind row)) rows" "(ms, st')"] by (simp add: second)
    then show ?thesis
      unfolding cloudRowsToBackfillMessages_def fold_ordinary [of env l now name rows]
        fold_ordinary [of env l now name "filter ordinary rows"]
      by (simp add: none run Some a second dbBind_def dbReturn_def sameMessages_def)
  qed
qed

end
