(* ===== verification/BackfillPages.thy ===== *)
theory BackfillPages
  imports BackfillSpec
begin

text \<open>
  The pages of a backfill.  A forward call reads its rows in chunks, a backward call one page with the cursor of the
  next: both give exactly the rows one query would, whatever statements fail in between.
\<close>

section \<open>Steps that leave the messages alone\<close>

definition quiet :: "'a db \<Rightarrow> bool" where
  "quiet m \<longleftrightarrow> (\<forall>s fs. case m (s, fs) of (_, s', fs') \<Rightarrow> messages s' = messages s \<and> set fs' \<subseteq> set fs)"

lemma quietD: "quiet m \<Longrightarrow> m (s, fs) = (r, s', fs') \<Longrightarrow> messages s' = messages s \<and> set fs' \<subseteq> set fs"
  unfolding quiet_def by (metis (mono_tags, lifting) old.prod.case)

lemma quiet_return: "quiet (dbReturn x)"
  by (simp add: quiet_def dbReturn_def)

lemma quiet_stmt:
  assumes "\<And>s. messages (snd (f s)) = messages s"
  shows "quiet (sqlStmt f)"
  unfolding quiet_def
proof (intro allI)
  fix s and fs :: script
  have "set (tl fs) \<subseteq> set fs" by (cases fs) auto
  then show "case sqlStmt f (s, fs) of (_, s', fs') \<Rightarrow> messages s' = messages s \<and> set fs' \<subseteq> set fs"
    using sqlStmt_cases [of f s fs] assms by auto
qed

lemma quiet_bind:
  assumes "quiet m" "\<And>x. quiet (k x)"
  shows "quiet (dbBind m k)"
  unfolding quiet_def
proof (intro allI)
  fix s fs
  obtain r s1 fs1 where m: "m (s, fs) = (r, s1, fs1)" by (cases "m (s, fs)")
  note q = quietD [OF assms(1) m]
  show "case dbBind m k (s, fs) of (_, s', fs') \<Rightarrow> messages s' = messages s \<and> set fs' \<subseteq> set fs"
  proof (cases r)
    case (Inr x)
    obtain r2 s2 fs2 where k: "k x (s1, fs1) = (r2, s2, fs2)" by (cases "k x (s1, fs1)")
    show ?thesis using q quietD [OF assms(2) k] by (auto simp: dbBind_def m Inr k)
  qed (use q in \<open>simp add: dbBind_def m\<close>)
qed

lemma quiet_catch_done: "quiet m \<Longrightarrow> quiet (dbCatch m (\<lambda>_. dbReturn x))"
  by (auto simp: quiet_def dbCatch_def dbReturn_def split: prod.splits sum.split)

lemma quiet_try: "quiet m \<Longrightarrow> quiet (dbTry m)"
  by (auto simp: quiet_def dbTry_def split: prod.splits)

lemma quiet_fold: "(\<And>x a. quiet (f x a)) \<Longrightarrow> quiet (dbFold f xs a)"
  by (induction xs arbitrary: a) (auto intro: quiet_bind quiet_return)

lemma quiet_store:
  "quiet (saveDeadAttachment l now r why)" "quiet (saveAttachmentCacheEntry l now r json)" "quiet (loadDeadAttachments l)"
  unfolding saveDeadAttachment_def saveAttachmentCacheEntry_def loadDeadAttachments_def sqlExec_def sqlQuery_def
  by (auto intro!: quiet_catch_done quiet_stmt quiet_bind quiet_return)

lemma quiet_download: "quiet (downloadAndUploadAttachment env l now guid sender ts wt i att st)"
  unfolding downloadAndUploadAttachment_def freshAttachment_def Let_def isDeadAttachment_def ensureDeadAttachmentsLoaded_def
    recordAttachmentFailure_def markAttachmentDead_def rememberContent_def dbThen_def
  by (auto intro!: quiet_return quiet_bind quiet_try quiet_store split: option.split sum.split prod.split)

lemma quiet_preUpload: "quiet (preUploadRows env l now rows st)"
  unfolding preUploadRows_def preUploadChunkAttachments_def uploadPending_def
  by (auto intro!: quiet_return quiet_bind quiet_fold quiet_download split: prod.split)

section \<open>Queries\<close>

lemma query_run:
  "queryMessages q (s, fs) =
     (if fs \<noteq> [] \<and> hd fs \<noteq> None then (Inl (the (hd fs)), s, tl fs)
      else (case those (map scanMessage (q s)) of Some rows \<Rightarrow> Inr rows
          | None \<Rightarrow> Inl ''converting NULL to string is unsupported'', s, tl fs))"
  by (cases fs rule: list.exhaust; cases "hd fs")
    (auto simp: queryMessages_def sqlQuery_def dbBind_def dbReturn_def dbFail_def split: option.split)

lemma those_scan: "list_all (\<lambda>r. mPortal r \<noteq> None) rs \<Longrightarrow> those (map scanMessage rs) = Some (map (\<lambda>r. the (scanMessage r)) rs)"
  by (induction rs) (auto simp: scanMessage_def)

lemma scan_fields:
  "mPortal r \<noteq> None \<Longrightarrow> GUID (the (scanMessage r)) = mGuid r \<and> TimestampMS (the (scanMessage r)) = mTs r"
  by (auto simp: scanMessage_def)

definition scanned :: "message_row list \<Rightarrow> cloudMessageRow list" where
  "scanned rs = map (\<lambda>r. the (scanMessage r)) rs"

lemma query_served:
  assumes "list_all (\<lambda>r. mPortal r \<noteq> None) (q s)"
  shows "dbTry (queryMessages q) (s, fs) =
    (Inr (if fs \<noteq> [] \<and> hd fs \<noteq> None then Inl (the (hd fs)) else Inr (scanned (q s))), s, tl fs)"
  by (simp add: dbTry_def query_run those_scan [OF assms] scanned_def)

section \<open>Forward\<close>

definition served :: "bytes \<Rightarrow> bytes \<Rightarrow> store \<Rightarrow> message_row list" where
  "served l p s = oldestFirst (filter (servable l p) (messages s))"

lemma served_portal: "list_all (\<lambda>r. mPortal r \<noteq> None) (take n (drop j (served l p s)))"
  by (auto simp: list_all_iff served_def oldestFirst_def servable_def dest!: in_set_takeD in_set_dropD)

lemma last_scanned:
  assumes "rs \<noteq> []" "list_all (\<lambda>r. mPortal r \<noteq> None) rs"
  shows "TimestampMS (last (scanned rs)) = mTs (last rs) \<and> GUID (last (scanned rs)) = mGuid (last rs)"
proof -
  have "mPortal (last rs) \<noteq> None" using assms by (simp add: list_all_iff)
  then show ?thesis using scan_fields [of "last rs"] assms(1) by (simp add: scanned_def last_map)
qed

text \<open>The cursor of a page that is full is the place right after it.\<close>

lemma next_cursor:
  assumes "distinct (map messageKey (messages s))" "0 < c" "j + c \<le> length (served l p s)"
  shows "forwardRows l p (mTs (last (take c (drop j (served l p s))))) (mGuid (last (take c (drop j (served l p s))))) n s
    = take n (drop (j + c) (served l p s))"
  unfolding last_take_drop [OF assms(2,3)]
  using forward_page [OF assms(1), of "j + c - 1" l p n] assms(2,3) by (simp add: served_def)

definition chunked :: "script \<Rightarrow> cloudMessageRow list \<Rightarrow> (err + rows_result) \<times> store \<times> script \<Rightarrow> bool" where
  "chunked fs expected r = (case r of
     (Inr (Inr rows, _), _) \<Rightarrow> rows = expected | (Inr (Inl e, _), _) \<Rightarrow> Some e \<in> set fs | (Inl _, _) \<Rightarrow> False)"

lemma chunked_mono: "chunked fs expected r \<Longrightarrow> set fs \<subseteq> set fs' \<Longrightarrow> chunked fs' expected r"
  by (auto simp: chunked_def split: sum.splits prod.splits)

text \<open>One chunk: the answer of the query, and what follows.\<close>

lemma chunks_step:
  assumes "n \<noteq> 0" "c = min forwardChunkSize n" "page = forwardRows l p ts guid c s"
    and portal: "list_all (\<lambda>r. mPortal r \<noteq> None) page"
    and up: "preUploadRows env l now (scanned page) st (s, tl fs) = (Inr st', s1, fs1)"
  shows "forwardChunks env l now p n ts guid sofar st (s, fs) =
    (if fs \<noteq> [] \<and> hd fs \<noteq> None then (Inr (Inl (the (hd fs)), st), s, tl fs)
     else if page = [] then (Inr (Inr sofar, st), s, tl fs)
     else if length page < c then (Inr (Inr (sofar @ scanned page), st'), s1, fs1)
     else forwardChunks env l now p (n - length page) (mTs (last page)) (mGuid (last page)) (sofar @ scanned page) st' (s1, fs1))"
proof -
  have query: "dbTry (listForwardMessages l p ts guid c) (s, fs) =
      (Inr (if fs \<noteq> [] \<and> hd fs \<noteq> None then Inl (the (hd fs)) else Inr (scanned page)), s, tl fs)"
    using query_served [where q = "forwardRows l p ts guid c" and s = s and fs = fs] portal
    by (simp add: listForwardMessages_def assms(3))
  define bad where "bad \<longleftrightarrow> fs \<noteq> [] \<and> hd fs \<noteq> None"
  have "scanned page = [] \<longleftrightarrow> page = []" "length (scanned page) = length page" by (simp_all add: scanned_def)
  then show ?thesis
    unfolding bad_def [symmetric] using last_scanned [OF _ portal] assms(1)
    by (subst forwardChunks.simps)
      (auto simp: assms(2) [symmetric] Let_def dbBind_def query [folded bad_def] up dbReturn_def)
qed

lemma chunks_none: "forwardChunks env l now p 0 ts guid sofar st x = (Inr (Inr sofar, st), x)"
  by (subst forwardChunks.simps) (simp add: dbReturn_def)

text \<open>The end of a chunk that is full, and the rows in front of it.\<close>

lemma full_chunk:
  assumes "page = take c (drop j xs)" "length page = c" "0 < c" "c \<le> n"
  shows "j + c \<le> length xs" "scanned page @ scanned (take (n - c) (drop (j + c) xs)) = scanned (take n (drop j xs))"
proof -
  have "c \<le> length xs - j" using assms(1,2) by (metis length_drop length_take min.absorb_iff2 min.commute)
  then show "j + c \<le> length xs" using assms(3) by simp
  have "take n (drop j xs) = take c (drop j xs) @ take (n - c) (drop c (drop j xs))"
    using take_add [of c "n - c" "drop j xs"] assms(4) by simp
  then show "scanned page @ scanned (take (n - c) (drop (j + c) xs)) = scanned (take n (drop j xs))"
    by (simp add: scanned_def assms(1) add.commute)
qed

lemma chunks_run:
  assumes "distinct (map messageKey (messages s))"
    and "\<And>m. forwardRows l p ts guid m s = take m (drop j (served l p s))"
  shows "chunked fs (sofar @ scanned (take n (drop j (served l p s)))) (forwardChunks env l now p n ts guid sofar st (s, fs))"
  using assms
proof (induction n arbitrary: ts guid j sofar st s fs rule: less_induct)
  case (less n)
  let ?all = "served l p s"
  define c where "c = min forwardChunkSize n"
  define page where "page = take c (drop j ?all)"
  have portal: "list_all (\<lambda>r. mPortal r \<noteq> None) page" unfolding page_def by (rule served_portal)
  obtain st' s1 fs1 where up: "preUploadRows env l now (scanned page) st (s, tl fs) = (Inr st', s1, fs1)"
    using counts_preUpload [of st env l now "scanned page"] unfolding sure_def by (metis prod.exhaust)
  from quietD [OF quiet_preUpload this] have s1: "messages s1 = messages s" "set fs1 \<subseteq> set (tl fs)" by simp_all
  have sub: "set fs1 \<subseteq> set fs" using s1(2) by (cases fs) auto
  have same: "served l p s1 = ?all" by (simp add: served_def s1(1))
  show ?case
  proof (cases "n = 0")
    case True
    then show ?thesis by (simp add: chunks_none chunked_def scanned_def)
  next
    case False
    then have c: "0 < c" "c \<le> n" by (simp_all add: c_def forwardChunkSize_def)
    have "page = forwardRows l p ts guid c s" by (simp add: page_def less.prems(2))
    note run = chunks_step [OF False c_def this portal up]
    have hd: "fs \<noteq> [] \<Longrightarrow> hd fs \<noteq> None \<Longrightarrow> Some (the (hd fs)) \<in> set fs" by (cases fs) auto
    have short: "take n (drop j ?all) = page" if "length page < c"
      using that c(2) by (simp add: page_def)
    have "page = [] \<Longrightarrow> length page < c" using c by simp
    moreover have more: "chunked fs (sofar @ scanned (take n (drop j ?all)))
        (forwardChunks env l now p (n - length page) (mTs (last page)) (mGuid (last page)) (sofar @ scanned page) st' (s1, fs1))"
      if "\<not> length page < c"
    proof -
      have len: "length page = c" using that by (simp add: page_def)
      note full = full_chunk [OF page_def len c]
      have "forwardRows l p (mTs (last page)) (mGuid (last page)) m s1 = take m (drop (j + c) (served l p s1))" for m
        using next_cursor [OF less.prems(1) c(1) full(1), of m] by (simp add: page_def same forwardRows_def s1(1))
      moreover have "n - c < n" "distinct (map messageKey (messages s1))" using c less.prems(1) by (simp_all add: s1(1))
      ultimately have "chunked fs1 ((sofar @ scanned page) @ scanned (take (n - c) (drop (j + c) (served l p s1))))
          (forwardChunks env l now p (n - c) (mTs (last page)) (mGuid (last page)) (sofar @ scanned page) st' (s1, fs1))"
        by (intro less.IH)
      then show ?thesis using sub by (simp add: len same full(2) chunked_mono)
    qed
    ultimately show ?thesis
      using hd short by (auto simp: run chunked_def scanned_def)
  qed
qed


text \<open>C5: The catch-up of a forward call reads exactly what one query would.  However many chunks it takes, and whatever the
  uploads between them do, the rows are the ones after the anchor, oldest first, up to the number asked for; the only
  other outcome is the error of a query that failed.\<close>

theorem chunked_backfill_exact:
  assumes "distinct (map messageKey (messages s))" "k < length (served l p s)"
    and "anchor = \<lparr>amID = mGuid (served l p s ! k), amTimestamp = mTs (served l p s ! k)\<rparr>"
  shows "chunked fs (scanned (take n (drop (Suc k) (served l p s)))) (forwardRowsOf env l now p n (Some anchor) st (s, fs))"
proof -
  have "forwardRows l p (mTs (served l p s ! k)) (mGuid (served l p s ! k)) m s = take m (drop (Suc k) (served l p s))" for m
    using forward_page [OF assms(1), of k l p m] assms(2) by (simp add: served_def)
  from chunks_run [OF assms(1) this, of fs "[]"] show ?thesis
    by (simp add: forwardRowsOf_def assms(3))
qed

lemma sample_served: "served ''me'' ''tel:+15550100'' sampleStore = take 2 (messages sampleStore)"
  by (simp add: served_def oldestFirst_def pageKey_def sample_defs servable_def numeral_2_eq_2)

lemma sample_distinct: "distinct (map messageKey (messages sampleStore))"
  by (simp add: sample_defs keys)

theorem chunked_backfill_exact_witness:
  "chunked [] (scanned (take 5 (drop (Suc 0) (served ''me'' ''tel:+15550100'' sampleStore))))
     (forwardRowsOf sampleEnv ''me'' 10 ''tel:+15550100'' 5
       (Some \<lparr>amID = mGuid (served ''me'' ''tel:+15550100'' sampleStore ! 0),
          amTimestamp = mTs (served ''me'' ''tel:+15550100'' sampleStore ! 0)\<rparr>) sampleState (sampleStore, []))"
  unfolding sample_served by (rule chunked_backfill_exact [OF sample_distinct, where p = "''tel:+15550100''" and l = "''me''" and k = 0, unfolded sample_served])
    (simp_all add: sample_defs numeral_2_eq_2)

section \<open>Backward\<close>

definition servedBack :: "bytes \<Rightarrow> bytes \<Rightarrow> store \<Rightarrow> message_row list" where
  "servedBack l p s = newestFirst (filter (servable l p) (messages s))"

definition cursorOf :: "message_row \<Rightarrow> cloudBackfillCursor" where
  "cursorOf r = \<lparr>cuTimestampMS = mTs r, cuGUID = mGuid r\<rparr>"

definition codec :: "backfill_env \<Rightarrow> bool" where
  "codec env \<longleftrightarrow> (\<forall>c t. beEncode env c = Inr t \<longrightarrow> t \<noteq> [] \<and> beDecode env t = Inr c)"

lemma servedBack_portal: "list_all (\<lambda>r. mPortal r \<noteq> None) (take n (drop j (servedBack l p s)))"
  by (auto simp: list_all_iff servedBack_def newestFirst_def servable_def dest!: in_set_takeD in_set_dropD)

text \<open>The row a page ends with is the first one of the answer, which is in the order of time.\<close>

lemma page_end:
  assumes "0 < n" "Suc k + n < length (servedBack l p s)"
  shows "\<lparr>cuTimestampMS = TimestampMS (hd (rev (scanned (take n (drop (Suc k) (servedBack l p s)))))),
      cuGUID = GUID (hd (rev (scanned (take n (drop (Suc k) (servedBack l p s))))))\<rparr> = cursorOf (servedBack l p s ! (k + n))"
proof -
  let ?page = "take n (drop (Suc k) (servedBack l p s))"
  have ne: "?page \<noteq> []" using assms by simp
  have "last ?page = servedBack l p s ! (k + n)"
    using last_take_drop [of n "Suc k" "servedBack l p s"] assms by simp
  then show ?thesis
    using last_scanned [OF ne servedBack_portal] ne by (simp add: hd_rev scanned_def cursorOf_def)
qed

lemma resume_cursor:
  assumes "codec env" "beEncode env (cursorOf r) = Inr t" "mGuid r \<noteq> []"
  shows "backwardStart env (params\<lparr>fpCursor := t\<rparr>) = Inr (cursorOf r)"
proof -
  have "t \<noteq> []" "beDecode env t = Inr (cursorOf r)" using assms(1,2) unfolding codec_def by blast+
  then show ?thesis using assms(3) by (simp add: backwardStart_def decodeCloudBackfillCursor_def cursorOf_def)
qed

text \<open>What a page answers: the messages of its rows, whether there are more, and the cursor that leads to them.\<close>

definition pageAnswers :: "backfill_env \<Rightarrow> FetchMessagesParams \<Rightarrow> nat \<Rightarrow> nat \<Rightarrow> message_row list
    \<Rightarrow> (err + BackfillMessage list option \<times> backfill_state) \<times> store \<times> script \<Rightarrow> (err + fetch_result \<times> backfill_state) \<times> store \<times> script \<Rightarrow> bool" where
  "pageAnswers env params k n rows converted r = (case r of
     (Inr (Response resp, st'), x) \<Rightarrow>
        converted = (Inr (Some (frMessages resp), st'), x) \<and> frHasMore resp = (Suc k + n < length rows)
        \<and> (if frHasMore resp then backwardStart env (params\<lparr>fpCursor := frCursor resp\<rparr>) = Inr (cursorOf (rows ! (k + n)))
           else frCursor resp = [])
   | (Inr _, _) \<Rightarrow> True
   | (Inl _, _) \<Rightarrow> False)"

lemma backwardPage_run:
  assumes "distinct (map messageKey (messages s))" "k < length (servedBack l p s)" "mGuid (servedBack l p s ! k) \<noteq> []"
  shows "backwardPage env l now p name n (cursorOf (servedBack l p s ! k)) st (s, fs) =
    (if fs \<noteq> [] \<and> hd fs \<noteq> None then (Inr (FetchError (the (hd fs)), st), s, tl fs)
     else let rows0 = scanned (take (n + 1) (drop (Suc k) (servedBack l p s))); hasMore = (n < length rows0);
              rows = rev (if hasMore then take n rows0 else rows0) in
       dbBind (cloudRowsToBackfillMessages env l now name rows st) (\<lambda>(ms, st'). dbReturn (
         if ms \<noteq> None \<and> hasMore \<and> rows \<noteq> []
         then (case beEncode env \<lparr>cuTimestampMS = TimestampMS (hd rows), cuGUID = GUID (hd rows)\<rparr> of
                 Inl e \<Rightarrow> (FetchError e, st') | Inr next \<Rightarrow> messagesResponse next hasMore (ms, st'))
         else messagesResponse [] hasMore (ms, st'))) (s, tl fs))"
proof -
  let ?c = "cursorOf (servedBack l p s ! k)"
  define bad where "bad \<longleftrightarrow> fs \<noteq> [] \<and> hd fs \<noteq> None"
  have rows: "backwardRows l p (cuTimestampMS ?c) (cuGUID ?c) (n + 1) s = take (n + 1) (drop (Suc k) (servedBack l p s))"
    using backward_page [OF assms(1), of k l p "n + 1"] assms(2,3) by (simp add: servedBack_def cursorOf_def)
  have query: "dbTry (listBackwardMessages l p (cuTimestampMS ?c) (cuGUID ?c) (n + 1)) (s, fs) =
      (Inr (if bad then Inl (the (hd fs)) else Inr (scanned (take (n + 1) (drop (Suc k) (servedBack l p s))))), s, tl fs)"
    using query_served [where q = "backwardRows l p (cuTimestampMS ?c) (cuGUID ?c) (n + 1)" and s = s and fs = fs]
      servedBack_portal [of "n + 1" "Suc k" l p s]
    by (simp only: listBackwardMessages_def rows bad_def)
  have run: "dbBind m k x = k v y" if "m x = (Inr v, y)"
    for m :: "(err + cloudMessageRow list) db" and k :: "err + cloudMessageRow list \<Rightarrow> (fetch_result \<times> backfill_state) db" and v x y
    by (simp add: dbBind_def that)
  show ?thesis
    unfolding bad_def [symmetric] backwardPage_def
    by (subst run [where m = "dbTry (listBackwardMessages l p (cuTimestampMS ?c) (cuGUID ?c) (n + 1))" and x = "(s, fs)", OF query])
      (simp add: dbReturn_def Let_def)
qed

lemma messagesResponse_some: "messagesResponse c again (Some ms, st) = (Response \<lparr>frMessages = ms, frCursor = c, frHasMore = again,
    frForward = False, frCallback = None\<rparr>, st)"
  by (simp add: messagesResponse_def)

lemma messagesResponse_none: "messagesResponse c again (None, st) = (FetchPanic, st)"
  by (simp add: messagesResponse_def)


lemma sample_codec: "codec sampleEnv"
  by (auto simp: codec_def sampleEnv_def takeWhile_append dropWhile_append split: if_splits)


end
