(* ===== verification/AttachmentRetry.thy ===== *)
theory AttachmentRetry
  imports LiveMessages MessageIngest
begin

text \<open>
  Attachments whose download failed when the push arrived, \<open>pending_attachment_store.go\<close> and
  \<open>attachment_retrier.go\<close>: the table of pending rows, what is written for a failed attachment, and the attempts of the
  retrier with their delays.

  Statements take their failures from the same script as those of the store.  Times are nanoseconds; \<open>rtNow\<close> answers the
  readings of the clock, \<open>rtMMCS\<close> the downloads, both by their number.  The conversion inside the edit runs in bridgev2.
\<close>

section \<open>State\<close>

record pendingAttachmentRow =
  paLoginID :: bytes
  paMessageGUID :: bytes
  paAttIndex :: int
  paAttID :: bytes
  paPortalID :: bytes
  paSender :: bytes
  paTimestampMs :: int
  paFilename :: bytes
  paMimeType :: bytes
  paUtiType :: bytes
  paSizeBytes :: int
  paMmcsDescriptor :: bytes
  paCreatedMs :: int
  paLastMs :: int
  paAttemptCount :: nat
  paNextMs :: int

text \<open>The edit that replaces the placeholder, with what its conversion gets.\<close>

record recovery_edit =
  reKey :: PortalKey
  reSender :: EventSender
  reTimestampNs :: int
  reID :: bytes
  reTarget :: bytes
  reIndex :: int
  reFilename :: bytes
  reMimeType :: bytes
  reUtiType :: bytes
  reData :: bytes

record retry_state =
  rtTable :: "pendingAttachmentRow list"
  rtEdits :: "recovery_edit list"
  rtReads :: nat
  rtTries :: nat

record retry_env =
  rtNow :: "nat \<Rightarrow> int"
  rtMMCS :: "nat \<Rightarrow> bytes \<Rightarrow> bytes \<Rightarrow> bytes + bytes"
  rtCloudKit :: "nat \<Rightarrow> bytes \<Rightarrow> bytes + bytes"
  rtRows :: "bytes \<Rightarrow> bytes + cloudAttachmentRow list"
  rtNotice :: "nat \<Rightarrow> bytes \<Rightarrow> bytes \<Rightarrow> bytes + bool"
  rtClient :: imenv
  rtExpired :: "nat \<Rightarrow> bool"

section \<open>The table\<close>

definition pendingKey :: "pendingAttachmentRow \<Rightarrow> bytes \<times> bytes \<times> int" where
  "pendingKey row = (paLoginID row, paMessageGUID row, paAttIndex row)"

text \<open>One statement: the change of the table, or the error of the engine.\<close>

definition pendingExec :: "(pendingAttachmentRow list \<Rightarrow> pendingAttachmentRow list) \<Rightarrow> retry_state \<Rightarrow> (err option \<times> retry_state) db" where
  "pendingExec f st = dbBind (dbTry (sqlQuery (\<lambda>_. ()))) (\<lambda>r. dbReturn (case r of
     Inl e \<Rightarrow> (Some e, st) | Inr _ \<Rightarrow> (None, st\<lparr>rtTable := f (rtTable st)\<rparr>)))"

definition insertPending :: "pendingAttachmentRow \<Rightarrow> retry_state \<Rightarrow> (err option \<times> retry_state) db" where
  "insertPending row = pendingExec (insertIgnore pendingKey row)"

definition GetDue :: "bytes \<Rightarrow> int \<Rightarrow> nat \<Rightarrow> retry_state \<Rightarrow> (err + pendingAttachmentRow list) db" where
  "GetDue l now limit st = dbTry (sqlQuery (\<lambda>_.
     take limit (sort_key paNextMs (filter (\<lambda>r. paLoginID r = l \<and> paNextMs r \<le> now div 10 ^ 6) (rtTable st)))))"

definition UpdateSchedule :: "pendingAttachmentRow \<Rightarrow> retry_state \<Rightarrow> (err option \<times> retry_state) db" where
  "UpdateSchedule row = pendingExec (updateWhere (\<lambda>r. pendingKey r = pendingKey row)
     (\<lambda>r. r\<lparr>paAttemptCount := paAttemptCount row, paLastMs := paLastMs row, paNextMs := paNextMs row\<rparr>))"

definition DeletePending :: "pendingAttachmentRow \<Rightarrow> retry_state \<Rightarrow> (err option \<times> retry_state) db" where
  "DeletePending row = pendingExec (deleteWhere (\<lambda>r. pendingKey r = pendingKey row))"

section \<open>A failed download\<close>

definition attachmentRetrierMaxAttempts :: nat where "attachmentRetrierMaxAttempts = 30"
definition attachmentRetrierMaxLifetime :: int where "attachmentRetrierMaxLifetime = 7 * 24 * 3600 * 10 ^ 9"
definition attachmentRetrierBatchLimit :: nat where "attachmentRetrierBatchLimit = 50"

definition attachmentRetrierBackoff :: "nat \<Rightarrow> int" where
  "attachmentRetrierBackoff n =
     (if n = 1 then 30 else if n = 2 then 120 else if n = 3 then 600 else if n = 4 then 1800 else if n = 5 then 3600 else 21600) * 10 ^ 9"

definition attachmentPartID :: "int \<Rightarrow> bytes" where
  "attachmentPartID idx = ''att'' @ Itoa idx"

definition makeAttID :: "bytes \<Rightarrow> int \<Rightarrow> bool \<Rightarrow> bytes" where
  "makeAttID uuid idx withText = (if idx = 0 \<and> \<not> withText then uuid else uuid @ ''_att'' @ Itoa idx)"

text \<open>An attachment that came without its bytes.\<close>

record pushed_attachment =
  puFilename :: bytes
  puMimeType :: bytes
  puUtiType :: bytes
  puSize :: "64 word"
  puDescriptor :: "bytes option"

text \<open>\<open>time.Time{}\<close> in milliseconds.\<close>

definition zeroTimeMs :: int where "zeroTimeMs = - 62135596800000"

definition pendingRow :: "bytes \<Rightarrow> int \<Rightarrow> bytes \<Rightarrow> WrappedMessage \<Rightarrow> int \<Rightarrow> pushed_attachment \<Rightarrow> bytes \<Rightarrow> pendingAttachmentRow" where
  "pendingRow l now portalID msg idx att descriptor =
     (let withText = (case wmText msg of Some t \<Rightarrow> trimRightObject t \<noteq> [] | None \<Rightarrow> False) in
      \<lparr>paLoginID = l, paMessageGUID = wmUuid msg, paAttIndex = idx, paAttID = makeAttID (wmUuid msg) idx withText,
       paPortalID = portalID, paSender = (case wmSender msg of Some s \<Rightarrow> s | None \<Rightarrow> []), paTimestampMs = sint (wmTimestampMs msg),
       paFilename = puFilename att, paMimeType = puMimeType att, paUtiType = puUtiType att, paSizeBytes = sint (puSize att),
       paMmcsDescriptor = descriptor, paCreatedMs = now div 10 ^ 6, paLastMs = zeroTimeMs, paAttemptCount = 0,
       paNextMs = (now + attachmentRetrierBackoff 1) div 10 ^ 6\<rparr>)"

text \<open>Three tries; the third argument says how often the context is still alive after a failure.\<close>

fun insertTries :: "nat \<Rightarrow> pendingAttachmentRow \<Rightarrow> bool list \<Rightarrow> retry_state \<Rightarrow> (err option \<times> retry_state) db" where
  "insertTries 0 row alive st = dbReturn (None, st)"
| "insertTries (Suc n) row alive st = dbBind (insertPending row st) (\<lambda>(e, st').
     if e = None \<or> n = 0 \<or> alive = [] \<or> \<not> hd alive then dbReturn (e, st') else insertTries n row (tl alive) st')"

definition enqueuePendingMMCSRecovery :: "retry_env \<Rightarrow> bytes \<Rightarrow> bytes option \<Rightarrow> WrappedMessage \<Rightarrow> int \<Rightarrow> pushed_attachment \<Rightarrow> bool list
    \<Rightarrow> retry_state \<Rightarrow> retry_state db" where
  "enqueuePendingMMCSRecovery env l portal msg idx att alive st =
     (case (portal, puDescriptor att) of
        (Some portalID, Some descriptor) \<Rightarrow>
          if descriptor = [] then dbReturn st
          else dbBind (insertTries 3 (pendingRow l (rtNow env (rtReads st)) portalID msg idx att descriptor) alive
              (st\<lparr>rtReads := rtReads st + 1\<rparr>)) (\<lambda>(_, st'). dbReturn st')
      | _ \<Rightarrow> dbReturn st)"

section \<open>An attempt\<close>

definition clock :: "retry_env \<Rightarrow> retry_state \<Rightarrow> int \<times> retry_state" where
  "clock env st = (rtNow env (rtReads st), st\<lparr>rtReads := rtReads st + 1\<rparr>)"

definition reschedule :: "retry_env \<Rightarrow> pendingAttachmentRow \<Rightarrow> retry_state \<Rightarrow> retry_state db" where
  "reschedule env row st =
     (case clock env st of (now1, st1) \<Rightarrow>
        let row' = row\<lparr>paAttemptCount := paAttemptCount row + 1, paLastMs := now1 div 10 ^ 6\<rparr>;
            (old, st2) = (if attachmentRetrierMaxAttempts \<le> paAttemptCount row' then (True, st1)
              else case clock env st1 of (now2, st2) \<Rightarrow> (attachmentRetrierMaxLifetime < now2 - paCreatedMs row * 10 ^ 6, st2)) in
        if old then dbBind (DeletePending row' st2) (\<lambda>(_, st'). dbReturn st')
        else case clock env st2 of (now3, st3) \<Rightarrow>
          dbBind (UpdateSchedule (row'\<lparr>paNextMs := (now3 + attachmentRetrierBackoff (paAttemptCount row')) div 10 ^ 6\<rparr>) st3)
            (\<lambda>(_, st'). dbReturn st'))"

text \<open>The record name CloudKit has for an attachment; empty when the message or the attachment is not there yet.\<close>

definition getAttachmentRecordName :: "retry_env \<Rightarrow> bytes \<Rightarrow> bytes \<Rightarrow> int \<Rightarrow> bytes db" where
  "getAttachmentRecordName env l guid idx =
     dbBind (sqlQuery (\<lambda>s. map_option (\<lambda>r. coalesce (mAttachments r) [])
         (find (\<lambda>r. mLogin r = l \<and> mGuid r = guid) (messages s))))
       (\<lambda>r. case r of
          None \<Rightarrow> dbReturn []
        | Some json \<Rightarrow>
            if json = [] then dbReturn []
            else (case rtRows env json of
                    Inl e \<Rightarrow> dbFail (''unmarshal attachments_json for '' @ guid @ '': '' @ e)
                  | Inr atts \<Rightarrow> dbReturn (if idx < 0 \<or> int (length atts) \<le> idx then [] else atRecordName (atts ! nat idx))))"

definition downloadViaCloudKit :: "retry_env \<Rightarrow> bytes \<Rightarrow> nat \<Rightarrow> pendingAttachmentRow \<Rightarrow> (err + bytes) db" where
  "downloadViaCloudKit env l k row =
     dbBind (dbTry (getAttachmentRecordName env l (paMessageGUID row) (paAttIndex row))) (\<lambda>r. dbReturn (case r of
         Inl e \<Rightarrow> Inl e
       | Inr recordName \<Rightarrow>
           if recordName = [] then Inl ''no CloudKit record yet for attachment''
           else (case rtCloudKit env k recordName of
                   Inl e \<Rightarrow> Inl e
                 | Inr content \<Rightarrow> if content = [] then Inl ''CloudKit returned empty data'' else Inr content)))"

definition recoveryTime :: "retry_env \<Rightarrow> pendingAttachmentRow \<Rightarrow> retry_state \<Rightarrow> int \<times> retry_state" where
  "recoveryTime env row st =
     (if paTimestampMs row < 3600000 then clock env st else (paTimestampMs row * 10 ^ 6, st))"

definition deliverAsEdit :: "retry_env \<Rightarrow> nat \<Rightarrow> pendingAttachmentRow \<Rightarrow> bytes \<Rightarrow> retry_state \<Rightarrow> (err option \<times> retry_state) db" where
  "deliverAsEdit env k row content st =
     (case rtNotice env k (paAttID row) (attachmentPartID (paAttIndex row)) of
        Inl e \<Rightarrow> dbReturn (Some e, st)
      | Inr False \<Rightarrow> dbBind (DeletePending row st) (\<lambda>(_, st'). dbReturn (None, st'))
      | Inr True \<Rightarrow>
          (case recoveryTime env row st of (ts, st1) \<Rightarrow> case clock env st1 of (now, st2) \<Rightarrow>
             dbReturn (None, st2\<lparr>rtEdits := rtEdits st2 @
               [\<lparr>reKey = \<lparr>pk_ID = paPortalID row, pk_Receiver = paLoginID row\<rparr>,
                 reSender = canonicalizeDMSender (paPortalID row) (makeEventSender (rtClient env) (Some (paSender row))),
                 reTimestampNs = ts,
                 reID = makeMessageID (paAttID row @ ''_l2recov_'' @ Itoa (int (paAttemptCount row)) @ ''_'' @ Itoa (now div 10 ^ 6)),
                 reTarget = makeMessageID (paAttID row), reIndex = paAttIndex row, reFilename = paFilename row,
                 reMimeType = paMimeType row, reUtiType = paUtiType row, reData = content\<rparr>]\<rparr>)))"

text \<open>First Apple's servers, then CloudKit.\<close>

definition recoverBytes :: "retry_env \<Rightarrow> bytes \<Rightarrow> nat \<Rightarrow> pendingAttachmentRow \<Rightarrow> (err + bytes) db" where
  "recoverBytes env l k row =
     (case rtMMCS env k (paMmcsDescriptor row) (paFilename row) of
        Inr content \<Rightarrow> dbReturn (Inr content)
      | Inl _ \<Rightarrow> downloadViaCloudKit env l k row)"

definition attempt :: "retry_env \<Rightarrow> bytes \<Rightarrow> pendingAttachmentRow \<Rightarrow> retry_state \<Rightarrow> retry_state db" where
  "attempt env l row st0 =
     (let k = rtTries st0; st = st0\<lparr>rtTries := k + 1\<rparr> in
      dbBind (recoverBytes env l k row) (\<lambda>r. case r of
          Inl _ \<Rightarrow> reschedule env row st
        | Inr content \<Rightarrow>
            if content = [] then reschedule env row st
            else dbBind (deliverAsEdit env k row content st) (\<lambda>(e, st1).
              if e \<noteq> None then reschedule env row st1
              else dbBind (DeletePending row st1) (\<lambda>(_, st2). dbReturn st2))))"

definition tick :: "retry_env \<Rightarrow> bytes \<Rightarrow> retry_state \<Rightarrow> retry_state db" where
  "tick env l st =
     (case clock env st of (now, st1) \<Rightarrow>
        dbBind (GetDue l now attachmentRetrierBatchLimit st1) (\<lambda>r. case r of
            Inl _ \<Rightarrow> dbReturn st1
          | Inr rows \<Rightarrow> dbFold (\<lambda>(_, row) st. attempt env l row st)
              (takeWhile (\<lambda>(i, _). \<not> rtExpired env i) (enumerate 0 rows)) st1))"

text \<open>The part of the placeholder the edit replaces; \<open>None\<close> in the list is a nil row.\<close>

definition findMatchingPart :: "bytes option list \<Rightarrow> int \<Rightarrow> bytes option" where
  "findMatchingPart existing idx =
     (if list_ex (\<lambda>m. m = Some (attachmentPartID idx)) existing then Some (attachmentPartID idx) else None)"

end
