(* ===== verification/AttachmentRetrySpec.thy ===== *)
theory AttachmentRetrySpec
  imports AttachmentRetry BackfillSpec
begin

text \<open>
  What the retrier of attachments promises: a replayed push does not start over, every row leaves the table after a bounded
  number of attempts, and an attempt concerns its own row only.
\<close>

lemma pendingExec_ok: "pendingExec f st (s, []) = (Inr (None, st\<lparr>rtTable := f (rtTable st)\<rparr>), s, [])"
  by (simp add: pendingExec_def dbBind_def dbTry_def dbReturn_def)

section \<open>What is written for a failed attachment\<close>

lemma trimRight_nil: "trimRightObject [] = []"
  by (simp add: trimRightObject_def runes.simps)

lemma placeholder_id: "paAttID (pendingRow l now portalID msg (int i) att d) = attEventID msg i"
  using trimRight_nil
  by (auto simp: pendingRow_def makeAttID_def attEventID_def attachmentID_def hasText_def Let_def split: option.split)

lemma insert_once: "insertIgnore key new rs = (if list_ex (\<lambda>r. key r = key new) rs then rs else rs @ [new])"
proof -
  have "map (\<lambda>r. if key r = key new then r else r) rs = rs" by (induction rs) auto
  then show ?thesis by (simp add: insertIgnore_def upsertRow_def)
qed

lemma enqueue_run:
  assumes "puDescriptor att = Some d" "d \<noteq> []"
  shows "enqueuePendingMMCSRecovery env l (Some p) msg idx att alive st (s, []) =
    (Inr (st\<lparr>rtReads := rtReads st + 1, rtTable := insertIgnore pendingKey
       (pendingRow l (rtNow env (rtReads st)) p msg idx att d) (rtTable st)\<rparr>), s, [])"
  using assms
  by (simp add: enqueuePendingMMCSRecovery_def eval_nat_numeral dbBind_def insertPending_def pendingExec_ok dbReturn_def)

text \<open>C40: The row of a failed attachment aims at its placeholder: it carries the identifier under which the live handler bridged
  the attachment.  A push that is replayed changes nothing, so the attempts made so far still count.\<close>

theorem pending_row_targets_placeholder:
  assumes "puDescriptor att = Some d" "d \<noteq> []"
  shows "case enqueuePendingMMCSRecovery env l (Some p) msg (int i) att alive st (s, []) of
      (Inr st', _) \<Rightarrow>
        if list_ex (\<lambda>r. pendingKey r = (l, wmUuid msg, int i)) (rtTable st) then rtTable st' = rtTable st
        else rtTable st' = rtTable st @ [last (rtTable st')] \<and> paAttID (last (rtTable st')) = attEventID msg i
          \<and> pendingKey (last (rtTable st')) = (l, wmUuid msg, int i) \<and> paAttemptCount (last (rtTable st')) = 0
    | (Inl _, _) \<Rightarrow> False"
  using placeholder_id
  by (simp add: enqueue_run [OF assms] insert_once pendingKey_def pendingRow_def Let_def)

theorem pending_row_targets_placeholder_witness:
  "\<forall>env msg st s. case enqueuePendingMMCSRecovery env ''me'' (Some ''tel:+15550100'') msg (int 1)
        \<lparr>puFilename = ''a.jpg'', puMimeType = ''image/jpeg'', puUtiType = ''public.jpeg'', puSize = 10, puDescriptor = Some ''{}''\<rparr> [] st (s, []) of
      (Inr st', _) \<Rightarrow>
        if list_ex (\<lambda>r. pendingKey r = (''me'', wmUuid msg, int 1)) (rtTable st) then rtTable st' = rtTable st
        else rtTable st' = rtTable st @ [last (rtTable st')] \<and> paAttID (last (rtTable st')) = attEventID msg 1
          \<and> pendingKey (last (rtTable st')) = (''me'', wmUuid msg, int 1) \<and> paAttemptCount (last (rtTable st')) = 0
    | (Inl _, _) \<Rightarrow> False"
  by (intro allI, rule pending_row_targets_placeholder [where d = "''{}''"]) simp_all

section \<open>The attempts end\<close>

definition pendingFor :: "bytes \<times> bytes \<times> int \<Rightarrow> retry_state \<Rightarrow> pendingAttachmentRow option" where
  "pendingFor key st = find (\<lambda>r. pendingKey r = key) (rtTable st)"

lemma pending_deleted: "find P (deleteWhere P rs) = None"
  by (simp add: deleteWhere_def find_None_iff)

lemma pending_updated: "(\<And>r. P r \<Longrightarrow> P (f r)) \<Longrightarrow> find P (updateWhere P f rs) = map_option f (find P rs)"
  by (induction rs) (auto simp: updateWhere_def)

text \<open>The row is gone, or it has one attempt more and is still below the limit.\<close>

definition nearer :: "bytes \<times> bytes \<times> int \<Rightarrow> nat \<Rightarrow> retry_state \<Rightarrow> bool" where
  "nearer key n st \<longleftrightarrow> (case pendingFor key st of None \<Rightarrow> True | Some r \<Rightarrow> paAttemptCount r = Suc n \<and> Suc n < 30)"

lemma reschedule_nearer:
  assumes "pendingFor (pendingKey row) st = Some row0"
  shows "\<exists>st'. reschedule env row st (s, []) = (Inr st', s, []) \<and> nearer (pendingKey row) (paAttemptCount row) st'"
proof -
  have upd: "pendingKey (r\<lparr>paAttemptCount := a, paLastMs := b, paNextMs := c\<rparr>) = pendingKey r"
    "pendingKey (r\<lparr>paAttemptCount := a, paLastMs := b\<rparr>) = pendingKey r" for r a b c
    by (simp_all add: pendingKey_def)
  show ?thesis
    using assms
    by (auto simp: reschedule_def clock_def Let_def dbBind_def DeletePending_def UpdateSchedule_def pendingExec_ok dbReturn_def upd
        nearer_def pendingFor_def pending_deleted pending_updated attachmentRetrierMaxAttempts_def)
qed

lemma recover_run: "\<exists>r. recoverBytes env l k row (s, []) = (Inr r, s, [])"
proof -
  have lookup: "\<exists>r. getAttachmentRecordName env l g i (s, []) = (r, s, [])" for g i
    by (simp add: getAttachmentRecordName_def dbBind_def dbReturn_def dbFail_def split: option.split sum.split)
  obtain r where "getAttachmentRecordName env l (paMessageGUID row) (paAttIndex row) (s, []) = (r, s, [])" using lookup by blast
  then have "downloadViaCloudKit env l k row (s, []) = (Inr (case r of
         Inl e \<Rightarrow> Inl e
       | Inr recordName \<Rightarrow>
           if recordName = [] then Inl ''no CloudKit record yet for attachment''
           else (case rtCloudKit env k recordName of
                   Inl e \<Rightarrow> Inl e
                 | Inr content \<Rightarrow> if content = [] then Inl ''CloudKit returned empty data'' else Inr content)), s, [])"
    by (simp add: downloadViaCloudKit_def dbBind_def dbTry_def dbReturn_def)
  then show ?thesis by (simp add: recoverBytes_def dbReturn_def split: sum.split)
qed

lemma deliver_run: "\<exists>e st'. deliverAsEdit env k row content st (s, []) = (Inr (e, st'), s, [])
    \<and> (e = None \<or> rtTable st' = rtTable st)"
  by (auto simp: deliverAsEdit_def dbReturn_def dbBind_def DeletePending_def pendingExec_ok split: sum.split bool.split prod.split)

lemma attempt_nearer:
  assumes "pendingFor (pendingKey row) st = Some row0"
  shows "\<exists>st'. attempt env l row st (s, []) = (Inr st', s, []) \<and> nearer (pendingKey row) (paAttemptCount row) st'"
proof -
  let ?st = "st\<lparr>rtTries := Suc (rtTries st)\<rparr>"
  have again: "\<exists>st'. reschedule env row st1 (s, []) = (Inr st', s, []) \<and> nearer (pendingKey row) (paAttemptCount row) st'"
    if "rtTable st1 = rtTable st" for st1
    using assms that by (intro reschedule_nearer) (auto simp: pendingFor_def)
  obtain r where r: "recoverBytes env l (rtTries st) row (s, []) = (Inr r, s, [])" using recover_run by blast
  show ?thesis
  proof (cases "case r of Inl _ \<Rightarrow> True | Inr content \<Rightarrow> content = []")
    case True
    then show ?thesis using again [of ?st] by (auto simp: attempt_def Let_def dbBind_def r split: sum.splits)
  next
    case False
    then obtain content where c: "r = Inr content" "content \<noteq> []" by (cases r) auto
    obtain e st1 where d: "deliverAsEdit env (rtTries st) row content ?st (s, []) = (Inr (e, st1), s, [])"
        "e = None \<or> rtTable st1 = rtTable ?st"
      using deliver_run by blast
    show ?thesis
    proof (cases e)
      case None
      then show ?thesis
        by (simp add: attempt_def Let_def dbBind_def r c d(1) [unfolded None] DeletePending_def pendingExec_ok dbReturn_def
            nearer_def pendingFor_def pending_deleted)
    next
      case (Some x)
      then show ?thesis using again [of st1] d(2) by (auto simp: attempt_def Let_def dbBind_def r c d(1))
    qed
  qed
qed

text \<open>The attempts the ticks make on one row.\<close>

fun attempts :: "retry_env \<Rightarrow> bytes \<Rightarrow> bytes \<times> bytes \<times> int \<Rightarrow> nat \<Rightarrow> retry_state \<Rightarrow> retry_state db" where
  "attempts env l key 0 st = dbReturn st"
| "attempts env l key (Suc n) st = (case pendingFor key st of
     None \<Rightarrow> dbReturn st | Some row \<Rightarrow> dbBind (attempt env l row st) (attempts env l key n))"

lemma pendingFor_key: "pendingFor key st = Some row \<Longrightarrow> pendingKey row = key"
  by (auto simp: pendingFor_def find_Some_iff)

lemma attempts_gone:
  assumes "(case pendingFor key st of None \<Rightarrow> True | Some row \<Rightarrow> 30 \<le> paAttemptCount row + n \<and> n \<noteq> 0)"
  shows "\<exists>st'. attempts env l key n st (s, []) = (Inr st', s, []) \<and> pendingFor key st' = None"
  using assms
proof (induction n arbitrary: st)
  case 0
  then show ?case by (auto simp: dbReturn_def split: option.splits)
next
  case (Suc n)
  show ?case
  proof (cases "pendingFor key st")
    case None
    then show ?thesis by (simp add: dbReturn_def)
  next
    case (Some row)
    obtain st1 where 1: "attempt env l row st (s, []) = (Inr st1, s, [])" "nearer key (paAttemptCount row) st1"
      using attempt_nearer [of row st row env l s] pendingFor_key [OF Some] Some by auto
    have "case pendingFor key st1 of None \<Rightarrow> True | Some r \<Rightarrow> 30 \<le> paAttemptCount r + n \<and> n \<noteq> 0"
      using 1(2) Suc.prems Some by (auto simp: nearer_def split: option.splits)
    from Suc.IH [OF this] show ?thesis using Some 1(1) by (simp add: dbBind_def)
  qed
qed

text \<open>C8: Retrying ends: as long as the statements on the table succeed, after at most thirty attempts the row is pending no more,
  whatever Apple's servers, CloudKit, the bridge's table and the clock answer.\<close>

theorem retries_end:
  "case attempts env l key 30 st (s, []) of (Inr st', s', _) \<Rightarrow> pendingFor key st' = None \<and> s' = s | (Inl _, _) \<Rightarrow> False"
proof -
  have "case pendingFor key st of None \<Rightarrow> True | Some row \<Rightarrow> 30 \<le> paAttemptCount row + 30 \<and> 30 \<noteq> (0 :: nat)"
    by (simp split: option.split)
  from attempts_gone [OF this, of env l s] show ?thesis by auto
qed

section \<open>An attempt and the other rows\<close>

definition others :: "bytes \<times> bytes \<times> int \<Rightarrow> retry_state \<Rightarrow> pendingAttachmentRow list" where
  "others key st = filter (\<lambda>r. pendingKey r \<noteq> key) (rtTable st)"

definition sameRest :: "bytes \<times> bytes \<times> int \<Rightarrow> retry_state \<Rightarrow> retry_state \<Rightarrow> bool" where
  "sameRest key st st' \<longleftrightarrow> others key st' = others key st \<and> rtEdits st' = rtEdits st"

lemma sameRest_refl [simp]: "sameRest key st st" "sameRest key st (st\<lparr>rtReads := n\<rparr>)" "sameRest key st (st\<lparr>rtTries := n\<rparr>)"
  by (simp_all add: sameRest_def others_def)

lemma sameRest_trans: "sameRest key a b \<Longrightarrow> sameRest key b c \<Longrightarrow> sameRest key a c"
  by (simp add: sameRest_def)

lemma rest_exec:
  assumes "filter (\<lambda>r. pendingKey r \<noteq> key) (f (rtTable st)) = filter (\<lambda>r. pendingKey r \<noteq> key) (rtTable st)"
  shows "sure (\<lambda>r. sameRest key st (snd r)) (pendingExec f st)"
  unfolding pendingExec_def
  by (rule sure_bind [OF sure_try]) (auto intro!: sure_return simp: sameRest_def others_def assms split: sum.split)

lemma rest_delete: "sure (\<lambda>r. sameRest (pendingKey row) st (snd r)) (DeletePending row st)"
  unfolding DeletePending_def by (rule rest_exec) (simp add: deleteWhere_def)

lemma rest_update: "sure (\<lambda>r. sameRest (pendingKey row) st (snd r)) (UpdateSchedule row st)"
  unfolding UpdateSchedule_def
proof (rule rest_exec)
  have "filter (\<lambda>r. pendingKey r \<noteq> key) (updateWhere (\<lambda>r. pendingKey r = key) f rs) = filter (\<lambda>r. pendingKey r \<noteq> key) rs"
    if "\<And>r. pendingKey (f r) = pendingKey r" for key f and rs :: "pendingAttachmentRow list"
    by (induction rs) (auto simp: updateWhere_def that)
  from this [of "\<lambda>r. r\<lparr>paAttemptCount := paAttemptCount row, paLastMs := paLastMs row, paNextMs := paNextMs row\<rparr>" "pendingKey row" "rtTable st"]
  show "filter (\<lambda>r. pendingKey r \<noteq> pendingKey row) (updateWhere (\<lambda>r. pendingKey r = pendingKey row)
      (\<lambda>r. r\<lparr>paAttemptCount := paAttemptCount row, paLastMs := paLastMs row, paNextMs := paNextMs row\<rparr>) (rtTable st))
    = filter (\<lambda>r. pendingKey r \<noteq> pendingKey row) (rtTable st)"
    by (simp add: pendingKey_def)
qed

lemma rest_reschedule: "sure (sameRest (pendingKey row) st) (reschedule env row st)"
proof -
  have del: "sure (sameRest (pendingKey row) st) (dbBind (DeletePending (row\<lparr>paAttemptCount := a, paLastMs := b\<rparr>) st1) (\<lambda>(_, st'). dbReturn st'))"
    if "sameRest (pendingKey row) st st1" for a b st1
    using rest_delete [of "row\<lparr>paAttemptCount := a, paLastMs := b\<rparr>" st1] that
    by (auto intro!: sure_bind sure_return intro: sameRest_trans simp: pendingKey_def)
  have upd: "sure (sameRest (pendingKey row) st) (dbBind (UpdateSchedule (row\<lparr>paAttemptCount := a, paLastMs := b, paNextMs := c\<rparr>) st1)
      (\<lambda>(_, st'). dbReturn st'))" if "sameRest (pendingKey row) st st1" for a b c st1
    using rest_update [of "row\<lparr>paAttemptCount := a, paLastMs := b, paNextMs := c\<rparr>" st1] that
    by (auto intro!: sure_bind sure_return intro: sameRest_trans simp: pendingKey_def)
  show ?thesis by (auto simp: reschedule_def clock_def Let_def intro!: del upd)
qed

definition ownRow :: "pendingAttachmentRow \<Rightarrow> retry_state \<Rightarrow> retry_state \<Rightarrow> bool" where
  "ownRow row st st' \<longleftrightarrow> others (pendingKey row) st' = others (pendingKey row) st
     \<and> (rtEdits st' = rtEdits st
        \<or> rtEdits st' = rtEdits st @ [last (rtEdits st')] \<and> reTarget (last (rtEdits st')) = paAttID row \<and> reData (last (rtEdits st')) \<noteq> [])"

lemma own_deliver:
  assumes "content \<noteq> []"
  shows "sure (\<lambda>(e, st'). ownRow row st st' \<and> (e = None \<or> sameRest (pendingKey row) st st')) (deliverAsEdit env k row content st)"
proof -
  have gone: "sure (\<lambda>(e, st'). ownRow row st st' \<and> (e = None \<or> sameRest (pendingKey row) st st'))
      (dbBind (DeletePending row st) (\<lambda>(_, st'). dbReturn (None, st')))"
    by (rule sure_bind [OF rest_delete]) (auto intro!: sure_return simp: sameRest_def ownRow_def)
  show ?thesis
  proof (cases "rtNotice env k (paAttID row) (attachmentPartID (paAttIndex row))")
    case (Inl e)
    then show ?thesis by (auto simp: deliverAsEdit_def ownRow_def intro!: sure_return)
  next
    case (Inr found)
    then show ?thesis
      using assms gone
      by (cases found) (auto simp: deliverAsEdit_def ownRow_def others_def recoveryTime_def clock_def makeMessageID_def intro!: sure_return)
  qed
qed

lemma own_attempt: "sure (ownRow row st) (attempt env l row st)"
proof -
  have again: "sure (ownRow row st) (reschedule env row st1)" if "sameRest (pendingKey row) st st1" for st1
    using that by (intro sure_weaken [OF rest_reschedule]) (auto simp: sameRest_def ownRow_def)
  have bytes: "sure (\<lambda>_. True) (recoverBytes env l k row)" for k
    unfolding recoverBytes_def downloadViaCloudKit_def by (auto intro!: sure_return sure_bind [OF sure_try] split: sum.split)
  have same: "ownRow row (st\<lparr>rtTries := n\<rparr>) st' = ownRow row st st'" "sameRest key (st\<lparr>rtTries := n\<rparr>) st' = sameRest key st st'" for n st' key
    by (simp_all add: ownRow_def sameRest_def others_def)
  have finish: "sure (ownRow row st) (dbBind (DeletePending row st1) (\<lambda>(_, st2). dbReturn st2))" if "ownRow row st st1" for st1
    using that by (intro sure_bind [OF rest_delete]) (auto intro!: sure_return simp: sameRest_def ownRow_def)
  show ?thesis
    unfolding attempt_def Let_def
    by (rule sure_bind [OF bytes])
      (auto intro!: again sure_bind [OF own_deliver] finish simp: same split: sum.split)
qed

text \<open>C9: An attempt concerns its own row only, whatever statements fail: the other pending rows stay as they are, and at most one
  edit goes to Matrix, with content and for the placeholder of that row.\<close>

theorem attempt_own_row:
  "case attempt env l row st x of (Inr st', _) \<Rightarrow> ownRow row st st' | (Inl _, _) \<Rightarrow> False"
  by (rule sure_run [OF own_attempt])

end
