(* ===== verification/ControlEvents.thy ===== *)
theory ControlEvents
  imports LiveMessages CloudRestore
begin

text \<open>
  The pushes that are no messages, \<open>client.go\<close>: renames, changes of the members and of the photo of a group, recovered
  conversations.  What a handler starts in a goroutine is a \<open>control_task\<close>, run by \<open>runControlTask\<close>.

  \<open>ceReID\<close> is bridgev2's \<open>ReIDPortal\<close>: whether it succeeded, and the metadata of the portals after it.  \<open>ceParts\<close> is its
  \<open>GetAllPartsByID\<close> at each of the tries, \<open>ceReceiver\<close> the receiver of a portal and \<open>ceGhost\<close> the Matrix user of a contact.
\<close>

section \<open>State\<close>

record control_message = WrappedMessage +
  wmNewChatName :: "bytes option"
  wmNewParticipants :: "bytes list"
  wmGroupPhotoCleared :: bool
  wmIconChangePhotoData :: "bytes option"
  wmSendDelivered :: bool
  wmIsDelivered :: bool
  wmIsReadReceipt :: bool
  wmIsTyping :: bool
  wmIsError :: bool
  wmIsPeerCacheInvalidate :: bool
  wmIsMoveToRecycleBin :: bool
  wmIsPermanentDelete :: bool
  wmIsRecoverChat :: bool
  wmIsUnsend :: bool
  wmIsRename :: bool
  wmIsParticipantChange :: bool
  wmIsIconChange :: bool
  wmIsShareProfile :: bool
  wmIsUpdateProfile :: bool
  wmIsUpdateProfileSharing :: bool
  wmIsNotifyAnyways :: bool
  wmIsSetTranscriptBackground :: bool

record stored_part =
  spMXID :: bytes
  spSenderMXID :: bytes

datatype control_event =
    NameChange PortalKey EventSender time_ms bytes
  | MemberList PortalKey EventSender time_ms "bytes \<rightharpoonup> EventSender"
  | AvatarChange PortalKey EventSender time_ms bytes "bytes option"
  | Resync PortalKey
  | GhostReceipt PortalKey bytes bytes time_ms
  | OwnReceipt PortalKey EventSender time_ms bytes
  | DeliveryStatus PortalKey bytes stored_part
  | TypingNotice PortalKey EventSender time_ms

datatype control_task = RenameTask PortalKey bytes | RosterTask bytes "bytes list" | RestoreTask PortalKey restorePipelineOptions

record control_env =
  ceLive :: live_env
  ceReID :: "PortalKey \<Rightarrow> PortalKey \<Rightarrow> (bytes \<times> PortalMetadata) list \<Rightarrow> bool \<times> (bytes \<times> PortalMetadata) list"
  ceParts :: "nat \<Rightarrow> bytes \<Rightarrow> bytes \<Rightarrow> stored_part list option"
  ceReceiver :: "PortalKey \<Rightarrow> bytes"
  ceGhost :: "bytes \<Rightarrow> bytes option"

record control_state =
  csLive :: live_state
  csFlushedAt :: time_ms
  csPipelines :: "bytes set"
  csEvents :: "control_event list"
  csTasks :: "control_task list"

definition caches :: "control_state \<Rightarrow> group_state" where
  "caches st = groups (lsClient (csLive st))"

definition setCaches :: "group_state \<Rightarrow> control_state \<Rightarrow> control_state" where
  "setCaches gs st = st\<lparr>csLive := (csLive st)\<lparr>lsClient := (lsClient (csLive st))\<lparr>groups := gs\<rparr>\<rparr>\<rparr>"

definition queueControl :: "control_event list \<Rightarrow> control_state \<Rightarrow> control_state" where
  "queueControl evs st = st\<lparr>csEvents := csEvents st @ evs\<rparr>"

definition startTask :: "control_task \<Rightarrow> control_state \<Rightarrow> control_state" where
  "startTask t st = st\<lparr>csTasks := csTasks st @ [t]\<rparr>"

definition asMessage :: "control_message \<Rightarrow> WrappedMessage" where
  "asMessage msg = WrappedMessage.truncate msg"

definition controlPortal :: "control_env \<Rightarrow> bytes \<Rightarrow> control_message \<Rightarrow> control_state \<Rightarrow> (PortalKey \<times> control_state) db" where
  "controlPortal env l msg st =
     dbBind (portalFor (ceLive env) l (asMessage msg) (csLive st)) (\<lambda>(key, ls). dbReturn (key, st\<lparr>csLive := ls\<rparr>))"

section \<open>Renames\<close>

definition rememberName :: "bytes \<Rightarrow> bytes \<Rightarrow> control_state \<Rightarrow> control_state" where
  "rememberName portalID name st = setCaches ((caches st)\<lparr>imGroupNames := AList.update portalID name (imGroupNames (caches st))\<rparr>) st"

definition handleRename :: "control_env \<Rightarrow> bytes \<Rightarrow> control_message \<Rightarrow> control_state \<Rightarrow> control_state db" where
  "handleRename env l msg st =
     (if wmIsStoredMessage msg then dbReturn st
      else dbBind (controlPortal env l msg st) (\<lambda>(key, st1).
        let newName = coalesce (wmNewChatName msg) [];
            st2 = (if newName \<noteq> [] then startTask (RenameTask key newName) (rememberName (pk_ID key) newName st1) else st1) in
        dbReturn (queueControl [NameChange key (senderOf (ceLive env) (asMessage msg)) (stamp (asMessage msg)) newName] st2)))"

text \<open>The goroutines: the name in the portal's metadata and in the store; the roster of a \<open>gid:\<close> portal.  That of a restore
  is modelled in \<open>CloudRestore\<close>.\<close>

definition renameMeta :: "bytes \<Rightarrow> bytes \<Rightarrow> group_state \<Rightarrow> group_state" where
  "renameMeta portalID name gs =
     (case map_of (portalMeta gs) portalID of
        Some meta \<Rightarrow> if GroupName meta \<noteq> name
          then gs\<lparr>portalMeta := AList.update portalID (meta\<lparr>GroupName := name\<rparr>) (portalMeta gs)\<rparr> else gs
      | None \<Rightarrow> gs)"

definition runControlTask :: "control_env \<Rightarrow> bytes \<Rightarrow> time_ms \<Rightarrow> control_task \<Rightarrow> control_state \<Rightarrow> control_state db" where
  "runControlTask env l now t st =
     (case t of
        RenameTask key name \<Rightarrow> dbBind (dbTry (updateDisplayNameByPortalID l (pk_ID key) name))
          (\<lambda>_. dbReturn (setCaches (renameMeta (pk_ID key) name (caches st)) st))
      | RosterTask portalID ps \<Rightarrow> dbBind (persistGroupParticipantsIfChanged (leGenv (ceLive env)) l now portalID ps) (\<lambda>_. dbReturn st)
      | RestoreTask _ _ \<Rightarrow> dbReturn st)"

section \<open>Changes of the members\<close>

definition rekeyPortal :: "control_env \<Rightarrow> PortalKey \<Rightarrow> PortalKey \<Rightarrow> control_state \<Rightarrow> bool \<times> control_state" where
  "rekeyPortal env oldKey newKey st =
     (case reIDPortalWithCacheUpdate (ceReID env) oldKey newKey (caches st, portalMeta (caches st)) of
        (ok, gs, meta) \<Rightarrow> (ok, setCaches (gs\<lparr>portalMeta := meta\<rparr>) st))"

definition rememberEnvelope :: "bytes \<Rightarrow> control_message \<Rightarrow> group_state \<Rightarrow> group_state" where
  "rememberEnvelope portalID msg gs =
     (let gs1 = (if nonEmpty (wmSenderGuid msg) \<and> (Contains portalID '','' \<or> HasPrefix portalID ''gid:'')
                 then gs\<lparr>imGroupGuids := AList.update portalID (the (wmSenderGuid msg)) (imGroupGuids gs)\<rparr> else gs) in
      if nonEmpty (wmGroupName msg)
      then gs1\<lparr>imGroupNames := AList.update portalID (the (wmGroupName msg)) (imGroupNames gs1)\<rparr> else gs1)"

text \<open>The members as bridgev2 gets them.\<close>

definition memberOf :: "genv \<Rightarrow> bytes \<Rightarrow> EventSender" where
  "memberOf c normalized =
     (if isSelf c normalized
      then \<lparr>es_IsFromMe = True, es_SenderLogin = ie_loginID c, es_Sender = makeUserID normalized\<rparr>
      else \<lparr>es_IsFromMe = False, es_SenderLogin = [], es_Sender = makeUserID normalized\<rparr>)"

definition memberMap :: "genv \<Rightarrow> bytes list \<Rightarrow> bytes \<rightharpoonup> EventSender" where
  "memberMap c ps = fold (\<lambda>n m. m(makeUserID n \<mapsto> memberOf c n)) (normalizeAll ps) Map.empty"

text \<open>The final key and whether the portal could be moved to it.\<close>

definition movePortal :: "control_env \<Rightarrow> bytes list \<Rightarrow> PortalKey \<Rightarrow> control_state \<Rightarrow> bool \<times> PortalKey \<times> control_state" where
  "movePortal env ps oldKey st =
     (let c = leGenv (ceLive env); newID = Join (canonicalList c ps) '','' in
      if newID = pk_ID oldKey then (True, oldKey, st)
      else case rekeyPortal env oldKey (keyOf c newID) st of (ok, st') \<Rightarrow> (ok, keyOf c newID, st'))"

definition changeMembers :: "control_env \<Rightarrow> control_message \<Rightarrow> PortalKey \<Rightarrow> control_state \<Rightarrow> control_state" where
  "changeMembers env msg oldKey st =
     (case movePortal env (wmNewParticipants msg) oldKey (startTask (RosterTask (pk_ID oldKey) (wmNewParticipants msg)) st) of
        (False, _, st1) \<Rightarrow> st1
      | (True, key, st1) \<Rightarrow>
          let gs = rememberEnvelope (pk_ID key) msg (trackService (pk_ID key) (wmIsSms msg) (caches st1)) in
          queueControl [MemberList key (senderOf (ceLive env) (asMessage msg)) (stamp (asMessage msg))
              (memberMap (leGenv (ceLive env)) (wmNewParticipants msg))] (setCaches gs st1))"

definition handleParticipantChange :: "control_env \<Rightarrow> bytes \<Rightarrow> control_message \<Rightarrow> control_state \<Rightarrow> control_state db" where
  "handleParticipantChange env l msg st =
     (if wmIsStoredMessage msg then dbReturn st
      else dbBind (controlPortal env l msg st) (\<lambda>(oldKey, st1).
        dbReturn (if wmNewParticipants msg = [] then queueControl [Resync oldKey] st1 else changeMembers env msg oldKey st1)))"

section \<open>Photos\<close>

text \<open>Stored changes of the photo are not skipped; the bytes come with the push.\<close>

definition avatarChange :: "control_env \<Rightarrow> control_message \<Rightarrow> PortalKey \<Rightarrow> bytes \<Rightarrow> bytes option \<Rightarrow> control_event" where
  "avatarChange env msg key avatarID content = AvatarChange key (senderOf (ceLive env) (asMessage msg)) (stamp (asMessage msg)) avatarID content"

definition handleIconChange :: "control_env \<Rightarrow> bytes \<Rightarrow> control_message \<Rightarrow> control_state \<Rightarrow> control_state db" where
  "handleIconChange env l msg st =
     dbBind (controlPortal env l msg st) (\<lambda>(key, st1).
       if wmGroupPhotoCleared msg
       then dbBind (dbTry (clearGroupPhoto l (pk_ID key))) (\<lambda>_. dbReturn (queueControl [avatarChange env msg key [] None] st1))
       else let photoData = coalesce (wmIconChangePhotoData msg) [] in
         if photoData = [] then dbReturn st1
         else dbBind (dbTry (saveGroupPhoto l (pk_ID key) (stamp (asMessage msg)) photoData)) (\<lambda>_.
           dbReturn (queueControl
             [avatarChange env msg key (''icon-change:'' @ Itoa (uint (wmTimestampMs msg))) (Some photoData)] st1)))"

section \<open>Recovered conversations\<close>

text \<open>\<open>None\<close> is the error for an empty identifier; a running restore of the portal is not started again.\<close>

definition startRestoreBackfillPipeline :: "genv \<Rightarrow> PortalKey \<Rightarrow> restorePipelineOptions \<Rightarrow> control_state \<Rightarrow> control_state option" where
  "startRestoreBackfillPipeline c key opts st =
     (let portalID = TrimSpace (roPortalID opts);
          key' = \<lparr>pk_ID = (if pk_ID key = [] then portalID else pk_ID key),
                  pk_Receiver = (if pk_Receiver key = [] then ie_loginID c else pk_Receiver key)\<rparr> in
      if portalID = [] then None
      else if portalID \<in> csPipelines st then Some st
      else Some (startTask (RestoreTask key' (opts\<lparr>roPortalID := portalID\<rparr>)) (st\<lparr>csPipelines := insert portalID (csPipelines st)\<rparr>)))"

definition finishRestoreBackfillPipeline :: "bytes \<Rightarrow> control_state \<Rightarrow> control_state" where
  "finishRestoreBackfillPipeline portalID st = st\<lparr>csPipelines := csPipelines st - {portalID}\<rparr>"

text \<open>A recovered group may be named by the UUID of its chat instead of that of the group.\<close>

definition canonicalRecovered :: "bytes \<Rightarrow> bytes \<Rightarrow> bytes db" where
  "canonicalRecovered l portalID =
     (if HasPrefix portalID ''gid:''
      then dbBind (orElse [] (findPortalIDsByGroupID l (TrimPrefix portalID ''gid:''))) (\<lambda>alts.
        dbReturn (case find (\<lambda>alt. alt \<noteq> portalID) alts of Some alt \<Rightarrow> alt | None \<Rightarrow> portalID))
      else dbReturn portalID)"

definition recoverOptions :: "control_message \<Rightarrow> bytes \<Rightarrow> restorePipelineOptions" where
  "recoverOptions msg portalID =
     \<lparr>roPortalID = portalID, roParticipants = normalizeAll (wmDeleteChatParticipants msg), roDisplayName = [],
      roChatID = coalesce (wmDeleteChatGuid msg) [], roGroupID = coalesce (wmDeleteChatGroupId msg) [], roGroupPhotoGuid = []\<rparr>"

definition handleChatRecover :: "control_env \<Rightarrow> bytes \<Rightarrow> control_message \<Rightarrow> control_state \<Rightarrow> control_state db" where
  "handleChatRecover env l msg st =
     (let c = leGenv (ceLive env); members = wmDeleteChatParticipants msg in
      if \<not> leUseCloudKit (ceLive env) then dbReturn st
      else dbBind (makeDeletePortalKey (ceLive env) l (asMessage msg) (csLive st)) (\<lambda>(key, ls).
        let st1 = st\<lparr>csLive := ls\<rparr> in
        if pk_ID key = [] then dbReturn st1
        else dbBind (canonicalRecovered l (pk_ID key)) (\<lambda>portalID.
          let gs = caches st1;
              st2 = (if HasPrefix portalID ''gid:'' \<and> members \<noteq> []
                then setCaches (gs\<lparr>imGroupParticipants := AList.update portalID
                       (sort (ie_handle c # map addIdentifierPrefix members)) (imGroupParticipants gs)\<rparr>) st1 else st1) in
          dbReturn (case startRestoreBackfillPipeline c (key\<lparr>pk_ID := portalID\<rparr>) (recoverOptions msg portalID) st2 of
            Some st3 \<Rightarrow> st3 | None \<Rightarrow> st2))))"

end
