(* ===== verification/Receipts.thy ===== *)
theory Receipts
  imports ControlEvents
begin

text \<open>
  Receipts and typing notices, \<open>client.go\<close>, and \<open>OnMessage\<close>, which sends every push to its handler.  These pushes often lack
  the members of a group, so the portal is looked for in four ways.  A Go map is an association list in any order.
\<close>

section \<open>The portal of a receipt\<close>

text \<open>The room named by the UUID of the group, or of a cache entry that is not stale.\<close>

definition guidPortal :: "genv \<Rightarrow> control_message \<Rightarrow> group_state \<Rightarrow> PortalKey option" where
  "guidPortal c msg gs =
     (if \<not> nonEmpty (wmSenderGuid msg) then None
      else let g = the (wmSenderGuid msg) in
        if ie_portalExists c (''gid:'' @ g) then Some (keyOf c (''gid:'' @ g))
        else map_option (\<lambda>(portalIDStr, _). keyOf c portalIDStr)
          (find (\<lambda>(portalIDStr, guid). EqualFold guid g \<and> \<not> guidCacheMatchIsStale c gs portalIDStr (wmParticipants msg)) (imGroupGuids gs)))"

definition memberPortal :: "genv \<Rightarrow> control_message \<Rightarrow> group_state \<Rightarrow> PortalKey option \<times> group_state" where
  "memberPortal c msg gs =
     (case wmSender msg of Some s \<Rightarrow> findGroupPortalForMember c s gs | None \<Rightarrow> (None, gs))"

definition receiptPortal :: "control_env \<Rightarrow> bytes \<Rightarrow> control_message \<Rightarrow> control_state \<Rightarrow> (PortalKey \<times> control_state) db" where
  "receiptPortal env l msg st =
     dbBind (makeReceiptPortalKey (leGenv (ceLive env)) l (wmParticipants msg) (wmGroupName msg) (wmSender msg) (wmSenderGuid msg)
               (wmIsSms msg) (caches st)) (\<lambda>(key, effs, gs).
       let cl = lsClient (csLive st) in
       dbReturn (key, st\<lparr>csLive := (csLive st)\<lparr>lsClient := cl\<lparr>groups := gs, effects := effects cl @ effs\<rparr>\<rparr>\<rparr>))"

definition targetRoom :: "control_env \<Rightarrow> control_message \<Rightarrow> PortalKey option" where
  "targetRoom env msg =
     (if wmUuid msg = [] then None
      else case resolvePortalByTargetMessage (ceLive env) (wmUuid msg) of
        Some key \<Rightarrow> if pk_ID key = [] then None else Some key
      | None \<Rightarrow> None)"

text \<open>The chain of read receipts: the first way that works, and the room of the message before all.\<close>

definition readPortal :: "control_env \<Rightarrow> control_message \<Rightarrow> PortalKey \<Rightarrow> control_state \<Rightarrow> PortalKey \<times> control_state" where
  "readPortal env msg key st =
     (let c = leGenv (ceLive env);
          (k, st1) = (case guidPortal c msg (caches st) of
              Some k \<Rightarrow> (k, st)
            | None \<Rightarrow> (case memberPortal c msg (caches st) of (k, gs) \<Rightarrow> (coalesce k key, setCaches gs st))) in
      (coalesce (targetRoom env msg) k, st1))"

text \<open>That of delivery receipts remembers whether the portal is resolved.\<close>

definition byGuidStep :: "genv \<Rightarrow> control_message \<Rightarrow> PortalKey \<times> bool \<times> control_state \<Rightarrow> PortalKey \<times> bool \<times> control_state" where
  "byGuidStep c msg w = (case w of (key, resolved, st) \<Rightarrow>
     (case guidPortal c msg (caches st) of Some k \<Rightarrow> (k, True, st) | None \<Rightarrow> (key, resolved, st)))"

definition byMemberStep :: "genv \<Rightarrow> control_message \<Rightarrow> PortalKey \<times> bool \<times> control_state \<Rightarrow> PortalKey \<times> bool \<times> control_state" where
  "byMemberStep c msg w = (case w of (key, resolved, st) \<Rightarrow>
     if resolved then w
     else (case memberPortal c msg (caches st) of
         (Some k, gs) \<Rightarrow> (k, True, setCaches gs st) | (None, gs) \<Rightarrow> (key, False, setCaches gs st)))"

definition byRoomStep :: "genv \<Rightarrow> PortalKey \<times> bool \<times> control_state \<Rightarrow> PortalKey \<times> bool \<times> control_state" where
  "byRoomStep c w = (case w of (key, resolved, st) \<Rightarrow> (key, resolved \<or> ie_portalExists c (pk_ID key), st))"

definition byTargetStep :: "control_env \<Rightarrow> control_message \<Rightarrow> PortalKey \<times> bool \<times> control_state \<Rightarrow> PortalKey \<times> bool \<times> control_state" where
  "byTargetStep env msg w = (case w of (key, resolved, st) \<Rightarrow>
     (case targetRoom env msg of Some k \<Rightarrow> if k \<noteq> key then (k, True, st) else w | None \<Rightarrow> w))"

definition deliveryPortal :: "control_env \<Rightarrow> control_message \<Rightarrow> PortalKey \<Rightarrow> control_state \<Rightarrow> PortalKey \<times> bool \<times> control_state" where
  "deliveryPortal env msg key st =
     (let c = leGenv (ceLive env) in
      byTargetStep env msg (byRoomStep c (byMemberStep c msg (byGuidStep c msg (key, False, st)))))"

section \<open>Read receipts\<close>

definition postBackfillGraceMS :: time_ms where
  "postBackfillGraceMS = 60000"

text \<open>\<open>isCloudSyncDone\<close> and the mark of the flush; a receipt the import has already made.\<close>

definition receiptsOpen :: "control_state \<Rightarrow> bool" where
  "receiptsOpen st \<longleftrightarrow> lsSyncDone (csLive st) \<and> csFlushedAt st \<noteq> 0"

definition knownReceipt :: "bytes \<Rightarrow> time_ms \<Rightarrow> control_message \<Rightarrow> control_state \<Rightarrow> bool db" where
  "knownReceipt l now msg st =
     (if now - csFlushedAt st < postBackfillGraceMS then orElse False (hasCloudReadReceipt l (wmUuid msg)) else dbReturn False)"

definition receiptEvent :: "control_env \<Rightarrow> bytes \<Rightarrow> control_message \<Rightarrow> PortalKey \<Rightarrow> control_event list db" where
  "receiptEvent env l msg key =
     (let sender = canonicalizeDMSender (pk_ID key) (senderOf (ceLive env) (asMessage msg)); readTime = stamp (asMessage msg) in
      if es_IsFromMe sender then dbReturn [OwnReceipt key sender readTime (makeMessageID (wmUuid msg))]
      else dbBind (orElse False (isCloudBackfilledMessage l (wmUuid msg))) (\<lambda>backfilled.
        dbReturn (if backfilled then [] else [GhostReceipt key (es_Sender sender) (wmUuid msg) readTime])))"

definition handleReadReceipt :: "control_env \<Rightarrow> bytes \<Rightarrow> time_ms \<Rightarrow> control_message \<Rightarrow> control_state \<Rightarrow> control_state db" where
  "handleReadReceipt env l now msg st =
     (if wmIsStoredMessage msg \<or> \<not> receiptsOpen st then dbReturn st
      else dbBind (knownReceipt l now msg st) (\<lambda>known.
        if known then dbReturn st
        else dbBind (receiptPortal env l msg st) (\<lambda>(key0, st1).
          case readPortal env msg key0 st1 of (key, st2) \<Rightarrow>
            dbBind (receiptEvent env l msg key) (\<lambda>evs. dbReturn (queueControl evs st2)))))"

section \<open>Delivery receipts\<close>

text \<open>The parts under the UUID or its other case, at one try.\<close>

definition altUUID :: "bytes \<Rightarrow> bytes" where
  "altUUID uuid = (if ToUpper uuid = uuid then ToLower uuid else ToUpper uuid)"

definition tryLookup :: "control_env \<Rightarrow> bytes \<Rightarrow> bytes \<Rightarrow> nat \<Rightarrow> stored_part list" where
  "tryLookup env receiver uuid n =
     (let direct = coalesce (ceParts env n receiver (makeMessageID uuid)) [] in
      if direct \<noteq> [] then direct else coalesce (ceParts env n receiver (makeMessageID (altUUID uuid))) [])"

definition deliveryTries :: nat where "deliveryTries = 5"

definition findDelivered :: "control_env \<Rightarrow> bytes \<Rightarrow> bytes \<Rightarrow> stored_part list" where
  "findDelivered env receiver uuid =
     (case find (\<lambda>ps. ps \<noteq> []) (map (tryLookup env receiver uuid) [0..<deliveryTries]) of Some ps \<Rightarrow> ps | None \<Rightarrow> [])"

definition deliveredTo :: "PortalKey \<Rightarrow> control_message \<Rightarrow> bytes" where
  "deliveredTo key msg =
     makeUserID (if isComputedDMPortalID (pk_ID key) then pk_ID key
                 else normalizeIdentifierForPortalID (coalesce (wmSender msg) []))"

definition deliveryEvents :: "control_env \<Rightarrow> control_message \<Rightarrow> PortalKey \<Rightarrow> control_event list" where
  "deliveryEvents env msg key =
     (let parts = findDelivered env (ceReceiver env key) (wmUuid msg) in
      if \<not> ie_portalExists (leGenv (ceLive env)) (pk_ID key) \<or> parts = [] then []
      else case ceGhost env (deliveredTo key msg) of
        Some mxid \<Rightarrow> map (DeliveryStatus key mxid) parts | None \<Rightarrow> [])"

definition handleDeliveryReceipt :: "control_env \<Rightarrow> bytes \<Rightarrow> control_message \<Rightarrow> control_state \<Rightarrow> control_state db" where
  "handleDeliveryReceipt env l msg st =
     dbBind (receiptPortal env l msg st) (\<lambda>(key0, st1).
       case deliveryPortal env msg key0 st1 of (key, _, st2) \<Rightarrow> dbReturn (queueControl (deliveryEvents env msg key) st2))"

section \<open>Typing notices\<close>

definition typingPortal :: "control_env \<Rightarrow> control_message \<Rightarrow> PortalKey \<Rightarrow> control_state \<Rightarrow> PortalKey \<times> control_state" where
  "typingPortal env msg key st =
     (let c = leGenv (ceLive env) in
      if ie_portalExists c (pk_ID key) then (key, st)
      else case guidPortal c msg (caches st) of
        Some k \<Rightarrow> (k, st)
      | None \<Rightarrow> (case memberPortal c msg (caches st) of (k, gs) \<Rightarrow> (coalesce k key, setCaches gs st)))"

definition handleTyping :: "control_env \<Rightarrow> bytes \<Rightarrow> control_message \<Rightarrow> control_state \<Rightarrow> control_state db" where
  "handleTyping env l msg st =
     dbBind (controlPortal env l msg st) (\<lambda>(key0, st1).
       case typingPortal env msg key0 st1 of (key, st2) \<Rightarrow>
         dbReturn (queueControl [TypingNotice key (canonicalizeDMSender (pk_ID key) (senderOf (ceLive env) (asMessage msg)))
             (stamp (asMessage msg))] st2))"

section \<open>OnMessage\<close>

text \<open>What it calls, in order.  \<open>ToBuffer\<close> is the gate of \<open>ReorderBuffer\<close>; a delivery receipt that is sent, shared profiles and
  the notice that a contact broke through the focus are calls of other services.\<close>

datatype push_call =
    SendDelivery | ToDelivery | ToRead | ToTyping | ToChatDelete | ToChatRecover | ToUnsend | ToRename | ToMembers | ToIcon
  | ToSharedProfile | ToNotify | ToBuffer

definition isStandalone :: "control_message \<Rightarrow> bool" where
  "isStandalone msg \<longleftrightarrow> wmText msg = None \<and> \<not> wmIsTapback msg \<and> \<not> wmIsEdit msg \<and> \<not> wmIsUnsend msg"

definition routeRest :: "bytes \<Rightarrow> time_ms \<Rightarrow> control_message \<Rightarrow> push_call list db" where
  "routeRest l now msg =
     (if wmIsUpdateProfile msg \<and> \<not> wmIsShareProfile msg then dbReturn []
      else if wmIsUpdateProfileSharing msg then dbReturn []
      else if wmIsNotifyAnyways msg
        then dbBind (orElse False (hasMessageUUID l (wmUuid msg))) (\<lambda>known.
          if known then dbReturn []
          else dbBind (dbTry (persistMessageUUID l now (wmUuid msg) [] (stamp (asMessage msg)) False)) (\<lambda>_. dbReturn [ToNotify]))
      else if wmIsSetTranscriptBackground msg then dbReturn []
      else dbReturn [ToBuffer])"

definition routePush :: "bytes \<Rightarrow> time_ms \<Rightarrow> control_message \<Rightarrow> push_call list db" where
  "routePush l now msg =
     (if wmIsDelivered msg then dbReturn [ToDelivery]
      else if wmIsReadReceipt msg then dbReturn [ToRead]
      else if wmIsTyping msg then dbReturn [ToTyping]
      else if wmIsError msg then dbReturn []
      else if wmIsPeerCacheInvalidate msg then dbReturn []
      else if wmIsMoveToRecycleBin msg \<or> wmIsPermanentDelete msg then dbReturn [ToChatDelete]
      else if wmIsRecoverChat msg then dbReturn [ToChatRecover]
      else if wmIsUnsend msg then dbReturn [ToUnsend]
      else if wmIsRename msg then dbReturn [ToRename]
      else if wmIsParticipantChange msg then dbReturn [ToMembers]
      else if wmIsIconChange msg then dbReturn [ToIcon]
      else if wmIsShareProfile msg \<and> nonEmpty (wmSender msg)
        then if isStandalone msg then dbReturn [ToSharedProfile]
             else dbBind (routeRest l now msg) (\<lambda>cs. dbReturn (ToSharedProfile # cs))
      else routeRest l now msg)"

definition OnMessage :: "bytes \<Rightarrow> time_ms \<Rightarrow> control_message \<Rightarrow> push_call list db" where
  "OnMessage l now msg =
     dbBind (routePush l now msg) (\<lambda>cs. dbReturn
       ((if wmSendDelivered msg \<and> wmSender msg \<noteq> None \<and> \<not> wmIsDelivered msg \<and> \<not> wmIsReadReceipt msg
         then [SendDelivery] else []) @ cs))"

text \<open>The handlers; the calls of other parts change nothing here.\<close>

definition onLive :: "(live_state \<Rightarrow> live_state db) \<Rightarrow> control_state \<Rightarrow> control_state db" where
  "onLive f st = dbBind (f (csLive st)) (\<lambda>ls. dbReturn (st\<lparr>csLive := ls\<rparr>))"

definition runCall :: "control_env \<Rightarrow> bytes \<Rightarrow> time_ms \<Rightarrow> control_message \<Rightarrow> push_call \<Rightarrow> control_state \<Rightarrow> control_state db" where
  "runCall env l now msg call st =
     (case call of
        ToDelivery \<Rightarrow> handleDeliveryReceipt env l msg st
      | ToRead \<Rightarrow> handleReadReceipt env l now msg st
      | ToTyping \<Rightarrow> handleTyping env l msg st
      | ToChatDelete \<Rightarrow> onLive (handleChatDelete (ceLive env) l now (asMessage msg)) st
      | ToChatRecover \<Rightarrow> handleChatRecover env l msg st
      | ToUnsend \<Rightarrow> onLive (handleUnsend (ceLive env) l now (asMessage msg)) st
      | ToRename \<Rightarrow> handleRename env l msg st
      | ToMembers \<Rightarrow> handleParticipantChange env l msg st
      | ToIcon \<Rightarrow> handleIconChange env l msg st
      | _ \<Rightarrow> dbReturn st)"

definition receivePush :: "control_env \<Rightarrow> bytes \<Rightarrow> time_ms \<Rightarrow> control_message \<Rightarrow> control_state \<Rightarrow> control_state db" where
  "receivePush env l now msg st =
     dbBind (OnMessage l now msg) (\<lambda>calls. dbFold (runCall env l now msg) calls st)"

end
