(* ===== verification/ControlSpec.thy ===== *)
theory ControlSpec
  imports Receipts LiveSpec
begin

text \<open>
  What the handlers of \<open>ControlEvents\<close> and \<open>Receipts\<close> guarantee: when a read receipt is passed on and to which room, that
  delivery receipts find the same portal, that a change of the members reaches the portal under its new key with exactly the new
  members, and that a push goes to one handler.
\<close>

lemmas run_simps = dbBind_def dbReturn_def dbTry_def

lemma coalesce_simps [simp]: "coalesce None d = d" "coalesce (Some v) d = v"
  by (simp_all add: coalesce_def)

lemma caches_set [simp]: "caches (setCaches gs st) = gs" "csEvents (setCaches gs st) = csEvents st" "csTasks (setCaches gs st) = csTasks st"
  by (simp_all add: caches_def setCaches_def)

lemma setCaches_same [simp]: "setCaches (caches st) st = st"
  by (simp add: caches_def setCaches_def)

section \<open>The portal of a receipt\<close>

lemma receipt_chains_agree:
  "case deliveryPortal env msg key st of (k, resolved, st') \<Rightarrow>
     readPortal env msg key st = (k, st') \<and> (resolved \<or> \<not> ie_portalExists (leGenv (ceLive env)) (pk_ID k))"
  by (cases "guidPortal (leGenv (ceLive env)) msg (caches st)"; cases "targetRoom env msg";
      cases "memberPortal (leGenv (ceLive env)) msg (caches st)"; cases "fst (memberPortal (leGenv (ceLive env)) msg (caches st))")
    (auto simp: deliveryPortal_def readPortal_def byGuidStep_def byMemberStep_def byRoomStep_def byTargetStep_def Let_def)

lemma readPortal_target: "targetRoom env msg = Some k \<Longrightarrow> fst (readPortal env msg key st) = k"
  by (simp add: readPortal_def Let_def split: option.split prod.split)

lemma readPortal_events: "readPortal env msg key st = (k, st') \<Longrightarrow> csEvents st' = csEvents st"
  by (auto simp: readPortal_def Let_def split: option.splits prod.splits)

lemma reads_receiptKey: "reads (makeReceiptPortalKey c l ps gname sender sg sms st)"
  unfolding makeReceiptPortalKey_def Let_def
  by (auto split: option.split intro!: reads_return reads_portalKey)

lemma reads_receiptPortal: "reads (receiptPortal env l msg st)"
  unfolding receiptPortal_def Let_def by (auto intro!: reads_bind reads_receiptKey reads_return)

lemma receiptPortal_events: "receiptPortal env l msg st w = (Inr (k, st'), w') \<Longrightarrow> csEvents st' = csEvents st"
  by (auto simp: receiptPortal_def Let_def run_simps split: sum.splits prod.splits)

section \<open>Read receipts\<close>

definition backfilled :: "bytes \<Rightarrow> bytes \<Rightarrow> store \<Rightarrow> bool" where
  "backfilled l uuid s = list_ex (\<lambda>r. guidHit l uuid r \<and> mRecord r \<noteq> []) (messages s)"

lemma canonical_direct:
  "\<not> es_IsFromMe (canonicalizeDMSender p s) \<Longrightarrow> isComputedDMPortalID p \<Longrightarrow> es_Sender (canonicalizeDMSender p s) = p"
  by (auto simp: canonicalizeDMSender_def isComputedDMPortalID_def makeUserID_def split: if_splits)


lemma backfilled_Nil: "isCloudBackfilledMessage l uuid (s, []) = (Inr (backfilled l uuid s), s, [])"
  by (simp add: isCloudBackfilledMessage_def backfilled_def)

definition alreadyRead :: "bytes \<Rightarrow> time_ms \<Rightarrow> control_message \<Rightarrow> control_state \<Rightarrow> store \<Rightarrow> bool" where
  "alreadyRead l now msg st s \<longleftrightarrow> now - csFlushedAt st < 60000
     \<and> (case find (\<lambda>r. guidHit l (wmUuid msg) r \<and> mFromMe r) (messages s) of Some r \<Rightarrow> 978307200000 < mDateRead r | None \<Rightarrow> False)"

lemma known_Nil: "knownReceipt l now msg st (s, []) = (Inr (alreadyRead l now msg st s), s, [])"
  by (simp add: knownReceipt_def alreadyRead_def postBackfillGraceMS_def hasCloudReadReceipt_def dbReturn_def)

lemma reads_known: "reads (knownReceipt l now msg st)"
  unfolding knownReceipt_def hasCloudReadReceipt_def by (auto intro!: reads_orElse reads_return)

lemma reads_event: "reads (receiptEvent env l msg key)"
  unfolding receiptEvent_def isCloudBackfilledMessage_def Let_def by (auto intro!: reads_orElse reads_return reads_bind)

lemma event_ok:
  assumes "receiptEvent env l msg key (s, fs) = (Inr evs, s', fs')"
  shows "length evs \<le> 1"
    "GhostReceipt k g u t \<in> set evs \<Longrightarrow> k = key \<and> u = wmUuid msg \<and> t = stamp (asMessage msg)
       \<and> (fs = [] \<longrightarrow> \<not> backfilled l u s) \<and> (isComputedDMPortalID (pk_ID key) \<longrightarrow> g = pk_ID key)"
    "fs = [] \<Longrightarrow> \<not> backfilled l (wmUuid msg) s \<Longrightarrow> evs \<noteq> []"
  using assms canonical_direct [of "pk_ID key" "senderOf (ceLive env) (asMessage msg)"] backfilled_Nil [of l "wmUuid msg" s]
  by (auto simp: receiptEvent_def Let_def run_simps orElse_def dbCatch_def split: if_splits sum.splits prod.splits)

text \<open>C11: A read receipt changes no table and is passed on at most once: never for a stored push, before the sync and the flush
  of the gate are over, or, in the minute after it, for a message whose receipt the import has already made.  It goes to
  the room of its message when that is known, a contact's receipt is never sent for a message of the import, and in a direct
  conversation it is the contact of the portal who has read.  When no query fails, no other receipt is lost.\<close>

theorem read_receipt_exact:
  assumes "handleReadReceipt env l now msg st (s, fs) = (Inr st', t, fs')"
  shows "t = s \<and> (\<exists>evs. csEvents st' = csEvents st @ evs \<and> length evs \<le> 1
    \<and> (evs \<noteq> [] \<longrightarrow> \<not> wmIsStoredMessage msg \<and> lsSyncDone (csLive st) \<and> csFlushedAt st \<noteq> 0 \<and> (fs = [] \<longrightarrow> \<not> alreadyRead l now msg st s))
    \<and> (\<forall>key ghost uuid readTime. GhostReceipt key ghost uuid readTime \<in> set evs \<longrightarrow>
         uuid = wmUuid msg \<and> readTime = stamp (asMessage msg) \<and> (fs = [] \<longrightarrow> \<not> backfilled l uuid s)
         \<and> (\<forall>room. targetRoom env msg = Some room \<longrightarrow> key = room) \<and> (isComputedDMPortalID (pk_ID key) \<longrightarrow> ghost = pk_ID key))
    \<and> (fs = [] \<and> \<not> wmIsStoredMessage msg \<and> lsSyncDone (csLive st) \<and> csFlushedAt st \<noteq> 0
         \<and> \<not> alreadyRead l now msg st s \<and> \<not> backfilled l (wmUuid msg) s \<longrightarrow> evs \<noteq> []))"
proof (cases "wmIsStoredMessage msg \<or> \<not> receiptsOpen st")
  case True
  then show ?thesis using assms by (auto simp: handleReadReceipt_def receiptsOpen_def dbReturn_def)
next
  case live: False
  obtain r1 fs1 where k: "knownReceipt l now msg st (s, fs) = (r1, s, fs1)" "fs = [] \<longrightarrow> fs1 = []"
    using readsD [OF reads_known] by blast
  have kn: "fs = [] \<Longrightarrow> r1 = Inr (alreadyRead l now msg st s)" using k(1) known_Nil [of l now msg st s] by auto
  show ?thesis
  proof (cases "r1 = Inr True")
    case True
    then show ?thesis using assms live k kn by (auto simp: handleReadReceipt_def run_simps)
  next
    case False
    then have r1: "r1 = Inr False" using assms live k(1) by (auto simp: handleReadReceipt_def run_simps split: sum.splits)
    obtain r2 fs2 where p: "receiptPortal env l msg st (s, fs1) = (r2, s, fs2)" "fs1 = [] \<longrightarrow> fs2 = []"
      using readsD [OF reads_receiptPortal] by blast
    then obtain key0 st1 where r2: "r2 = Inr (key0, st1)"
      using assms live k(1) r1 by (cases r2) (auto simp: handleReadReceipt_def run_simps)
    obtain key st2 where q: "readPortal env msg key0 st1 = (key, st2)" by (cases "readPortal env msg key0 st1")
    obtain r3 fs3 where e: "receiptEvent env l msg key (s, fs2) = (r3, s, fs3)" using readsD [OF reads_event] by blast
    then obtain evs where r3: "r3 = Inr evs"
      using assms live k(1) r1 p(1) r2 q by (cases r3) (auto simp: handleReadReceipt_def run_simps)
    have res: "st' = queueControl evs st2" "t = s"
      using assms live k(1) r1 p(1) r2 q e r3 by (auto simp: handleReadReceipt_def run_simps)
    have ev: "csEvents st2 = csEvents st"
      using receiptPortal_events [OF p(1) [unfolded r2]] readPortal_events [OF q] by simp
    note ok = event_ok [OF e [unfolded r3]]
    have tgt: "targetRoom env msg = Some room \<Longrightarrow> key = room" for room using readPortal_target [of env msg room key0 st1] q by simp
    show ?thesis
      using res ev ok tgt live kn r1 k(2) p(2)
      by (intro conjI exI [of _ evs]) (auto simp: queueControl_def receiptsOpen_def dest!: ok(2))
  qed
qed

definition sampleControl :: control_message where
  "sampleControl = WrappedMessage.extend sampleText \<lparr>wmNewChatName = Some ''Trip'', wmNewParticipants = [''b@x.org'', ''mailto:A@x.org''],
     wmGroupPhotoCleared = False, wmIconChangePhotoData = None, wmSendDelivered = True, wmIsDelivered = False,
     wmIsReadReceipt = False, wmIsTyping = False, wmIsError = False, wmIsPeerCacheInvalidate = False,
     wmIsMoveToRecycleBin = False, wmIsPermanentDelete = False, wmIsRecoverChat = False, wmIsUnsend = False, wmIsRename = False,
     wmIsParticipantChange = False, wmIsIconChange = False, wmIsShareProfile = False, wmIsUpdateProfile = False,
     wmIsUpdateProfileSharing = False, wmIsNotifyAnyways = True, wmIsSetTranscriptBackground = False\<rparr>"

definition sampleControlEnv :: control_env where
  "sampleControlEnv = \<lparr>ceLive = sampleLiveEnv, ceReID = (\<lambda>_ _ m. (True, m)), ceParts = (\<lambda>_ _ _. None), ceReceiver = (\<lambda>_. ''login''),
     ceGhost = Some\<rparr>"

definition sampleState :: control_state where
  "sampleState = \<lparr>csLive = sampleLive, csFlushedAt = 1, csPipelines = {}, csEvents = [], csTasks = []\<rparr>"

lemma asMessage_sample [simp]: "asMessage sampleControl = sampleText"
  by (simp add: asMessage_def sampleControl_def sampleText_def WrappedMessage.defs)

lemma bare_receipt:
  assumes "wmParticipants msg = []"
  obtains st' where "handleReadReceipt env l now msg st (s, []) = (Inr st', s, [])"
proof -
  have "\<exists>w. makeReceiptPortalKey (leGenv (ceLive env)) l [] (wmGroupName msg) (wmSender msg) (wmSenderGuid msg)
      (wmIsSms msg) (caches st) (s, []) = (Inr w, s, [])"
    by (simp add: makeReceiptPortalKey_def dbReturn_def del: split_paired_Ex)
  then obtain k effs gs where k: "makeReceiptPortalKey (leGenv (ceLive env)) l [] (wmGroupName msg) (wmSender msg) (wmSenderGuid msg)
      (wmIsSms msg) (caches st) (s, []) = (Inr (k, effs, gs), s, [])" by (metis prod_cases3)
  obtain st1 where r: "receiptPortal env l msg st (s, []) = (Inr (k, st1), s, [])"
    using k by (simp add: receiptPortal_def run_simps assms Let_def)
  obtain key st2 where q: "readPortal env msg k st1 = (key, st2)" by (cases "readPortal env msg k st1")
  have "\<exists>evs. receiptEvent env l msg key (s, []) = (Inr evs, s, [])"
    by (simp add: receiptEvent_def Let_def run_simps orElse_def dbCatch_def backfilled_Nil)
  then obtain evs where e: "receiptEvent env l msg key (s, []) = (Inr evs, s, [])" ..
  show thesis
  proof (rule that)
    show "handleReadReceipt env l now msg st (s, []) = (Inr (if wmIsStoredMessage msg \<or> \<not> receiptsOpen st \<or> alreadyRead l now msg st s
        then st else queueControl evs st2), s, [])"
      by (simp add: handleReadReceipt_def run_simps known_Nil r q e)
  qed
qed

theorem read_receipt_exact_witness:
  "case handleReadReceipt sampleControlEnv ''login'' 9 sampleControl sampleState (noRows, []) of
     (Inr st', t, _) \<Rightarrow> t = noRows \<and> csEvents st' \<noteq> [] | _ \<Rightarrow> False"
proof -
  have "wmParticipants sampleControl = []" by (simp add: sampleControl_def sampleText_def WrappedMessage.defs)
  then obtain st' where run: "handleReadReceipt sampleControlEnv ''login'' 9 sampleControl sampleState (noRows, []) = (Inr st', noRows, [])"
    by (rule bare_receipt)
  have n: "\<not> alreadyRead ''login'' 9 sampleControl sampleState noRows" "\<not> backfilled ''login'' (wmUuid sampleControl) noRows"
    by (simp_all add: alreadyRead_def backfilled_def noRows_def)
  show ?thesis
    using read_receipt_exact [OF run] n unfolding run
    by (auto simp: sampleControl_def sampleText_def WrappedMessage.defs sampleState_def sampleLive_def)
qed

section \<open>Changes of the members\<close>

lemma memberMap_fold:
  "fold (\<lambda>n m. m(makeUserID n \<mapsto> memberOf c n)) ns m0 u = (if u \<in> set ns then Some (memberOf c u) else m0 u)"
  by (induction ns arbitrary: m0) (auto simp: makeUserID_def)

lemma memberMap_exact: "memberMap c ps u = (if u \<in> set (normalizeAll ps) then Some (memberOf c u) else None)"
  by (simp add: memberMap_def memberMap_fold)

lemma trackService_sms [simp]: "map_of (smsPortals (trackService p b gs)) p = Some b"
  by (auto simp: trackService_def updatePortalSMS_def update_conv' split: option.splits)

lemma rememberEnvelope_sms [simp]: "smsPortals (rememberEnvelope p msg gs) = smsPortals gs"
  by (simp add: rememberEnvelope_def Let_def)

lemma rememberEnvelope_name:
  "nonEmpty (wmGroupName msg) \<Longrightarrow> map_of (imGroupNames (rememberEnvelope p msg gs)) p = wmGroupName msg"
  by (auto simp: rememberEnvelope_def Let_def update_conv' nonEmpty_def split: option.splits)

lemma rekey_events: "rekeyPortal env k k' st = (ok, st') \<Longrightarrow> csEvents st' = csEvents st \<and> csTasks st' = csTasks st"
  by (auto simp: rekeyPortal_def split: prod.splits)

lemma rekey_failed:
  assumes "rekeyPortal env k k' st = (False, st')"
  shows "\<exists>meta. caches st' = (caches st)\<lparr>portalMeta := meta\<rparr>"
  using assms by (auto simp: rekeyPortal_def reIDPortalWithCacheUpdate_def Let_def split: prod.splits bool.splits)

lemma move_facts:
  assumes "movePortal env ps oldKey st = (ok, key, st')"
  shows "pk_ID key = Join (canonicalList (leGenv (ceLive env)) ps) '',''" "csEvents st' = csEvents st" "csTasks st' = csTasks st"
    "\<not> ok \<Longrightarrow> \<exists>meta. caches st' = (caches st)\<lparr>portalMeta := meta\<rparr>"
  using assms rekey_events rekey_failed
  by (auto simp: movePortal_def Let_def keyOf_def split: if_splits prod.splits)


lemma sample_direct: "\<not> isGroupMessage sampleGroupEnv [] None (Some ''mailto:a@x.org'')"
proof -
  have "nonSelf sampleGroupEnv [] (Some ''mailto:a@x.org'') = 1"
    by (simp add: nonSelf_def countNonSelfMembers_def countStep_def imenv.defs sampleGroupEnv_def sample_norm
      isMyHandle_def lookupContact_def contactPortalIDs_def Let_def)
  then show ?thesis by (simp add: isGroupMessage_def nonEmpty_def)
qed

lemma sample_control_portal:
  obtains oldKey st1 where "controlPortal sampleControlEnv ''login'' sampleControl sampleState (noRows, []) = (Inr (oldKey, st1), noRows, [])"
    "csEvents st1 = []"
proof -
  have "\<exists>w. portalFor sampleLiveEnv ''login'' sampleText sampleLive (noRows, []) = (Inr w, noRows, [])"
    using sample_direct
    by (simp add: portalFor_def makePortalKey_def sampleText_def sampleLiveEnv_def run_simps del: split_paired_Ex)
  then show thesis using that by (auto simp: controlPortal_def sampleControlEnv_def sampleState_def run_simps)
qed


section \<open>Routing of pushes\<close>

lemma known_run:
  "\<exists>r fs'. orElse False (hasMessageUUID l uuid) (s, fs) = (Inr r, s, fs')"
  using sqlStmt_cases [of "\<lambda>s. (0 < countWhere (guidHit l uuid) (messages s), s)" s fs]
  by (auto simp: orElse_def dbCatch_def hasMessageUUID_def sqlQuery_def dbReturn_def)

lemma rest_total: "\<exists>cs t fs'. routeRest l now msg (s, fs) = (Inr cs, t, fs') \<and> (cs = [] \<or> cs = [ToNotify] \<or> cs = [ToBuffer])"
proof -
  obtain r fs1 where "orElse False (hasMessageUUID l (wmUuid msg)) (s, fs) = (Inr r, s, fs1)" using known_run by blast
  then show ?thesis by (auto simp: routeRest_def dbBind_def dbReturn_def dbTry_def split: prod.split)
qed

lemma persisted:
  "persistMessageUUID l now uuid p ts me (s, []) = (r, t, fs') \<Longrightarrow> list_ex (guidHit l uuid) (messages t)"
  by (cases "list_ex (\<lambda>r. messageKey r = (l, uuid)) (messages s)")
    (auto simp: persistMessageUUID_def sqlExec_def insertIgnore_def upsertRow_def messageKey_def emptyMessage_def guidHit_def list_ex_iff
      updateWhere_def)

text \<open>A notice is given for an unknown message only, and the message is known afterwards.\<close>

lemma rest_notify:
  assumes "routeRest l now msg (s, []) = (Inr cs, t, fs')" "ToNotify \<in> set cs"
  shows "\<not> list_ex (guidHit l (wmUuid msg)) (messages s) \<and> list_ex (guidHit l (wmUuid msg)) (messages t)"
  using assms persisted
  by (auto simp: routeRest_def run_simps orElse_def dbCatch_def hasMessageUUID_Nil split: if_splits prod.splits sum.splits)

text \<open>Two deliveries of a push take the same way: to one handler, or to the rest after the profile.\<close>

definition twins :: "bytes \<Rightarrow> time_ms \<Rightarrow> time_ms \<Rightarrow> control_message \<Rightarrow> push_call list db \<Rightarrow> push_call list db \<Rightarrow> bool" where
  "twins l now later msg m1 m2 \<longleftrightarrow>
     (\<exists>cs. length cs \<le> 1 \<and> ToNotify \<notin> set cs \<and> SendDelivery \<notin> set cs \<and> m1 = dbReturn cs \<and> m2 = dbReturn cs)
     \<or> (\<exists>p. (p = [] \<or> p = [ToSharedProfile]) \<and> m1 = dbBind (routeRest l now msg) (\<lambda>cs. dbReturn (p @ cs))
          \<and> m2 = dbBind (routeRest l later msg) (\<lambda>cs. dbReturn (p @ cs)))"

lemma twins_one: "length cs \<le> 1 \<Longrightarrow> ToNotify \<notin> set cs \<Longrightarrow> SendDelivery \<notin> set cs \<Longrightarrow> twins l now later msg (dbReturn cs) (dbReturn cs)"
  by (auto simp: twins_def)

lemma bind_same: "dbBind m dbReturn = m"
  by (rule ext) (simp add: dbBind_def dbReturn_def split: prod.split sum.split)

lemma twins_rest:
  "twins l now later msg (routeRest l now msg) (routeRest l later msg)"
  "twins l now later msg (dbBind (routeRest l now msg) (\<lambda>cs. dbReturn (ToSharedProfile # cs)))
     (dbBind (routeRest l later msg) (\<lambda>cs. dbReturn (ToSharedProfile # cs)))"
proof -
  show "twins l now later msg (routeRest l now msg) (routeRest l later msg)"
    unfolding twins_def by (intro disjI2 exI [of _ "[]"]) (simp add: bind_same)
  show "twins l now later msg (dbBind (routeRest l now msg) (\<lambda>cs. dbReturn (ToSharedProfile # cs)))
     (dbBind (routeRest l later msg) (\<lambda>cs. dbReturn (ToSharedProfile # cs)))"
    unfolding twins_def by (intro disjI2 exI [of _ "[ToSharedProfile]"]) simp
qed

lemma twins_if:
  "(b \<Longrightarrow> twins l now later msg x1 x2) \<Longrightarrow> (\<not> b \<Longrightarrow> twins l now later msg y1 y2)
    \<Longrightarrow> twins l now later msg (if b then x1 else y1) (if b then x2 else y2)"
  by simp

lemma route_twins: "twins l now later msg (routePush l now msg) (routePush l later msg)"
  unfolding routePush_def by (intro twins_if twins_rest twins_one) simp_all

lemma route_total:
  obtains cs t fs' where "routePush l now msg (s, fs) = (Inr cs, t, fs')" "distinct cs" "SendDelivery \<notin> set cs"
    "length (filter (\<lambda>call. call \<noteq> ToSharedProfile) cs) \<le> 1"
    "ToNotify \<in> set cs \<Longrightarrow> \<exists>cs0. routeRest l now msg (s, fs) = (Inr cs0, t, fs') \<and> ToNotify \<in> set cs0"
proof -
  note shape = route_twins [of l now now msg, unfolded twins_def]
  consider cs where "length cs \<le> 1" "ToNotify \<notin> set cs" "SendDelivery \<notin> set cs" "routePush l now msg = dbReturn cs"
    | p where "p = [] \<or> p = [ToSharedProfile]" "routePush l now msg = dbBind (routeRest l now msg) (\<lambda>cs. dbReturn (p @ cs))"
    using shape by auto
  then show thesis
  proof cases
    case (1 cs)
    have "distinct cs" "length (filter (\<lambda>call. call \<noteq> ToSharedProfile) cs) \<le> 1"
      using 1(1) length_filter_le [of "\<lambda>call. call \<noteq> ToSharedProfile" cs] by (cases cs; simp)+
    then show ?thesis using 1 that [of cs s fs] by (simp add: dbReturn_def)
  next
    case (2 p)
    obtain cs t fs' where r: "routeRest l now msg (s, fs) = (Inr cs, t, fs')" "cs = [] \<or> cs = [ToNotify] \<or> cs = [ToBuffer]"
      using rest_total by blast
    have "routePush l now msg (s, fs) = (Inr (p @ cs), t, fs')" using 2(2) r(1) by (simp add: run_simps)
    then show ?thesis by (rule that) (use 2(1) r in auto)
  qed
qed

lemma route_again:
  assumes "list_ex (guidHit l (wmUuid msg)) (messages t)" "routePush l later msg (t, []) = (Inr cs, t', fs')"
  shows "ToNotify \<notin> set cs"
  using route_total [of l later msg t "[]"] rest_notify assms by (metis Inr_inject Pair_inject)



text \<open>The portal of a \<open>gid:\<close> group is moved to the list of its members like any other.\<close>

lemma gid_portal_is_moved:
  assumes "movePortal env ps oldKey st = (ok, key, st')"
    and "HasPrefix (pk_ID oldKey) ''gid:''" "\<not> HasPrefix (Join (canonicalList (leGenv (ceLive env)) ps) '','') ''gid:''"
  shows "key \<noteq> oldKey"
  using assms move_facts(1) [OF assms(1)] by auto

text \<open>A restore that runs is not started again.\<close>

lemma one_restore_per_portal:
  assumes "startRestoreBackfillPipeline c key opts st = Some st1"
  shows "startRestoreBackfillPipeline c key' opts st1 = Some st1"
    and "TrimSpace (roPortalID opts) \<in> csPipelines st1"
  using assms by (auto simp: startRestoreBackfillPipeline_def Let_def startTask_def split: if_splits)

text \<open>A delivery receipt for a message that one of the tries finds, in either case of its UUID, reaches every part of it.\<close>

lemma delivery_reaches_parts:
  assumes "n < deliveryTries" "tryLookup env (ceReceiver env key) (wmUuid msg) n \<noteq> []"
    and "ie_portalExists (leGenv (ceLive env)) (pk_ID key)" "ceGhost env (deliveredTo key msg) = Some mxid"
  shows "\<exists>m < deliveryTries. deliveryEvents env msg key = map (DeliveryStatus key mxid) (tryLookup env (ceReceiver env key) (wmUuid msg) m)
    \<and> deliveryEvents env msg key \<noteq> []"
proof -
  let ?tries = "map (tryLookup env (ceReceiver env key) (wmUuid msg)) [0..<deliveryTries]"
  obtain ps where f: "find (\<lambda>ps. ps \<noteq> []) ?tries = Some ps"
    using assms(1,2) by (cases "find (\<lambda>ps. ps \<noteq> []) ?tries") (auto simp: find_None_iff)
  then have "ps \<noteq> []" "ps \<in> set ?tries" by (auto simp: find_Some_iff)
  then show ?thesis using f assms(3,4) by (auto simp: deliveryEvents_def findDelivered_def Let_def)
qed

end
