(* ===== verification/Spec2Isabelle.thy ===== *)
theory Spec2Isabelle
  imports Contacts Tapback RecycleBin CloudScrubSpec CloudPaging
    CloudRestore CloudRosterSpec GroupSpec CarrierSpec SyncPagingSpec PortalQueueSpec
    TextPartsSpec ReorderBuffer LiveSpec OpusCrc OpusSpec VCardSpec BackfillPages AttachmentRetrySpec
    ControlSpec
begin

text \<open>
  A verification library for the iMessage bridge.

  The bridge connects Apple's iMessage to Matrix.  Messages reach it live, from Apple's push service, and
  in bulk, from the user's CloudKit zones; both are stored per conversation, and a conversation is named
  by its portal identifier: \<open>tel:\<close> or \<open>mailto:\<close> and a handle for a direct one, \<open>gid:\<close> and a UUID or a
  comma-separated member list for a group.  The library follows the parts of the Go program that decide
  which conversation a message belongs to and what becomes of it in the local database.

  \<^bold>\<open>Foundations.\<close>  \<open>Prelude\<close> (shared lemmas and rule collections), \<open>Unicode\<close>, \<open>GoStrings\<close>,
  \<open>GoNumbers\<close> and \<open>Json\<close> hold what the code uses of Go's library: byte strings, UTF-8 with its treatment
  of malformed input, \<open>strings\<close>, \<open>strconv\<close>, \<open>encoding/json\<close> for lists of strings.

  \<^bold>\<open>Names.\<close>  \<open>Identifiers\<close>: \<open>pkg/connector/util.go\<close>, \<open>group_identity.go\<close>, \<open>ids.go\<close>, the normalisers of
  \<open>client.go\<close> and the chat identifiers of \<open>imessage/struct.go\<close>; its lemmas show that the spellings of one
  handle and the orders of one member list give one key.  \<open>Tapback\<close>: \<open>imessage/tapback.go\<close>.  \<open>Contacts\<close>:
  the lookup index of \<open>cloud_contacts.go\<close> and all of \<open>contact_merge.go\<close>, with the search for existing
  direct portals.  What these read of the client is the record \<open>imenv\<close>; its fields for chat.db, bridgev2's
  portal table and the validation call stand for code outside the repository.

  \<^bold>\<open>The CloudKit store\<close>, \<open>pkg/connector/cloud_backfill_store.go\<close>.  \<open>CloudSchema\<close> has the rows of its
  tables and the driver: a run is a function of the tables and of a script that makes any statement fail,
  and a transaction undoes its changes.  \<open>CloudSync\<close> (tokens, versions, overrides, photos, attachment
  caches), \<open>CloudMessages\<close>, \<open>CloudChats\<close>, \<open>CloudPortals\<close> and \<open>CloudScrub\<close> have its operations, one
  definition per method, and \<open>RecycleBin\<close> the classification of deleted conversations.  \<open>CloudRestore\<close> is
  the database stage of \<open>runRestoreBackfillPipeline\<close> in \<open>client.go\<close>.

  \<^bold>\<open>What is shown of the store.\<close>  \<open>CloudRun\<close> states once how a relation of the tables passes from
  statements to operations under any failures (locale \<open>run_relation\<close>) and the laws of a keyed table (locale
  \<open>keyed_table\<close>); \<open>CloudOps\<close> makes the operations a data type, and \<open>CloudIso\<close>, \<open>CloudRows\<close> and \<open>CloudInv\<close>
  instantiate the locales for all histories: logins do not touch each other's rows, deletion and scrubbing
  last, scrubbed rows hold no text, keys stay unique.  \<open>CloudMessageSpec\<close>, \<open>CloudPaging\<close>, \<open>CloudPortalSpec\<close>,
  \<open>CloudScrubSpec\<close> (locale \<open>scrub_step\<close>) and \<open>CloudRosterSpec\<close> say what the single operations achieve.

  \<^bold>\<open>Routing of groups\<close>, \<open>pkg/connector/client.go\<close>.  \<open>GroupPortals\<close> has the caches of the client, as
  one record threaded through the calls (the member index, the roster, GUID and name caches, bridgev2's
  portal metadata): indexing, the search for a portal with nearly the same members, and the renaming of
  a portal.  \<open>GroupRouting\<close> is \<open>resolveExistingGroupByGid\<close>, \<open>makePortalKey\<close> with its writes to the
  caches, and the functions that go back from a portal to a conversation.  \<open>GroupSpec\<close> shows that fuzzy
  matching never joins two groups with different stable identifiers, that the two carrier paths meet in one
  portal, and that a rename leaves no reference behind.

  \<^bold>\<open>Import\<close>, \<open>pkg/connector/sync_controller.go\<close>.  \<open>ChatIngest\<close> and \<open>MessageIngest\<close> take one page of
  CloudKit records and one run of statements to the rows of the store, with the counters, tombstones,
  attachment references and the rules that name the conversation of a message; \<open>SyncPaging\<close> is the loop
  over the pages with its retry delay, tokens and failures; \<open>CarrierGroups\<close> plans and applies the
  consolidation of SMS, MMS and RCS groups after a sync; \<open>PortalQueue\<close> builds the queue of portals to
  create.  \<open>MessageIngestSpec\<close>, \<open>CarrierSpec\<close>, \<open>SyncPagingSpec\<close> and \<open>PortalQueueSpec\<close> show, among others,
  that a deleted portal is not brought back by any number of pages, that every page loop ends and which
  errors it swallows, and that one group gets one portal.

  \<^bold>\<open>Live messages\<close>, \<open>client.go\<close>.  \<open>ReorderBuffer\<close> is the gate between the push service and the
  handlers: the reorder buffer, the messages held while their portal has no room, and the flushes of
  timers, backfills and \<open>setCloudSyncDone\<close>, a step relation; no message is lost or repeated, and none stays in
  the buffer (locale \<open>slice_sort\<close> is the contract of Go's sort).  \<open>TextParts\<close> turns a long text into several
  events and maps an edit onto them; \<open>TextPartsSpec\<close> shows that nothing is lost, no rune cut and every event
  within its budget, for any encoder whose output grows with the body as JSON's does (\<open>plainWeight\<close>).

  \<open>Reactions\<close> has the identifiers of the parts of a message, \<open>LiveMessages\<close> the handlers: \<open>handleMessage\<close>
  in the order of its guards (echoes, duplicates, routing, deleted conversations, the hold during the sync, the
  events), reactions, edits, unsends and deletions.  \<open>LiveNesting\<close> shows that handlers which flush
  and flushes which handle end at depth two, \<open>LiveSpec\<close> that exactly new messages revive a deleted conversation, that
  Matrix loses nothing before the store has erased it, that a held message leaves no trace and a reaction
  counts once.

  \<^bold>\<open>Voice messages\<close>, \<open>audioconvert.go\<close>.  \<open>OpusOgg\<close> has the pages of Ogg with their segment tables and
  check sums, \<open>OpusCaf\<close> the chunks of Apple's container; a run answers with a value, an error or a panic, since the slice
  expressions and allocations of the code trust the sender's numbers.  \<open>OpusCrc\<close> shows that the table-driven check sum is
  the bitwise one, \<open>OpusSpec\<close> that a recording survives the way there and back packet by packet, and which files panic.

  \<^bold>\<open>Contact cards\<close>, \<open>cloud_contacts.go\<close> and \<open>client.go\<close>: \<open>VCard\<close> is the parser and the notice made of a
  shared card, \<open>VCardSpec\<close> shows that the notice fits one event.

  \<^bold>\<open>Backfill\<close>, \<open>client.go\<close>.  \<open>Attachments\<close> takes one attachment of the history from CloudKit to Matrix, with its
  failures, retries and tombstones, and has the passes that fill the cache; \<open>Backfill\<close> is \<open>FetchMessages\<close>: rows to
  messages, reactions in a second pass, forward calls in chunks, backward calls by cursor, the recovery of an empty room, and
  the callback after the delivery.  \<open>AttachmentsSpec\<close> shows the three tries, that a tombstone survives a restart and that
  wrapped sizes are recovered; \<open>BackfillSpec\<close>, with one rule set for runs that always return (\<open>sure\<close>), that the counter of
  pending backfills is released exactly once, that messages are well formed and reactions never make or drop one;
  \<open>BackfillPages\<close> that chunks and cursors read what one query would.

  \<^bold>\<open>Retries\<close>, \<open>pending_attachment_store.go\<close> and \<open>attachment_retrier.go\<close>: \<open>AttachmentRetry\<close> has the table of
  attachments whose download failed when the push arrived and the attempts on it; \<open>AttachmentRetrySpec\<close> shows that a row aims at its
  placeholder, that thirty attempts are the most, and that an attempt leaves the other rows alone.

  \<^bold>\<open>Control events and receipts\<close>, \<open>client.go\<close>.  \<open>ControlEvents\<close> handles renames, changes of the members and of the photo,
  and recovered conversations; \<open>Receipts\<close> has read and delivery receipts and typing notices, whose pushes often lack the
  members so that their portal is looked for in four ways, and \<open>OnMessage\<close>, which sends every push to its handler.
  \<open>ControlSpec\<close> shows which read receipts are passed on and where to, that delivery receipts find the same portal, that a
  change of the members announces exactly the new members under the new key, and that a push has one handler.

  \<^bold>\<open>Bounds.\<close>  The scrub loop recurses on the rows that are still candidates, a chunk being \<open>chunkSize\<close>
  (1000) rows; placeholders are chunked by 500.  Following the pages of a backfill takes fuel, and the
  theorem about it says that one step more than there are rows is enough.  The page loops are bounded in the
  code itself (\<open>maxCloudSyncPages\<close>), and that bound is their recursion; retry delays are 64-bit words.
  The search for a fitting part ends because every round lowers the limit or raises the shed level.
  A delivery receipt is looked up five times.
  The fuel of \<open>flushBoth\<close> is the nesting of flushes; two is shown to be enough for every state.
  The round trip of a voice message needs packets below 65025 bytes (\<open>fitsPage\<close>), beyond which the code writes a bad
  segment table, and files below \<open>2^45\<close> bytes, so that sizes and positions stay in 64 bits; an allocation of more than
  \<open>2^48\<close> bytes panics.  Forward backfill recurses on the messages still wanted, at most 5000 at a time.

  \<^bold>\<open>Not modelled.\<close>  The Rust, TypeScript and Objective-C parts and the generated bindings
  (\<open>pkg/rustpushgo\<close>); the calls into bridgev2, CloudKit, CardDAV and the file system, which are arguments
  where their answers matter; \<open>chatdb.go\<close> as a source of backfill, but for its identifiers; the handlers of Matrix
  events, FaceTime and profile notices, the login, commands and the command line; the bootstrap of a session; goroutines and locks, but for the order in which results are used; logging.
  \<open>CREATE\<close> and \<open>ALTER TABLE\<close> are the row types.  The dialect of SQL is SQLite's.  The number of rows a scrub
  reports is lost when a later chunk fails, as in the code.
\<close>

end
